(* ===== verification/Prelude.thy ===== *)
theory Prelude
  imports Main "HOL-Library.Word"
begin

unbundle bit_operations_syntax

text \<open>
  Shared vocabulary of the development: the C integer types as words, the outcome of a
  C computation, bounds-checked access to byte buffers, the error codes of
  src/sign/testSdk/src/util/error.h, and generic lemmas on lists and words that the
  component theories use.
\<close>

section \<open>C types\<close>

type_synonym u8 = "8 word"
type_synonym u16 = "16 word"
type_synonym u32 = "32 word"
type_synonym u64 = "64 word"
type_synonym bytes = "u8 list"

section \<open>Outcomes\<close>

text \<open>
  A C computation ends with a value (\<open>Ok\<close>), runs into undefined behaviour such as an
  access outside an array (\<open>Undef\<close>), or is still inside a loop when the fuel given to
  the model is spent (\<open>Stuck\<close>).
\<close>

datatype 'a res = Ok 'a | Undef | Stuck

primrec res_bind :: "'a res \<Rightarrow> ('a \<Rightarrow> 'b res) \<Rightarrow> 'b res" where
  "res_bind (Ok a) f = f a"
| "res_bind Undef f = Undef"
| "res_bind Stuck f = Stuck"

lemma res_bind_eq_Ok [simp]:
  "res_bind m f = Ok b \<longleftrightarrow> (\<exists>a. m = Ok a \<and> f a = Ok b)"
  by (cases m) auto

lemma res_bind_assoc: "res_bind (res_bind m f) g = res_bind m (\<lambda>a. res_bind (f a) g)"
  by (cases m) auto

lemma res_bind_cong [fundef_cong]:
  "m = m' \<Longrightarrow> (\<And>a. m' = Ok a \<Longrightarrow> f a = g a) \<Longrightarrow> res_bind m f = res_bind m' g"
  by (cases m') auto

text \<open>An assertion of the C semantics: undefined behaviour unless the condition holds.\<close>

definition guard :: "bool \<Rightarrow> unit res" where
  "guard b = (if b then Ok () else Undef)"

lemma guard_simps [simp]: "guard True = Ok ()" "guard False = Undef"
  by (simp_all add: guard_def)

lemma guard_eq_Ok [simp]: "guard b = Ok u \<longleftrightarrow> b"
  by (simp add: guard_def)

definition defined :: "'a res \<Rightarrow> bool" where
  "defined m \<longleftrightarrow> (\<exists>a. m = Ok a)"

lemma defined_simps [simp]: "defined (Ok a)" "\<not> defined Undef" "\<not> defined Stuck"
  by (simp_all add: defined_def)

section \<open>Byte buffers\<close>

definition mem_byte :: "bytes \<Rightarrow> nat \<Rightarrow> u8 res" where
  "mem_byte m i = (if i < length m then Ok (m ! i) else Undef)"

definition mem_read :: "bytes \<Rightarrow> nat \<Rightarrow> nat \<Rightarrow> bytes res" where
  "mem_read m off n = (if off + n \<le> length m then Ok (take n (drop off m)) else Undef)"

definition mem_write :: "bytes \<Rightarrow> nat \<Rightarrow> bytes \<Rightarrow> bytes res" where
  "mem_write m off d =
     (if off + length d \<le> length m
      then Ok (take off m @ d @ drop (off + length d) m) else Undef)"

named_theorems mem_simps \<open>evaluation of bounds-checked buffer accesses\<close>

lemma mem_byte_Ok [mem_simps]: "i < length m \<Longrightarrow> mem_byte m i = Ok (m ! i)"
  by (simp add: mem_byte_def)

lemma mem_read_Ok [mem_simps]:
  "off + n \<le> length m \<Longrightarrow> mem_read m off n = Ok (take n (drop off m))"
  by (simp add: mem_read_def)

lemma mem_write_Ok [mem_simps]:
  "off + length d \<le> length m \<Longrightarrow>
   mem_write m off d = Ok (take off m @ d @ drop (off + length d) m)"
  by (simp add: mem_write_def)

lemma mem_read_Undef [mem_simps]: "length m < off + n \<Longrightarrow> mem_read m off n = Undef"
  by (simp add: mem_read_def)

lemma mem_write_Undef [mem_simps]: "length m < off + length d \<Longrightarrow> mem_write m off d = Undef"
  by (simp add: mem_write_def)

lemma mem_read_all [simp]: "mem_read m 0 (length m) = Ok m"
  by (simp add: mem_read_def)

lemma mem_read_length: "mem_read m off n = Ok d \<Longrightarrow> length d = n"
  by (auto simp: mem_read_def split: if_splits)

lemma mem_write_length: "mem_write m off d = Ok m' \<Longrightarrow> length m' = length m"
  by (auto simp: mem_write_def split: if_splits)

lemma take_drop_write_same:
  assumes "off + length d \<le> length m"
  shows "take (length d) (drop off (take off m @ d @ drop (off + length d) m)) = d"
  using assms by simp

section \<open>Conversions between the C widths\<close>

named_theorems width_simps \<open>unat of C integer conversions that do not overflow\<close>

lemma u16_lt: "unat (a :: u16) < 65536"
  using unsigned_less [of a] by simp

lemma u32_lt: "unat (a :: u32) < 4294967296"
  using unsigned_less [of a] by simp

lemma u8_lt: "unat (a :: u8) < 256"
  using unsigned_less [of a] by simp

lemma unat_u16_u32 [width_simps]: "unat (ucast (a :: u16) :: u32) = unat a"
  using u16_lt [of a] by (simp add: unsigned_ucast_eq take_bit_nat_eq_self_iff)

lemma unat_u8_u32 [width_simps]: "unat (ucast (a :: u8) :: u32) = unat a"
  using u8_lt [of a] by (simp add: unsigned_ucast_eq take_bit_nat_eq_self_iff)

lemma unat_u8_u16 [width_simps]: "unat (ucast (a :: u8) :: u16) = unat a"
  using u8_lt [of a] by (simp add: unsigned_ucast_eq take_bit_nat_eq_self_iff)

lemma unat_u32_u16 [width_simps]: "unat a < 65536 \<Longrightarrow> unat (ucast (a :: u32) :: u16) = unat a"
  by (simp add: unsigned_ucast_eq take_bit_nat_eq_self_iff)

lemma u16_sub [width_simps]:
  assumes "unat n \<le> unat (f :: u16)"
  shows "unat (ucast (ucast f - n :: u32) :: u16) = unat f - unat n"
proof -
  have "unat (ucast f - n :: u32) = unat f - unat n"
    using assms by (subst unat_sub) (simp_all add: word_le_nat_alt unat_u16_u32)
  then show ?thesis
    using u16_lt [of f] by (simp add: unat_u32_u16)
qed

lemma u16_add [width_simps]:
  assumes "unat (f :: u16) + unat n < 65536"
  shows "unat (ucast (ucast f + n :: u32) :: u16) = unat f + unat n"
proof -
  have "unat (ucast f + n :: u32) = unat f + unat n"
    using assms by (subst unat_add_lem [THEN iffD1]) (simp_all add: unat_u16_u32)
  then show ?thesis
    using assms by (simp add: unat_u32_u16)
qed

lemma unat_u32_diff [width_simps]:
  "unat b \<le> unat a \<Longrightarrow> unat (ucast (a :: u16) - ucast (b :: u16) :: u32) = unat a - unat b"
  by (subst unat_sub) (simp_all add: word_le_nat_alt unat_u16_u32)

lemma unat_of_nat_u32 [width_simps]: "n < 4294967296 \<Longrightarrow> unat (of_nat n :: u32) = n"
  by (simp add: unat_of_nat take_bit_nat_eq_self_iff)

lemma unat_of_nat_u16 [width_simps]: "n < 65536 \<Longrightarrow> unat (of_nat n :: u16) = n"
  by (simp add: unat_of_nat take_bit_nat_eq_self_iff)

text \<open>Truncation to 16 bits commutes with addition and subtraction.\<close>

lemma ucast16_add: "ucast (a + b :: u32) = (ucast a + ucast b :: u16)"
  by transfer (simp add: take_bit_eq_mod mod_simps mod_mod_cancel, intro mod_add_cong,
    simp_all add: mod_mod_cancel)

lemma ucast16_sub: "ucast (a - b :: u32) = (ucast a - ucast b :: u16)"
  by transfer (simp add: take_bit_eq_mod mod_simps mod_mod_cancel, intro mod_diff_cong,
    simp_all add: mod_mod_cancel)

lemma ucast16_u16: "ucast (ucast (x :: u16) :: u32) = x"
  by (rule bit_word_eqI) (simp add: bit_simps)

lemma unat_is_1: "unat (x :: 'a :: len word) = 1 \<longleftrightarrow> x = 1"
  by (metis unsigned_1 unsigned_word_eqI)

section \<open>Error codes (util/error.h)\<close>

type_synonym se_error = u32

abbreviation SE_SUCCESS :: se_error where "SE_SUCCESS \<equiv> 0"
abbreviation SE_ERR_DATA_REMAINING :: se_error where "SE_ERR_DATA_REMAINING \<equiv> 0x10006100"
abbreviation SE_ERR_LENGTH :: se_error where "SE_ERR_LENGTH \<equiv> 0x10006700"
abbreviation SE_ERR_HANDLE_INVALID :: se_error where "SE_ERR_HANDLE_INVALID \<equiv> 0x20000000"
abbreviation SE_ERR_PARAM_INVALID :: se_error where "SE_ERR_PARAM_INVALID \<equiv> 0x20000001"
abbreviation SE_ERR_INIT :: se_error where "SE_ERR_INIT \<equiv> 0x30000000"
abbreviation SE_ERR_BUSY :: se_error where "SE_ERR_BUSY \<equiv> 0x30000001"
abbreviation SE_ERR_TIMEOUT :: se_error where "SE_ERR_TIMEOUT \<equiv> 0x30000002"
abbreviation SE_ERR_ATR :: se_error where "SE_ERR_ATR \<equiv> 0x30000003"
abbreviation SE_ERR_LRC_CRC :: se_error where "SE_ERR_LRC_CRC \<equiv> 0x30000004"
abbreviation SE_ERR_LEN :: se_error where "SE_ERR_LEN \<equiv> 0x30000005"
abbreviation SE_ERR_DATA :: se_error where "SE_ERR_DATA \<equiv> 0x30000006"
abbreviation SE_ERR_COMM :: se_error where "SE_ERR_COMM \<equiv> 0x30000007"
abbreviation SE_ERR_NO_SELECT :: se_error where "SE_ERR_NO_SELECT \<equiv> 0x30000008"
abbreviation SE_ERR_UPDATE :: se_error where "SE_ERR_UPDATE \<equiv> 0x30000009"

section \<open>Big-endian 32-bit fields\<close>

text \<open>The macros GET_ULONG_BE and PUT_ULONG_BE of extern/sm3.c and extern/sm4.c.\<close>

definition put_be32 :: "u32 \<Rightarrow> bytes" where
  "put_be32 n = [ucast (drop_bit 24 n), ucast (drop_bit 16 n), ucast (drop_bit 8 n), ucast n]"

definition get_be32 :: "bytes \<Rightarrow> nat \<Rightarrow> u32" where
  "get_be32 b i =
     push_bit 24 (ucast (b ! i)) OR push_bit 16 (ucast (b ! (i + 1)))
       OR push_bit 8 (ucast (b ! (i + 2))) OR ucast (b ! (i + 3))"

lemma u8_bit_high: "8 \<le> n \<Longrightarrow> \<not> bit (b :: u8) n"
  by (simp add: impossible_bit)

lemma length_put_be32 [simp]: "length (put_be32 n) = 4"
  by (simp add: put_be32_def)

lemma get_put_be32: "get_be32 (xs @ put_be32 n @ ys) (length xs) = n"
proof (rule bit_word_eqI)
  fix k assume "k < LENGTH(32)"
  then consider "k < 8" | "8 \<le> k" "k < 16" | "16 \<le> k" "k < 24" | "24 \<le> k" "k < 32"
    by fastforce
  then show "bit (get_be32 (xs @ put_be32 n @ ys) (length xs)) k = bit n k"
    by cases (auto simp: get_be32_def put_be32_def nth_append bit_simps less_diff_conv2)
qed

lemma put_get_be32:
  assumes "length b = 4"
  shows "put_be32 (get_be32 b 0) = b"
proof -
  obtain b0 b1 b2 b3 where b: "b = [b0, b1, b2, b3]"
    using assms by (auto simp: length_Suc_conv numeral_eq_Suc)
  show ?thesis
    unfolding b put_be32_def get_be32_def
    by (auto intro!: bit_word_eqI simp: bit_simps u8_bit_high)
qed

section \<open>Rotations from shifts\<close>

lemma bit_rotl32:
  assumes "k < 32" "0 < n" "n < 32"
  shows "bit (word_rotl n (x :: u32)) k = bit x (if k < n then k + (32 - n) else k - n)"
proof -
  have idx: "(k + (LENGTH(32) - n mod LENGTH(32))) mod LENGTH(32)
      = (if k < n then k + (32 - n) else k - n)"
    using assms by (simp add: mod_if)
  show ?thesis
    unfolding bit_word_rotl_iff idx using assms by simp
qed

lemma rot32_shifts:
  assumes "k < 32" "0 < k"
  shows "push_bit k (x :: u32) OR drop_bit (32 - k) x = word_rotl k x"
proof (rule bit_word_eqI)
  fix i assume "i < LENGTH(32)"
  then have i: "i < 32" by simp
  have "bit (push_bit k x OR drop_bit (32 - k) x) i = (k \<le> i \<and> bit x (i - k) \<or> bit x (32 - k + i))"
    using i by (simp add: bit_simps)
  also have "\<dots> = bit x (if i < k then i + (32 - k) else i - k)"
    using assms by (auto simp: impossible_bit add.commute)
  finally show "bit (push_bit k x OR drop_bit (32 - k) x) i = bit (word_rotl k x) i"
    by (simp only: bit_rotl32 [OF i assms(2,1)])
qed

end
