(* ===== verification/Util_Queue.thy ===== *)
theory Util_Queue
  imports Prelude
begin

text \<open>
  The double-ended byte queue of src/sign/testSdk/src/util/util.c. Every layer of the SDK
  hands its data on in such a queue: the command layer stores the payload from offset 20,
  and each protocol layer pushes its header at the front and its trailer at the rear.

  The operations are translated with the C integer conversions: node positions are
  \<open>uint16_t\<close>, lengths \<open>uint32_t\<close>, the arithmetic is done in 32 bits and truncated on
  assignment, and every \<open>memcpy\<close> is checked against the array \<open>q_buf\<close>. The second half
  gives the abstract contract (a list that grows and shrinks at both ends, with bounded
  room) as a locale, and shows that the C operations implement it.
\<close>

section \<open>Code\<close>

definition DEQUE_MAX_SIZE :: nat where
  "DEQUE_MAX_SIZE = 1024"

record double_queue_node =
  front_node :: u16
  rear_node :: u16
  q_buf_len :: u16
  capacity :: u16
  q_buf :: bytes

text \<open>The initialiser \<open>double_queue_node q = {0}\<close> of the callers.\<close>

definition queue_zero :: double_queue_node where
  "queue_zero = \<lparr>front_node = 0, rear_node = 0, q_buf_len = 0, capacity = 0,
                 q_buf = replicate DEQUE_MAX_SIZE 0\<rparr>"

definition util_queue_init :: "double_queue_node \<Rightarrow> double_queue_node" where
  "util_queue_init q =
     q\<lparr>q_buf_len := 0, capacity := of_nat DEQUE_MAX_SIZE, front_node := 20, rear_node := 20,
       q_buf := replicate DEQUE_MAX_SIZE 0\<rparr>"

definition util_queue_front_push ::
  "bytes \<Rightarrow> u32 \<Rightarrow> double_queue_node \<Rightarrow> double_queue_node res" where
  "util_queue_front_push in_buf n q =
     (let fn = (if front_node q = 0 then ucast (ucast (capacity q) - n)
                else ucast (ucast (front_node q) - n)) :: u16 in
      res_bind (mem_read in_buf 0 (unat n)) (\<lambda>d.
      res_bind (mem_write (q_buf q) (unat fn) d) (\<lambda>b.
      Ok (q\<lparr>front_node := fn, q_buf := b, q_buf_len := ucast (ucast (q_buf_len q) + n)\<rparr>))))"

text \<open>
  The pops copy the removed bytes to a local array \<open>item\<close> of the same size as the queue
  and drop it: all that remains of the copy is that it must stay inside both arrays.
\<close>

definition util_queue_front_pop :: "u32 \<Rightarrow> double_queue_node \<Rightarrow> double_queue_node res" where
  "util_queue_front_pop n q =
     res_bind (guard (unat n \<le> DEQUE_MAX_SIZE)) (\<lambda>_.
     (if ucast (front_node q) = ucast (capacity q) - n
      then res_bind (mem_read (q_buf q) 0 (unat n)) (\<lambda>_.
           Ok (q\<lparr>front_node := 0, q_buf_len := ucast (ucast (q_buf_len q) - n)\<rparr>))
      else res_bind (mem_read (q_buf q) (unat (front_node q)) (unat n)) (\<lambda>_.
           Ok (q\<lparr>front_node := ucast (ucast (front_node q) + n),
                 q_buf_len := ucast (ucast (q_buf_len q) - n)\<rparr>))))"

definition util_queue_rear_push ::
  "bytes \<Rightarrow> u32 \<Rightarrow> double_queue_node \<Rightarrow> double_queue_node res" where
  "util_queue_rear_push in_buf n q =
     res_bind (mem_read in_buf 0 (unat n)) (\<lambda>d.
     res_bind (mem_write (q_buf q) (unat (rear_node q)) d) (\<lambda>b.
     Ok (q\<lparr>q_buf := b,
           rear_node := (if ucast (rear_node q) = ucast (capacity q) - n then 0
                         else ucast (ucast (rear_node q) + n)),
           q_buf_len := ucast (ucast (q_buf_len q) + n)\<rparr>)))"

definition util_queue_rear_pop :: "u32 \<Rightarrow> double_queue_node \<Rightarrow> double_queue_node res" where
  "util_queue_rear_pop n q =
     res_bind (guard (unat n \<le> DEQUE_MAX_SIZE)) (\<lambda>_.
     (if rear_node q = 0
      then res_bind (mem_read (q_buf q) (unat (ucast (capacity q) - n :: u32)) (unat n)) (\<lambda>_.
           Ok (q\<lparr>capacity := ucast (ucast (capacity q) - n),
                 q_buf_len := ucast (ucast (q_buf_len q) - n)\<rparr>))
      else res_bind (mem_read (q_buf q) (unat (rear_node q)) (unat n)) (\<lambda>_.
           Ok (q\<lparr>rear_node := ucast (ucast (rear_node q) - n),
                 q_buf_len := ucast (ucast (q_buf_len q) - n)\<rparr>))))"

definition util_queue_size :: "double_queue_node \<Rightarrow> u32" where
  "util_queue_size q =
     (if rear_node q > front_node q then ucast (rear_node q) - ucast (front_node q)
      else ucast (front_node q) - ucast (rear_node q))"

lemmas queue_code = util_queue_front_push_def util_queue_front_pop_def
  util_queue_rear_push_def util_queue_rear_pop_def

text \<open>The timer structure of the same header, which the protocol layers hand to the port.\<close>

record util_timer_t =
  interval :: u32
  tv_msec :: u32
  tv_sec :: u64
  tv_usec :: u64

definition timer_zero :: util_timer_t where
  "timer_zero = \<lparr>interval = 0, tv_msec = 0, tv_sec = 0, tv_usec = 0\<rparr>"

section \<open>Abstraction and invariant\<close>

text \<open>
  The queue of the SDK's callers never wraps: they start at offset 20 (or 0 for a zeroed
  reply queue), push at most 20 bytes of headers and stay below the end of the array.
  \<open>wf_queue\<close> is that regime, \<open>q_data\<close> the bytes the queue stands for.
\<close>

definition q_data :: "double_queue_node \<Rightarrow> bytes" where
  "q_data q = take (unat (rear_node q) - unat (front_node q))
                   (drop (unat (front_node q)) (q_buf q))"

definition wf_queue :: "double_queue_node \<Rightarrow> bool" where
  "wf_queue q \<longleftrightarrow>
     length (q_buf q) = DEQUE_MAX_SIZE \<and> (capacity q = 0 \<or> capacity q = 1024) \<and>
     unat (front_node q) \<le> unat (rear_node q) \<and> unat (rear_node q) < DEQUE_MAX_SIZE \<and>
     unat (q_buf_len q) = unat (rear_node q) - unat (front_node q)"

definition front_room :: "double_queue_node \<Rightarrow> nat" where
  "front_room q = unat (front_node q)"

definition rear_room :: "double_queue_node \<Rightarrow> nat" where
  "rear_room q = DEQUE_MAX_SIZE - 1 - unat (rear_node q)"

lemma length_q_data: "wf_queue q \<Longrightarrow> length (q_data q) = unat (q_buf_len q)"
  by (auto simp: wf_queue_def q_data_def)

lemma util_queue_size_wf: "wf_queue q \<Longrightarrow> unat (util_queue_size q) = length (q_data q)"
  by (auto simp: util_queue_size_def length_q_data word_less_nat_alt wf_queue_def width_simps)

lemma wf_queue_init [simp]: "wf_queue (util_queue_init q)"
  by (simp add: wf_queue_def util_queue_init_def DEQUE_MAX_SIZE_def)

lemma wf_queue_zero [simp]: "wf_queue queue_zero"
  by (simp add: wf_queue_def queue_zero_def DEQUE_MAX_SIZE_def)

lemma q_data_init [simp]: "q_data (util_queue_init q) = []"
  by (simp add: q_data_def util_queue_init_def)

lemma rooms_init [simp]:
  "front_room (util_queue_init q) = 20" "rear_room (util_queue_init q) = 1003"
  by (simp_all add: front_room_def rear_room_def util_queue_init_def DEQUE_MAX_SIZE_def)

section \<open>Every operation implements its list operation\<close>

lemma front_push_wf:
  assumes wf: "wf_queue q" and len: "unat n \<le> length src" "unat n \<le> front_room q"
    and pos: "0 < front_room q"
  obtains q' where "util_queue_front_push src n q = Ok q'" "wf_queue q'"
    "q_data q' = take (unat n) src @ q_data q"
    "front_room q' = front_room q - unat n" "rear_room q' = rear_room q"
proof -
  define f where "f = (ucast (ucast (front_node q) - n :: u32) :: u16)"
  define b where "b = take (unat f) (q_buf q) @ take (unat n) src
                        @ drop (unat f + unat n) (q_buf q)"
  define q' where "q' = q\<lparr>front_node := f, q_buf := b,
                            q_buf_len := ucast (ucast (q_buf_len q) + n)\<rparr>"
  have f: "unat f = unat (front_node q) - unat n"
    using len unfolding f_def front_room_def by (simp add: u16_sub)
  have le: "unat (front_node q) \<le> unat (rear_node q)" "unat (rear_node q) < 1024"
      "length (q_buf q) = 1024" "unat (q_buf_len q) = unat (rear_node q) - unat (front_node q)"
    using wf by (auto simp: wf_queue_def DEQUE_MAX_SIZE_def)
  have fn: "front_node q \<noteq> 0"
    using pos by (auto simp: front_room_def)
  have n: "unat n \<le> unat (front_node q)"
    using len by (simp add: front_room_def)
  have ok: "util_queue_front_push src n q = Ok q'"
    using le n len fn f
    by (simp add: util_queue_front_push_def mem_read_Ok mem_write_Ok Let_def f_def [symmetric]
          q'_def b_def min_absorb2)
  have lenb: "unat (q_buf_len q') = unat (rear_node q) - unat f"
    using le n f by (simp add: q'_def u16_add)
  have wf': "wf_queue q'"
    using wf le n f len lenb by (auto simp: wf_queue_def q'_def b_def DEQUE_MAX_SIZE_def)
  have "drop (unat f) b = take (unat n) src @ drop (unat (front_node q)) (q_buf q)"
    using le n f len by (simp add: b_def)
  then have dat: "q_data q' = take (unat n) src @ q_data q"
    using le n f len by (simp add: q_data_def q'_def)
  show thesis
    by (rule that [OF ok wf' dat])
       (simp_all add: q'_def front_room_def rear_room_def f)
qed

lemma rear_push_wf:
  assumes wf: "wf_queue q" and len: "unat n \<le> length src" "unat n \<le> rear_room q"
  obtains q' where "util_queue_rear_push src n q = Ok q'" "wf_queue q'"
    "q_data q' = q_data q @ take (unat n) src"
    "front_room q' = front_room q" "rear_room q' = rear_room q - unat n"
proof -
  define r where "r = (ucast (ucast (rear_node q) + n :: u32) :: u16)"
  define b where "b = take (unat (rear_node q)) (q_buf q) @ take (unat n) src
                        @ drop (unat (rear_node q) + unat n) (q_buf q)"
  define q' where "q' = q\<lparr>q_buf := b, rear_node := r,
                            q_buf_len := ucast (ucast (q_buf_len q) + n)\<rparr>"
  have le: "unat (front_node q) \<le> unat (rear_node q)" "unat (rear_node q) < 1024"
      "length (q_buf q) = 1024" "unat (q_buf_len q) = unat (rear_node q) - unat (front_node q)"
      "capacity q = 0 \<or> capacity q = 1024"
    using wf by (auto simp: wf_queue_def DEQUE_MAX_SIZE_def)
  have n: "unat (rear_node q) + unat n < 1024"
    using len le by (simp add: rear_room_def DEQUE_MAX_SIZE_def)
  have r: "unat r = unat (rear_node q) + unat n"
    using n unfolding r_def by (simp add: u16_add)
  have wrap: "r = 0" if eq: "ucast (rear_node q) = ucast (capacity q) - n"
  proof -
    have cap: "unat (ucast (capacity q) :: u32) \<in> {0, 1024}"
      using le(5) by (auto simp: unat_u16_u32)
    from eq have "ucast (rear_node q) + n = ucast (capacity q)" by simp
    then have "unat (ucast (rear_node q) + n) = unat (ucast (capacity q) :: u32)" by simp
    moreover have "unat (ucast (rear_node q) + n) = unat (rear_node q) + unat n"
      using n by (subst unat_add_lem [THEN iffD1]) (simp_all add: unat_u16_u32)
    ultimately have "unat r = 0"
      using cap n r by auto
    then show "r = 0" by (simp add: unat_eq_0)
  qed
  have ok: "util_queue_rear_push src n q = Ok q'"
    using le n len wrap
    by (auto simp: util_queue_rear_push_def mem_read_Ok mem_write_Ok q'_def b_def min_absorb2
          r_def [symmetric])
  have lenb: "unat (q_buf_len q') = unat r - unat (front_node q)"
    using le n r by (simp add: q'_def u16_add)
  have wf': "wf_queue q'"
    using wf le n r len lenb by (auto simp: wf_queue_def q'_def b_def DEQUE_MAX_SIZE_def)
  have dat: "q_data q' = q_data q @ take (unat n) src"
    using le n r len
    by (simp add: q_data_def q'_def b_def take_drop)
  show thesis
    using n by (intro that [OF ok wf' dat])
               (simp_all add: q'_def front_room_def rear_room_def r DEQUE_MAX_SIZE_def)
qed

lemma front_pop_wf:
  assumes wf: "wf_queue q" and len: "unat n \<le> length (q_data q)"
  obtains q' where "util_queue_front_pop n q = Ok q'" "wf_queue q'"
    "q_data q' = drop (unat n) (q_data q)"
    "front_room q' = front_room q + unat n" "rear_room q' = rear_room q"
proof -
  define f where "f = (ucast (ucast (front_node q) + n :: u32) :: u16)"
  define q' where "q' = q\<lparr>front_node := f, q_buf_len := ucast (ucast (q_buf_len q) - n)\<rparr>"
  have le: "unat (front_node q) \<le> unat (rear_node q)" "unat (rear_node q) < 1024"
      "length (q_buf q) = 1024" "unat (q_buf_len q) = unat (rear_node q) - unat (front_node q)"
      "capacity q = 0 \<or> capacity q = 1024"
    using wf by (auto simp: wf_queue_def DEQUE_MAX_SIZE_def)
  have n: "unat (front_node q) + unat n \<le> unat (rear_node q)"
    using len le length_q_data [OF wf] by simp
  have f: "unat f = unat (front_node q) + unat n"
    using n le unfolding f_def by (simp add: u16_add)
  have zero: "f = 0" if eq: "ucast (front_node q) = ucast (capacity q) - n"
  proof -
    from eq have "ucast (front_node q) + n = ucast (capacity q)" by simp
    then have "unat (ucast (front_node q) + n) = unat (ucast (capacity q) :: u32)" by simp
    moreover have "unat (ucast (front_node q) + n) = unat (front_node q) + unat n"
      using n le by (subst unat_add_lem [THEN iffD1]) (simp_all add: unat_u16_u32)
    ultimately have "unat f = 0"
      using le(5) n le(2) f by (auto simp: unat_u16_u32)
    then show "f = 0" by (simp add: unat_eq_0)
  qed
  have ok: "util_queue_front_pop n q = Ok q'"
    using le n zero
    by (auto simp: util_queue_front_pop_def mem_read_Ok q'_def DEQUE_MAX_SIZE_def
          f_def [symmetric])
  have wf': "wf_queue q'"
    using wf le n f by (auto simp: wf_queue_def q'_def u16_sub)
  have dat: "q_data q' = drop (unat n) (q_data q)"
    using n f by (simp add: q_data_def q'_def drop_take add.commute)
  show thesis
    by (rule that [OF ok wf' dat]) (simp_all add: q'_def front_room_def rear_room_def f)
qed

lemma rear_pop_wf:
  assumes wf: "wf_queue q" and len: "unat n \<le> length (q_data q)"
    and room: "unat n \<le> Suc (rear_room q)"
  obtains q' where "util_queue_rear_pop n q = Ok q'" "wf_queue q'"
    "q_data q' = take (length (q_data q) - unat n) (q_data q)"
    "front_room q' = front_room q" "rear_room q' = rear_room q + unat n"
proof -
  define r where "r = (ucast (ucast (rear_node q) - n :: u32) :: u16)"
  define q' where "q' = q\<lparr>rear_node := r, q_buf_len := ucast (ucast (q_buf_len q) - n)\<rparr>"
  have le: "unat (front_node q) \<le> unat (rear_node q)" "unat (rear_node q) < 1024"
      "length (q_buf q) = 1024" "unat (q_buf_len q) = unat (rear_node q) - unat (front_node q)"
      "capacity q = 0 \<or> capacity q = 1024"
    using wf by (auto simp: wf_queue_def DEQUE_MAX_SIZE_def)
  have n: "unat (front_node q) + unat n \<le> unat (rear_node q)"
    using len le length_q_data [OF wf] by simp
  have n2: "unat (rear_node q) + unat n \<le> 1024"
    using room le by (simp add: rear_room_def DEQUE_MAX_SIZE_def)
  have r: "unat r = unat (rear_node q) - unat n"
    using n unfolding r_def by (simp add: u16_sub)
  have ok: "util_queue_rear_pop n q = Ok q'"
  proof (cases "rear_node q = 0")
    case True
    with n have n0: "n = 0" by (simp add: unat_eq_0)
    show ?thesis
      using True n0 le by (auto simp: util_queue_rear_pop_def mem_read_Ok q'_def r_def
          DEQUE_MAX_SIZE_def unat_u16_u32)
  next
    case False
    then show ?thesis
      using le n n2 by (simp add: util_queue_rear_pop_def mem_read_Ok q'_def DEQUE_MAX_SIZE_def
          r_def [symmetric])
  qed
  have wf': "wf_queue q'"
    using wf le n r by (auto simp: wf_queue_def q'_def u16_sub)
  have dat: "q_data q' = take (length (q_data q) - unat n) (q_data q)"
    using n r le
    by (simp add: q_data_def q'_def length_q_data [OF wf] min_absorb1 add.commute)
  show thesis
    using n le by (intro that [OF ok wf' dat])
                  (simp_all add: q'_def front_room_def rear_room_def r DEQUE_MAX_SIZE_def)
qed

section \<open>The contract of a bounded byte deque\<close>

text \<open>
  What the protocol and command layers rely on. \<open>froom\<close> and \<open>rroom\<close> are the bytes that
  still fit before and after the data. The lemmas of the locale are about the framing that
  every layer does: a header in front, a trailer behind, and both removed from the reply.
\<close>

locale byte_deque =
  fixes abs :: "'q \<Rightarrow> bytes" and inv :: "'q \<Rightarrow> bool"
    and froom :: "'q \<Rightarrow> nat" and rroom :: "'q \<Rightarrow> nat"
    and pushf :: "bytes \<Rightarrow> 'q \<Rightarrow> 'q res" and pushr :: "bytes \<Rightarrow> 'q \<Rightarrow> 'q res"
    and popf :: "nat \<Rightarrow> 'q \<Rightarrow> 'q res" and popr :: "nat \<Rightarrow> 'q \<Rightarrow> 'q res"
  assumes pushf_ok: "inv q \<Longrightarrow> length d \<le> froom q \<Longrightarrow> 0 < froom q \<Longrightarrow>
      \<exists>q'. pushf d q = Ok q' \<and> inv q' \<and> abs q' = d @ abs q \<and>
           froom q' = froom q - length d \<and> rroom q' = rroom q"
    and pushr_ok: "inv q \<Longrightarrow> length d \<le> rroom q \<Longrightarrow>
      \<exists>q'. pushr d q = Ok q' \<and> inv q' \<and> abs q' = abs q @ d \<and>
           froom q' = froom q \<and> rroom q' = rroom q - length d"
    and popf_ok: "inv q \<Longrightarrow> n \<le> length (abs q) \<Longrightarrow>
      \<exists>q'. popf n q = Ok q' \<and> inv q' \<and> abs q' = drop n (abs q) \<and>
           froom q' = froom q + n \<and> rroom q' = rroom q"
    and popr_ok: "inv q \<Longrightarrow> n \<le> length (abs q) \<Longrightarrow> n \<le> Suc (rroom q) \<Longrightarrow>
      \<exists>q'. popr n q = Ok q' \<and> inv q' \<and> abs q' = take (length (abs q) - n) (abs q) \<and>
           froom q' = froom q \<and> rroom q' = rroom q + n"
begin

lemma frame_ok:
  assumes "inv q" "length h \<le> froom q" "0 < froom q" "length t \<le> rroom q"
  shows "\<exists>q'. res_bind (pushf h q) (pushr t) = Ok q' \<and> inv q' \<and> abs q' = h @ abs q @ t \<and>
              froom q' = froom q - length h \<and> rroom q' = rroom q - length t"
proof -
  from pushf_ok [OF assms(1-3)] obtain q1 where
    q1: "pushf h q = Ok q1" "inv q1" "abs q1 = h @ abs q" "froom q1 = froom q - length h"
        "rroom q1 = rroom q" by blast
  from pushr_ok [OF q1(2)] assms(4) q1(5) obtain q2 where
    "pushr t q1 = Ok q2" "inv q2" "abs q2 = abs q1 @ t" "froom q2 = froom q1"
    "rroom q2 = rroom q1 - length t" by metis
  with q1 show ?thesis by simp
qed

lemma unframe_ok:
  assumes "inv q" "a + b \<le> length (abs q)" "b \<le> Suc (rroom q)"
  shows "\<exists>q'. res_bind (popf a q) (popr b) = Ok q' \<and> inv q' \<and>
              abs q' = take (length (abs q) - a - b) (drop a (abs q)) \<and>
              froom q' = froom q + a \<and> rroom q' = rroom q + b"
proof -
  have "a \<le> length (abs q)" using assms(2) by simp
  from popf_ok [OF assms(1) this] obtain q1 where
    q1: "popf a q = Ok q1" "inv q1" "abs q1 = drop a (abs q)" "froom q1 = froom q + a"
        "rroom q1 = rroom q" by blast
  have "b \<le> length (abs q1)" "b \<le> Suc (rroom q1)"
    using assms(2,3) q1 by simp_all
  from popr_ok [OF q1(2) this] q1 show ?thesis by auto
qed

lemma unframe_frame:
  assumes "inv q" "abs q = h @ d @ t" "length t \<le> Suc (rroom q)"
  shows "\<exists>q'. res_bind (popf (length h) q) (popr (length t)) = Ok q' \<and> inv q' \<and> abs q' = d"
  using unframe_ok [OF assms(1) _ assms(3), of "length h"] assms(2) by auto

end

lemma wf_queue_bounds:
  assumes "wf_queue q"
  shows "length (q_data q) < 1024" "front_room q < 1024" "rear_room q < 1024"
  using assms
  by (auto simp: wf_queue_def q_data_def front_room_def rear_room_def DEQUE_MAX_SIZE_def)

interpretation dq: byte_deque q_data wf_queue front_room rear_room
  "\<lambda>d. util_queue_front_push d (of_nat (length d))"
  "\<lambda>d. util_queue_rear_push d (of_nat (length d))"
  "\<lambda>n. util_queue_front_pop (of_nat n)" "\<lambda>n. util_queue_rear_pop (of_nat n)"
proof (unfold_locales, goal_cases)
  case (1 q d)
  then have n: "unat (of_nat (length d) :: u32) = length d"
    using wf_queue_bounds [of q] by (simp add: unat_of_nat_u32)
  show ?case
    by (rule front_push_wf [of q "of_nat (length d)" d]) (use 1 n in auto)
next
  case (2 q d)
  then have n: "unat (of_nat (length d) :: u32) = length d"
    using wf_queue_bounds [of q] by (simp add: unat_of_nat_u32)
  show ?case
    by (rule rear_push_wf [of q "of_nat (length d)" d]) (use 2 n in auto)
next
  case (3 q n)
  then have n: "unat (of_nat n :: u32) = n"
    using wf_queue_bounds [of q] by (simp add: unat_of_nat_u32)
  show ?case
    by (rule front_pop_wf [of q "of_nat n"]) (use 3 n in auto)
next
  case (4 q n)
  then have n: "unat (of_nat n :: u32) = n"
    using wf_queue_bounds [of q] by (simp add: unat_of_nat_u32)
  show ?case
    by (rule rear_pop_wf [of q "of_nat n"]) (use 4 n in auto)
qed

section \<open>Properties\<close>

text \<open>
  C3: framing round trip. On a well-formed queue with room for them, pushing a header in
  front and a trailer behind gives exactly header, payload, trailer, stays inside the array
  (the result is \<open>Ok\<close>) and keeps the invariant; popping as many bytes again gives the
  payload back.
\<close>

theorem queue_frame_roundtrip:
  assumes "wf_queue q" "length h \<le> front_room q" "0 < front_room q"
    "length t \<le> rear_room q"
  shows "\<exists>q1 q2.
     res_bind (util_queue_front_push h (of_nat (length h)) q)
              (util_queue_rear_push t (of_nat (length t))) = Ok q1 \<and>
     wf_queue q1 \<and> q_data q1 = h @ q_data q @ t \<and>
     util_queue_size q1 = of_nat (length h + length (q_data q) + length t) \<and>
     (length t \<le> Suc (rear_room q1) \<longrightarrow>
       res_bind (util_queue_front_pop (of_nat (length h)) q1)
                (util_queue_rear_pop (of_nat (length t))) = Ok q2 \<and>
       wf_queue q2 \<and> q_data q2 = q_data q)"
proof -
  from dq.frame_ok [OF assms] obtain q1 where
    q1: "res_bind (util_queue_front_push h (of_nat (length h)) q)
              (util_queue_rear_push t (of_nat (length t))) = Ok q1"
        "wf_queue q1" "q_data q1 = h @ q_data q @ t"
    by blast
  have size: "util_queue_size q1 = of_nat (length h + length (q_data q) + length t)"
  proof -
    have "unat (util_queue_size q1) = length h + length (q_data q) + length t"
      using util_queue_size_wf [OF q1(2)] q1(3) by simp
    then have "of_nat (unat (util_queue_size q1)) =
        (of_nat (length h + length (q_data q) + length t) :: u32)"
      by (rule arg_cong)
    then show ?thesis by simp
  qed
  show ?thesis
    using q1 size dq.unframe_frame [OF q1(2,3)] by blast
qed

theorem queue_frame_roundtrip_witness:
  "\<exists>q1 q2.
     res_bind (util_queue_front_push [1, 2, 3] (of_nat (length [1::u8, 2, 3])) (util_queue_init queue_zero))
              (util_queue_rear_push [9, 8] (of_nat (length [9::u8, 8]))) = Ok q1 \<and>
     wf_queue q1 \<and> q_data q1 = [1, 2, 3] @ q_data (util_queue_init queue_zero) @ [9, 8] \<and>
     util_queue_size q1 =
       of_nat (length [1::u8, 2, 3] + length (q_data (util_queue_init queue_zero)) + length [9::u8, 8]) \<and>
     (length [9::u8, 8] \<le> Suc (rear_room q1) \<longrightarrow>
       res_bind (util_queue_front_pop (of_nat (length [1::u8, 2, 3])) q1)
                (util_queue_rear_pop (of_nat (length [9::u8, 8]))) = Ok q2 \<and>
       wf_queue q2 \<and> q_data q2 = q_data (util_queue_init queue_zero))"
  by (rule queue_frame_roundtrip) simp_all

end
