(* ===== verification/Crc16.thy ===== *)
theory Crc16
  imports Prelude
begin

text \<open>
  The frame check sequence of both link protocols: proto_spi_crc16 of proto_spi.c and its
  copy proto_i2c_crc16 of proto_i2c.c. The C code updates the CRC a byte at a time with
  three shifts; the reference is the bit-serial CRC of ISO 3309 (reflected polynomial
  0x8408), from which the detection properties follow.
\<close>

section \<open>Code\<close>

definition CRC_A :: u32 where "CRC_A = 0"
definition CRC_B :: u32 where "CRC_B = 1"

text \<open>The body of the do-while loop: one byte of data into \<open>wCrc\<close>.\<close>

definition crc16_step :: "u16 \<Rightarrow> u8 \<Rightarrow> u16" where
  "crc16_step wCrc b =
     (let ch = b XOR ucast (wCrc AND 0x00FF);
          ch = ch XOR push_bit 4 ch
      in drop_bit 8 wCrc XOR push_bit 8 (ucast ch) XOR push_bit 3 (ucast ch)
           XOR drop_bit 4 (ucast ch))"

definition crc16_fold :: "u16 \<Rightarrow> bytes \<Rightarrow> u16" where
  "crc16_fold = foldl crc16_step"

text \<open>
  The loop is \<open>do \<dots> while (--Length)\<close> on an unsigned 32-bit counter: a length of zero
  runs it 2 to the 32 times.
\<close>

definition crc16_count :: "u32 \<Rightarrow> nat" where
  "crc16_count len = (if len = 0 then 2 ^ 32 else unat len)"

definition proto_spi_crc16 :: "u32 \<Rightarrow> u32 \<Rightarrow> bytes \<Rightarrow> u16 res" where
  "proto_spi_crc16 CRCType len Data =
     res_bind (mem_read Data 0 (crc16_count len)) (\<lambda>d.
       let wCrc = crc16_fold (if CRCType = CRC_A then 0x6363 else 0xFFFF) d
       in Ok (if CRCType \<noteq> CRC_A then NOT wCrc else wCrc))"

definition proto_i2c_crc16 :: "u32 \<Rightarrow> u32 \<Rightarrow> bytes \<Rightarrow> u16 res" where
  "proto_i2c_crc16 CRCType len Data =
     res_bind (mem_read Data 0 (crc16_count len)) (\<lambda>d.
       let wCrc = crc16_fold (if CRCType = CRC_A then 0x6363 else 0xFFFF) d
       in Ok (if CRCType \<noteq> CRC_A then NOT wCrc else wCrc))"

section \<open>Bit-serial reference\<close>

definition crc_bit :: "u16 \<Rightarrow> u16" where
  "crc_bit c = (if bit c 0 then drop_bit 1 c XOR 0x8408 else drop_bit 1 c)"

definition crc_byte :: "u16 \<Rightarrow> u8 \<Rightarrow> u16" where
  "crc_byte c b = (crc_bit ^^ 8) (c XOR ucast b)"

definition crc_x25 :: "bytes \<Rightarrow> u16" where
  "crc_x25 d = NOT (foldl crc_byte 0xFFFF d)"

lemma less_16_cases:
  "k < (16::nat) \<Longrightarrow> k = 0 \<or> k = 1 \<or> k = 2 \<or> k = 3 \<or> k = 4 \<or> k = 5 \<or> k = 6 \<or> k = 7 \<or> k = 8 \<or>
     k = 9 \<or> k = 10 \<or> k = 11 \<or> k = 12 \<or> k = 13 \<or> k = 14 \<or> k = 15"
  by arith

lemma bit_crc_bit:
  "bit (crc_bit c) k = (bit c (k + 1) \<noteq> (bit c 0 \<and> (k = 3 \<or> k = 10 \<or> k = 15)))"
proof (cases "k < 16")
  case True
  then show ?thesis
    using less_16_cases [OF True] by (elim disjE) (simp_all add: crc_bit_def bit_simps eval_nat_numeral)
next
  case False
  then show ?thesis by (auto simp: impossible_bit)
qed

lemma crc16_step_eq: "crc16_step c b = crc_byte c b"
proof (rule bit_word_eqI)
  fix k assume "k < LENGTH(16)"
  then have k: "k < 16" by simp
  have pow: "crc_byte c b = crc_bit (crc_bit (crc_bit (crc_bit (crc_bit (crc_bit (crc_bit (crc_bit
      (c XOR ucast b))))))))"
    by (simp add: crc_byte_def numeral_eq_Suc)
  show "bit (crc16_step c b) k = bit (crc_byte c b) k"
    using less_16_cases [OF k]
    by (elim disjE)
       (simp_all add: crc16_step_def pow bit_crc_bit Let_def bit_simps,
        auto simp: eval_nat_numeral impossible_bit)
qed

lemma crc16_fold_eq: "crc16_fold c d = foldl crc_byte c d"
proof -
  have "crc16_step = crc_byte" by (intro ext) (rule crc16_step_eq)
  then show ?thesis by (simp add: crc16_fold_def)
qed

lemma proto_spi_crc16_B:
  assumes "0 < unat n" "unat n \<le> length d"
  shows "proto_spi_crc16 CRC_B n d = Ok (crc_x25 (take (unat n) d))"
  using assms
  by (auto simp: proto_spi_crc16_def crc16_count_def mem_read_Ok crc16_fold_eq crc_x25_def
        CRC_A_def CRC_B_def)

section \<open>What the check detects\<close>

lemma crc_bit_inject:
  assumes "crc_bit c = crc_bit c'"
  shows "c = c'"
proof (rule bit_word_eqI)
  fix k assume "k < LENGTH(16)"
  then have k: "k < 16" by simp
  have bits: "bit (crc_bit c) j = bit (crc_bit c') j" for j
    using assms by simp
  have zero: "bit c 0 = bit c' 0"
    using bits [of 15] by (simp add: bit_crc_bit impossible_bit)
  show "bit c k = bit c' k"
  proof (cases k)
    case 0
    with zero show ?thesis by simp
  next
    case (Suc j)
    with bits [of j] zero show ?thesis by (auto simp: bit_crc_bit)
  qed
qed

lemma crc_bits_inject: "(crc_bit ^^ n) c = (crc_bit ^^ n) c' \<Longrightarrow> c = c'"
  by (induction n) (auto dest: crc_bit_inject)

lemma crc_byte_inject_crc: "crc_byte c b = crc_byte c' b \<Longrightarrow> c = c'"
  unfolding crc_byte_def by (drule crc_bits_inject) (metis bit.xor_left_self xor.commute)

lemma foldl_crc_inject: "foldl crc_byte c d = foldl crc_byte c' d \<Longrightarrow> c = c'"
  by (induction d arbitrary: c c') (auto dest: crc_byte_inject_crc)

lemma crc_residue_step:
  "crc_byte (crc_byte c (ucast (NOT c))) (ucast (drop_bit 8 (NOT c))) = 0xF0B8"
  unfolding crc16_step_eq [symmetric]
proof (rule bit_word_eqI)
  fix k assume "k < LENGTH(16)"
  then have k: "k < 16" by simp
  show "bit (crc16_step (crc16_step c (ucast (NOT c))) (ucast (drop_bit 8 (NOT c)))) k
      = bit (0xF0B8 :: u16) k"
    using less_16_cases [OF k]
    by (elim disjE; simp add: crc16_step_def Let_def bit_simps;
        (auto simp: eval_nat_numeral impossible_bit)?)
qed

definition crc_mix :: "u16 \<Rightarrow> u8 \<Rightarrow> u8" where
  "crc_mix c b = (let y = b XOR ucast c in y XOR push_bit 4 y)"

lemma crc16_step_mix:
  "crc16_step c b = drop_bit 8 c XOR push_bit 8 (ucast (crc_mix c b))
     XOR push_bit 3 (ucast (crc_mix c b)) XOR drop_bit 4 (ucast (crc_mix c b))"
proof -
  have m: "0x00FF = (mask 8 :: u16)"
    by (simp add: mask_eq_exp_minus_1)
  have low: "ucast (c AND 0x00FF) = (ucast c :: u8)"
    unfolding m by (rule bit_word_eqI) (auto simp: bit_simps)
  show ?thesis
    unfolding crc16_step_def crc_mix_def Let_def low by simp
qed

lemma crc_mix_inject:
  assumes "crc_mix c a = crc_mix c a'"
  shows "a = a'"
proof -
  define y where "y = a XOR ucast c"
  define y' where "y' = a' XOR ucast c"
  have eq: "bit y k \<noteq> (4 \<le> k \<and> k < 8 \<and> bit y (k - 4)) \<longleftrightarrow>
      bit y' k \<noteq> (4 \<le> k \<and> k < 8 \<and> bit y' (k - 4))" for k
  proof -
    have "bit (y XOR push_bit 4 y) k = bit (y' XOR push_bit 4 y') k"
      using assms by (simp add: crc_mix_def y_def y'_def Let_def)
    then show ?thesis by (auto simp: bit_simps)
  qed
  have low: "bit y k = bit y' k" if "k < 4" for k
    using eq [of k] that by simp
  have "bit y k = bit y' k" if "k < 8" for k
    using eq [of k] low [of k] low [of "k - 4"] that by (cases "k < 4") auto
  then have "y = y'" by (intro bit_word_eqI) simp
  then show ?thesis
    unfolding y_def y'_def by (metis bit.xor_left_self xor.commute)
qed

lemma crc_high_mix:
  assumes "\<And>k. 8 \<le> k \<Longrightarrow> bit (crc16_step c a) k = bit (crc16_step c a') k"
  shows "crc_mix c a = crc_mix c a'"
proof -
  have eq: "(bit (crc_mix c a) k \<noteq> bit (crc_mix c a) (k + 5)) =
      (bit (crc_mix c a') k \<noteq> bit (crc_mix c a') (k + 5))" if "k < 8" for k
    using assms [of "8 + k"] that
    by (auto simp: crc16_step_mix bit_simps impossible_bit add.commute)
  have high: "bit (crc_mix c a) k = bit (crc_mix c a') k" if "3 \<le> k" "k < 8" for k
    using eq [of k] that by (simp add: u8_bit_high)
  have "bit (crc_mix c a) k = bit (crc_mix c a') k" if "k < 8" for k
    using eq [of k] high [of k] high [of "k + 5"] that by (cases "k < 3") auto
  then show ?thesis by (intro bit_word_eqI) simp
qed

lemma crc_byte_inject_byte: "crc_byte c b = crc_byte c b' \<Longrightarrow> b = b'"
  using crc_high_mix [of c b b'] crc_mix_inject [of c b b'] by (simp add: crc16_step_eq)

lemma crc_two_bytes_inject:
  assumes "crc_byte (crc_byte c a) b = crc_byte (crc_byte c a') b'"
  shows "a = a' \<and> b = b'"
proof -
  have eq: "crc16_step c a XOR ucast b = crc16_step c a' XOR ucast b'"
    using assms crc_bits_inject unfolding crc16_step_eq crc_byte_def by blast
  have "bit (crc16_step c a) k = bit (crc16_step c a') k" if "8 \<le> k" for k
  proof -
    have "bit (crc16_step c a XOR ucast b) k = bit (crc16_step c a' XOR ucast b') k"
      using eq by simp
    then show ?thesis using that by (auto simp: bit_simps u8_bit_high)
  qed
  then have "a = a'" by (metis crc_high_mix crc_mix_inject)
  then show ?thesis
    using assms crc_byte_inject_byte by blast
qed

section \<open>Properties\<close>

text \<open>
  C25: the three-shift update of the code computes the bit-serial CRC of ISO 3309 (X-25) of
  the first \<open>n\<close> bytes, for every buffer that holds them, and the I2C copy of the routine
  agrees with the SPI one on every input.
\<close>

theorem crc16_refines_x25:
  assumes "0 < unat n" "unat n \<le> length d"
  shows "proto_spi_crc16 CRC_B n d = Ok (crc_x25 (take (unat n) d)) \<and>
         proto_i2c_crc16 ty m e = proto_spi_crc16 ty m e"
  using proto_spi_crc16_B [OF assms] by (simp add: proto_spi_crc16_def proto_i2c_crc16_def)

theorem crc16_refines_x25_witness:
  "proto_spi_crc16 CRC_B 5 [0x03, 0x00, 0x04, 0xD3, 0x00]
     = Ok (crc_x25 (take (unat (5 :: u32)) [0x03, 0x00, 0x04, 0xD3, 0x00])) \<and>
   proto_i2c_crc16 CRC_B 5 [0x03, 0x00, 0x04, 0xD3, 0x00]
     = proto_spi_crc16 CRC_B 5 [0x03, 0x00, 0x04, 0xD3, 0x00]"
  by (rule crc16_refines_x25) simp_all

lemma crc_x25_burst:
  assumes "crc_x25 (p @ [a, b] @ s) = crc_x25 (p @ [a', b'] @ s)"
  shows "a = a' \<and> b = b'"
proof -
  define c where "c = foldl crc_byte 0xFFFF p"
  have "foldl crc_byte (crc_byte (crc_byte c a) b) s =
      foldl crc_byte (crc_byte (crc_byte c a') b') s"
    using assms by (simp add: crc_x25_def c_def)
  then have "crc_byte (crc_byte c a) b = crc_byte (crc_byte c a') b'"
    by (rule foldl_crc_inject)
  then show ?thesis by (rule crc_two_bytes_inject)
qed

lemma crc_x25_residue:
  "crc_x25 (d @ [ucast (crc_x25 d), ucast (drop_bit 8 (crc_x25 d))]) = NOT 0xF0B8"
  using crc_residue_step [of "foldl crc_byte 0xFFFF d"] by (simp add: crc_x25_def)

text \<open>
  What the receiver's comparison detects: over data of the same length, a corruption
  confined to two neighbouring bytes (any burst of up to nine bits, and many longer ones)
  always changes the CRC the code computes.
\<close>

theorem crc16_detects_burst:
  assumes "length p + 2 + length s < 2 ^ 32" and "(a, b) \<noteq> (a', b')"
  shows "proto_spi_crc16 CRC_B (of_nat (length p + 2 + length s)) (p @ [a, b] @ s)
       \<noteq> proto_spi_crc16 CRC_B (of_nat (length p + 2 + length s)) (p @ [a', b'] @ s)"
proof -
  have n: "unat (of_nat (length p + 2 + length s) :: u32) = length p + 2 + length s"
    by (rule unat_of_nat_u32) (use assms(1) in simp)
  have "proto_spi_crc16 CRC_B (of_nat (length p + 2 + length s)) (p @ [x, y] @ s)
      = Ok (crc_x25 (p @ [x, y] @ s))" for x y
    using n by (subst proto_spi_crc16_B) (simp_all del: of_nat_add)
  then show ?thesis
    using assms(2) crc_x25_burst [of p a b s a' b'] by (auto simp del: append.simps)
qed

theorem crc16_detects_burst_witness:
  "proto_spi_crc16 CRC_B (of_nat (length [0x0E::u8, 0] + 2 + length [7::u8]))
      ([0x0E, 0] @ [1, 2] @ [7])
   \<noteq> proto_spi_crc16 CRC_B (of_nat (length [0x0E::u8, 0] + 2 + length [7::u8]))
      ([0x0E, 0] @ [1, 3] @ [7])"
  by (rule crc16_detects_burst) simp_all

end
