(* ===== verification/Sm3.thy ===== *)
theory Sm3
  imports Prelude
begin

text \<open>
  The SM3 hash of src/sign/testSdk/extern/sm3.c and its HMAC, which authenticate images and
  messages on the host side.

  The context keeps its counters and its chaining value in \<open>unsigned long\<close> (64 bits on the
  target, so \<open>64 word\<close>), while the compression function computes in \<open>unsigned int\<close>. Its macro
  ROTL shifts by \<open>j\<close> and \<open>32 - j\<close> with \<open>j\<close> up to 63: for \<open>j = 0\<close> and \<open>j \<ge> 32\<close> the shift
  count is outside \<open>0..31\<close>, which C leaves undefined. The model gives such a shift the
  meaning of the aarch64 instructions the library is compiled to, which take the count
  modulo 32; the refinement proves that under this reading (and only through it) the digest
  is the standard one.
\<close>

section \<open>Code\<close>

record sm3_context =
  sm3_total0 :: u64
  sm3_total1 :: u64
  sm3_state :: "u64 list"
  sm3_buffer :: bytes
  sm3_ipad :: bytes
  sm3_opad :: bytes

text \<open>Shifts of an \<open>unsigned int\<close> with the count taken modulo 32.\<close>

definition shl32 :: "u32 \<Rightarrow> int \<Rightarrow> u32" where
  "shl32 x n = push_bit (nat (n mod 32)) x"

definition shr32 :: "u32 \<Rightarrow> int \<Rightarrow> u32" where
  "shr32 x n = drop_bit (nat (n mod 32)) x"

definition sm3_rotl :: "u32 \<Rightarrow> int \<Rightarrow> u32" where
  "sm3_rotl x n = shl32 (x AND 0xFFFFFFFF) n OR shr32 x (32 - n)"

definition sm3_starts :: "sm3_context \<Rightarrow> sm3_context" where
  "sm3_starts ctx =
     ctx\<lparr>sm3_total0 := 0, sm3_total1 := 0,
         sm3_state := [0x7380166F, 0x4914B2B9, 0x172442D7, 0xDA8A0600,
                       0xA96F30BC, 0x163138AA, 0xE38DEE4D, 0xB0FB0E4E]\<rparr>"

definition FF0 :: "u32 \<Rightarrow> u32 \<Rightarrow> u32 \<Rightarrow> u32" where "FF0 x y z = x XOR y XOR z"
definition FF1 :: "u32 \<Rightarrow> u32 \<Rightarrow> u32 \<Rightarrow> u32" where
  "FF1 x y z = (x AND y) OR (x AND z) OR (y AND z)"
definition GG0 :: "u32 \<Rightarrow> u32 \<Rightarrow> u32 \<Rightarrow> u32" where "GG0 x y z = x XOR y XOR z"
definition GG1 :: "u32 \<Rightarrow> u32 \<Rightarrow> u32 \<Rightarrow> u32" where
  "GG1 x y z = (x AND y) OR (NOT x AND z)"
definition sm3_P0 :: "u32 \<Rightarrow> u32" where "sm3_P0 x = x XOR sm3_rotl x 9 XOR sm3_rotl x 17"
definition sm3_P1 :: "u32 \<Rightarrow> u32" where "sm3_P1 x = x XOR sm3_rotl x 15 XOR sm3_rotl x 23"

definition sm3_T :: "nat \<Rightarrow> u32" where
  "sm3_T j = (if j < 16 then 0x79CC4519 else 0x7A879D8A)"

text \<open>The arrays \<open>W\<close> and \<open>W1\<close>; \<open>W\<close> grows by the element each iteration stores.\<close>

definition sm3_expand_body :: "u32 list \<Rightarrow> nat \<Rightarrow> u32 list" where
  "sm3_expand_body W j =
     (let Temp1 = W ! (j - 16) XOR W ! (j - 9);
          Temp2 = sm3_rotl (W ! (j - 3)) 15;
          Temp3 = Temp1 XOR Temp2;
          Temp4 = sm3_P1 Temp3;
          Temp5 = sm3_rotl (W ! (j - 13)) 7 XOR W ! (j - 6)
      in W @ [Temp4 XOR Temp5])"

definition sm3_W :: "bytes \<Rightarrow> u32 list" where
  "sm3_W dat = foldl sm3_expand_body (map (\<lambda>i. get_be32 dat (4 * i)) [0..<16]) [16..<68]"

definition sm3_W1 :: "u32 list \<Rightarrow> u32 list" where
  "sm3_W1 W = map (\<lambda>j. W ! j XOR W ! (j + 4)) [0..<64]"

type_synonym sm3_regs = "u32 \<times> u32 \<times> u32 \<times> u32 \<times> u32 \<times> u32 \<times> u32 \<times> u32"

definition sm3_round1 :: "u32 list \<Rightarrow> u32 list \<Rightarrow> sm3_regs \<Rightarrow> nat \<Rightarrow> sm3_regs" where
  "sm3_round1 W W1 = (\<lambda>(A, B, C, D, E, F, G, H) j.
     let SS1 = sm3_rotl (sm3_rotl A 12 + E + sm3_rotl (sm3_T j) (int j)) 7;
         SS2 = SS1 XOR sm3_rotl A 12;
         TT1 = FF0 A B C + D + SS2 + W1 ! j;
         TT2 = GG0 E F G + H + SS1 + W ! j
     in (TT1, A, sm3_rotl B 9, C, sm3_P0 TT2, E, sm3_rotl F 19, G))"

definition sm3_round2 :: "u32 list \<Rightarrow> u32 list \<Rightarrow> sm3_regs \<Rightarrow> nat \<Rightarrow> sm3_regs" where
  "sm3_round2 W W1 = (\<lambda>(A, B, C, D, E, F, G, H) j.
     let SS1 = sm3_rotl (sm3_rotl A 12 + E + sm3_rotl (sm3_T j) (int j)) 7;
         SS2 = SS1 XOR sm3_rotl A 12;
         TT1 = FF1 A B C + D + SS2 + W1 ! j;
         TT2 = GG1 E F G + H + SS1 + W ! j
     in (TT1, A, sm3_rotl B 9, C, sm3_P0 TT2, E, sm3_rotl F 19, G))"

definition sm3_load :: "u64 list \<Rightarrow> sm3_regs" where
  "sm3_load s = (ucast (s ! 0), ucast (s ! 1), ucast (s ! 2), ucast (s ! 3),
                 ucast (s ! 4), ucast (s ! 5), ucast (s ! 6), ucast (s ! 7))"

definition sm3_process :: "sm3_context \<Rightarrow> bytes \<Rightarrow> sm3_context" where
  "sm3_process ctx dat =
     (let W = sm3_W dat;
          W1 = sm3_W1 W;
          r = foldl (sm3_round1 W W1) (sm3_load (sm3_state ctx)) [0..<16];
          (A, B, C, D, E, F, G, H) = foldl (sm3_round2 W W1) r [16..<64]
      in ctx\<lparr>sm3_state := map2 (XOR) (sm3_state ctx)
               [ucast A, ucast B, ucast C, ucast D, ucast E, ucast F, ucast G, ucast H]\<rparr>)"

text \<open>The while loop of \<open>sm3_update\<close>: one call per whole block, the rest is returned.\<close>

function sm3_blocks :: "sm3_context \<Rightarrow> bytes \<Rightarrow> sm3_context \<times> bytes" where
  "sm3_blocks ctx input =
     (if 64 \<le> length input
      then sm3_blocks (sm3_process ctx (take 64 input)) (drop 64 input)
      else (ctx, input))"
  by pat_completeness auto
termination
  by (relation "measure (\<lambda>(ctx, input). length input)") auto

declare sm3_blocks.simps [simp del]

text \<open>
  \<open>sm3_update\<close>: \<open>ilen\<close> is a signed C int; \<open>total[0] + ilen\<close> and the comparison
  \<open>total[0] < (unsigned int) ilen\<close> are in \<open>unsigned long\<close>.
\<close>

definition sm3_update :: "bytes \<Rightarrow> int \<Rightarrow> sm3_context \<Rightarrow> sm3_context res" where
  "sm3_update input ilen ctx =
     (if ilen \<le> 0 then Ok ctx else
      let left = unat (sm3_total0 ctx AND 0x3F);
          fill = 64 - int left;
          t0 = (sm3_total0 ctx + of_int ilen) AND 0xFFFFFFFF;
          t1 = (if t0 < of_int ilen then sm3_total1 ctx + 1 else sm3_total1 ctx);
          ctx1 = ctx\<lparr>sm3_total0 := t0, sm3_total1 := t1\<rparr>
      in res_bind (mem_read input 0 (nat ilen)) (\<lambda>inp.
         res_bind
           (if left \<noteq> 0 \<and> fill \<le> ilen
            then res_bind (mem_write (sm3_buffer ctx1) left (take (nat fill) inp)) (\<lambda>buf.
                 Ok (sm3_process (ctx1\<lparr>sm3_buffer := buf\<rparr>) buf, drop (nat fill) inp, 0))
            else Ok (ctx1, inp, left)) (\<lambda>(ctx2, inp2, left2).
         let (ctx3, rest) = sm3_blocks ctx2 inp2
         in if 0 < length rest
            then res_bind (mem_write (sm3_buffer ctx3) left2 rest) (\<lambda>buf.
                 Ok (ctx3\<lparr>sm3_buffer := buf\<rparr>))
            else Ok ctx3)))"

definition sm3_padding :: bytes where
  "sm3_padding = 0x80 # replicate 63 0"

definition sm3_msglen :: "sm3_context \<Rightarrow> bytes" where
  "sm3_msglen ctx =
     (let high = ucast (drop_bit 29 (sm3_total0 ctx) OR push_bit 3 (sm3_total1 ctx)) :: u32;
          low = ucast (push_bit 3 (sm3_total0 ctx)) :: u32
      in put_be32 high @ put_be32 low)"

definition sm3_output :: "u64 list \<Rightarrow> bytes" where
  "sm3_output s = concat (map (\<lambda>w. put_be32 (ucast w)) s)"

definition sm3_finish :: "sm3_context \<Rightarrow> (sm3_context \<times> bytes) res" where
  "sm3_finish ctx =
     (let msglen = sm3_msglen ctx;
          last = unat (sm3_total0 ctx AND 0x3F);
          padn = (if last < 56 then 56 - last else 120 - last)
      in res_bind (sm3_update sm3_padding (int padn) ctx) (\<lambda>ctx1.
         res_bind (sm3_update msglen 8 ctx1) (\<lambda>ctx2.
         Ok (ctx2, sm3_output (sm3_state ctx2)))))"

text \<open>
  The stack contexts of \<open>sm3\<close> and \<open>sm3_hmac\<close> are uninitialised; the model passes their
  contents \<open>ctx0\<close> in, and the theorems show that nothing depends on them.
\<close>

definition sm3 :: "sm3_context \<Rightarrow> bytes \<Rightarrow> int \<Rightarrow> bytes res" where
  "sm3 ctx0 input ilen =
     res_bind (sm3_update input ilen (sm3_starts ctx0)) (\<lambda>ctx.
     res_bind (sm3_finish ctx) (\<lambda>(ctx', out). Ok out))"

text \<open>
  \<open>sm3_file\<close>. Of stdio the model has what the function uses: a path that cannot be opened, the bytes
  \<open>fread\<close> returns until it returns 0, 1024 at a time, and what \<open>ferror\<close> answers then.
\<close>

record stdio_file =
  f_bytes :: bytes
  f_error :: bool

function sm3_file_loop :: "bytes \<Rightarrow> sm3_context \<Rightarrow> sm3_context res" where
  "sm3_file_loop d ctx =
     (let buf = take 1024 d
      in if buf = [] then Ok ctx
         else res_bind (sm3_update buf (int (length buf)) ctx) (sm3_file_loop (drop 1024 d)))"
  by pat_completeness auto
termination by (relation "measure (length \<circ> fst)") auto

declare sm3_file_loop.simps [simp del]

definition sm3_file :: "sm3_context \<Rightarrow> stdio_file option \<Rightarrow> (int \<times> bytes option) res" where
  "sm3_file ctx0 f =
     (case f of
        None \<Rightarrow> Ok (1, None)
      | Some f \<Rightarrow>
          res_bind (sm3_file_loop (f_bytes f) (sm3_starts ctx0)) (\<lambda>ctx.
          res_bind (sm3_finish ctx) (\<lambda>(ctx', out).
          Ok (if f_error f then 2 else 0, Some out))))"

definition sm3_hmac_starts :: "sm3_context \<Rightarrow> bytes \<Rightarrow> int \<Rightarrow> sm3_context \<Rightarrow> sm3_context res" where
  "sm3_hmac_starts ctx0 key keylen ctx =
     res_bind (if 64 < keylen then res_bind (sm3 ctx0 key keylen) (\<lambda>sum. Ok (sum, 32 :: int))
               else Ok (key, keylen)) (\<lambda>(key1, keylen1).
     res_bind (mem_read key1 0 (nat keylen1)) (\<lambda>k.
     let n = nat keylen1;
         ipad = map2 (XOR) k (replicate n 0x36) @ replicate (64 - n) 0x36;
         opad = map2 (XOR) k (replicate n 0x5C) @ replicate (64 - n) 0x5C
     in sm3_update ipad 64 (sm3_starts (ctx\<lparr>sm3_ipad := ipad, sm3_opad := opad\<rparr>))))"

definition sm3_hmac_update :: "bytes \<Rightarrow> int \<Rightarrow> sm3_context \<Rightarrow> sm3_context res" where
  "sm3_hmac_update input ilen ctx = sm3_update input ilen ctx"

definition sm3_hmac_finish :: "sm3_context \<Rightarrow> (sm3_context \<times> bytes) res" where
  "sm3_hmac_finish ctx =
     res_bind (sm3_finish ctx) (\<lambda>(ctx1, tmpbuf).
     res_bind (sm3_update (sm3_opad ctx1) 64 (sm3_starts ctx1)) (\<lambda>ctx2.
     res_bind (sm3_update tmpbuf 32 ctx2) (\<lambda>ctx3. sm3_finish ctx3)))"

definition sm3_hmac :: "sm3_context \<Rightarrow> bytes \<Rightarrow> int \<Rightarrow> bytes \<Rightarrow> int \<Rightarrow> bytes res" where
  "sm3_hmac ctx0 key keylen input ilen =
     res_bind (sm3_hmac_starts ctx0 key keylen ctx0) (\<lambda>ctx.
     res_bind (sm3_hmac_update input ilen ctx) (\<lambda>ctx1.
     res_bind (sm3_hmac_finish ctx1) (\<lambda>(ctx2, out). Ok out)))"

section \<open>Reference\<close>

text \<open>
  The hash of the standard: rotations, one round function selected by the round number, the
  iteration over the padded message. \<open>sm3_chain\<close> folds the compression function over the whole
  blocks of its argument and \<open>sm3_rest\<close> is what is left behind them.
\<close>

definition sm3_ref_expand :: "u32 list \<Rightarrow> nat \<Rightarrow> u32 list" where
  "sm3_ref_expand W j =
     (let x = W ! (j - 16) XOR W ! (j - 9) XOR word_rotl 15 (W ! (j - 3))
      in W @ [(x XOR word_rotl 15 x XOR word_rotl 23 x)
                XOR word_rotl 7 (W ! (j - 13)) XOR W ! (j - 6)])"

definition sm3_ref_W :: "bytes \<Rightarrow> u32 list" where
  "sm3_ref_W dat = foldl sm3_ref_expand (map (\<lambda>i. get_be32 dat (4 * i)) [0..<16]) [16..<68]"

definition sm3_ref_round :: "u32 list \<Rightarrow> sm3_regs \<Rightarrow> nat \<Rightarrow> sm3_regs" where
  "sm3_ref_round W = (\<lambda>(A, B, C, D, E, F, G, H) j.
     let FF = (if j < 16 then A XOR B XOR C else (A AND B) OR (A AND C) OR (B AND C));
         GG = (if j < 16 then E XOR F XOR G else (E AND F) OR (NOT E AND G));
         SS1 = word_rotl 7 (word_rotl 12 A + E + word_rotl (j mod 32) (sm3_T j));
         TT1 = FF + D + (SS1 XOR word_rotl 12 A) + (W ! j XOR W ! (j + 4));
         TT2 = GG + H + SS1 + W ! j
     in (TT1, A, word_rotl 9 B, C, TT2 XOR word_rotl 9 TT2 XOR word_rotl 17 TT2,
         E, word_rotl 19 F, G))"

definition sm3_regs_of :: "u32 list \<Rightarrow> sm3_regs" where
  "sm3_regs_of h = (h ! 0, h ! 1, h ! 2, h ! 3, h ! 4, h ! 5, h ! 6, h ! 7)"

definition sm3_regs_list :: "sm3_regs \<Rightarrow> u32 list" where
  "sm3_regs_list = (\<lambda>(A, B, C, D, E, F, G, H). [A, B, C, D, E, F, G, H])"

definition sm3_cf :: "u32 list \<Rightarrow> bytes \<Rightarrow> u32 list" where
  "sm3_cf h blk =
     map2 (XOR) h
       (sm3_regs_list (foldl (sm3_ref_round (sm3_ref_W blk)) (sm3_regs_of h) [0..<64]))"

definition sm3_IV :: "u32 list" where
  "sm3_IV = [0x7380166F, 0x4914B2B9, 0x172442D7, 0xDA8A0600,
             0xA96F30BC, 0x163138AA, 0xE38DEE4D, 0xB0FB0E4E]"

function sm3_chain :: "u32 list \<Rightarrow> bytes \<Rightarrow> u32 list" where
  "sm3_chain h m =
     (if 64 \<le> length m then sm3_chain (sm3_cf h (take 64 m)) (drop 64 m) else h)"
  by pat_completeness auto
termination by (relation "measure (\<lambda>(h, m). length m)") auto

declare sm3_chain.simps [simp del]

definition sm3_rest :: "bytes \<Rightarrow> bytes" where
  "sm3_rest m = drop (64 * (length m div 64)) m"

definition sm3_pad :: "nat \<Rightarrow> bytes" where
  "sm3_pad n = 0x80 # replicate ((119 - n mod 64) mod 64) 0 @
     put_be32 (of_nat (8 * n div 4294967296)) @ put_be32 (of_nat (8 * n))"

definition sm3_digest :: "bytes \<Rightarrow> bytes" where
  "sm3_digest m = concat (map put_be32 (sm3_chain sm3_IV (m @ sm3_pad (length m))))"

definition hmac_key :: "bytes \<Rightarrow> bytes" where
  "hmac_key k = (let k' = (if 64 < length k then sm3_digest k else k)
                 in k' @ replicate (64 - length k') 0)"

definition hmac_sm3 :: "bytes \<Rightarrow> bytes \<Rightarrow> bytes" where
  "hmac_sm3 k m = sm3_digest (map ((XOR) 0x5C) (hmac_key k) @
                    sm3_digest (map ((XOR) 0x36) (hmac_key k) @ m))"

section \<open>The compression function\<close>

lemma and_ones32: "(x :: u32) AND 0xFFFFFFFF = x"
proof -
  have "(0xFFFFFFFF :: u32) = - 1" by simp
  then show ?thesis by (simp only: and.right_neutral)
qed

lemma word_rotl_0: "word_rotl 0 (x :: u32) = x"
  by (rule bit_word_eqI) (simp add: bit_word_rotl_iff)

lemma sm3_rotl_rotl: "sm3_rotl x n = word_rotl (nat (n mod 32)) x"
proof -
  define k where "k = nat (n mod 32)"
  have k: "k < 32" "n mod 32 = int k" by (simp_all add: k_def nat_less_iff)
  have "(32 - n) mod 32 = (32 - int k) mod 32"
    using k(2) mod_diff_right_eq [of 32 n 32] by simp
  also have "\<dots> = (if k = 0 then 0 else 32 - int k)"
    using k(1) mod_pos_pos_trivial [of "32 - int k" 32] by (cases "k = 0") auto
  finally have e: "sm3_rotl x n = push_bit k x OR drop_bit (if k = 0 then 0 else 32 - k) x"
    using k by (simp add: sm3_rotl_def shl32_def shr32_def nat_diff_distrib and_ones32)
  then show ?thesis
    using k rot32_shifts [of k x] word_rotl_0 [of x]
    by (cases "k = 0") (simp_all add: k_def [symmetric])
qed


lemma sm3_expand_ref: "sm3_expand_body = sm3_ref_expand"
  by (intro ext) (simp add: sm3_expand_body_def sm3_ref_expand_def Let_def sm3_rotl_rotl sm3_P1_def
      xor.assoc)

lemma sm3_W_ref: "sm3_W = sm3_ref_W"
  by (intro ext) (simp add: sm3_W_def sm3_ref_W_def sm3_expand_ref)

lemma nat_int_mod32: "nat (int j mod 32) = j mod 32"
  by (metis nat_int of_nat_numeral zmod_int)

lemma rotl_consts:
  "sm3_rotl x 7 = word_rotl 7 x" "sm3_rotl x 9 = word_rotl 9 x" "sm3_rotl x 12 = word_rotl 12 x"
  "sm3_rotl x 17 = word_rotl 17 x" "sm3_rotl x 19 = word_rotl 19 x"
  "sm3_rotl x (int j) = word_rotl (j mod 32) x"
  by (simp_all add: sm3_rotl_rotl nat_int_mod32)

lemma sm3_W1_nth: "j < 64 \<Longrightarrow> sm3_W1 W ! j = W ! j XOR W ! (j + 4)"
  by (simp add: sm3_W1_def)

lemma sm3_round1_ref:
  assumes "j < 16"
  shows "sm3_round1 W (sm3_W1 W) r j = sm3_ref_round W r j"
proof -
  obtain A B C D E F G H where r: "r = (A, B, C, D, E, F, G, H)"
    by (cases r) auto
  have j: "j < 64" using assms by simp
  show ?thesis
    by (simp only: r sm3_round1_def sm3_ref_round_def Let_def rotl_consts sm3_P0_def FF0_def
        GG0_def split_conv sm3_W1_nth [OF j] assms if_True xor.assoc)
qed

lemma sm3_round2_ref:
  assumes "16 \<le> j" "j < 64"
  shows "sm3_round2 W (sm3_W1 W) r j = sm3_ref_round W r j"
proof -
  obtain A B C D E F G H where r: "r = (A, B, C, D, E, F, G, H)"
    by (cases r) auto
  have j: "(j < 16) = False" using assms by simp
  show ?thesis
    by (simp only: r sm3_round2_def sm3_ref_round_def Let_def rotl_consts sm3_P0_def FF1_def
        GG1_def split_conv sm3_W1_nth [OF assms(2)] j if_False xor.assoc)
qed

lemma foldl_cong_set:
  "(\<And>a x. x \<in> set xs \<Longrightarrow> f a x = g a x) \<Longrightarrow> foldl f a xs = foldl g a xs"
  by (induction xs arbitrary: a) auto

lemma length_8: "length h = 8 \<Longrightarrow> \<exists>a b c d e f g i. h = [a, b, c, d, e, f, g, i]"
  by (auto simp: length_Suc_conv numeral_eq_Suc)

definition up64 :: "u32 list \<Rightarrow> u64 list" where
  "up64 h = map ucast h"

lemma sm3_regs_cases: "\<exists>A B C D E F G H. (r :: sm3_regs) = (A, B, C, D, E, F, G, H)"
  by (cases r) auto

lemma ucast_u32_u64_u32: "ucast (ucast (x :: u32) :: u64) = x"
  by (rule bit_word_eqI) (simp add: bit_simps)

lemma sm3_process_cf:
  assumes "sm3_state ctx = up64 h" "length h = 8"
  shows "sm3_process ctx d = ctx\<lparr>sm3_state := up64 (sm3_cf h d)\<rparr>" "length (sm3_cf h d) = 8"
proof -
  let ?W = "sm3_ref_W d"
  obtain a b c d' e f g i where h: "h = [a, b, c, d', e, f, g, i]"
    using length_8 [OF assms(2)] by blast
  have ld: "sm3_load (sm3_state ctx) = sm3_regs_of h"
    by (simp add: assms(1) h up64_def sm3_load_def sm3_regs_of_def ucast_u32_u64_u32)
  have core: "foldl (sm3_round2 ?W (sm3_W1 ?W)) (foldl (sm3_round1 ?W (sm3_W1 ?W)) r [0..<16]) [16..<64]
      = foldl (sm3_ref_round ?W) r [0..<64]" for r
  proof -
    have "[0..<16 + 48] = [0..<16] @ [16..<16 + (48::nat)]"
      by (rule upt_add_eq_append) simp
    then have split: "[0..<64] = [0..<16] @ [16..<(64::nat)]"
      by (simp only: numeral_plus_numeral add_num_simps)
    have "foldl (sm3_round1 ?W (sm3_W1 ?W)) s [0..<16] = foldl (sm3_ref_round ?W) s [0..<16]" for s
      by (rule foldl_cong_set) (simp only: set_upt atLeastLessThan_iff sm3_round1_ref)
    moreover have
      "foldl (sm3_round2 ?W (sm3_W1 ?W)) s [16..<64] = foldl (sm3_ref_round ?W) s [16..<64]" for s
      by (rule foldl_cong_set) (simp only: set_upt atLeastLessThan_iff sm3_round2_ref)
    ultimately show ?thesis
      by (simp only: split foldl_append)
  qed
  obtain A B C D E F G H where
    r: "foldl (sm3_ref_round ?W) (sm3_regs_of h) [0..<64] = (A, B, C, D, E, F, G, H)"
    using sm3_regs_cases by blast
  have "map2 (XOR) (sm3_state ctx) (up64 [A, B, C, D, E, F, G, H])
      = up64 (map2 (XOR) h [A, B, C, D, E, F, G, H])"
    by (simp add: assms(1) h up64_def unsigned_xor_eq)
  then show "sm3_process ctx d = ctx\<lparr>sm3_state := up64 (sm3_cf h d)\<rparr>"
    by (simp only: sm3_process_def sm3_W_ref Let_def ld sm3_cf_def core r split_conv
        sm3_regs_list_def up64_def list.map)
  show "length (sm3_cf h d) = 8"
    using assms(2) by (simp add: sm3_cf_def sm3_regs_list_def split: prod.split)
qed


section \<open>Streaming\<close>

lemma sm3_chain_short: "length m < 64 \<Longrightarrow> sm3_chain h m = h"
  by (simp add: sm3_chain.simps)

lemma sm3_chain_step: "length b = 64 \<Longrightarrow> sm3_chain h (b @ m) = sm3_chain (sm3_cf h b) m"
  by (subst sm3_chain.simps) simp

lemma sm3_rest_short: "length m < 64 \<Longrightarrow> sm3_rest m = m"
  by (simp add: sm3_rest_def)

lemma sm3_rest_step: "length b = 64 \<Longrightarrow> sm3_rest (b @ m) = sm3_rest m"
  using div_add_self1 [of 64 "length m"] by (simp add: sm3_rest_def)

lemma length_sm3_rest [simp]: "length (sm3_rest m) = length m mod 64"
  by (simp add: sm3_rest_def minus_mult_div_eq_mod)

lemma take_64_split: "64 \<le> length m \<Longrightarrow> \<exists>b m'. m = b @ m' \<and> length b = 64"
  by (intro exI [of _ "take 64 m"] exI [of _ "drop 64 m"]) simp

lemma sm3_chain_append:
  "sm3_chain h (m @ x) = sm3_chain (sm3_chain h m) (sm3_rest m @ x) \<and>
   sm3_rest (m @ x) = sm3_rest (sm3_rest m @ x)"
proof (induction h m rule: sm3_chain.induct)
  case (1 h m)
  show ?case
  proof (cases "64 \<le> length m")
    case True
    then obtain b m' where "m = b @ m'" "length b = 64"
      using take_64_split by blast
    with 1 True show ?thesis by (simp add: sm3_chain_step sm3_rest_step)
  next
    case False
    then show ?thesis by (simp add: sm3_chain_short sm3_rest_short)
  qed
qed

lemma length_sm3_chain: "length h = 8 \<Longrightarrow> length (sm3_chain h m) = 8"
proof (induction h m rule: sm3_chain.induct)
  case (1 h m)
  then show ?case
    using sm3_process_cf(2) [of "undefined\<lparr>sm3_state := up64 h\<rparr>" h "take 64 m"]
    by (subst sm3_chain.simps) auto
qed

lemma sm3_blocks_chain:
  assumes "sm3_state ctx = up64 h" "length h = 8"
  shows "sm3_blocks ctx m = (ctx\<lparr>sm3_state := up64 (sm3_chain h m)\<rparr>, sm3_rest m)"
  using assms
proof (induction h m arbitrary: ctx rule: sm3_chain.induct)
  case (1 h m)
  show ?case
  proof (cases "64 \<le> length m")
    case True
    then obtain b m' where "m = b @ m'" "length b = 64"
      using take_64_split by blast
    with 1 True show ?thesis
      by (subst sm3_blocks.simps) (simp add: sm3_chain_step sm3_rest_step sm3_process_cf)
  next
    case False
    then show ?thesis
      using 1 by (subst sm3_blocks.simps) (simp add: sm3_chain_short sm3_rest_short)
  qed
qed

text \<open>
  The streaming invariant: the context has absorbed exactly the bytes \<open>m\<close>.
\<close>

definition sm3_absorbed :: "bytes \<Rightarrow> sm3_context \<Rightarrow> bool" where
  "sm3_absorbed m ctx \<longleftrightarrow>
     sm3_total0 ctx = of_nat (length m mod 4294967296) \<and>
     sm3_total1 ctx = of_nat (length m div 4294967296) \<and>
     sm3_state ctx = up64 (sm3_chain sm3_IV m) \<and>
     length (sm3_buffer ctx) = 64 \<and>
     take (length m mod 64) (sm3_buffer ctx) = sm3_rest m"

lemma sm3_starts_absorbed: "length (sm3_buffer ctx) = 64 \<Longrightarrow> sm3_absorbed [] (sm3_starts ctx)"
  by (simp add: sm3_absorbed_def sm3_starts_def sm3_chain_short sm3_rest_short sm3_IV_def up64_def)

lemma mem_write_prefix:
  assumes "length buf = 64" "k + length r \<le> 64"
  shows "\<exists>buf'. mem_write buf k r = Ok buf' \<and> length buf' = 64 \<and>
           take (k + length r) buf' = take k buf @ r"
  using assms by (simp add: mem_write_def)

lemma total0_low:
  assumes "n < 4294967296"
  shows "unat ((of_nat n :: u64) AND 0x3F) = n mod 64"
proof -
  have "(0x3F :: u64) = mask 6" by (simp add: mask_eq_exp_minus_1)
  then have "(of_nat n :: u64) AND 0x3F = take_bit 6 (of_nat n)"
    by (simp only: take_bit_eq_mask)
  moreover have "unat (take_bit 6 (of_nat n :: u64)) = take_bit 6 n"
    using assms by (simp only: unsigned_take_bit_eq) (simp add: unat_of_nat take_bit_nat_eq_self_iff)
  ultimately show ?thesis
    by (simp only: take_bit_eq_mod) simp
qed

lemma total_add:
  assumes "n < 4294967296" "k < 2147483648"
  shows "((of_nat n :: u64) + of_nat k) AND 0xFFFFFFFF = of_nat ((n + k) mod 4294967296)"
    "of_nat ((n + k) mod 4294967296) < (of_nat k :: u64) \<longleftrightarrow> 4294967296 \<le> n + k"
proof -
  have "(0xFFFFFFFF :: u64) = mask 32" by (simp add: mask_eq_exp_minus_1)
  then have "((of_nat n :: u64) + of_nat k) AND 0xFFFFFFFF = take_bit 32 (of_nat (n + k))"
    by (simp only: take_bit_eq_mask of_nat_add)
  also have "\<dots> = of_nat (take_bit 32 (n + k))"
    by (rule bit_word_eqI) (auto simp: bit_simps simp del: of_nat_add)
  finally show "((of_nat n :: u64) + of_nat k) AND 0xFFFFFFFF = of_nat ((n + k) mod 4294967296)"
    by (simp add: take_bit_eq_mod)
  show "of_nat ((n + k) mod 4294967296) < (of_nat k :: u64) \<longleftrightarrow> 4294967296 \<le> n + k"
    using assms by (simp add: word_less_nat_alt unat_of_nat take_bit_nat_eq_self_iff mod_if) linarith
qed


lemma sm3_update_absorbs:
  assumes inv: "sm3_absorbed m ctx" and len: "nat ilen \<le> length input" "ilen < 2147483648"
  shows "\<exists>ctx'. sm3_update input ilen ctx = Ok ctx' \<and>
           sm3_absorbed (m @ take (nat ilen) input) ctx' \<and>
           sm3_ipad ctx' = sm3_ipad ctx \<and> sm3_opad ctx' = sm3_opad ctx"
proof (cases "ilen \<le> 0")
  case True
  then show ?thesis using inv by (simp add: sm3_update_def)
next
  case False
  define x where "x = take (nat ilen) input"
  define l where "l = length m mod 64"
  define h where "h = sm3_chain sm3_IV m"
  define r where "r = sm3_rest m"
  have lx: "length x = nat ilen" "ilen = int (length x)" "length x < 2147483648" "x \<noteq> []"
    using len False by (auto simp: x_def)
  have h8: "length h = 8" by (simp add: h_def length_sm3_chain sm3_IV_def)
  have st: "sm3_state ctx = up64 h" and buf: "length (sm3_buffer ctx) = 64"
    and tk: "take l (sm3_buffer ctx) = r" and lr: "length r = l" "l < 64"
    using inv by (simp_all add: sm3_absorbed_def h_def r_def l_def)
  have left: "unat (sm3_total0 ctx AND 0x3F) = l"
    using inv total0_low [of "length m mod 4294967296"] mod_mod_cancel [of 64 4294967296 "length m"]
    by (simp add: sm3_absorbed_def l_def)
  define t0 where "t0 = (sm3_total0 ctx + of_int ilen) AND 0xFFFFFFFF"
  define t1 where "t1 = (if t0 < of_int ilen then sm3_total1 ctx + 1 else sm3_total1 ctx)"
  have mx: "sm3_chain sm3_IV (m @ x) = sm3_chain h (r @ x)" "sm3_rest (m @ x) = sm3_rest (r @ x)"
    using sm3_chain_append by (simp_all add: h_def r_def)
  have t: "t0 = of_nat (length (m @ x) mod 4294967296)" "t1 = of_nat (length (m @ x) div 4294967296)"
  proof -
    let ?n = "length m mod 4294967296"
    have s0: "sm3_total0 ctx = of_nat ?n" "sm3_total1 ctx = of_nat (length m div 4294967296)"
      using inv by (simp_all add: sm3_absorbed_def)
    have i: "of_int ilen = (of_nat (length x) :: u64)" using lx(2) by simp
    have n: "?n < 4294967296" by simp
    show t0: "t0 = of_nat (length (m @ x) mod 4294967296)"
      unfolding t0_def s0 i total_add(1) [OF n lx(3)] by (simp add: mod_simps)
    have "t0 = of_nat ((?n + length x) mod 4294967296)"
      unfolding t0 by (simp add: mod_simps)
    then have "t0 < of_int ilen \<longleftrightarrow> 4294967296 \<le> ?n + length x"
      unfolding i using total_add(2) [OF n lx(3)] by simp
    moreover have "length (m @ x) div 4294967296
        = length m div 4294967296 + (if 4294967296 \<le> ?n + length x then 1 else 0)"
    proof -
      have q: "(?n + length x) div 4294967296 = (if 4294967296 \<le> ?n + length x then 1 else 0)"
        using lx(3) mod_less_divisor [of 4294967296 "length m"] by (auto intro: div_nat_eqI)
      show ?thesis
        using lx(3) unfolding length_append div_add1_eq [of "length m" "length x"] q [symmetric]
        by simp
    qed
    ultimately show "t1 = of_nat (length (m @ x) div 4294967296)"
      unfolding t1_def s0 by simp
  qed
  have rd: "mem_read input 0 (nat ilen) = Ok x"
    using len by (simp add: mem_read_def x_def)
  let ?c = "ctx\<lparr>sm3_total0 := t0, sm3_total1 := t1\<rparr>"
  have tail: "\<exists>ctx'. (let (c3, rest) = sm3_blocks c y
        in if 0 < length rest
           then res_bind (mem_write (sm3_buffer c3) k rest) (\<lambda>b. Ok (c3\<lparr>sm3_buffer := b\<rparr>))
           else Ok c3) = Ok ctx' \<and> sm3_absorbed (m @ x) ctx' \<and>
           sm3_ipad ctx' = sm3_ipad ctx \<and> sm3_opad ctx' = sm3_opad ctx"
    if c: "c = ?c\<lparr>sm3_state := up64 g, sm3_buffer := b\<rparr>" "length g = 8" "length b = 64"
      and y: "sm3_chain h (r @ x) = sm3_chain g y" "sm3_rest (r @ x) = take k b @ sm3_rest y"
        "k + length (sm3_rest y) < 64" for c g b y k
  proof -
    have b: "sm3_blocks c y = (c\<lparr>sm3_state := up64 (sm3_chain g y)\<rparr>, sm3_rest y)"
      using c by (intro sm3_blocks_chain) simp_all
    have "k \<le> 64" using y(3) by simp
    have l2: "length (m @ x) mod 64 = k + length (sm3_rest y)"
    proof -
      have "length (m @ x) mod 64 = length (sm3_rest (m @ x))" by simp
      also have "\<dots> = k + length (sm3_rest y)"
        unfolding mx y(2) using c(3) \<open>k \<le> 64\<close> by (simp del: length_sm3_rest)
      finally show ?thesis .
    qed
    obtain b' where b': "mem_write b k (sm3_rest y) = Ok b'" "length b' = 64"
      "take (k + length (sm3_rest y)) b' = take k b @ sm3_rest y"
      using mem_write_prefix [OF c(3), of k "sm3_rest y"] y(3) by auto
    show ?thesis
    proof (cases "sm3_rest y = []")
      case True
      then show ?thesis
        unfolding b using c y t l2 mx by (simp add: sm3_absorbed_def)
    next
      case False
      then show ?thesis
        unfolding b using c y t l2 mx b' by (simp add: sm3_absorbed_def)
    qed
  qed
  have upd: "sm3_update input ilen ctx =
      res_bind
           (if l \<noteq> 0 \<and> 64 - int l \<le> ilen
            then res_bind (mem_write (sm3_buffer ?c) l (take (nat (64 - int l)) x)) (\<lambda>buf.
                 Ok (sm3_process (?c\<lparr>sm3_buffer := buf\<rparr>) buf, drop (nat (64 - int l)) x, 0))
            else Ok (?c, x, l)) (\<lambda>(ctx2, inp2, left2).
         let (ctx3, rest) = sm3_blocks ctx2 inp2
         in if 0 < length rest
            then res_bind (mem_write (sm3_buffer ctx3) left2 rest) (\<lambda>buf.
                 Ok (ctx3\<lparr>sm3_buffer := buf\<rparr>))
            else Ok ctx3)"
    using False
    by (cases "l = 0") (simp_all add: sm3_update_def Let_def left rd t0_def [symmetric] t1_def [symmetric])
  show ?thesis
    unfolding x_def [symmetric]
  proof (cases "l \<noteq> 0 \<and> 64 - int l \<le> ilen")
    case True
    define f where "f = 64 - l"
    have f: "nat (64 - int l) = f" "f \<le> length x" "l + f = 64"
      using True lx(2) lr by (auto simp add: f_def nat_diff_distrib)
    obtain b where b: "mem_write (sm3_buffer ctx) l (take f x) = Ok b" "length b = 64"
      "take 64 b = r @ take f x"
      using mem_write_prefix [OF buf, of l "take f x"] f tk by auto
    then have b64: "b = r @ take f x" by simp
    have "r @ x = b @ drop f x" by (simp add: b64)
    then have y: "sm3_chain h (r @ x) = sm3_chain (sm3_cf h b) (drop f x)"
      "sm3_rest (r @ x) = take 0 b @ sm3_rest (drop f x)"
      using b(2) by (simp_all only: sm3_chain_step sm3_rest_step take_0 append_Nil)
    have "sm3_process (?c\<lparr>sm3_buffer := b\<rparr>) b = ?c\<lparr>sm3_state := up64 (sm3_cf h b), sm3_buffer := b\<rparr>"
      "length (sm3_cf h b) = 8"
      using sm3_process_cf [of "?c\<lparr>sm3_buffer := b\<rparr>" h b] st h8 by simp_all
    note proc = this
    have "\<exists>ctx'. (let (c3, rest) = sm3_blocks (sm3_process (?c\<lparr>sm3_buffer := b\<rparr>) b) (drop f x)
        in if 0 < length rest
           then res_bind (mem_write (sm3_buffer c3) 0 rest) (\<lambda>b. Ok (c3\<lparr>sm3_buffer := b\<rparr>))
           else Ok c3) = Ok ctx' \<and> sm3_absorbed (m @ x) ctx' \<and>
           sm3_ipad ctx' = sm3_ipad ctx \<and> sm3_opad ctx' = sm3_opad ctx"
      by (rule tail [OF proc b(2) y]) simp
    then show "\<exists>ctx'. sm3_update input ilen ctx = Ok ctx' \<and> sm3_absorbed (m @ x) ctx' \<and>
           sm3_ipad ctx' = sm3_ipad ctx \<and> sm3_opad ctx' = sm3_opad ctx"
      unfolding upd f(1) using True by (simp add: b(1))
  next
    case False
    have c: "?c = ?c\<lparr>sm3_state := up64 h, sm3_buffer := sm3_buffer ctx\<rparr>"
      using st by simp
    have small: "length (r @ x) < 64" if "l \<noteq> 0"
      using False that lx(2) lr by auto
    have r0: "r = []" if "l = 0"
      using lr that by simp
    have y: "sm3_chain h (r @ x) = sm3_chain h x"
      "sm3_rest (r @ x) = take l (sm3_buffer ctx) @ sm3_rest x" "l + length (sm3_rest x) < 64"
      using small r0 lr tk by (cases "l = 0"; simp add: sm3_chain_short sm3_rest_short)+
    have "\<exists>ctx'. (let (c3, rest) = sm3_blocks ?c x
        in if 0 < length rest
           then res_bind (mem_write (sm3_buffer c3) l rest) (\<lambda>b. Ok (c3\<lparr>sm3_buffer := b\<rparr>))
           else Ok c3) = Ok ctx' \<and> sm3_absorbed (m @ x) ctx' \<and>
           sm3_ipad ctx' = sm3_ipad ctx \<and> sm3_opad ctx' = sm3_opad ctx"
      by (rule tail [OF c h8 buf y])
    then show "\<exists>ctx'. sm3_update input ilen ctx = Ok ctx' \<and> sm3_absorbed (m @ x) ctx' \<and>
           sm3_ipad ctx' = sm3_ipad ctx \<and> sm3_opad ctx' = sm3_opad ctx"
      unfolding upd if_not_P [OF False] by simp
  qed
qed

section \<open>Digest\<close>

lemma sm3_msglen_bits:
  assumes "sm3_absorbed m ctx" "length m < 2305843009213693952"
  shows "sm3_msglen ctx = put_be32 (of_nat (8 * length m div 4294967296)) @ put_be32 (of_nat (8 * length m))"
proof -
  define n where "n = length m"
  have s: "sm3_total0 ctx = of_nat (take_bit 32 n)" "sm3_total1 ctx = of_nat (drop_bit 32 n)"
    using assms by (simp_all add: sm3_absorbed_def n_def take_bit_eq_mod drop_bit_eq_div)
  have e: "8 * n div 4294967296 = drop_bit 29 n" "8 * n = push_bit 3 n"
    by (simp_all add: drop_bit_eq_div push_bit_eq_mult)
  have "ucast (drop_bit 29 (sm3_total0 ctx) OR push_bit 3 (sm3_total1 ctx)) = (of_nat (drop_bit 29 n) :: u32)"
    unfolding s by (rule bit_word_eqI) (auto simp: bit_simps)
  moreover have "ucast (push_bit 3 (sm3_total0 ctx)) = (of_nat (push_bit 3 n) :: u32)"
    unfolding s by (rule bit_word_eqI) (auto simp: bit_simps)
  ultimately show ?thesis
    by (simp only: sm3_msglen_def Let_def n_def [symmetric] e(1)) (simp only: e(2))
qed

lemma sm3_output_up: "sm3_output (up64 h) = concat (map put_be32 h)"
  by (simp add: sm3_output_def up64_def comp_def ucast_u32_u64_u32)

lemma pad_count:
  assumes "l < 64"
  shows "(119 - l) mod 64 = (if l < 56 then 56 - l else 120 - l) - (1::nat)"
proof (cases "l < 56")
  case True
  then have "119 - l = (55 - l) + 64" by simp
  then have "(119 - l) mod 64 = 55 - l" using True by (simp only: mod_add_self2) simp
  then show ?thesis using True by simp
next
  case False
  then show ?thesis using assms by simp
qed

lemma sm3_finish_digest:
  assumes inv: "sm3_absorbed m ctx" and len: "length m < 2305843009213693952"
  shows "\<exists>ctx'. sm3_finish ctx = Ok (ctx', sm3_digest m) \<and> length (sm3_buffer ctx') = 64 \<and>
           sm3_ipad ctx' = sm3_ipad ctx \<and> sm3_opad ctx' = sm3_opad ctx"
proof -
  let ?l = "length m mod 64"
  define p where "p = (if ?l < 56 then 56 - ?l else 120 - ?l)"
  have p: "0 < p" "p \<le> 64" "(119 - ?l) mod 64 = p - 1"
  proof -
    show "0 < p" "p \<le> 64" by (auto simp: p_def)
    have "?l < 64" by simp
    then show "(119 - ?l) mod 64 = p - 1" by (simp only: pad_count p_def)
  qed
  have left: "unat (sm3_total0 ctx AND 0x3F) = ?l"
    using inv total0_low [of "length m mod 4294967296"] mod_mod_cancel [of 64 4294967296 "length m"]
    by (simp add: sm3_absorbed_def)
  have tp: "take p sm3_padding = 0x80 # replicate (p - 1) 0"
    using p by (cases p) (simp_all add: sm3_padding_def take_replicate min_def)
  obtain c1 where c1: "sm3_update sm3_padding (int p) ctx = Ok c1"
    "sm3_absorbed (m @ take p sm3_padding) c1" "sm3_ipad c1 = sm3_ipad ctx" "sm3_opad c1 = sm3_opad ctx"
    using sm3_update_absorbs [OF inv, of "int p" sm3_padding] p by (auto simp: sm3_padding_def)
  let ?ml = "put_be32 (of_nat (8 * length m div 4294967296)) @ put_be32 (of_nat (8 * length m))"
  obtain c2 where c2: "sm3_update ?ml 8 c1 = Ok c2" "sm3_absorbed ((m @ take p sm3_padding) @ ?ml) c2"
    "sm3_ipad c2 = sm3_ipad ctx" "sm3_opad c2 = sm3_opad ctx"
    using sm3_update_absorbs [OF c1(2), of 8 ?ml] c1(3,4) by (auto simp del: append_assoc of_nat_mult)
  have "(m @ take p sm3_padding) @ ?ml = m @ sm3_pad (length m)"
    unfolding tp by (simp add: sm3_pad_def p)
  then have "sm3_output (sm3_state c2) = sm3_digest m"
    using c2(2) by (simp add: sm3_absorbed_def sm3_digest_def sm3_output_up)
  then have "sm3_finish ctx = Ok (c2, sm3_digest m)"
    unfolding sm3_finish_def Let_def left sm3_msglen_bits [OF inv len] p_def [symmetric]
    by (simp only: c1(1) c2(1) res_bind.simps)
  then show ?thesis
    using c2 by (simp add: sm3_absorbed_def)
qed

lemma sm3_Ok:
  assumes "length (sm3_buffer ctx0) = 64" "nat ilen \<le> length input" "ilen < 2147483648"
  shows "sm3 ctx0 input ilen = Ok (sm3_digest (take (nat ilen) input))"
proof -
  obtain c where c: "sm3_update input ilen (sm3_starts ctx0) = Ok c"
    "sm3_absorbed (take (nat ilen) input) c"
    using sm3_update_absorbs [OF sm3_starts_absorbed [OF assms(1)] assms(2,3)] by auto
  have len: "length (take (nat ilen) input) < 2305843009213693952"
    using assms(3) by (simp add: min_def) linarith
  obtain c' where "sm3_finish c = Ok (c', sm3_digest (take (nat ilen) input))"
    using sm3_finish_digest [OF c(2)] len by auto
  then show ?thesis using c(1) by (simp add: sm3_def)
qed

lemma length_sm3_digest: "length (sm3_digest m) = 32"
proof -
  have "length (concat (map put_be32 h)) = 4 * length h" for h
    by (induction h) simp_all
  then show ?thesis
    by (simp add: sm3_digest_def length_sm3_chain sm3_IV_def)
qed

lemma sm3_hmac_Ok:
  assumes "length (sm3_buffer ctx0) = 64"
    "nat keylen \<le> length key" "keylen < 2147483648"
    "nat ilen \<le> length input" "ilen < 2147483648"
  shows "sm3_hmac ctx0 key keylen input ilen
       = Ok (hmac_sm3 (take (nat keylen) key) (take (nat ilen) input))"
proof -
  define k where "k = take (nat keylen) key"
  define x where "x = take (nat ilen) input"
  define k' where "k' = (if 64 < length k then sm3_digest k else k)"
  have lk: "length k = nat keylen" using assms by (simp add: k_def)
  have lk': "length k' \<le> 64" by (simp add: k'_def length_sm3_digest)
  define pad where "pad c = map2 (XOR) k' (replicate (length k') c) @ replicate (64 - length k') c" for c
  have pad: "pad c = map ((XOR) c) (hmac_key k)" "length (pad c) = 64" for c
  proof -
    have "map2 (XOR) k' (replicate (length k') c) = map ((XOR) c) k'" for k' :: bytes
      by (rule nth_equalityI) (simp_all add: xor.commute)
    then show "pad c = map ((XOR) c) (hmac_key k)"
      by (simp add: pad_def hmac_key_def k'_def Let_def)
    show "length (pad c) = 64" using lk' by (simp add: pad_def)
  qed
  let ?c = "ctx0\<lparr>sm3_ipad := pad 0x36, sm3_opad := pad 0x5C\<rparr>"
  have starts: "sm3_hmac_starts ctx0 key keylen ctx0 = sm3_update (pad 0x36) 64 (sm3_starts ?c)"
  proof (cases "64 < keylen")
    case True
    then have "64 < length k" using lk by linarith
    then have "k' = sm3_digest k" by (simp add: k'_def)
    then show ?thesis
      using True assms sm3_Ok [of ctx0 keylen key]
      by (simp add: sm3_hmac_starts_def k_def [symmetric] pad_def Let_def mem_read_def length_sm3_digest)
  next
    case False
    then have "\<not> 64 < length k" using lk by linarith
    then have "k' = k" by (simp add: k'_def)
    then show ?thesis
      using False assms lk by (simp add: sm3_hmac_starts_def pad_def Let_def mem_read_def k_def)
  qed
  obtain c1 where c1: "sm3_hmac_starts ctx0 key keylen ctx0 = Ok c1"
    "sm3_absorbed (pad 0x36) c1" "sm3_opad c1 = pad 0x5C"
    using sm3_update_absorbs [OF sm3_starts_absorbed, of ?c 64 "pad 0x36"] assms(1) pad(2) starts
    by (auto simp: sm3_starts_def)
  obtain c2 where c2: "sm3_hmac_update input ilen c1 = Ok c2"
    "sm3_absorbed (pad 0x36 @ x) c2" "sm3_opad c2 = pad 0x5C"
    using sm3_update_absorbs [OF c1(2) assms(4,5)] c1(3) by (auto simp: sm3_hmac_update_def x_def)
  have lx: "length x < 2147483648" using assms by (simp add: x_def nat_less_iff)
  obtain c3 where c3: "sm3_finish c2 = Ok (c3, sm3_digest (pad 0x36 @ x))"
    "length (sm3_buffer c3) = 64" "sm3_opad c3 = pad 0x5C"
    using sm3_finish_digest [OF c2(2)] c2(3) lx pad(2) by auto
  obtain c4 where c4: "sm3_update (sm3_opad c3) 64 (sm3_starts c3) = Ok c4"
    "sm3_absorbed (pad 0x5C) c4"
    using sm3_update_absorbs [OF sm3_starts_absorbed [OF c3(2)], of 64 "pad 0x5C"] pad(2) c3(3) by auto
  let ?i = "sm3_digest (pad 0x36 @ x)"
  obtain c5 where c5: "sm3_update ?i 32 c4 = Ok c5" "sm3_absorbed (pad 0x5C @ ?i) c5"
    using sm3_update_absorbs [OF c4(2), of 32 ?i] length_sm3_digest by auto
  obtain c6 where "sm3_finish c5 = Ok (c6, sm3_digest (pad 0x5C @ ?i))"
    using sm3_finish_digest [OF c5(2)] pad(2) length_sm3_digest by auto
  then show ?thesis
    using c1 c2 c3 c4 c5
    by (simp add: sm3_hmac_def sm3_hmac_finish_def hmac_sm3_def pad(1) k_def [symmetric] x_def [symmetric])
qed

section \<open>Properties\<close>

text \<open>
  C11: the one-shot routine returns the standard's digest of the first \<open>ilen\<close> bytes for every
  input that holds them, whatever the uninitialised stack context contained.
\<close>

theorem sm3_refines_standard:
  assumes "length (sm3_buffer ctx0) = 64" "nat ilen \<le> length input" "ilen < 2147483648"
  shows "sm3 ctx0 input ilen = Ok (sm3_digest (take (nat ilen) input))"
  using assms by (rule sm3_Ok)

definition sm3_ctx_example :: sm3_context where
  "sm3_ctx_example = \<lparr>sm3_total0 = 7, sm3_total1 = 9, sm3_state = [], sm3_buffer = replicate 64 0xAA,
     sm3_ipad = replicate 64 0, sm3_opad = replicate 64 0\<rparr>"

theorem sm3_refines_standard_witness:
  "sm3 sm3_ctx_example [0x61, 0x62, 0x63] 3 = Ok (sm3_digest (take (nat 3) [0x61, 0x62, 0x63]))"
  by (rule sm3_refines_standard) (simp_all add: sm3_ctx_example_def)

text \<open>A file is hashed as the string of its bytes, in whatever pieces it is read.\<close>

lemma sm3_file_loop_absorbs:
  assumes "sm3_absorbed m ctx"
  shows "\<exists>ctx'. sm3_file_loop d ctx = Ok ctx' \<and> sm3_absorbed (m @ d) ctx'"
  using assms
proof (induction d arbitrary: m ctx rule: measure_induct_rule [of length])
  case (less d)
  show ?case
  proof (cases "d = []")
    case True
    then show ?thesis using less.prems by (simp add: sm3_file_loop.simps)
  next
    case False
    define b where "b = take 1024 d"
    have b: "length b \<le> 1024" by (simp add: b_def)
    obtain c where c: "sm3_update b (int (length b)) ctx = Ok c" "sm3_absorbed (m @ b) c"
      using sm3_update_absorbs [OF less.prems, of "int (length b)" b] b by auto
    have "\<exists>ctx'. sm3_file_loop (drop 1024 d) c = Ok ctx' \<and> sm3_absorbed ((m @ b) @ drop 1024 d) ctx'"
      using False c(2) by (intro less.IH) auto
    then show ?thesis
      using False c(1) unfolding b_def by (subst sm3_file_loop.simps) (simp add: Let_def)
  qed
qed

lemma sm3_file_digest:
  assumes "length (sm3_buffer ctx0) = 64" "length (f_bytes f) < 2305843009213693952"
  shows "sm3_file ctx0 (Some f) = Ok (if f_error f then 2 else 0, Some (sm3_digest (f_bytes f)))"
proof -
  obtain c where c: "sm3_file_loop (f_bytes f) (sm3_starts ctx0) = Ok c" "sm3_absorbed (f_bytes f) c"
    using sm3_file_loop_absorbs [OF sm3_starts_absorbed [OF assms(1)], of "f_bytes f"] by auto
  show ?thesis
    using c(1) sm3_finish_digest [OF c(2) assms(2)] by (auto simp: sm3_file_def)
qed

text \<open>
  Hashing is insensitive to how the message is cut: absorbing two pieces one after the
  other and finishing gives the digest of their concatenation, with no access outside the
  context's block buffer.
\<close>

theorem sm3_streaming:
  assumes "length (sm3_buffer ctx0) = 64" "length a < 2147483648" "length b < 2147483648"
  shows "\<exists>ctx'. res_bind (sm3_update a (int (length a)) (sm3_starts ctx0)) (\<lambda>c1.
           res_bind (sm3_update b (int (length b)) c1) sm3_finish) = Ok (ctx', sm3_digest (a @ b))"
proof -
  obtain c1 where c1: "sm3_update a (int (length a)) (sm3_starts ctx0) = Ok c1" "sm3_absorbed a c1"
    using sm3_update_absorbs [OF sm3_starts_absorbed [OF assms(1)], of "int (length a)" a] assms by auto
  obtain c2 where c2: "sm3_update b (int (length b)) c1 = Ok c2" "sm3_absorbed (a @ b) c2"
    using sm3_update_absorbs [OF c1(2), of "int (length b)" b] assms by auto
  obtain c3 where "sm3_finish c2 = Ok (c3, sm3_digest (a @ b))"
    using sm3_finish_digest [OF c2(2)] assms by auto
  then show ?thesis using c1 c2 by simp
qed

theorem sm3_streaming_witness:
  "\<exists>ctx'. res_bind (sm3_update [1, 2] (int (length [1::u8, 2])) (sm3_starts sm3_ctx_example)) (\<lambda>c1.
     res_bind (sm3_update (replicate 70 3) (int (length (replicate 70 (3::u8)))) c1) sm3_finish)
     = Ok (ctx', sm3_digest ([1, 2] @ replicate 70 3))"
  by (rule sm3_streaming) (simp_all add: sm3_ctx_example_def)

text \<open>
  C34: \<open>sm3_hmac\<close> is HMAC over SM3, for keys of every length (a key longer than a block is
  hashed first), and never leaves the context's arrays.
\<close>

theorem sm3_hmac_refines:
  assumes "length (sm3_buffer ctx0) = 64"
    "nat keylen \<le> length key" "keylen < 2147483648"
    "nat ilen \<le> length input" "ilen < 2147483648"
  shows "sm3_hmac ctx0 key keylen input ilen
       = Ok (hmac_sm3 (take (nat keylen) key) (take (nat ilen) input))"
  using assms by (rule sm3_hmac_Ok)

theorem sm3_hmac_refines_witness:
  "sm3_hmac sm3_ctx_example (replicate 80 5) 80 [1, 2, 3, 4] 3
     = Ok (hmac_sm3 (take (nat 80) (replicate 80 5)) (take (nat 3) [1, 2, 3, 4]))"
  by (rule sm3_hmac_refines) (simp_all add: sm3_ctx_example_def)

end
