(* ===== verification/Sm4.thy ===== *)
theory Sm4
  imports Prelude
begin

text \<open>
  The SM4 block cipher of src/sign/testSdk/extern/sm4.c, which the command layer uses to
  encrypt keys and file contents under the transport key.

  The C code keeps its 32-bit quantities in \<open>unsigned long\<close>. The library is built for a
  64-bit target (bin/libHed_SDK.so is an ELF64 aarch64 object), where \<open>unsigned long\<close> has
  64 bits and the macro ROTL leaves bits above position 31 behind: the model computes with
  \<open>64 word\<close> exactly as written. The reference computes on \<open>32 word\<close> with rotations; the
  refinement shows that the junk never reaches the output.
\<close>

section \<open>Code\<close>

definition SM4_ENCRYPT :: int where "SM4_ENCRYPT = 1"
definition SM4_DECRYPT :: int where "SM4_DECRYPT = 0"

record sm4_context =
  ctx_mode :: int
  ctx_sk :: "u64 list"

definition get_ulong_be :: "bytes \<Rightarrow> nat \<Rightarrow> u64" where
  "get_ulong_be b i =
     push_bit 24 (ucast (b ! i)) OR push_bit 16 (ucast (b ! (i + 1)))
       OR push_bit 8 (ucast (b ! (i + 2))) OR ucast (b ! (i + 3))"

definition put_ulong_be :: "u64 \<Rightarrow> bytes" where
  "put_ulong_be n = [ucast (drop_bit 24 n), ucast (drop_bit 16 n), ucast (drop_bit 8 n), ucast n]"

definition sm4_rotl :: "u64 \<Rightarrow> nat \<Rightarrow> u64" where
  "sm4_rotl x n = push_bit n (x AND 0xFFFFFFFF) OR drop_bit (32 - n) x"

definition SboxTable :: "bytes list" where
  "SboxTable =
   [[0xd6,0x90,0xe9,0xfe,0xcc,0xe1,0x3d,0xb7,0x16,0xb6,0x14,0xc2,0x28,0xfb,0x2c,0x05],
    [0x2b,0x67,0x9a,0x76,0x2a,0xbe,0x04,0xc3,0xaa,0x44,0x13,0x26,0x49,0x86,0x06,0x99],
    [0x9c,0x42,0x50,0xf4,0x91,0xef,0x98,0x7a,0x33,0x54,0x0b,0x43,0xed,0xcf,0xac,0x62],
    [0xe4,0xb3,0x1c,0xa9,0xc9,0x08,0xe8,0x95,0x80,0xdf,0x94,0xfa,0x75,0x8f,0x3f,0xa6],
    [0x47,0x07,0xa7,0xfc,0xf3,0x73,0x17,0xba,0x83,0x59,0x3c,0x19,0xe6,0x85,0x4f,0xa8],
    [0x68,0x6b,0x81,0xb2,0x71,0x64,0xda,0x8b,0xf8,0xeb,0x0f,0x4b,0x70,0x56,0x9d,0x35],
    [0x1e,0x24,0x0e,0x5e,0x63,0x58,0xd1,0xa2,0x25,0x22,0x7c,0x3b,0x01,0x21,0x78,0x87],
    [0xd4,0x00,0x46,0x57,0x9f,0xd3,0x27,0x52,0x4c,0x36,0x02,0xe7,0xa0,0xc4,0xc8,0x9e],
    [0xea,0xbf,0x8a,0xd2,0x40,0xc7,0x38,0xb5,0xa3,0xf7,0xf2,0xce,0xf9,0x61,0x15,0xa1],
    [0xe0,0xae,0x5d,0xa4,0x9b,0x34,0x1a,0x55,0xad,0x93,0x32,0x30,0xf5,0x8c,0xb1,0xe3],
    [0x1d,0xf6,0xe2,0x2e,0x82,0x66,0xca,0x60,0xc0,0x29,0x23,0xab,0x0d,0x53,0x4e,0x6f],
    [0xd5,0xdb,0x37,0x45,0xde,0xfd,0x8e,0x2f,0x03,0xff,0x6a,0x72,0x6d,0x6c,0x5b,0x51],
    [0x8d,0x1b,0xaf,0x92,0xbb,0xdd,0xbc,0x7f,0x11,0xd9,0x5c,0x41,0x1f,0x10,0x5a,0xd8],
    [0x0a,0xc1,0x31,0x88,0xa5,0xcd,0x7b,0xbd,0x2d,0x74,0xd0,0x12,0xb8,0xe5,0xb4,0xb0],
    [0x89,0x69,0x97,0x4a,0x0c,0x96,0x77,0x7e,0x65,0xb9,0xf1,0x09,0xc5,0x6e,0xc6,0x84],
    [0x18,0xf0,0x7d,0xec,0x3a,0xdc,0x4d,0x20,0x79,0xee,0x5f,0x3e,0xd7,0xcb,0x39,0x48]]"

definition FK :: "u64 list" where
  "FK = [0xa3b1bac6, 0x56aa3350, 0x677d9197, 0xb27022dc]"

definition CK :: "u64 list" where
  "CK =
   [0x00070e15,0x1c232a31,0x383f464d,0x545b6269,
    0x70777e85,0x8c939aa1,0xa8afb6bd,0xc4cbd2d9,
    0xe0e7eef5,0xfc030a11,0x181f262d,0x343b4249,
    0x50575e65,0x6c737a81,0x888f969d,0xa4abb2b9,
    0xc0c7ced5,0xdce3eaf1,0xf8ff060d,0x141b2229,
    0x30373e45,0x4c535a61,0x686f767d,0x848b9299,
    0xa0a7aeb5,0xbcc3cad1,0xd8dfe6ed,0xf4fb0209,
    0x10171e25,0x2c333a41,0x484f565d,0x646b7279]"

definition sm4Sbox :: "u8 \<Rightarrow> u8" where
  "sm4Sbox inch = concat SboxTable ! unat inch"

definition sm4Lt :: "u64 \<Rightarrow> u64" where
  "sm4Lt ka =
     (let a = put_ulong_be ka;
          b = map sm4Sbox a;
          bb = get_ulong_be b 0
      in bb XOR sm4_rotl bb 2 XOR sm4_rotl bb 10 XOR sm4_rotl bb 18 XOR sm4_rotl bb 24)"

definition sm4F :: "u64 \<Rightarrow> u64 \<Rightarrow> u64 \<Rightarrow> u64 \<Rightarrow> u64 \<Rightarrow> u64" where
  "sm4F x0 x1 x2 x3 rk = x0 XOR sm4Lt (x1 XOR x2 XOR x3 XOR rk)"

definition sm4CalciRK :: "u64 \<Rightarrow> u64" where
  "sm4CalciRK ka =
     (let a = put_ulong_be ka;
          b = map sm4Sbox a;
          bb = get_ulong_be b 0
      in bb XOR sm4_rotl bb 13 XOR sm4_rotl bb 23)"

text \<open>
  The arrays \<open>k[36]\<close> and \<open>ulbuf[36]\<close> are filled in order; the lists of the model grow by
  the element each iteration stores.
\<close>

definition sm4_setkey_body :: "u64 list \<Rightarrow> nat \<Rightarrow> u64 list" where
  "sm4_setkey_body k i =
     k @ [k ! i XOR sm4CalciRK (k ! (i + 1) XOR k ! (i + 2) XOR k ! (i + 3) XOR CK ! i)]"

definition sm4_setkey :: "bytes \<Rightarrow> u64 list" where
  "sm4_setkey key =
     (let MK = map (get_ulong_be key) [0, 4, 8, 12];
          k = map2 (XOR) MK FK
      in drop 4 (foldl sm4_setkey_body k [0..<32]))"

definition sm4_round_body :: "u64 list \<Rightarrow> u64 list \<Rightarrow> nat \<Rightarrow> u64 list" where
  "sm4_round_body sk ulbuf i =
     ulbuf @ [sm4F (ulbuf ! i) (ulbuf ! (i + 1)) (ulbuf ! (i + 2)) (ulbuf ! (i + 3)) (sk ! i)]"

definition sm4_one_round :: "u64 list \<Rightarrow> bytes \<Rightarrow> bytes" where
  "sm4_one_round sk input =
     (let ulbuf = foldl (sm4_round_body sk) (map (get_ulong_be input) [0, 4, 8, 12]) [0..<32]
      in put_ulong_be (ulbuf ! 35) @ put_ulong_be (ulbuf ! 34) @
         put_ulong_be (ulbuf ! 33) @ put_ulong_be (ulbuf ! 32))"

definition sm4_setkey_enc :: "bytes \<Rightarrow> sm4_context \<Rightarrow> sm4_context" where
  "sm4_setkey_enc key ctx = ctx\<lparr>ctx_mode := SM4_ENCRYPT, ctx_sk := sm4_setkey key\<rparr>"

definition swap_at :: "nat \<Rightarrow> nat \<Rightarrow> 'a list \<Rightarrow> 'a list" where
  "swap_at i j xs = xs[i := xs ! j, j := xs ! i]"

definition sm4_setkey_dec :: "bytes \<Rightarrow> sm4_context \<Rightarrow> sm4_context" where
  "sm4_setkey_dec key ctx =
     ctx\<lparr>ctx_mode := SM4_ENCRYPT,
         ctx_sk := foldl (\<lambda>sk i. swap_at i (31 - i) sk) (sm4_setkey key) [0..<16]\<rparr>"

text \<open>
  ECB and CBC walk the buffers in steps of 16 bytes until the signed length is no longer
  positive: the last block is always processed as a whole, so a buffer shorter than the
  length rounded up to 16 is read and written past its end.
\<close>

function sm4_crypt_ecb :: "sm4_context \<Rightarrow> int \<Rightarrow> int \<Rightarrow> bytes \<Rightarrow> bytes res" where
  "sm4_crypt_ecb ctx mode len input =
     (if 0 < len
      then res_bind (mem_read input 0 16) (\<lambda>blk.
           res_bind (sm4_crypt_ecb ctx mode (len - 16) (drop 16 input)) (\<lambda>rest.
           Ok (sm4_one_round (ctx_sk ctx) blk @ rest)))
      else Ok [])"
  by pat_completeness auto
termination
  by (relation "measure (\<lambda>(ctx, mode, len, input). nat len)") auto

definition xor16 :: "bytes \<Rightarrow> bytes \<Rightarrow> bytes" where
  "xor16 a b = map (\<lambda>i. a ! i XOR b ! i) [0..<16]"

function sm4_crypt_cbc ::
  "sm4_context \<Rightarrow> int \<Rightarrow> int \<Rightarrow> bytes \<Rightarrow> bytes \<Rightarrow> (bytes \<times> bytes) res" where
  "sm4_crypt_cbc ctx mode len iv input =
     (if 0 < len
      then res_bind (mem_read input 0 16) (\<lambda>blk.
           let out = (if mode = SM4_ENCRYPT then sm4_one_round (ctx_sk ctx) (xor16 blk iv)
                      else xor16 (sm4_one_round (ctx_sk ctx) blk) iv);
               iv' = (if mode = SM4_ENCRYPT then out else blk)
           in res_bind (sm4_crypt_cbc ctx mode (len - 16) iv' (drop 16 input)) (\<lambda>(ivn, rest).
              Ok (ivn, out @ rest)))
      else Ok (iv, []))"
  by pat_completeness auto
termination
  by (relation "measure (\<lambda>(ctx, mode, len, iv, input). nat len)") auto

declare sm4_crypt_ecb.simps [simp del] sm4_crypt_cbc.simps [simp del]

section \<open>Reference cipher on 32-bit words\<close>

definition sm4_tau :: "u32 \<Rightarrow> u32" where
  "sm4_tau x = get_be32 (map sm4Sbox (put_be32 x)) 0"

definition sm4_T :: "u32 \<Rightarrow> u32" where
  "sm4_T x = (let b = sm4_tau x
              in b XOR word_rotl 2 b XOR word_rotl 10 b XOR word_rotl 18 b XOR word_rotl 24 b)"

definition sm4_T' :: "u32 \<Rightarrow> u32" where
  "sm4_T' x = (let b = sm4_tau x in b XOR word_rotl 13 b XOR word_rotl 23 b)"

type_synonym quad = "u32 \<times> u32 \<times> u32 \<times> u32"

definition sm4_fstep :: "quad \<Rightarrow> u32 \<Rightarrow> quad" where
  "sm4_fstep = (\<lambda>(x0, x1, x2, x3) rk. (x1, x2, x3, x0 XOR sm4_T (x1 XOR x2 XOR x3 XOR rk)))"

definition sm4_load :: "bytes \<Rightarrow> quad" where
  "sm4_load b = (get_be32 b 0, get_be32 b 4, get_be32 b 8, get_be32 b 12)"

definition sm4_store_rev :: "quad \<Rightarrow> bytes" where
  "sm4_store_rev = (\<lambda>(x0, x1, x2, x3). put_be32 x3 @ put_be32 x2 @ put_be32 x1 @ put_be32 x0)"

definition rev4 :: "quad \<Rightarrow> quad" where
  "rev4 = (\<lambda>(x0, x1, x2, x3). (x3, x2, x1, x0))"

definition sm4_block :: "u32 list \<Rightarrow> bytes \<Rightarrow> bytes" where
  "sm4_block rks b = sm4_store_rev (foldl sm4_fstep (sm4_load b) rks)"

definition sm4_kstep :: "quad \<Rightarrow> u32 \<Rightarrow> quad" where
  "sm4_kstep = (\<lambda>(x0, x1, x2, x3) ck. (x1, x2, x3, x0 XOR sm4_T' (x1 XOR x2 XOR x3 XOR ck)))"

fun sm4_keys :: "quad \<Rightarrow> u32 list \<Rightarrow> u32 list" where
  "sm4_keys s [] = []"
| "sm4_keys s (ck # cks) =
     (let s' = sm4_kstep s ck in snd (snd (snd s')) # sm4_keys s' cks)"

definition sm4_ref_keys :: "bytes \<Rightarrow> u32 list" where
  "sm4_ref_keys key =
     sm4_keys (get_be32 key 0 XOR 0xa3b1bac6, get_be32 key 4 XOR 0x56aa3350,
               get_be32 key 8 XOR 0x677d9197, get_be32 key 12 XOR 0xb27022dc)
              (map ucast CK)"

section \<open>The 64-bit code computes the reference\<close>

abbreviation low32 :: "u64 \<Rightarrow> u32" where "low32 x \<equiv> ucast x"

lemma put_ulong_be_low: "put_ulong_be n = put_be32 (low32 n)"
  by (auto simp: put_ulong_be_def put_be32_def intro!: bit_word_eqI simp: bit_simps)

lemma get_ulong_be_low: "low32 (get_ulong_be b i) = get_be32 b i"
  by (rule bit_word_eqI) (auto simp: get_ulong_be_def get_be32_def bit_simps)

lemma get_ulong_be_up: "get_ulong_be b i = ucast (get_be32 b i)"
  by (rule bit_word_eqI)
     (auto simp: get_ulong_be_def get_be32_def bit_simps less_diff_conv2
           dest: bit_imp_le_length)

lemma sm4_rotl_low:
  assumes "0 < n" "n < 32"
  shows "low32 (sm4_rotl (ucast x) n) = word_rotl n x"
proof (rule bit_word_eqI)
  fix k assume "k < LENGTH(32)"
  then have k: "k < 32" by simp
  have m: "0xFFFFFFFF = (mask 32 :: u64)"
    by (simp add: mask_eq_exp_minus_1)
  have "bit (low32 (sm4_rotl (ucast x) n)) k =
      (n \<le> k \<and> bit x (k - n) \<or> bit x (32 - n + k))"
    using k assms by (auto simp: sm4_rotl_def m bit_simps impossible_bit)
  also have "\<dots> = bit x (if k < n then k + (32 - n) else k - n)"
    using assms by (auto simp: impossible_bit add.commute)
  finally show "bit (low32 (sm4_rotl (ucast x) n)) k = bit (word_rotl n x) k"
    by (simp only: bit_rotl32 [OF k assms])
qed

lemma low32_ucast [simp]: "low32 (ucast (x :: u32)) = x"
  by (rule bit_word_eqI) (simp add: bit_simps)

lemma sm4Lt_low: "low32 (sm4Lt ka) = sm4_T (low32 ka)"
  by (simp add: sm4Lt_def sm4_T_def sm4_tau_def put_ulong_be_low get_ulong_be_up Let_def
        unsigned_xor_eq sm4_rotl_low)

lemma sm4CalciRK_low: "low32 (sm4CalciRK ka) = sm4_T' (low32 ka)"
  by (simp add: sm4CalciRK_def sm4_T'_def sm4_tau_def put_ulong_be_low get_ulong_be_up Let_def
        unsigned_xor_eq sm4_rotl_low)

lemma sm4F_low:
  "low32 (sm4F x0 x1 x2 x3 rk)
     = low32 x0 XOR sm4_T (low32 x1 XOR low32 x2 XOR low32 x3 XOR low32 rk)"
  by (simp add: sm4F_def sm4Lt_low unsigned_xor_eq)

text \<open>
  The window of the last four words of the growing array is the Feistel state.
\<close>

definition window :: "u64 list \<Rightarrow> nat \<Rightarrow> quad" where
  "window b i = (low32 (b ! i), low32 (b ! (i + 1)), low32 (b ! (i + 2)), low32 (b ! (i + 3)))"

lemma length_sm4_round_body: "length (sm4_round_body sk b i) = Suc (length b)"
  by (simp add: sm4_round_body_def)

lemma sm4_round_loop_window:
  assumes "length b = 4" "n \<le> length sk"
  shows "length (foldl (sm4_round_body sk) b [0..<n]) = n + 4 \<and>
         window (foldl (sm4_round_body sk) b [0..<n]) n
           = foldl sm4_fstep (window b 0) (map low32 (take n sk))"
  using assms(2)
proof (induction n)
  case 0
  then show ?case using assms(1) by simp
next
  case (Suc n)
  let ?b = "foldl (sm4_round_body sk) b [0..<n]"
  from Suc have len: "length ?b = n + 4"
    and win: "window ?b n = foldl sm4_fstep (window b 0) (map low32 (take n sk))" by auto
  have "window (sm4_round_body sk ?b n) (Suc n) = sm4_fstep (window ?b n) (low32 (sk ! n))"
    using len by (simp add: window_def sm4_round_body_def sm4_fstep_def nth_append sm4F_low
          eval_nat_numeral)
  then show ?case
    using Suc.prems win len
    by (simp add: take_Suc_conv_app_nth length_sm4_round_body)
qed

lemma sm4_one_round_ref:
  assumes "32 \<le> length sk"
  shows "sm4_one_round sk input = sm4_block (map low32 (take 32 sk)) input"
proof -
  let ?start = "map (get_ulong_be input) [0, 4, 8, 12]"
  let ?b = "foldl (sm4_round_body sk) ?start [0..<32]"
  have win: "window ?b 32 = foldl sm4_fstep (window ?start 0) (map low32 (take 32 sk))"
    using sm4_round_loop_window [of ?start 32 sk] assms by simp
  have "window ?start 0 = sm4_load input"
    by (simp add: window_def sm4_load_def get_ulong_be_low)
  then have "sm4_store_rev (window ?b 32) = sm4_block (map low32 (take 32 sk)) input"
    using win by (simp add: sm4_block_def)
  then show ?thesis
    by (simp add: sm4_one_round_def Let_def window_def sm4_store_rev_def put_ulong_be_low)
qed

section \<open>Decryption inverts encryption\<close>

lemma sm4_fstep_rev: "sm4_fstep (rev4 (sm4_fstep s rk)) rk = rev4 s"
  by (cases s) (simp add: sm4_fstep_def rev4_def ac_simps)

lemma sm4_rounds_rev: "foldl sm4_fstep (rev4 (foldl sm4_fstep s rks)) (rev rks) = rev4 s"
  by (induction rks arbitrary: s rule: rev_induct) (simp_all add: sm4_fstep_rev)

lemma load_store_rev: "sm4_load (sm4_store_rev s) = rev4 s"
proof -
  obtain x0 x1 x2 x3 where s: "s = (x0, x1, x2, x3)" by (cases s)
  show ?thesis
    using get_put_be32 [of "[]" x3] get_put_be32 [of "put_be32 x3" x2]
      get_put_be32 [of "put_be32 x3 @ put_be32 x2" x1]
      get_put_be32 [of "put_be32 x3 @ put_be32 x2 @ put_be32 x1" x0 "[]"]
    by (simp add: s sm4_load_def sm4_store_rev_def rev4_def)
qed

lemma get_be32_take: "get_be32 b i = get_be32 (take 4 (drop i b)) 0" if "i + 4 \<le> length b"
  using that by (simp add: get_be32_def)

lemma store_rev_load:
  assumes "length b = 16"
  shows "sm4_store_rev (rev4 (sm4_load b)) = b"
proof -
  have put: "put_be32 (get_be32 b i) = take 4 (drop i b)" if "i + 4 \<le> 16" for i
    using that assms by (subst get_be32_take) (simp_all add: put_get_be32)
  have "take 4 b @ take 4 (drop 4 b) @ take 4 (drop 8 b) @ take 4 (drop 12 b) = b"
    using take_add [of 4 4 b] take_add [of 8 4 b] take_add [of 12 4 b] assms by simp
  then show ?thesis
    using put [of 0] put [of 4] put [of 8] put [of 12]
    by (simp add: sm4_store_rev_def rev4_def sm4_load_def)
qed

lemma sm4_block_roundtrip:
  assumes "length b = 16"
  shows "sm4_block (rev rks) (sm4_block rks b) = b"
  by (simp add: sm4_block_def load_store_rev sm4_rounds_rev store_rev_load assms)

section \<open>Key schedule\<close>

lemma length_sm4_setkey_loop:
  "length (foldl sm4_setkey_body k [0..<n]) = length k + n"
  by (induction n) (simp_all add: sm4_setkey_body_def)

lemma length_sm4_setkey [simp]: "length (sm4_setkey key) = 32"
  by (simp add: sm4_setkey_def length_sm4_setkey_loop Let_def FK_def)

lemma length_swap_at [simp]: "length (swap_at i j xs) = length xs"
  by (simp add: swap_at_def)

lemma nth_swap_at:
  "i < length xs \<Longrightarrow> j < length xs \<Longrightarrow>
   swap_at i j xs ! k = (if k = j then xs ! i else if k = i then xs ! j else xs ! k)"
  by (auto simp: swap_at_def nth_list_update)

lemma swap_loop_rev:
  assumes "length xs = 32"
  shows "foldl (\<lambda>sk i. swap_at i (31 - i) sk) xs [0..<16] = rev xs"
proof -
  have inv: "length (foldl (\<lambda>sk i. swap_at i (31 - i) sk) xs [0..<n]) = 32 \<and>
      (\<forall>j<32. foldl (\<lambda>sk i. swap_at i (31 - i) sk) xs [0..<n] ! j
         = (if j < n \<or> 31 - n < j then xs ! (31 - j) else xs ! j))" if "n \<le> 16" for n
    using that
  proof (induction n)
    case 0
    then show ?case using assms by auto
  next
    case (Suc n)
    let ?l = "foldl (\<lambda>sk i. swap_at i (31 - i) sk) xs [0..<n]"
    from Suc have len: "length ?l = 32"
      and nth: "\<And>j. j < 32 \<Longrightarrow> ?l ! j = (if j < n \<or> 31 - n < j then xs ! (31 - j) else xs ! j)"
      by auto
    have "swap_at n (31 - n) ?l ! j
        = (if j < Suc n \<or> 31 - Suc n < j then xs ! (31 - j) else xs ! j)" if "j < 32" for j
      using Suc.prems that len by (auto simp: nth_swap_at nth)
    then show ?case using len by simp
  qed
  show ?thesis
    using inv [of 16] assms by (intro nth_equalityI) (auto simp: rev_nth)
qed

lemma sm4_setkey_dec_sk: "ctx_sk (sm4_setkey_dec key ctx) = rev (sm4_setkey key)"
  by (simp add: sm4_setkey_dec_def swap_loop_rev)

lemma sm4_round_roundtrip:
  assumes "length b = 16"
  shows "sm4_one_round (rev (sm4_setkey key)) (sm4_one_round (sm4_setkey key) b) = b"
  using sm4_block_roundtrip [OF assms, of "map low32 (sm4_setkey key)"]
  by (simp add: sm4_one_round_ref rev_map)

lemma length_sm4_one_round [simp]: "length (sm4_one_round sk b) = 16"
  by (simp add: sm4_one_round_def Let_def put_ulong_be_def)

section \<open>Buffers\<close>

lemma sm4_crypt_ecb_Ok:
  assumes "length d = 16 * n"
  shows "\<exists>e. sm4_crypt_ecb ctx m (int (16 * n)) d = Ok e \<and> length e = 16 * n"
  using assms
proof (induction n arbitrary: d)
  case 0
  then show ?case by (simp add: sm4_crypt_ecb.simps)
next
  case (Suc n)
  then obtain e where "sm4_crypt_ecb ctx m (int (16 * n)) (drop 16 d) = Ok e" "length e = 16 * n"
    by (metis add_diff_cancel_left' length_drop mult_Suc_right)
  then show ?case
    using Suc.prems
    by (subst sm4_crypt_ecb.simps) (simp add: mem_read_Ok)
qed

lemma sm4_ecb_inverse:
  assumes "ctx_sk ctx' = rev (sm4_setkey key)" "ctx_sk ctx = sm4_setkey key"
    "length d = 16 * n" "sm4_crypt_ecb ctx m (int (16 * n)) d = Ok e"
  shows "sm4_crypt_ecb ctx' m' (int (16 * n)) e = Ok d"
  using assms(3,4)
proof (induction n arbitrary: d e)
  case 0
  then show ?case by (simp add: sm4_crypt_ecb.simps)
next
  case (Suc n)
  have len: "length (take 16 d) = 16" "length (drop 16 d) = 16 * n"
    using Suc.prems by simp_all
  from Suc.prems obtain rest where
    rest: "sm4_crypt_ecb ctx m (int (16 * n)) (drop 16 d) = Ok rest"
    and e: "e = sm4_one_round (sm4_setkey key) (take 16 d) @ rest"
    by (subst (asm) sm4_crypt_ecb.simps) (auto simp: mem_read_Ok assms)
  have "sm4_crypt_ecb ctx' m' (int (16 * n)) rest = Ok (drop 16 d)"
    by (rule Suc.IH [OF len(2) rest])
  then show ?case
    by (subst sm4_crypt_ecb.simps)
       (simp add: mem_read_Ok e assms sm4_round_roundtrip [OF len(1)])
qed

lemma sm4_keys_snoc:
  "sm4_keys s (cks @ [ck]) =
     sm4_keys s cks @ [snd (snd (snd (sm4_kstep (foldl sm4_kstep s cks) ck)))]"
  by (induction s cks rule: sm4_keys.induct) (simp_all add: Let_def)

lemma sm4_setkey_loop_keys:
  assumes "length k = 4" "n \<le> 32"
  shows "window (foldl sm4_setkey_body k [0..<n]) n
           = foldl sm4_kstep (window k 0) (map low32 (take n CK)) \<and>
         map low32 (drop 4 (foldl sm4_setkey_body k [0..<n]))
           = sm4_keys (window k 0) (map low32 (take n CK))"
  using assms(2)
proof (induction n)
  case 0
  then show ?case using assms(1) by simp
next
  case (Suc n)
  let ?k = "foldl sm4_setkey_body k [0..<n]"
  let ?new = "?k ! n XOR sm4CalciRK (?k ! (n + 1) XOR ?k ! (n + 2) XOR ?k ! (n + 3) XOR CK ! n)"
  have len: "length ?k = 4 + n"
    by (simp add: length_sm4_setkey_loop assms(1))
  have ck: "take (Suc n) CK = take n CK @ [CK ! n]"
    using Suc.prems by (intro take_Suc_conv_app_nth) (simp add: CK_def)
  have win: "window (sm4_setkey_body ?k n) (Suc n) = sm4_kstep (window ?k n) (low32 (CK ! n))"
    using len
    by (simp add: window_def sm4_setkey_body_def sm4_kstep_def nth_append sm4CalciRK_low
          unsigned_xor_eq eval_nat_numeral)
  have new: "low32 ?new = snd (snd (snd (sm4_kstep (window ?k n) (low32 (CK ! n)))))"
    by (simp add: window_def sm4_kstep_def sm4CalciRK_low unsigned_xor_eq)
  have "drop 4 (sm4_setkey_body ?k n) = drop 4 ?k @ [?new]"
    using len by (simp add: sm4_setkey_body_def)
  then show ?case
    using Suc win new ck by (simp add: sm4_keys_snoc)
qed

lemma sm4_setkey_ref: "map low32 (sm4_setkey key) = sm4_ref_keys key"
proof -
  let ?k = "map2 (XOR) (map (get_ulong_be key) [0, 4, 8, 12]) FK"
  have "window ?k 0 = (get_be32 key 0 XOR 0xa3b1bac6, get_be32 key 4 XOR 0x56aa3350,
      get_be32 key 8 XOR 0x677d9197, get_be32 key 12 XOR 0xb27022dc)"
    by (simp add: window_def FK_def unsigned_xor_eq get_ulong_be_low)
  moreover have "take 32 CK = CK" by (simp add: CK_def)
  ultimately show ?thesis
    using sm4_setkey_loop_keys [of ?k 32]
    by (simp add: sm4_setkey_def sm4_ref_keys_def Let_def FK_def)
qed

lemma sm4_cbc_inverse:
  assumes "length d = 16 * n" "length iv = 16"
  shows "\<exists>e iv'. sm4_crypt_cbc (sm4_setkey_enc key c) SM4_ENCRYPT (int (16 * n)) iv d = Ok (iv', e) \<and>
           length e = 16 * n \<and>
           sm4_crypt_cbc (sm4_setkey_dec key c') SM4_DECRYPT (int (16 * n)) iv e = Ok (iv', d)"
  using assms
proof (induction n arbitrary: d iv)
  case 0
  then show ?case by (simp add: sm4_crypt_cbc.simps)
next
  case (Suc n)
  let ?x = "xor16 (take 16 d) iv"
  let ?o = "sm4_one_round (sm4_setkey key) ?x"
  have undo: "xor16 ?x iv = take 16 d"
    using Suc.prems by (intro nth_equalityI) (simp_all add: xor16_def xor.assoc)
  have "length (drop 16 d) = 16 * n" "length ?o = 16"
    using Suc.prems by simp_all
  then obtain e iv' where
    "sm4_crypt_cbc (sm4_setkey_enc key c) SM4_ENCRYPT (int (16 * n)) ?o (drop 16 d) = Ok (iv', e)"
    "length e = 16 * n"
    "sm4_crypt_cbc (sm4_setkey_dec key c') SM4_DECRYPT (int (16 * n)) ?o e = Ok (iv', drop 16 d)"
    using Suc.IH by blast
  moreover have "sm4_one_round (rev (sm4_setkey key)) ?o = ?x"
    by (rule sm4_round_roundtrip) (simp add: xor16_def)
  moreover from calculation have
    "sm4_crypt_cbc (sm4_setkey_enc key c) SM4_ENCRYPT (int (16 * Suc n)) iv d = Ok (iv', ?o @ e)"
    using Suc.prems
    by (subst sm4_crypt_cbc.simps)
       (simp add: mem_read_Ok sm4_setkey_enc_def SM4_ENCRYPT_def SM4_DECRYPT_def)
  moreover from calculation have
    "sm4_crypt_cbc (sm4_setkey_dec key c') SM4_DECRYPT (int (16 * Suc n)) iv (?o @ e) = Ok (iv', d)"
    using Suc.prems undo
    by (subst sm4_crypt_cbc.simps)
       (simp add: mem_read_Ok sm4_setkey_dec_sk SM4_ENCRYPT_def SM4_DECRYPT_def)
  moreover have "length (?o @ e) = 16 * Suc n" using calculation by simp
  ultimately show ?case by blast
qed

lemma sm4_crypt_ecb_defined:
  "defined (sm4_crypt_ecb ctx m len d) \<longleftrightarrow> 16 * nat ((len + 15) div 16) \<le> length d"
proof (induction ctx m len d rule: sm4_crypt_ecb.induct)
  case (1 ctx m len d)
  show ?case
  proof (cases "0 < len")
    case False
    then have "(len + 15) div 16 \<le> 0" by simp
    with False show ?thesis by (subst sm4_crypt_ecb.simps) simp
  next
    case True
    have up: "nat ((len + 15) div 16) = Suc (nat ((len - 16 + 15) div 16))"
      using True by simp
    show ?thesis
    proof (cases "16 \<le> length d")
      case False
      then show ?thesis
        using True up by (subst sm4_crypt_ecb.simps) (simp add: mem_read_Undef)
    next
      case len: True
      then have "mem_read d 0 16 = Ok (take 16 d)" by (simp add: mem_read_Ok)
      with "1.IH" [OF True] have
        "defined (sm4_crypt_ecb ctx m (len - 16) (drop 16 d)) \<longleftrightarrow>
           16 * nat ((len - 16 + 15) div 16) \<le> length (drop 16 d)" by simp
      then show ?thesis
        using True len up
        by (subst sm4_crypt_ecb.simps) (auto simp: mem_read_Ok defined_def)
    qed
  qed
qed

section \<open>Properties\<close>

text \<open>
  C12: refinement of the cipher. Key schedule and block function of the LP64 build, computed in
  64-bit words with junk above bit 31, produce the block of the 32-bit reference cipher for
  every key and every input block.
\<close>

theorem sm4_refines_reference:
  "sm4_one_round (ctx_sk (sm4_setkey_enc key c)) input = sm4_block (sm4_ref_keys key) input \<and>
   sm4_one_round (ctx_sk (sm4_setkey_dec key c)) input = sm4_block (rev (sm4_ref_keys key)) input"
  by (simp add: sm4_setkey_enc_def sm4_setkey_dec_sk sm4_one_round_ref flip: sm4_setkey_ref rev_map)

text \<open>
  C33: round trip. Over a buffer of whole blocks, ECB and CBC encryption succeed, keep the
  length, and are undone by decryption under the same key (and initialisation vector).
\<close>

theorem sm4_roundtrip:
  assumes "length d = 16 * n" "length iv = 16"
  shows "(\<exists>e. sm4_crypt_ecb (sm4_setkey_enc key c) SM4_ENCRYPT (int (16 * n)) d = Ok e \<and>
              length e = 16 * n \<and>
              sm4_crypt_ecb (sm4_setkey_dec key c') SM4_DECRYPT (int (16 * n)) e = Ok d) \<and>
         (\<exists>e iv'. sm4_crypt_cbc (sm4_setkey_enc key c) SM4_ENCRYPT (int (16 * n)) iv d = Ok (iv', e) \<and>
              length e = 16 * n \<and>
              sm4_crypt_cbc (sm4_setkey_dec key c') SM4_DECRYPT (int (16 * n)) iv e = Ok (iv', d))"
proof
  from sm4_crypt_ecb_Ok [OF assms(1)] obtain e where
    e: "sm4_crypt_ecb (sm4_setkey_enc key c) SM4_ENCRYPT (int (16 * n)) d = Ok e"
       "length e = 16 * n" by blast
  have "sm4_crypt_ecb (sm4_setkey_dec key c') SM4_DECRYPT (int (16 * n)) e = Ok d"
    by (rule sm4_ecb_inverse [OF sm4_setkey_dec_sk _ assms(1) e(1)]) (simp add: sm4_setkey_enc_def)
  with e show "\<exists>e. sm4_crypt_ecb (sm4_setkey_enc key c) SM4_ENCRYPT (int (16 * n)) d = Ok e \<and>
      length e = 16 * n \<and>
      sm4_crypt_ecb (sm4_setkey_dec key c') SM4_DECRYPT (int (16 * n)) e = Ok d" by blast
qed (rule sm4_cbc_inverse [OF assms])

theorem sm4_roundtrip_witness:
  "(\<exists>e. sm4_crypt_ecb (sm4_setkey_enc (replicate 16 1) \<lparr>ctx_mode = 0, ctx_sk = []\<rparr>) SM4_ENCRYPT (int (16 * 2)) (replicate 32 7) = Ok e \<and>
        length e = 16 * 2 \<and>
        sm4_crypt_ecb (sm4_setkey_dec (replicate 16 1) \<lparr>ctx_mode = 0, ctx_sk = []\<rparr>) SM4_DECRYPT (int (16 * 2)) e = Ok (replicate 32 7)) \<and>
   (\<exists>e iv'. sm4_crypt_cbc (sm4_setkey_enc (replicate 16 1) \<lparr>ctx_mode = 0, ctx_sk = []\<rparr>) SM4_ENCRYPT (int (16 * 2)) (replicate 16 9) (replicate 32 7) = Ok (iv', e) \<and>
        length e = 16 * 2 \<and>
        sm4_crypt_cbc (sm4_setkey_dec (replicate 16 1) \<lparr>ctx_mode = 0, ctx_sk = []\<rparr>) SM4_DECRYPT (int (16 * 2)) (replicate 16 9) e = Ok (iv', replicate 32 7))"
  by (rule sm4_roundtrip) simp_all

text \<open>
  Bounds of ECB. The call is free of out-of-bounds accesses exactly when the buffer holds
  the length rounded up to whole blocks: a length that is not a multiple of 16 makes the code
  touch up to 15 bytes past it.
\<close>

theorem sm4_ecb_bounds:
  "defined (sm4_crypt_ecb ctx m len d) \<longleftrightarrow> 16 * nat ((len + 15) div 16) \<le> length d"
  by (rule sm4_crypt_ecb_defined)

text \<open>Evaluation rules in which every intermediate word is computed once.\<close>

definition sm4_L :: "u64 \<Rightarrow> u64" where
  "sm4_L bb = bb XOR sm4_rotl bb 2 XOR sm4_rotl bb 10 XOR sm4_rotl bb 18 XOR sm4_rotl bb 24"

definition sm4_L' :: "u64 \<Rightarrow> u64" where
  "sm4_L' bb = bb XOR sm4_rotl bb 13 XOR sm4_rotl bb 23"

lemma sm4Lt_L: "sm4Lt ka = sm4_L (get_ulong_be (map sm4Sbox (put_ulong_be ka)) 0)"
  by (simp add: sm4Lt_def sm4_L_def Let_def)

lemma sm4CalciRK_L: "sm4CalciRK ka = sm4_L' (get_ulong_be (map sm4Sbox (put_ulong_be ka)) 0)"
  by (simp add: sm4CalciRK_def sm4_L'_def Let_def)

definition sm4_out :: "u64 list \<Rightarrow> bytes" where
  "sm4_out ulbuf = put_ulong_be (ulbuf ! 35) @ put_ulong_be (ulbuf ! 34) @
     put_ulong_be (ulbuf ! 33) @ put_ulong_be (ulbuf ! 32)"

lemma sm4_one_round_out:
  "sm4_one_round sk input =
     sm4_out (foldl (sm4_round_body sk) (map (get_ulong_be input) [0, 4, 8, 12]) [0..<32])"
  by (simp add: sm4_one_round_def sm4_out_def Let_def)

lemma nth_concat_rows:
  "\<lbrakk>\<forall>r \<in> set rs. length r = 16; i < 16 * length rs\<rbrakk> \<Longrightarrow> concat rs ! i = rs ! (i div 16) ! (i mod 16)"
proof (induction rs arbitrary: i)
  case Nil
  then show ?case by simp
next
  case (Cons r rs)
  show ?case
  proof (cases "i < 16")
    case True
    with Cons.prems show ?thesis by (simp add: nth_append)
  next
    case False
    then have "concat (r # rs) ! i = concat rs ! (i - 16)"
      using Cons.prems by (simp add: nth_append)
    also have "\<dots> = rs ! ((i - 16) div 16) ! ((i - 16) mod 16)"
      using Cons False by simp
    also have "\<dots> = (r # rs) ! (i div 16) ! (i mod 16)"
    proof -
      have "i div 16 = Suc ((i - 16) div 16)" "(i - 16) mod 16 = i mod 16"
        using False by (simp_all add: le_div_geq le_mod_geq)
      then show ?thesis by simp
    qed
    finally show ?thesis .
  qed
qed

lemma sm4Sbox_rows: "sm4Sbox x = SboxTable ! (unat x div 16) ! (unat x mod 16)"
proof -
  have "\<forall>r \<in> set SboxTable. length r = 16" "length SboxTable = 16"
    by (simp_all add: SboxTable_def)
  then show ?thesis
    unfolding sm4Sbox_def using u8_lt [of x] by (intro nth_concat_rows) simp_all
qed

lemmas sm4_eval = sm4_one_round_out sm4_out_def sm4_setkey_def sm4_setkey_body_def FK_def CK_def
  sm4_round_body_def sm4F_def sm4Lt_L sm4CalciRK_L sm4_L_def sm4_L'_def put_ulong_be_def
  get_ulong_be_def sm4Sbox_rows sm4_rotl_def SboxTable_def

lemma upt_0_32:
  "[0..<32] = [0, 1, 2, 3, 4, 5, 6, 7, 8, 9, 10, 11, 12, 13, 14, 15, 16, 17, 18, 19, 20, 21, 22,
               23, 24, 25, 26, 27, 28, 29, 30, 31]"
  by code_simp

lemma sm4_test_key_start:
  "map2 (XOR) (map (get_ulong_be [0x01,0x23,0x45,0x67,0x89,0xab,0xcd,0xef,0xfe,0xdc,0xba,0x98,0x76,0x54,0x32,0x10]) [0, 4, 8, 12]) FK 
   = [0xa292ffa1, 0xdf01febf, 0x99a12b0f, 0xc42410cc]"
  by (simp add: sm4_eval)

lemma sm4_test_key_schedule:
  "foldl sm4_setkey_body [0xa292ffa1, 0xdf01febf, 0x99a12b0f, 0xc42410cc] [0,1,2,3,4,5,6,7,8,9,10,11,12,13,14,15,16,17,18,19,20,21,22,23,24,25,26,27,28,29,30,31] 
   = [0xa292ffa1, 0xdf01febf, 0x99a12b0f, 0xc42410cc,
      0x45787af12186f9, 0x6ac01c41662b61, 0x7324d15a6ab19a, 0x2d98807ba92077,
      0x50e5c1367360f4, 0x72bc1f776a0c61, 0x5de3cdb6bb89b3, 0x791cee24763151,
      0x205a6ea520307c, 0x525762b7584dbd, 0xbc5ffc30753ed, 0x3277b07ee55b57,
      0x27ec906988608c, 0x53f54730d895b7, 0x3c024d44ba14af, 0x4deb89104495a1,
      0x66c835d120b428, 0x262fee73b55fa3, 0x2253fecc874966, 0x4cb0aa92244439,
      0x25f9fde89e641f, 0x9985598ca015a, 0x5b0168c7159060, 0x180bd099e1fd2e,
      0x4d2a18b79bd80c, 0x3b921b1d2115b0, 0x5fa07d0e228aeb, 0x2c29e2f1780c81,
      0x73a508428d3654, 0x6c81a362293496, 0x16607501cf72e5, 0x15ccec9124a012]"
  by (simp add: sm4_eval)

lemma sm4_test_load:
  "map (get_ulong_be [0x01,0x23,0x45,0x67,0x89,0xab,0xcd,0xef,0xfe,0xdc,0xba,0x98,0x76,0x54,0x32,0x10]) [0, 4, 8, 12] 
   = [0x1234567, 0x89abcdef, 0xfedcba98, 0x76543210]"
  by (simp add: sm4_eval)

lemma sm4_test_rounds:
  "foldl (sm4_round_body [0x45787af12186f9, 0x6ac01c41662b61, 0x7324d15a6ab19a, 0x2d98807ba92077,
      0x50e5c1367360f4, 0x72bc1f776a0c61, 0x5de3cdb6bb89b3, 0x791cee24763151,
      0x205a6ea520307c, 0x525762b7584dbd, 0xbc5ffc30753ed, 0x3277b07ee55b57,
      0x27ec906988608c, 0x53f54730d895b7, 0x3c024d44ba14af, 0x4deb89104495a1,
      0x66c835d120b428, 0x262fee73b55fa3, 0x2253fecc874966, 0x4cb0aa92244439,
      0x25f9fde89e641f, 0x9985598ca015a, 0x5b0168c7159060, 0x180bd099e1fd2e,
      0x4d2a18b79bd80c, 0x3b921b1d2115b0, 0x5fa07d0e228aeb, 0x2c29e2f1780c81,
      0x73a508428d3654, 0x6c81a362293496, 0x16607501cf72e5, 0x15ccec9124a012]) [0x1234567, 0x89abcdef, 0xfedcba98, 0x76543210] [0,1,2,3,4,5,6,7,8,9,10,11,12,13,14,15,16,17,18,19,20,21,22,23,24,25,26,27,28,29,30,31] 
   = [0x1234567, 0x89abcdef, 0xfedcba98, 0x76543210,
      0x188a5727fad345, 0xc53164a18b4cb2, 0x23266611c1e22a, 0xc65251cc13e2ee,
      0x247165f87c5bd5, 0x468e0533220757, 0xfb05ab77f4c297, 0x695e6b7a96f2eb,
      0x14af6827dac07f, 0xc8377c42dd0f19, 0x41fd58b8a5da02, 0x475e77907127fa,
      0xe9e9318b952b83, 0x6e345fd42b7c59, 0x8c164e2ffc5831, 0x591bc9f69e6888,
      0x532923af2432c4, 0x8c5c3ced1ec85e, 0xc1d0be55a3ba22, 0x9d69a8124b18aa,
      0xf692056ae7725f, 0x72757ef4cba1f9, 0xd8f3891dcdfa10, 0x8ef0182ff60603,
      0xf6a92deff24fdc, 0xfd27146fe46b75, 0x2d852f893450ad, 0xf61a8c7b938f4c,
      0x44300e536e4246, 0x6de65186b3e94f, 0x4385b5d206965e, 0xec3b4b681edf34]"
  by (simp add: sm4_eval)

lemma sm4_test_keys:
  "sm4_setkey [0x01,0x23,0x45,0x67,0x89,0xab,0xcd,0xef,0xfe,0xdc,0xba,0x98,0x76,0x54,0x32,0x10]
   = [0x45787af12186f9, 0x6ac01c41662b61, 0x7324d15a6ab19a, 0x2d98807ba92077,
      0x50e5c1367360f4, 0x72bc1f776a0c61, 0x5de3cdb6bb89b3, 0x791cee24763151,
      0x205a6ea520307c, 0x525762b7584dbd, 0xbc5ffc30753ed, 0x3277b07ee55b57,
      0x27ec906988608c, 0x53f54730d895b7, 0x3c024d44ba14af, 0x4deb89104495a1,
      0x66c835d120b428, 0x262fee73b55fa3, 0x2253fecc874966, 0x4cb0aa92244439,
      0x25f9fde89e641f, 0x9985598ca015a, 0x5b0168c7159060, 0x180bd099e1fd2e,
      0x4d2a18b79bd80c, 0x3b921b1d2115b0, 0x5fa07d0e228aeb, 0x2c29e2f1780c81,
      0x73a508428d3654, 0x6c81a362293496, 0x16607501cf72e5, 0x15ccec9124a012]"
  by (simp only: sm4_setkey_def Let_def sm4_test_key_start upt_0_32 sm4_test_key_schedule) simp

text \<open>
  The standard's first test vector, quoted in the header of sm4.c.
\<close>

theorem sm4_test_vector:
  "sm4_one_round
     (sm4_setkey [0x01,0x23,0x45,0x67,0x89,0xab,0xcd,0xef,0xfe,0xdc,0xba,0x98,0x76,0x54,0x32,0x10])
     [0x01,0x23,0x45,0x67,0x89,0xab,0xcd,0xef,0xfe,0xdc,0xba,0x98,0x76,0x54,0x32,0x10]
   = [0x68,0x1e,0xdf,0x34,0xd2,0x06,0x96,0x5e,0x86,0xb3,0xe9,0x4f,0x53,0x6e,0x42,0x46]"
  by (simp only: sm4_one_round_def Let_def sm4_test_keys upt_0_32 sm4_test_load sm4_test_rounds)
    (simp add: put_ulong_be_def)

end
