(* ===== verification/Comm.thy ===== *)
theory Comm
  imports Util_Queue
begin

text \<open>
  The communication switch of src/sign/testSdk/src/api/comm.c with the driver table of
  src/proto/peripheral.h: registration of bus drivers and of the devices behind them,
  selection, and the calls that are forwarded to the driver in charge.

  C pointers to drivers and to peripherals are addresses (\<open>nat\<close>); a pointer that may be NULL
  is an \<open>option\<close>. The structs behind the addresses are the stores \<open>drv_at\<close> and \<open>per_at\<close>. The
  function pointers of a driver are functions over the state \<open>'w\<close> of everything below this
  layer (\<open>io\<close>), which the protocol theories instantiate. \<open>se_error_t\<close> is a signed 32-bit
  integer in C; all its values here are non-negative and only compared, so the error codes
  are 32-bit patterns.
\<close>

section \<open>Data\<close>

datatype peripheral_type = PERIPHERAL_SPI | PERIPHERAL_I2C | PERIPHERAL_UART | PERIPHERAL_USB

record peripheral =
  per_type :: peripheral_type
  per_id :: u8

definition MAX_PERIPHERAL_DEVICE :: nat where "MAX_PERIPHERAL_DEVICE = 4"
definition MAX_PERIPHERAL_BUS_DRIVER :: nat where "MAX_PERIPHERAL_BUS_DRIVER = 4"
definition COMM_DATA_LEN_MIN :: u32 where "COMM_DATA_LEN_MIN = 5"
definition COMM_DATA_LEN_MAX :: u32 where "COMM_DATA_LEN_MAX = 1024"

text \<open>
  A caller's output buffer with its length variable: the memory at \<open>out_buf\<close> and the value
  of \<open>*out_buf_len\<close>, each of which may be absent. The queues passed to \<open>transceive\<close> and
  their lengths are present whenever a driver is called.
\<close>

type_synonym out_ptr = "bytes option \<times> u32 option"

record 'w peripheral_bus_driver =
  drv_type :: peripheral_type
  drv_periph :: "nat option list"
  drv_init :: "nat \<Rightarrow> 'w \<Rightarrow> (se_error \<times> 'w) res"
  drv_deinit :: "nat \<Rightarrow> 'w \<Rightarrow> (se_error \<times> 'w) res"
  drv_open :: "nat \<Rightarrow> out_ptr \<Rightarrow> 'w \<Rightarrow> (se_error \<times> out_ptr \<times> 'w) res"
  drv_close :: "nat \<Rightarrow> 'w \<Rightarrow> (se_error \<times> 'w) res"
  drv_transceive :: "nat \<Rightarrow> double_queue_node \<Rightarrow> u32 \<Rightarrow> double_queue_node \<Rightarrow> u32 \<Rightarrow> 'w \<Rightarrow>
     (se_error \<times> double_queue_node \<times> double_queue_node \<times> u32 \<times> 'w) res"
  drv_reset :: "nat \<Rightarrow> out_ptr \<Rightarrow> 'w \<Rightarrow> (se_error \<times> out_ptr \<times> 'w) res"
  drv_control :: "nat \<Rightarrow> u32 \<Rightarrow> bytes option \<Rightarrow> u32 \<Rightarrow> out_ptr \<Rightarrow> 'w \<Rightarrow>
     (se_error \<times> bytes option \<times> out_ptr \<times> 'w) res"
  drv_delay :: "nat \<Rightarrow> u32 \<Rightarrow> 'w \<Rightarrow> (se_error \<times> 'w) res"

record 'w comm_state =
  g_drivers :: "nat option list"
  sel_driver :: "nat option"
  sel_periph :: "nat option"
  drv_at :: "nat \<Rightarrow> 'w peripheral_bus_driver"
  per_at :: "nat \<Rightarrow> peripheral"
  io :: 'w

section \<open>Registration and selection\<close>

text \<open>
  The loop shared by \<open>add_periph\<close> and \<open>add_driver\<close>: stop at the slot that already holds the
  pointer, or fill the first free one.
\<close>

fun add_slot :: "nat \<Rightarrow> nat option list \<Rightarrow> nat option list option" where
  "add_slot p [] = None"
| "add_slot p (s # ss) =
     (if s = Some p then Some (s # ss)
      else if s = None then Some (Some p # ss)
      else map_option (Cons s) (add_slot p ss))"

definition add_periph :: "nat \<Rightarrow> nat \<Rightarrow> 'w comm_state \<Rightarrow> nat option \<times> 'w comm_state" where
  "add_periph driver periph st =
     (case add_slot periph (drv_periph (drv_at st driver)) of
        None \<Rightarrow> (None, st)
      | Some ps \<Rightarrow>
          (Some periph,
           st\<lparr>drv_at := (drv_at st)(driver := (drv_at st driver)\<lparr>drv_periph := ps\<rparr>)\<rparr>))"

definition add_driver :: "nat \<Rightarrow> nat \<Rightarrow> 'w comm_state \<Rightarrow> nat option \<times> 'w comm_state" where
  "add_driver driver periph st =
     (case add_slot driver (g_drivers st) of
        None \<Rightarrow> (None, st)
      | Some ds \<Rightarrow>
          (let (r, st') = add_periph driver periph (st\<lparr>g_drivers := ds\<rparr>)
           in (if r \<noteq> None then Some driver else None, st')))"

text \<open>The searches dereference each slot without a NULL check.\<close>

fun find_driver ::
  "(nat \<Rightarrow> 'w peripheral_bus_driver) \<Rightarrow> peripheral_type \<Rightarrow> nat option list \<Rightarrow> nat option res" where
  "find_driver at ty [] = Ok None"
| "find_driver at ty (None # ds) = Undef"
| "find_driver at ty (Some d # ds) =
     (if drv_type (at d) = ty then Ok (Some d) else find_driver at ty ds)"

fun find_slave_device :: "(nat \<Rightarrow> peripheral) \<Rightarrow> u32 \<Rightarrow> nat option list \<Rightarrow> nat option res" where
  "find_slave_device at dev_id [] = Ok None"
| "find_slave_device at dev_id (None # ps) = Undef"
| "find_slave_device at dev_id (Some p # ps) =
     (if ucast (per_id (at p)) = dev_id then Ok (Some p) else find_slave_device at dev_id ps)"

definition api_register' ::
  "nat option \<Rightarrow> nat option \<Rightarrow> 'w comm_state \<Rightarrow> se_error \<times> 'w comm_state" where
  "api_register' driver periph st =
     (case (driver, periph) of
        (Some d, Some p) \<Rightarrow>
          (let (r, st') = add_driver d p st
           in (if r = None then SE_ERR_HANDLE_INVALID else SE_SUCCESS, st'))
      | _ \<Rightarrow> (SE_ERR_HANDLE_INVALID, st))"

text \<open>The test \<open>g_drivers[0] == NULL || g_drivers[0]->periph[0] == NULL\<close>.\<close>

definition first_device :: "'w comm_state \<Rightarrow> (nat \<times> nat) option" where
  "first_device st =
     (case g_drivers st ! 0 of
        None \<Rightarrow> None
      | Some d \<Rightarrow> map_option (Pair d) (drv_periph (drv_at st d) ! 0))"

definition api_select ::
  "peripheral_type \<Rightarrow> u32 \<Rightarrow> 'w comm_state \<Rightarrow> (se_error \<times> 'w comm_state) res" where
  "api_select ty dev_id st =
     (if first_device st = None then Ok (SE_ERR_PARAM_INVALID, st)
      else res_bind (find_driver (drv_at st) ty (g_drivers st)) (\<lambda>driver.
        case driver of
          None \<Rightarrow> Ok (SE_ERR_HANDLE_INVALID, st)
        | Some d \<Rightarrow>
            res_bind (find_slave_device (per_at st) dev_id (drv_periph (drv_at st d))) (\<lambda>periph.
            case periph of
              None \<Rightarrow> Ok (SE_ERR_HANDLE_INVALID, st)
            | Some p \<Rightarrow> Ok (SE_SUCCESS, st\<lparr>sel_driver := Some d, sel_periph := Some p\<rparr>))))"

section \<open>Calls forwarded to a driver\<close>

text \<open>
  Which driver and device a call goes to: the selected pair, or else the first registered
  one. \<open>pick_unique\<close> (connect, reset, delay) refuses to choose when there is a second driver or a
  second device; \<open>pick_first\<close> (disconnect, transceive, control) does not ask.
\<close>

definition pick_unique :: "'w comm_state \<Rightarrow> se_error + nat \<times> nat" where
  "pick_unique st =
     (case first_device st of
        None \<Rightarrow> Inl SE_ERR_PARAM_INVALID
      | Some (d0, p0) \<Rightarrow>
          (case (sel_driver st, sel_periph st) of
             (Some d, Some p) \<Rightarrow> Inr (d, p)
           | _ \<Rightarrow> (if g_drivers st ! 1 \<noteq> None \<or> drv_periph (drv_at st d0) ! 1 \<noteq> None
                  then Inl SE_ERR_NO_SELECT else Inr (d0, p0))))"

definition pick_first :: "'w comm_state \<Rightarrow> se_error + nat \<times> nat" where
  "pick_first st =
     (case first_device st of
        None \<Rightarrow> Inl SE_ERR_HANDLE_INVALID
      | Some (d0, p0) \<Rightarrow>
          (case (sel_driver st, sel_periph st) of
             (Some d, Some p) \<Rightarrow> Inr (d, p)
           | _ \<Rightarrow> Inr (d0, p0)))"

text \<open>Exactly one of an output buffer and its length variable is NULL.\<close>

definition half_null :: "out_ptr \<Rightarrow> bool" where
  "half_null out \<longleftrightarrow> (fst out = None) \<noteq> (snd out = None)"

definition api_connect :: "out_ptr \<Rightarrow> 'w comm_state \<Rightarrow> (se_error \<times> out_ptr \<times> 'w comm_state) res" where
  "api_connect out st =
     (if half_null out then Ok (SE_ERR_PARAM_INVALID, out, st) else
      case pick_unique st of
        Inl e \<Rightarrow> Ok (e, out, st)
      | Inr (d, p) \<Rightarrow>
          res_bind (drv_init (drv_at st d) p (io st)) (\<lambda>(ret, w).
          if ret \<noteq> SE_SUCCESS then Ok (ret, out, st\<lparr>io := w\<rparr>) else
          res_bind (drv_open (drv_at st d) p out w) (\<lambda>(ret, out', w').
          Ok (ret, out', st\<lparr>io := w'\<rparr>))))"

definition api_disconnect :: "'w comm_state \<Rightarrow> (se_error \<times> 'w comm_state) res" where
  "api_disconnect st =
     (case pick_first st of
        Inl e \<Rightarrow> Ok (e, st)
      | Inr (d, p) \<Rightarrow>
          res_bind (drv_deinit (drv_at st d) p (io st)) (\<lambda>(ret, w).
          if ret \<noteq> SE_SUCCESS then Ok (ret, st\<lparr>io := w\<rparr>) else
          res_bind (drv_close (drv_at st d) p w) (\<lambda>(ret, w'). Ok (ret, st\<lparr>io := w'\<rparr>))))"

text \<open>\<open>api_transceive_queue\<close> behind its NULL checks, and with them.\<close>

definition transceive_queue ::
  "double_queue_node \<Rightarrow> u32 \<Rightarrow> double_queue_node \<Rightarrow> u32 \<Rightarrow> 'w comm_state \<Rightarrow>
     (se_error \<times> double_queue_node \<times> double_queue_node \<times> u32 \<times> 'w comm_state) res" where
  "transceive_queue qi n qo ol st =
     (if n = 0 then Ok (SE_ERR_PARAM_INVALID, qi, qo, ol, st) else
      case pick_first st of
        Inl e \<Rightarrow> Ok (e, qi, qo, ol, st)
      | Inr (d, p) \<Rightarrow>
          res_bind (drv_transceive (drv_at st d) p qi n qo ol (io st)) (\<lambda>(ret, qi', qo', ol', w).
          Ok (ret, qi', qo', ol', st\<lparr>io := w\<rparr>)))"

definition api_transceive_queue ::
  "double_queue_node option \<Rightarrow> u32 \<Rightarrow> double_queue_node option \<Rightarrow> u32 option \<Rightarrow> 'w comm_state \<Rightarrow>
     (se_error \<times> double_queue_node option \<times> double_queue_node option \<times> u32 option \<times>
      'w comm_state) res" where
  "api_transceive_queue in_buf n out_buf out_len st =
     (case (in_buf, out_buf, out_len) of
        (Some qi, Some qo, Some ol) \<Rightarrow>
          res_bind (transceive_queue qi n qo ol st) (\<lambda>(ret, qi', qo', ol', st').
          Ok (ret, Some qi', Some qo', Some ol', st'))
      | _ \<Rightarrow> Ok (SE_ERR_PARAM_INVALID, in_buf, out_buf, out_len, st))"

text \<open>What \<open>api_transceive\<close> does with the driver's answer.\<close>

definition copy_reply :: "bytes \<Rightarrow> out_ptr \<Rightarrow>
    se_error \<times> double_queue_node \<times> double_queue_node \<times> u32 \<times> 'w comm_state \<Rightarrow>
    (se_error \<times> out_ptr \<times> 'w comm_state) res" where
  "copy_reply ob out = (\<lambda>(ret, qi, qo, ol, st).
     if ret \<noteq> SE_SUCCESS then Ok (ret, out, st) else
     res_bind (mem_read (q_buf qo) (unat (front_node qo)) (unat (q_buf_len qo))) (\<lambda>d.
     res_bind (mem_write ob 0 d) (\<lambda>ob'.
     Ok (ret, (Some ob', Some (ucast (q_buf_len qo))), st))))"

definition api_transceive ::
  "bytes option \<Rightarrow> u32 \<Rightarrow> out_ptr \<Rightarrow> 'w comm_state \<Rightarrow> (se_error \<times> out_ptr \<times> 'w comm_state) res" where
  "api_transceive in_buf n out st =
     (case (in_buf, out) of
        (Some inb, (Some ob, Some ol)) \<Rightarrow>
          (if n < COMM_DATA_LEN_MIN \<or> COMM_DATA_LEN_MAX < n
           then Ok (SE_ERR_PARAM_INVALID, out, st) else
           let queue_in = util_queue_init queue_zero;
               queue_out = util_queue_init queue_zero
           in res_bind (util_queue_rear_push inb n queue_in) (\<lambda>qi.
              res_bind (transceive_queue qi (util_queue_size qi) queue_out 0 st) (copy_reply ob out)))
      | _ \<Rightarrow> Ok (SE_ERR_PARAM_INVALID, out, st))"

definition api_reset :: "out_ptr \<Rightarrow> 'w comm_state \<Rightarrow> (se_error \<times> out_ptr \<times> 'w comm_state) res" where
  "api_reset out st =
     (if half_null out then Ok (SE_ERR_PARAM_INVALID, out, st) else
      case pick_unique st of
        Inl e \<Rightarrow> Ok (e, out, st)
      | Inr (d, p) \<Rightarrow>
          res_bind (drv_reset (drv_at st d) p out (io st)) (\<lambda>(ret, out', w).
          Ok (ret, out', st\<lparr>io := w\<rparr>)))"

definition api_delay :: "u32 \<Rightarrow> 'w comm_state \<Rightarrow> (se_error \<times> 'w comm_state) res" where
  "api_delay us st =
     (if us = 0 then Ok (SE_ERR_PARAM_INVALID, st) else
      case pick_unique st of
        Inl e \<Rightarrow> Ok (e, st)
      | Inr (d, p) \<Rightarrow>
          res_bind (drv_delay (drv_at st d) p us (io st)) (\<lambda>(ret, w). Ok (ret, st\<lparr>io := w\<rparr>)))"

definition api_control' ::
  "u32 \<Rightarrow> bytes option \<Rightarrow> u32 \<Rightarrow> out_ptr \<Rightarrow> 'w comm_state \<Rightarrow>
     (se_error \<times> bytes option \<times> out_ptr \<times> 'w comm_state) res" where
  "api_control' ctrlcode in_buf n out st =
     (case pick_first st of
        Inl e \<Rightarrow> Ok (e, in_buf, out, st)
      | Inr (d, p) \<Rightarrow>
          res_bind (drv_control (drv_at st d) p ctrlcode in_buf n out (io st)) (\<lambda>(ret, ib, out', w).
          Ok (ret, ib, out', st\<lparr>io := w\<rparr>)))"

section \<open>The registration tables\<close>

text \<open>A table is filled from the left, without repetitions, and the rest is NULL.\<close>

definition slots :: "nat list \<Rightarrow> nat \<Rightarrow> nat option list" where
  "slots vs n = map Some vs @ replicate n None"






lemma find_driver_slots:
  "find_driver at ty (slots ds n) =
     (case find (\<lambda>d. drv_type (at d) = ty) ds of
        Some d \<Rightarrow> Ok (Some d) | None \<Rightarrow> if n = 0 then Ok None else Undef)"
proof (induction ds)
  case Nil
  then show ?case by (cases n) (simp_all add: slots_def)
next
  case (Cons d ds)
  then show ?case by (simp add: slots_def)
qed

lemma find_slave_device_slots:
  "find_slave_device at dev_id (slots ps n) =
     (case find (\<lambda>p. ucast (per_id (at p)) = dev_id) ps of
        Some p \<Rightarrow> Ok (Some p) | None \<Rightarrow> if n = 0 then Ok None else Undef)"
proof (induction ps)
  case Nil
  then show ?case by (cases n) (simp_all add: slots_def)
next
  case (Cons p ps)
  then show ?case by (simp add: slots_def)
qed

section \<open>Properties\<close>


definition no_driver :: "nat \<Rightarrow> unit peripheral_bus_driver" where
  "no_driver = (\<lambda>_. \<lparr>drv_type = PERIPHERAL_SPI, drv_periph = replicate 4 None,
     drv_init = \<lambda>_ w. Ok (SE_SUCCESS, w), drv_deinit = \<lambda>_ w. Ok (SE_SUCCESS, w),
     drv_open = \<lambda>_ out w. Ok (SE_SUCCESS, out, w), drv_close = \<lambda>_ w. Ok (SE_SUCCESS, w),
     drv_transceive = \<lambda>_ qi n qo ol w. Ok (SE_SUCCESS, qi, qo, ol, w),
     drv_reset = \<lambda>_ out w. Ok (SE_SUCCESS, out, w),
     drv_control = \<lambda>_ c ib n out w. Ok (SE_SUCCESS, ib, out, w), drv_delay = \<lambda>_ us w. Ok (SE_SUCCESS, w)\<rparr>)"

text \<open>The tables at program start, over stub drivers at every address.\<close>

definition comm_start :: "unit comm_state" where
  "comm_start = \<lparr>g_drivers = replicate 4 None, sel_driver = None, sel_periph = None,
     drv_at = no_driver, per_at = (\<lambda>a. \<lparr>per_type = PERIPHERAL_SPI, per_id = of_nat a\<rparr>), io = ()\<rparr>"


lemma first_device_start: "first_device comm_start = None"
  by (simp add: first_device_def comm_start_def numeral_eq_Suc)


text \<open>
  Selection. \<open>api_select\<close> searches the driver table for the first driver of the type and its
  devices for the first one with the identifier. When both exist it succeeds, and every
  later transceive, disconnect or control call goes to exactly that pair. When no driver of
  the type is registered, or the driver has no such device, it reports an invalid handle
  only if the table searched is full; otherwise the search runs into a NULL slot and
  dereferences it.
\<close>

theorem api_select_outcome:
  assumes "g_drivers st = slots ds n" "ds \<noteq> []" "first_device st \<noteq> None"
    "\<And>d. d \<in> set ds \<Longrightarrow> drv_periph (drv_at st d) = slots (ps d) (m d)"
  shows "api_select ty dev_id st =
     (case find (\<lambda>d. drv_type (drv_at st d) = ty) ds of
        None \<Rightarrow> (if n = 0 then Ok (SE_ERR_HANDLE_INVALID, st) else Undef)
      | Some d \<Rightarrow>
          (case find (\<lambda>p. ucast (per_id (per_at st p)) = dev_id) (ps d) of
             None \<Rightarrow> (if m d = 0 then Ok (SE_ERR_HANDLE_INVALID, st) else Undef)
           | Some p \<Rightarrow> Ok (SE_SUCCESS, st\<lparr>sel_driver := Some d, sel_periph := Some p\<rparr>))) \<and>
     pick_first (st\<lparr>sel_driver := Some d', sel_periph := Some p'\<rparr>) = Inr (d', p')"
proof -
  have "d \<in> set ds" if "find (\<lambda>d. drv_type (drv_at st d) = ty) ds = Some d" for d
    using that by (auto simp: find_Some_iff)
  then have "api_select ty dev_id st =
     (case find (\<lambda>d. drv_type (drv_at st d) = ty) ds of
        None \<Rightarrow> (if n = 0 then Ok (SE_ERR_HANDLE_INVALID, st) else Undef)
      | Some d \<Rightarrow>
          (case find (\<lambda>p. ucast (per_id (per_at st p)) = dev_id) (ps d) of
             None \<Rightarrow> (if m d = 0 then Ok (SE_ERR_HANDLE_INVALID, st) else Undef)
           | Some p \<Rightarrow> Ok (SE_SUCCESS, st\<lparr>sel_driver := Some d, sel_periph := Some p\<rparr>)))"
    using assms(3,4)
    by (auto simp: api_select_def assms(1) find_driver_slots find_slave_device_slots split: option.split)
  moreover have "first_device (st\<lparr>sel_driver := Some d', sel_periph := Some p'\<rparr>) = first_device st"
    by (simp add: first_device_def split: option.split)
  ultimately show ?thesis
    using assms(3) by (auto simp: pick_first_def)
qed

definition comm_two :: "unit comm_state" where
  "comm_two = snd (api_register' (Some 7) (Some 5) (snd (api_register' (Some 7) (Some 3) comm_start)))"

lemma comm_two_tables:
  "g_drivers comm_two = slots [7] 3" "drv_periph (drv_at comm_two 7) = slots [3, 5] 2"
  by (simp_all add: comm_two_def api_register'_def add_driver_def add_periph_def comm_start_def
      no_driver_def numeral_eq_Suc slots_def)

lemma comm_two_sel: "sel_driver comm_two = None"
  by (simp add: comm_two_def api_register'_def add_driver_def add_periph_def comm_start_def
      no_driver_def numeral_eq_Suc)

theorem api_select_outcome_witness:
  "api_select PERIPHERAL_SPI 9 comm_two =
     (case find (\<lambda>d. drv_type (drv_at comm_two d) = PERIPHERAL_SPI) [7] of
        None \<Rightarrow> (if 3 = (0::nat) then Ok (SE_ERR_HANDLE_INVALID, comm_two) else Undef)
      | Some d \<Rightarrow>
          (case find (\<lambda>p. ucast (per_id (per_at comm_two p)) = (9 :: u32)) [3, 5] of
             None \<Rightarrow> (if 2 = (0::nat) then Ok (SE_ERR_HANDLE_INVALID, comm_two) else Undef)
           | Some p \<Rightarrow> Ok (SE_SUCCESS, comm_two\<lparr>sel_driver := Some d, sel_periph := Some p\<rparr>))) \<and>
     pick_first (comm_two\<lparr>sel_driver := Some 7, sel_periph := Some 5\<rparr>) = Inr (7, 5)"
  by (rule api_select_outcome [where ps = "\<lambda>_. [3, 5]" and m = "\<lambda>_. 2"])
    (simp_all add: comm_two_tables first_device_def, simp add: comm_two_tables slots_def)

text \<open>
  C38: the length limits of \<open>api_transceive\<close>. From 5 to 1003 bytes the driver in charge gets a
  well-formed queue that holds exactly the caller's bytes, and the right length. At 1004
  bytes the queue's rear wraps to 0 and the driver is told that 20 bytes are queued. From
  1005 to 1024 bytes, which the check still admits, the copy runs past the queue's array.
\<close>

theorem api_transceive_lengths:
  assumes dp: "pick_first st = Inr (d, p)" and len: "length inb = unat n"
  shows "(5 \<le> unat n \<and> unat n \<le> 1003 \<longrightarrow>
      (\<exists>qi. wf_queue qi \<and> q_data qi = inb \<and>
        api_transceive (Some inb) n (Some ob, Some ol) st =
          res_bind (transceive_queue qi n (util_queue_init queue_zero) 0 st)
            (copy_reply ob (Some ob, Some ol)))) \<and>
    (unat n = 1004 \<longrightarrow>
      (\<exists>qi. q_buf qi = replicate 20 0 @ inb \<and>
        api_transceive (Some inb) n (Some ob, Some ol) st =
          res_bind (transceive_queue qi 20 (util_queue_init queue_zero) 0 st)
            (copy_reply ob (Some ob, Some ol)))) \<and>
    (1005 \<le> unat n \<and> unat n \<le> 1024 \<longrightarrow>
        api_transceive (Some inb) n (Some ob, Some ol) st = Undef) \<and>
    (unat n < 5 \<or> 1024 < unat n \<longrightarrow>
        api_transceive (Some inb) n (Some ob, Some ol) st =
          Ok (SE_ERR_PARAM_INVALID, (Some ob, Some ol), st))"
proof (intro conjI impI)
  let ?q = "util_queue_init queue_zero"
  have lim: "\<not> (n < COMM_DATA_LEN_MIN \<or> COMM_DATA_LEN_MAX < n) \<longleftrightarrow> 5 \<le> unat n \<and> unat n \<le> 1024"
    by (auto simp: COMM_DATA_LEN_MIN_def COMM_DATA_LEN_MAX_def word_less_nat_alt)
  have run: "api_transceive (Some inb) n (Some ob, Some ol) st =
      res_bind (util_queue_rear_push inb n ?q) (\<lambda>qi.
        res_bind (transceive_queue qi (util_queue_size qi) ?q 0 st) (copy_reply ob (Some ob, Some ol)))"
    if "5 \<le> unat n \<and> unat n \<le> 1024"
    using lim that by (auto simp: api_transceive_def Let_def)
  {
    assume n: "5 \<le> unat n \<and> unat n \<le> 1003"
    obtain qi where qi: "util_queue_rear_push inb n ?q = Ok qi" "wf_queue qi" "q_data qi = inb"
      using rear_push_wf [of ?q n inb] n len by auto
    have "util_queue_size qi = n"
      using util_queue_size_wf [OF qi(2)] qi(3) len by (metis unsigned_word_eqI)
    then show "\<exists>qi. wf_queue qi \<and> q_data qi = inb \<and>
        api_transceive (Some inb) n (Some ob, Some ol) st =
          res_bind (transceive_queue qi n ?q 0 st) (copy_reply ob (Some ob, Some ol))"
      using run n qi by auto
  next
    assume n: "unat n = 1004"
    then have "n = 1004" by (intro unsigned_word_eqI) simp
    then have l: "length inb = 1004" using len by simp
    let ?qi = "?q\<lparr>q_buf := replicate 20 0 @ inb, rear_node := 0, q_buf_len := 1004\<rparr>"
    have "util_queue_rear_push inb n ?q = Ok ?qi"
      using l \<open>n = 1004\<close>
      by (simp add: util_queue_rear_push_def mem_read_def mem_write_def util_queue_init_def
          DEQUE_MAX_SIZE_def)
    moreover have "util_queue_size ?qi = 20"
      by (simp add: util_queue_size_def util_queue_init_def)
    ultimately have "api_transceive (Some inb) n (Some ob, Some ol) st =
        res_bind (transceive_queue ?qi 20 ?q 0 st) (copy_reply ob (Some ob, Some ol))"
      using run n by simp
    then show "\<exists>qi. q_buf qi = replicate 20 0 @ inb \<and>
        api_transceive (Some inb) n (Some ob, Some ol) st =
          res_bind (transceive_queue qi 20 ?q 0 st) (copy_reply ob (Some ob, Some ol))"
      by (intro exI [of _ ?qi]) simp
  next
    assume n: "1005 \<le> unat n \<and> unat n \<le> 1024"
    then have "util_queue_rear_push inb n ?q = Undef"
      using len by (simp add: util_queue_rear_push_def mem_read_def mem_write_def
          util_queue_init_def DEQUE_MAX_SIZE_def)
    then show "api_transceive (Some inb) n (Some ob, Some ol) st = Undef"
      using run n by simp
  next
    assume n: "unat n < 5 \<or> 1024 < unat n"
    then show "api_transceive (Some inb) n (Some ob, Some ol) st =
          Ok (SE_ERR_PARAM_INVALID, (Some ob, Some ol), st)"
      using lim by (auto simp: api_transceive_def)
  }
qed

theorem api_transceive_lengths_witness:
  "api_transceive (Some (replicate 1010 0x5A)) 1010 (Some [], Some 0) comm_two = Undef"
proof -
  have "pick_first comm_two = Inr (7, 3)"
    by (simp add: pick_first_def first_device_def comm_two_tables, simp add: comm_two_tables slots_def comm_two_sel)
  from api_transceive_lengths [OF this, of "replicate 1010 0x5A" 1010 "[]" 0] show ?thesis by simp
qed

end
