(* ===== verification/Tpdu.thy ===== *)
theory Tpdu
  imports Comm
begin

text \<open>
  The command layer's transport, src/sign/testSdk/src/cmd/tpdu.c: the APDU header record, the
  table of command codes, packing of an APDU around the payload in the queue, the exchange
  with the device, and the mapping of status words to error codes.

  The \<open>int32_t\<close> parameters of \<open>tpdu_init\<close> are 32-bit words read as signed: a negative value
  leaves the field alone.
\<close>

section \<open>Code\<close>

definition ISO_CASE_1 :: u8 where "ISO_CASE_1 = 0x01"
definition ISO_CASE_2S :: u8 where "ISO_CASE_2S = 0x02"
definition ISO_CASE_3S :: u8 where "ISO_CASE_3S = 0x03"
definition ISO_CASE_4S :: u8 where "ISO_CASE_4S = 0x04"
definition ISO_CASE_2E :: u8 where "ISO_CASE_2E = 0x12"
definition ISO_CASE_3E :: u8 where "ISO_CASE_3E = 0x13"
definition ISO_CASE_4E :: u8 where "ISO_CASE_4E = 0x14"

lemmas iso_cases = ISO_CASE_1_def ISO_CASE_2S_def ISO_CASE_3S_def ISO_CASE_4S_def
  ISO_CASE_2E_def ISO_CASE_3E_def ISO_CASE_4E_def

record iso_command_apdu_t =
  isoCase :: u8
  classbyte :: u8
  instruction :: u8
  apdu_p1 :: u8
  apdu_p2 :: u8
  lc :: u32
  le :: u32

definition apdu_zero :: iso_command_apdu_t where
  "apdu_zero = \<lparr>isoCase = 0, classbyte = 0, instruction = 0, apdu_p1 = 0, apdu_p2 = 0, lc = 0, le = 0\<rparr>"

definition nonneg :: "u32 \<Rightarrow> bool" where "nonneg x \<longleftrightarrow> 0 \<le> sint x"

definition tpdu_init ::
  "iso_command_apdu_t \<Rightarrow> u32 \<Rightarrow> u32 \<Rightarrow> u32 \<Rightarrow> u32 \<Rightarrow> u32 \<Rightarrow> u32 \<Rightarrow> u32 \<Rightarrow> iso_command_apdu_t" where
  "tpdu_init command icase cla ins par1 par2 lc0 le0 =
     (let c1 = (if nonneg icase then command\<lparr>isoCase := ucast icase\<rparr> else command);
          c2 = (if nonneg cla then c1\<lparr>classbyte := ucast cla\<rparr> else c1);
          c3 = (if nonneg ins then c2\<lparr>instruction := ucast ins\<rparr> else c2);
          c4 = (if nonneg par1 then c3\<lparr>apdu_p1 := ucast par1\<rparr> else c3);
          c5 = (if nonneg par2 then c4\<lparr>apdu_p2 := ucast par2\<rparr> else c4);
          c6 = (if nonneg lc0 then c5\<lparr>lc := lc0\<rparr> else c5)
      in if 0 < sint le0 then c6\<lparr>le := le0\<rparr> else c6)"

text \<open>
  The command codes, the positions of the enumeration in tpdu.h. \<open>VAR\<close> marks a field that
  the command function sets itself.
\<close>

definition VAR :: u8 where "VAR = 0xFF"

definition CMD_ENTER_LOWPOWER :: u8 where "CMD_ENTER_LOWPOWER = 0"
definition CMD_EXTTERN_AUTH :: u8 where "CMD_EXTTERN_AUTH = 1"
definition CMD_WRITE_KEY :: u8 where "CMD_WRITE_KEY = 2"
definition CMD_GENERATE_KEY :: u8 where "CMD_GENERATE_KEY = 3"
definition CMD_GEN_SHARED_KEY :: u8 where "CMD_GEN_SHARED_KEY = 4"
definition CMD_DEL_KEY :: u8 where "CMD_DEL_KEY = 5"
definition CMD_EXPORT_KEY :: u8 where "CMD_EXPORT_KEY = 6"
definition CMD_IMPORT_KEY :: u8 where "CMD_IMPORT_KEY = 7"
definition CMD_GET_KEY_INFO :: u8 where "CMD_GET_KEY_INFO = 8"
definition CMD_CHANGE_RELOAD_PIN :: u8 where "CMD_CHANGE_RELOAD_PIN = 9"
definition CMD_VERIFY_PIN :: u8 where "CMD_VERIFY_PIN = 10"
definition CMD_CIPHER_DATA :: u8 where "CMD_CIPHER_DATA = 11"
definition CMD_PKI_ENCIPHER :: u8 where "CMD_PKI_ENCIPHER = 12"
definition CMD_PKI_DECIPHER :: u8 where "CMD_PKI_DECIPHER = 13"
definition CMD_COMPUTE_SIGNATURE :: u8 where "CMD_COMPUTE_SIGNATURE = 14"
definition CMD_VERIFY_SIGNATURE :: u8 where "CMD_VERIFY_SIGNATURE = 15"
definition CMD_SM2_GET_ZA :: u8 where "CMD_SM2_GET_ZA = 16"
definition CMD_DIGEST :: u8 where "CMD_DIGEST = 17"
definition CMD_GET_RANDOM :: u8 where "CMD_GET_RANDOM = 18"
definition CMD_SELECT_FILE :: u8 where "CMD_SELECT_FILE = 19"
definition CMD_WRITE_FILE :: u8 where "CMD_WRITE_FILE = 20"
definition CMD_READ_FILE :: u8 where "CMD_READ_FILE = 21"
definition CMD_WRITE_SEID :: u8 where "CMD_WRITE_SEID = 22"
definition CMD_GET_INFO :: u8 where "CMD_GET_INFO = 23"
definition CMD_GET_ID :: u8 where "CMD_GET_ID = 24"
definition CMD_GET_RESPONSE :: u8 where "CMD_GET_RESPONSE = 25"
definition CMD_GET_FILE_INFO :: u8 where "CMD_GET_FILE_INFO = 26"
definition CMD_LOADER_INIT :: u8 where "CMD_LOADER_INIT = 27"
definition CMD_LOADER_PROGRAM :: u8 where "CMD_LOADER_PROGRAM = 28"
definition CMD_LOADER_CHECKPROGRAM :: u8 where "CMD_LOADER_CHECKPROGRAM = 29"
definition CMD_V2X_GENERATE_KEY_DERIVE_SEED :: u8 where "CMD_V2X_GENERATE_KEY_DERIVE_SEED = 30"
definition CMD_V2X_RECONSITUTION_KEY :: u8 where "CMD_V2X_RECONSITUTION_KEY = 31"

text \<open>\<open>command_list\<close> has 35 entries; the initialiser gives 32 and C zeroes the other three.\<close>

definition command_list :: "(u8 \<times> u8 \<times> u8 \<times> u8 \<times> u8) list" where
  "command_list =
    [(ISO_CASE_3S, 0x80, 0xE2, 0x00, VAR), (ISO_CASE_3S, 0x00, 0x82, 0x00, 0x00),
     (ISO_CASE_3S, VAR, 0xD4, VAR, VAR), (ISO_CASE_3S, 0x80, 0x46, 0x00, 0x00),
     (ISO_CASE_3S, 0x80, 0x44, VAR, VAR), (ISO_CASE_1, 0x80, 0x48, 0x00, VAR),
     (ISO_CASE_3S, 0x80, 0x3A, VAR, VAR), (VAR, 0x80, 0x3C, VAR, VAR),
     (ISO_CASE_2S, 0x80, 0x42, VAR, 0x00), (ISO_CASE_3S, 0x80, 0x5E, VAR, VAR),
     (ISO_CASE_3S, 0x00, 0x20, 0x00, VAR), (VAR, 0x80, 0x3E, VAR, VAR),
     (VAR, 0x80, 0x30, VAR, VAR), (VAR, 0x80, 0x32, VAR, VAR),
     (VAR, 0x80, 0x36, VAR, VAR), (VAR, 0x80, 0x38, VAR, VAR),
     (ISO_CASE_3S, 0x80, 0x4E, 0x00, 0x00), (VAR, 0x80, 0x34, VAR, VAR),
     (ISO_CASE_2S, 0x00, 0x84, 0x00, 0x00), (ISO_CASE_3S, 0x00, 0xA4, VAR, 0x00),
     (VAR, VAR, 0xD6, VAR, VAR), (VAR, VAR, 0xB0, VAR, VAR),
     (ISO_CASE_3S, 0x80, 0xD2, 0x00, 0x00), (ISO_CASE_2S, 0x80, 0xC8, VAR, 0x00),
     (ISO_CASE_2S, 0x80, 0x40, 0x00, 0x00), (ISO_CASE_2E, 0x00, 0xC0, 0x00, 0x00),
     (ISO_CASE_2E, 0x80, 0x4A, VAR, 0x00), (ISO_CASE_3S, 0xBF, 0x41, 0x00, 0x00),
     (ISO_CASE_3E, 0x00, 0x00, 0x00, 0x00), (ISO_CASE_3S, 0xBF, 0x42, 0x00, 0x00),
     (ISO_CASE_2S, 0x80, 0x4C, 0x00, 0x00), (ISO_CASE_4E, 0x80, 0x50, 0x00, VAR),
     (0, 0, 0, 0, 0), (0, 0, 0, 0, 0), (0, 0, 0, 0, 0)]"

definition tpdu_init_with_id :: "iso_command_apdu_t \<Rightarrow> u8 \<Rightarrow> iso_command_apdu_t res" where
  "tpdu_init_with_id command commandID =
     res_bind (guard (unat commandID < length command_list)) (\<lambda>_.
     let (icase, cla, ins, par1, par2) = command_list ! unat commandID
     in Ok (tpdu_init command (ucast icase) (ucast cla) (ucast ins) (ucast par1) (ucast par2)
              (- 1) (- 1)))"

definition tpdu_set_cla :: "iso_command_apdu_t \<Rightarrow> u32 \<Rightarrow> iso_command_apdu_t" where
  "tpdu_set_cla command cla = tpdu_init command (- 1) cla (- 1) (- 1) (- 1) (- 1) (- 1)"

definition tpdu_set_p1p2 :: "iso_command_apdu_t \<Rightarrow> u8 \<Rightarrow> u8 \<Rightarrow> iso_command_apdu_t" where
  "tpdu_set_p1p2 command par1 par2 =
     tpdu_init command (- 1) (- 1) (- 1) (ucast par1) (ucast par2) (- 1) (- 1)"

definition tpdu_set_le :: "iso_command_apdu_t \<Rightarrow> u32 \<Rightarrow> iso_command_apdu_t" where
  "tpdu_set_le command le0 = tpdu_init command (- 1) (- 1) (- 1) (- 1) (- 1) (- 1) le0"

text \<open>
  \<open>tpdu_pack\<close> returns the queue and \<open>*output_len\<close>. \<open>front_buffer\<close> is a 7-byte and
  \<open>rear_buffer\<close> a 2-byte zeroed array; case 4S stores Le in \<open>rear_buffer[1]\<close> and pushes one
  byte from \<open>rear_buffer[0]\<close>.
\<close>

definition tpdu_pack ::
  "iso_command_apdu_t \<Rightarrow> double_queue_node \<Rightarrow> u32 \<Rightarrow>
     (se_error \<times> double_queue_node \<times> u32) res" where
  "tpdu_pack command q out_len =
     (let head = [classbyte command, instruction command, apdu_p1 command, apdu_p2 command];
          sz = util_queue_size q
      in if isoCase command = ISO_CASE_1 then
           res_bind (util_queue_front_push (head @ [0x00, 0, 0]) 5 q) (\<lambda>q'. Ok (SE_SUCCESS, q', 5))
         else if isoCase command = ISO_CASE_2S then
           res_bind (util_queue_front_push (head @ [ucast (le command), 0, 0]) 5 q) (\<lambda>q'.
           Ok (SE_SUCCESS, q', 5))
         else if isoCase command = ISO_CASE_3S then
           res_bind (util_queue_front_push (head @ [ucast sz, 0, 0]) 5 q) (\<lambda>q'.
           Ok (SE_SUCCESS, q', util_queue_size q'))
         else if isoCase command = ISO_CASE_4S then
           res_bind (util_queue_front_push (head @ [ucast sz, 0, 0]) 5 q) (\<lambda>q1.
           res_bind (util_queue_rear_push [0, ucast (le command)] 1 q1) (\<lambda>q'.
           Ok (SE_SUCCESS, q', 5 + sz + 1)))
         else if isoCase command = ISO_CASE_2E then
           res_bind (util_queue_front_push
             (head @ [0x00, ucast (drop_bit 8 (le command)), ucast (le command)]) 7 q) (\<lambda>q'.
           Ok (SE_SUCCESS, q', 7))
         else if isoCase command = ISO_CASE_3E then
           res_bind (util_queue_front_push
             (head @ [0x00, ucast (drop_bit 8 sz), ucast sz]) 7 q) (\<lambda>q'.
           Ok (SE_SUCCESS, q', util_queue_size q'))
         else if isoCase command = ISO_CASE_4E then
           res_bind (util_queue_front_push
             (head @ [0x00, ucast (drop_bit 8 sz), ucast sz]) 7 q) (\<lambda>q1.
           res_bind (util_queue_rear_push
             [ucast (drop_bit 8 (le command)), ucast (le command)] 2 q1) (\<lambda>q'.
           Ok (SE_SUCCESS, q', 6 + sz)))
         else Ok (SE_SUCCESS, q, out_len))"

text \<open>The NULL checks of \<open>tpdu_unpack\<close> cannot fail: its callers pass addresses of locals.\<close>

definition tpdu_unpack :: "double_queue_node \<Rightarrow> (se_error \<times> double_queue_node \<times> u32) res" where
  "tpdu_unpack q =
     res_bind (util_queue_rear_pop 2 q) (\<lambda>q'. Ok (SE_SUCCESS, q', ucast (q_buf_len q')))"

definition tpdu_send ::
  "double_queue_node \<Rightarrow> double_queue_node \<Rightarrow> 'w comm_state \<Rightarrow>
     (se_error \<times> double_queue_node \<times> double_queue_node \<times> u32 \<times> 'w comm_state) res" where
  "tpdu_send queue_in queue_out st =
     transceive_queue queue_in (ucast (q_buf_len queue_in)) queue_out 0 st"

definition tpdu_change_error_code :: "u16 \<Rightarrow> se_error" where
  "tpdu_change_error_code status_word =
     (if status_word = 0x9000 then SE_SUCCESS else ucast status_word OR 0x10000000)"

text \<open>The status word behind position \<open>off\<close>: \<open>off - 2\<close> is computed in \<open>uint32_t\<close>.\<close>

definition status_word_at :: "double_queue_node \<Rightarrow> u32 \<Rightarrow> u16 res" where
  "status_word_at q off =
     res_bind (mem_byte (q_buf q) (unat (off - 2))) (\<lambda>a.
     res_bind (mem_byte (q_buf q) (unat (off - 1))) (\<lambda>b.
     Ok (push_bit 8 (ucast a) AND 0xFF00 OR ucast b AND 0xFF)))"

definition tpdu_exchange ::
  "iso_command_apdu_t \<Rightarrow> double_queue_node \<Rightarrow> double_queue_node \<Rightarrow> u32 \<Rightarrow> 'w comm_state \<Rightarrow>
     (se_error \<times> double_queue_node \<times> double_queue_node \<times> u32 \<times> 'w comm_state) res" where
  "tpdu_exchange command queue_in queue_out output_len st =
     res_bind (tpdu_pack command queue_in 0) (\<lambda>(ret, qi, in_len).
     if ret \<noteq> SE_SUCCESS then Ok (ret, qi, queue_out, output_len, st) else
     res_bind (tpdu_send qi queue_out st) (\<lambda>(ret, qi, qo, out_len, st).
     if ret \<noteq> SE_SUCCESS then
       res_bind (status_word_at qo 0) (\<lambda>status_word. Ok (ret, qi, qo, out_len, st))
     else
       res_bind (status_word_at qo (ucast (rear_node qo))) (\<lambda>status_word.
       if status_word AND 0xFF00 = 0x6100 then
         res_bind (tpdu_unpack qo) (\<lambda>(ret, qo, out_len).
         Ok (tpdu_change_error_code status_word, qi, qo, out_len, st))
       else if status_word \<noteq> 0x9000 then
         Ok (tpdu_change_error_code status_word, qi, qo, output_len, st)
       else
         res_bind (tpdu_unpack qo) (\<lambda>(ret, qo, out_len).
         Ok (ret, qi, qo, if ret \<noteq> SE_SUCCESS then output_len else out_len, st)))))"

definition tpdu_execute ::
  "iso_command_apdu_t option \<Rightarrow> double_queue_node option \<Rightarrow> u32 \<Rightarrow> double_queue_node option \<Rightarrow>
     u32 option \<Rightarrow> 'w comm_state \<Rightarrow>
     (se_error \<times> double_queue_node option \<times> double_queue_node option \<times> u32 option \<times>
      'w comm_state) res" where
  "tpdu_execute command input input_len output output_len st =
     (case (command, input) of
        (Some c, Some qi) \<Rightarrow>
          (case (output, output_len) of
             (Some qo, Some ol) \<Rightarrow>
               res_bind (tpdu_exchange c qi qo ol st) (\<lambda>(ret, qi', qo', ol', st').
               Ok (ret, Some qi', Some qo', Some ol', st'))
           | _ \<Rightarrow> Ok (SE_ERR_PARAM_INVALID, input, output, output_len, st))
      | _ \<Rightarrow> Ok (SE_ERR_PARAM_INVALID, input, output, output_len, st))"

definition tpdu_execute_no_response ::
  "iso_command_apdu_t option \<Rightarrow> double_queue_node option \<Rightarrow> u32 \<Rightarrow> 'w comm_state \<Rightarrow>
     (se_error \<times> double_queue_node option \<times> 'w comm_state) res" where
  "tpdu_execute_no_response command input input_len st =
     (case (command, input) of
        (Some c, Some qi) \<Rightarrow>
          (let queue_out = util_queue_init queue_zero in
           res_bind (tpdu_pack c qi 0) (\<lambda>(ret, qi, in_len).
           if ret \<noteq> SE_SUCCESS then Ok (ret, Some qi, st) else
           res_bind (tpdu_send qi queue_out st) (\<lambda>(ret, qi, qo, out_len, st).
           res_bind (mem_byte (q_buf qo) (unat (front_node qo))) (\<lambda>a.
           res_bind (mem_byte (q_buf qo) (unat (front_node qo) + 1)) (\<lambda>b.
           let status_word = push_bit 8 (ucast a) AND 0xFF00 OR ucast b AND 0xFF
           in if ret \<noteq> SE_SUCCESS then Ok (ret, Some qi, st)
              else if status_word \<noteq> 0x9000
              then Ok (tpdu_change_error_code status_word, Some qi, st)
              else Ok (SE_SUCCESS, Some qi, st))))))
      | _ \<Rightarrow> Ok (SE_ERR_PARAM_INVALID, input, st))"

section \<open>APDU layout\<close>

text \<open>The command APDU of ISO 7816-4 in the variants the SDK uses, around the data \<open>d\<close>.\<close>

definition iso7816_apdu :: "iso_command_apdu_t \<Rightarrow> bytes \<Rightarrow> bytes" where
  "iso7816_apdu c d =
     (let head = [classbyte c, instruction c, apdu_p1 c, apdu_p2 c];
          le_hi = ucast (drop_bit 8 (le c)); le_lo = ucast (le c);
          lc_hi = of_nat (length d div 256); lc_lo = of_nat (length d)
      in if isoCase c = ISO_CASE_1 then head @ [0] @ d
         else if isoCase c = ISO_CASE_2S then head @ [le_lo] @ d
         else if isoCase c = ISO_CASE_3S then head @ [lc_lo] @ d
         else if isoCase c = ISO_CASE_4S then head @ [lc_lo] @ d @ [le_lo]
         else if isoCase c = ISO_CASE_2E then head @ [0, le_hi, le_lo] @ d
         else if isoCase c = ISO_CASE_3E then head @ [0, lc_hi, lc_lo] @ d
         else if isoCase c = ISO_CASE_4E then head @ [0, lc_hi, lc_lo] @ d @ [le_hi, le_lo]
         else d)"

lemma size_bytes:
  assumes "wf_queue q"
  shows "util_queue_size q = of_nat (length (q_data q))"
    "ucast (util_queue_size q) = (of_nat (length (q_data q)) :: u8)"
    "ucast (drop_bit 8 (util_queue_size q)) = (of_nat (length (q_data q) div 256) :: u8)"
proof -
  show s: "util_queue_size q = of_nat (length (q_data q))"
  proof -
    have "unat (util_queue_size q) = unat (of_nat (length (q_data q)) :: u32)"
      using util_queue_size_wf [OF assms] wf_queue_bounds(1) [OF assms] by (simp add: unat_of_nat_u32)
    then show ?thesis by (rule unsigned_word_eqI)
  qed
  show "ucast (util_queue_size q) = (of_nat (length (q_data q)) :: u8)"
    unfolding s by (rule bit_word_eqI) (simp add: bit_simps)
  have "drop_bit 8 (of_nat n :: u32) = of_nat (n div 256)" if "n < 1024" for n
  proof -
    have "unat (drop_bit 8 (of_nat n :: u32)) = drop_bit 8 (unat (of_nat n :: u32))"
      by (rule unat_drop_bit_eq)
    also have "\<dots> = n div 256" using that by (simp add: unat_of_nat_u32 drop_bit_eq_div)
    also have "\<dots> = unat (of_nat (n div 256) :: u32)" using that by (simp add: unat_of_nat_u32)
    finally show ?thesis by (rule unsigned_word_eqI)
  qed
  then show "ucast (drop_bit 8 (util_queue_size q)) = (of_nat (length (q_data q) div 256) :: u8)"
    unfolding s using wf_queue_bounds(1) [OF assms]
    by (simp only:) (rule bit_word_eqI, simp add: bit_simps)
qed

lemma front_push_head:
  assumes "wf_queue q" "n \<le> length h" "n \<le> front_room q" "0 < front_room q" "n < 1024"
  obtains q' where "util_queue_front_push h (of_nat n) q = Ok q'" "wf_queue q'"
    "q_data q' = take n h @ q_data q" "front_room q' = front_room q - n" "rear_room q' = rear_room q"
proof -
  have "unat (of_nat n :: u32) = n" using assms(5) by (simp add: unat_of_nat_u32)
  then show thesis using front_push_wf [OF assms(1), of "of_nat n" h] assms that by metis
qed

lemma rear_push_tail:
  assumes "wf_queue q" "n \<le> length h" "n \<le> rear_room q" "n < 1024"
  obtains q' where "util_queue_rear_push h (of_nat n) q = Ok q'" "wf_queue q'"
    "q_data q' = q_data q @ take n h" "front_room q' = front_room q" "rear_room q' = rear_room q - n"
proof -
  have "unat (of_nat n :: u32) = n" using assms(4) by (simp add: unat_of_nat_u32)
  then show thesis using rear_push_wf [OF assms(1), of "of_nat n" h] assms that by metis
qed

lemma tpdu_pack_frame:
  assumes "wf_queue q" "7 \<le> front_room q" "2 \<le> rear_room q"
  shows "\<exists>q' n. tpdu_pack c q ol = Ok (SE_SUCCESS, q', n) \<and> wf_queue q' \<and>
     q_data q' = iso7816_apdu (if isoCase c = ISO_CASE_4S then c\<lparr>le := 0\<rparr> else c) (q_data q) \<and>
     front_room q \<le> front_room q' + 7 \<and> rear_room q \<le> rear_room q' + 2"
proof -
  note sz = size_bytes [OF assms(1)]
  have one: "\<exists>q'. util_queue_front_push h (of_nat n) q = Ok q' \<and> wf_queue q' \<and>
      q_data q' = take n h @ q_data q \<and> front_room q \<le> front_room q' + 7 \<and> rear_room q' = rear_room q"
    if "n \<le> 7" "length h = 7" for n h
    by (rule front_push_head [of q n h]) (use assms that in auto)
  have two: "\<exists>q1 q'. util_queue_front_push h (of_nat n) q = Ok q1 \<and>
      util_queue_rear_push t (of_nat m) q1 = Ok q' \<and> wf_queue q' \<and>
      q_data q' = take n h @ q_data q @ take m t \<and> front_room q \<le> front_room q' + 7 \<and>
      rear_room q \<le> rear_room q' + 2"
    if nm: "n \<le> 7" "length h = 7" "m \<le> 2" "length t = 2" for n h m t
  proof -
    obtain q1 where q1: "util_queue_front_push h (of_nat n) q = Ok q1" "wf_queue q1"
      "q_data q1 = take n h @ q_data q" "front_room q \<le> front_room q1 + 7" "rear_room q1 = rear_room q"
      using one [OF nm(1,2)] by auto
    show ?thesis
      by (rule rear_push_tail [OF q1(2), of m t]) (use assms nm q1 in auto)
  qed
  let ?h = "\<lambda>x y z. [classbyte c, instruction c, apdu_p1 c, apdu_p2 c, x, y, z]"
  consider "isoCase c = ISO_CASE_1" | "isoCase c = ISO_CASE_2S" | "isoCase c = ISO_CASE_3S"
    | "isoCase c = ISO_CASE_4S" | "isoCase c = ISO_CASE_2E" | "isoCase c = ISO_CASE_3E"
    | "isoCase c = ISO_CASE_4E"
    | "isoCase c \<notin> {ISO_CASE_1, ISO_CASE_2S, ISO_CASE_3S, ISO_CASE_4S, ISO_CASE_2E, ISO_CASE_3E, ISO_CASE_4E}"
    by blast
  then show ?thesis
  proof cases
    case 1
    then show ?thesis using one [of 5 "?h 0 0 0"]
      by (auto simp: tpdu_pack_def iso7816_apdu_def iso_cases Let_def)
  next
    case 2
    then show ?thesis using one [of 5 "?h (ucast (le c)) 0 0"]
      by (auto simp: tpdu_pack_def iso7816_apdu_def iso_cases Let_def)
  next
    case 3
    then show ?thesis using one [of 5 "?h (ucast (util_queue_size q)) 0 0"]
      by (auto simp: tpdu_pack_def iso7816_apdu_def iso_cases Let_def sz(2,3))
  next
    case 4
    then show ?thesis using two [of 5 "?h (ucast (util_queue_size q)) 0 0" 1 "[0, ucast (le c)]"]
      by (auto simp: tpdu_pack_def iso7816_apdu_def iso_cases Let_def sz(2,3))
  next
    case 5
    then show ?thesis using one [of 7 "?h 0 (ucast (drop_bit 8 (le c))) (ucast (le c))"]
      by (auto simp: tpdu_pack_def iso7816_apdu_def iso_cases Let_def)
  next
    case 6
    then show ?thesis
      using one [of 7 "?h 0 (ucast (drop_bit 8 (util_queue_size q))) (ucast (util_queue_size q))"]
      by (auto simp: tpdu_pack_def iso7816_apdu_def iso_cases Let_def sz(2,3))
  next
    case 7
    then show ?thesis
      using two [of 7 "?h 0 (ucast (drop_bit 8 (util_queue_size q))) (ucast (util_queue_size q))" 2
          "[ucast (drop_bit 8 (le c)), ucast (le c)]"]
      by (auto simp: tpdu_pack_def iso7816_apdu_def iso_cases Let_def sz(2,3))
  next
    case 8
    then show ?thesis
      using assms by (simp add: tpdu_pack_def iso7816_apdu_def Let_def)
  qed
qed


definition cmd_example :: "u8 \<Rightarrow> iso_command_apdu_t" where
  "cmd_example k = apdu_zero\<lparr>isoCase := k, classbyte := 0x80, instruction := 0x3E, le := 0x1234\<rparr>"


section \<open>Status words\<close>

lemma bit_se_flag: "bit (0x10000000 :: u32) k \<longleftrightarrow> k = 28"
proof -
  have "(0x10000000 :: u32) = 2 ^ 28" by simp
  then show ?thesis by (simp only: bit_exp_iff) auto
qed

lemma error_code_low: "ucast (ucast (a :: u16) OR (0x10000000 :: u32)) = a"
proof (rule bit_word_eqI)
  fix k assume "k < LENGTH(16)"
  then have "k < 16" by simp
  then show "bit (ucast (ucast a OR (0x10000000 :: u32)) :: u16) k = bit a k"
    by (simp only: bit_unsigned_iff bit_or_iff bit_se_flag possible_bit_word) auto
qed

lemma error_code_high: "bit (ucast (a :: u16) OR (0x10000000 :: u32)) k \<Longrightarrow> 28 \<le> k \<Longrightarrow> k = 28"
  using bit_imp_le_length [of a k] by (auto simp only: bit_unsigned_iff bit_or_iff bit_se_flag) simp

lemma error_code_nonzero: "ucast (a :: u16) OR (0x10000000 :: u32) \<noteq> 0"
proof -
  have "bit (ucast a OR (0x10000000 :: u32)) 28" by (simp only: bit_or_iff bit_se_flag) simp
  then show ?thesis by (metis bit_0_eq bot_apply bot_bool_def)
qed

text \<open>
  Status words. Success is reported for 9000 and for nothing else, different status words
  give different codes, and none collides with the SDK's own error codes 0x2... and
  0x3..., which have bit 29 set.
\<close>

theorem status_word_codes:
  "(tpdu_change_error_code a = SE_SUCCESS \<longleftrightarrow> a = 0x9000) \<and>
   (tpdu_change_error_code a = tpdu_change_error_code b \<longleftrightarrow> a = b) \<and>
   \<not> bit (tpdu_change_error_code a) 29"
proof (intro conjI)
  have inj: "ucast a OR (0x10000000 :: u32) = ucast b OR 0x10000000 \<longleftrightarrow> a = b"
    using error_code_low [of a] error_code_low [of b] by metis
  show "tpdu_change_error_code a = SE_SUCCESS \<longleftrightarrow> a = 0x9000"
    using error_code_nonzero [of a] by (simp only: tpdu_change_error_code_def) (metis (full_types))
  show "tpdu_change_error_code a = tpdu_change_error_code b \<longleftrightarrow> a = b"
    using error_code_nonzero [of a] error_code_nonzero [of b] inj
    by (simp only: tpdu_change_error_code_def) (metis (full_types))
  show "\<not> bit (tpdu_change_error_code a) 29"
  proof (cases "a = 0x9000")
    case True
    then show ?thesis by (simp only: tpdu_change_error_code_def if_P) simp
  next
    case False
    then show ?thesis
      using error_code_high [of a 29] by (simp only: tpdu_change_error_code_def if_not_P) auto
  qed
qed

lemma u8_bit_lt: "bit (x :: u8) n \<Longrightarrow> n < 8"
  by (auto dest: bit_imp_le_length)

lemma sw_masks:
  "push_bit 8 (ucast (x :: u8)) AND 0xFF00 = (push_bit 8 (ucast x) :: u16)"
  "ucast x AND 0xFF = (ucast x :: u16)"
proof -
  have m: "(0xFF00 :: u16) = push_bit 8 (mask 8)" "(0xFF :: u16) = mask 8"
    by (simp_all add: mask_eq_exp_minus_1)
  show "push_bit 8 (ucast x) AND 0xFF00 = (push_bit 8 (ucast x) :: u16)"
    unfolding m using u8_bit_lt by (intro bit_word_eqI)
      (auto simp only: bit_and_iff bit_push_bit_iff bit_mask_iff bit_unsigned_iff possible_bit_word)
  show "ucast x AND 0xFF = (ucast x :: u16)"
    unfolding m using u8_bit_lt [of x] by (intro bit_word_eqI)
      (auto simp only: bit_and_iff bit_mask_iff bit_unsigned_iff possible_bit_word)
qed

lemma status_word_at_Ok:
  assumes "length (q_buf q) = 1024" "2 \<le> unat off" "unat off \<le> 1024"
  shows "status_word_at q off =
    Ok (push_bit 8 (ucast (q_buf q ! (unat off - 2))) OR ucast (q_buf q ! (unat off - 1)))"
proof -
  have "push_bit 8 (ucast x) AND 0xFF00 = (push_bit 8 (ucast x) :: u16)"
    "ucast x AND 0xFF = (ucast x :: u16)" for x :: u8
    by (rule sw_masks)+
  moreover have "unat (off - 2) = unat off - 2" "unat (off - 1) = unat off - 1"
    using assms by (simp_all add: unat_sub word_le_nat_alt)
  ultimately show ?thesis
    using assms by (auto simp add: status_word_at_def mem_byte_def)
qed

section \<open>Exchange\<close>

lemma nth_q_data:
  assumes "wf_queue q" "i < length (q_data q)"
  shows "q_data q ! i = q_buf q ! (unat (front_node q) + i)"
  using assms by (auto simp: q_data_def wf_queue_def)

lemma status_word_at_rear:
  assumes wf: "wf_queue q" and d: "q_data q = d @ [s1, s2]"
  shows "status_word_at q (ucast (rear_node q)) = Ok (push_bit 8 (ucast s1) OR ucast s2)"
proof -
  have l: "length (q_data q) = unat (rear_node q) - unat (front_node q)" "length (q_buf q) = 1024"
      "unat (rear_node q) < 1024"
    using wf by (auto simp: wf_queue_def DEQUE_MAX_SIZE_def q_data_def)
  then have r: "unat (rear_node q) = unat (front_node q) + length d + 2" using d by simp
  have "q_buf q ! (unat (rear_node q) - 2) = s1" "q_buf q ! (unat (rear_node q) - 1) = s2"
    using nth_q_data [OF wf, of "length d"] nth_q_data [OF wf, of "length d + 1"] d r
    by (simp_all add: nth_append)
  then show ?thesis
    using l r by (simp add: status_word_at_Ok unat_u16_u32)
qed

lemma status_word_bytes:
  "push_bit 8 (ucast (a :: u8)) OR ucast (b :: u8) = (push_bit 8 (ucast (c :: u8)) OR ucast (d :: u8) :: u16) \<longleftrightarrow> a = c \<and> b = d"
proof -
  have hi: "ucast (drop_bit 8 (push_bit 8 (ucast x) OR ucast y :: u16)) = x"
    and lo: "ucast (push_bit 8 (ucast x) OR ucast y :: u16) = y" for x y :: u8
    by (rule bit_word_eqI; simp add: bit_simps u8_bit_high)+
  show ?thesis using hi [of a b] hi [of c d] lo [of a b] lo [of c d] by metis
qed

lemma status_word_consts:
  "(0x9000 :: u16) = push_bit 8 (ucast (0x90 :: u8)) OR ucast (0 :: u8)"
  by simp

lemma status_word_class:
  "(push_bit 8 (ucast (a :: u8)) OR ucast (b :: u8)) AND 0xFF00 = (0x6100 :: u16) \<longleftrightarrow> a = 0x61"
proof -
  have "(push_bit 8 (ucast a) OR ucast b) AND 0xFF00 = (push_bit 8 (ucast a) OR ucast (0::u8) :: u16)"
  proof -
    have m: "(0xFF00 :: u16) = push_bit 8 (mask 8)" by (simp add: mask_eq_exp_minus_1)
    show ?thesis
    proof (rule bit_word_eqI)
      fix k assume k: "k < LENGTH(16)"
      have "bit ((push_bit 8 (ucast a) OR ucast b) AND push_bit 8 (mask 8) :: u16) k
          \<longleftrightarrow> 8 \<le> k \<and> bit a (k - 8)"
        using k by (simp only: bit_and_iff bit_or_iff bit_push_bit_iff bit_mask_iff
            bit_unsigned_iff possible_bit_word) (use u8_bit_lt [of b k] u8_bit_lt [of a "k - 8"] in auto)
      also have "\<dots> \<longleftrightarrow> bit (push_bit 8 (ucast a) OR ucast (0::u8) :: u16) k"
        using k by (auto simp: bit_simps)
      finally show "bit ((push_bit 8 (ucast a) OR ucast b) AND 0xFF00 :: u16) k
          \<longleftrightarrow> bit (push_bit 8 (ucast a) OR ucast (0::u8) :: u16) k"
        unfolding m .
    qed
  qed
  moreover have "(0x6100 :: u16) = push_bit 8 (ucast (0x61 :: u8)) OR ucast (0 :: u8)" by simp
  ultimately show ?thesis by (metis status_word_bytes)
qed

lemma tpdu_unpack_wf:
  assumes "wf_queue q" "q_data q = d @ [s1, s2]" "1 \<le> rear_room q"
  obtains q' where "tpdu_unpack q = Ok (SE_SUCCESS, q', of_nat (length d))" "wf_queue q'" "q_data q' = d"
proof -
  have "unat (2 :: u32) \<le> length (q_data q)" "unat (2 :: u32) \<le> Suc (rear_room q)"
    using assms by simp_all
  from rear_pop_wf [OF assms(1) this] obtain q' where
    q': "util_queue_rear_pop 2 q = Ok q'" "wf_queue q'"
        "q_data q' = take (length (q_data q) - unat (2 :: u32)) (q_data q)" by metis
  then have d: "q_data q' = d" using assms(2) by simp
  have "unat (ucast (q_buf_len q') :: u32) = unat (of_nat (length d) :: u32)"
    using length_q_data [OF q'(2)] d wf_queue_bounds(1) [OF q'(2)]
    by (simp add: unat_u16_u32 unat_of_nat_u32)
  then have "ucast (q_buf_len q') = (of_nat (length d) :: u32)" by (rule unsigned_word_eqI)
  then show thesis using that q' d by (simp add: tpdu_unpack_def)
qed

lemma tpdu_exchange_cases:
  assumes "tpdu_pack c qi 0 = Ok (SE_SUCCESS, q1, n)"
    and "tpdu_send q1 qo st = Ok (SE_SUCCESS, q2, qr, ol', st')"
    and "wf_queue qr" "q_data qr = d @ [s1, s2]" "1 \<le> rear_room qr"
  shows "(s1 = 0x90 \<and> s2 = 0 \<longrightarrow> (\<exists>q'. wf_queue q' \<and> q_data q' = d \<and>
            tpdu_exchange c qi qo ol st = Ok (SE_SUCCESS, q2, q', of_nat (length d), st'))) \<and>
    (s1 = 0x61 \<longrightarrow> (\<exists>q'. wf_queue q' \<and> q_data q' = d \<and>
            tpdu_exchange c qi qo ol st =
              Ok (0x10006100 OR ucast s2, q2, q', of_nat (length d), st'))) \<and>
    (s1 \<noteq> 0x61 \<and> \<not> (s1 = 0x90 \<and> s2 = 0) \<longrightarrow>
            tpdu_exchange c qi qo ol st =
              Ok (ucast (push_bit 8 (ucast s1) OR ucast s2 :: u16) OR 0x10000000, q2, qr, ol, st'))"
proof -
  let ?sw = "push_bit 8 (ucast s1) OR ucast s2 :: u16"
  obtain q' where q': "tpdu_unpack qr = Ok (SE_SUCCESS, q', of_nat (length d))" "wf_queue q'" "q_data q' = d"
    using tpdu_unpack_wf [OF assms(3-5)] by metis
  have is9: "?sw = 0x9000 \<longleftrightarrow> s1 = 0x90 \<and> s2 = 0"
    unfolding status_word_consts by (rule status_word_bytes)
  have run: "tpdu_exchange c qi qo ol st =
      (if ?sw AND 0xFF00 = 0x6100 then Ok (tpdu_change_error_code ?sw, q2, q', of_nat (length d), st')
       else if ?sw \<noteq> 0x9000 then Ok (tpdu_change_error_code ?sw, q2, qr, ol, st')
       else Ok (SE_SUCCESS, q2, q', of_nat (length d), st'))"
    unfolding tpdu_exchange_def assms(1)
    by (simp add: assms(2) status_word_at_rear [OF assms(3,4)] q'(1))
  have c61: "tpdu_change_error_code ?sw = 0x10006100 OR ucast s2" if "s1 = 0x61"
  proof -
    have const: "0x6100 OR 0x10000000 = (0x10006100 :: u32)" by simp
    have uu: "ucast (ucast s2 :: u16) = (ucast s2 :: u32)"
      by (rule bit_word_eqI) (auto simp: bit_simps dest: bit_imp_le_length)
    have "ucast (push_bit 8 (ucast (0x61 :: u8)) OR ucast s2 :: u16) OR 0x10000000 = (0x10006100 OR ucast s2 :: u32)"
      by (simp add: unsigned_or_eq uu or.commute) (simp only: or.assoc const)
    moreover have "?sw \<noteq> 0x9000" using is9 that by simp
    ultimately show ?thesis using that by (simp only: tpdu_change_error_code_def if_False)
  qed
  show ?thesis
    unfolding run status_word_class is9
    using q'(2,3) c61 is9 by (auto simp: tpdu_change_error_code_def)
qed

lemma change_error_code_0: "tpdu_change_error_code a = 0 \<longleftrightarrow> a = 0x9000"
  using error_code_nonzero [of a] by (simp only: tpdu_change_error_code_def) (metis (full_types))

lemma two_last:
  assumes "\<not> length xs < 2"
  shows "\<exists>d a b. xs = d @ [a, b]"
proof (cases xs rule: rev_cases)
  case (snoc ys b)
  then show ?thesis using assms by (cases ys rule: rev_cases) auto
qed (use assms in simp)

section \<open>The transport below\<close>

text \<open>
  What the command layer needs from a protocol driver: the queue it gets back on success is
  well-formed with a byte to spare, and a reply too short to hold a status word does not look
  like one that carries data; and its contents satisfy the protocol's own notion of a genuine
  reply, which the command layer hands on.
\<close>

definition reply_ok :: "double_queue_node \<Rightarrow> bool" where
  "reply_ok q \<longleftrightarrow> wf_queue q \<and> 1 \<le> rear_room q \<and>
     (length (q_data q) < 2 \<longrightarrow>
        2 \<le> unat (rear_node q) \<and> q_buf q ! (unat (rear_node q) - 2) \<notin> {0x90, 0x61})"

locale frame_transport =
  fixes xfer :: "double_queue_node \<Rightarrow> u32 \<Rightarrow> double_queue_node \<Rightarrow> u32 \<Rightarrow> 'w \<Rightarrow>
      (se_error \<times> double_queue_node \<times> double_queue_node \<times> u32 \<times> 'w) res"
    and genuine :: "bytes \<Rightarrow> bool"
  assumes xfer_reply: "\<lbrakk>wf_queue qi; q_data qi \<noteq> []; 3 \<le> front_room qi; 2 \<le> rear_room qi;
      wf_queue qo; q_data qo = []; xfer qi (util_queue_size qi) qo ol w = Ok (SE_SUCCESS, qi', qo', ol', w')\<rbrakk>
      \<Longrightarrow> reply_ok qo' \<and> genuine (q_data qo')"
begin

lemma exchange_sound:
  assumes dp: "pick_first st = Inr (d, p)" "drv_transceive (drv_at st d) p = xfer"
    and qi: "wf_queue qi" "10 \<le> front_room qi" "4 \<le> rear_room qi"
    and qo: "wf_queue qo" "q_data qo = []"
    and ok: "tpdu_exchange c qi qo ol st = Ok (SE_SUCCESS, qi', qo', ol', st')"
  shows "wf_queue qo' \<and> unat ol' = length (q_data qo') \<and> genuine (q_data qo' @ [0x90, 0])"
proof -
  obtain q1 n where q1: "tpdu_pack c qi 0 = Ok (SE_SUCCESS, q1, n)" "wf_queue q1"
    "3 \<le> front_room q1" "2 \<le> rear_room q1"
    using tpdu_pack_frame [OF qi(1), of c 0] qi(2,3) by auto
  have n1: "(ucast (q_buf_len q1) :: u32) = util_queue_size q1"
  proof -
    have "unat (ucast (q_buf_len q1) :: u32) = unat (util_queue_size q1)"
      using length_q_data [OF q1(2)] util_queue_size_wf [OF q1(2)] by (simp add: unat_u16_u32)
    then show ?thesis by (rule unsigned_word_eqI)
  qed
  obtain ret q2 qr ol2 st2 where send: "tpdu_send q1 qo st = Ok (ret, q2, qr, ol2, st2)"
    using ok q1(1) by (auto simp: tpdu_exchange_def)
  have ret: "ret = SE_SUCCESS"
    using ok q1(1) send by (auto simp: tpdu_exchange_def split: if_splits)
  obtain w2 where w2: "xfer q1 (util_queue_size q1) qo 0 (io st) = Ok (SE_SUCCESS, q2, qr, ol2, w2)"
      "st2 = st\<lparr>io := w2\<rparr>" "util_queue_size q1 \<noteq> 0"
    using send dp ret n1 by (auto simp: tpdu_send_def transceive_queue_def split: if_splits)
  have "q_data q1 \<noteq> []"
    using w2(3) util_queue_size_wf [OF q1(2)] by (auto simp: unsigned_eq_0_iff)
  then have rep: "reply_ok qr" "genuine (q_data qr)"
    using xfer_reply [OF q1(2) _ q1(3,4) qo w2(1)] by auto
  show ?thesis
  proof (cases "length (q_data qr) < 2")
    case True
    then have r: "2 \<le> unat (rear_node qr)" "q_buf qr ! (unat (rear_node qr) - 2) \<notin> {0x90, 0x61}"
        "length (q_buf qr) = 1024" "unat (rear_node qr) \<le> 1024"
      using rep(1) by (auto simp: reply_ok_def wf_queue_def DEQUE_MAX_SIZE_def)
    let ?a = "q_buf qr ! (unat (rear_node qr) - 2)" and ?b = "q_buf qr ! (unat (rear_node qr) - 1)"
    have "status_word_at qr (ucast (rear_node qr)) = Ok (push_bit 8 (ucast ?a) OR ucast ?b)"
      using status_word_at_Ok [OF r(3), of "ucast (rear_node qr)"] r by (simp add: unat_u16_u32)
    moreover have "(push_bit 8 (ucast ?a) OR ucast ?b) AND 0xFF00 \<noteq> (0x6100 :: u16)"
      using r(2) status_word_class [of ?a ?b] by blast
    moreover have n9: "(push_bit 8 (ucast ?a) OR ucast ?b) \<noteq> (0x9000 :: u16)"
      unfolding status_word_consts status_word_bytes using r(2) by blast
    ultimately have "tpdu_exchange c qi qo ol st
        = Ok (tpdu_change_error_code (push_bit 8 (ucast ?a) OR ucast ?b), q2, qr, ol, st2)"
      unfolding tpdu_exchange_def q1(1) using send ret by simp
    then have "tpdu_change_error_code (push_bit 8 (ucast ?a) OR ucast ?b) = SE_SUCCESS"
      using ok by simp
    then show ?thesis
      using change_error_code_0 n9 by blast
  next
    case False
    then obtain d s1 s2 where d: "q_data qr = d @ [s1, s2]"
      using two_last by blast
    have rr: "wf_queue qr" "1 \<le> rear_room qr"
      using rep(1) by (auto simp: reply_ok_def)
    note ex = tpdu_exchange_cases [OF q1(1) send [unfolded ret] rr(1) d rr(2), where ol = ol]
    have s: "s1 = 0x90 \<and> s2 = 0"
      using ex ok error_code_nonzero by (cases "s1 = 0x61") (auto simp: or_eq_0_iff)
    then obtain q' where "wf_queue q'" "q_data q' = d" "qo' = q'" "ol' = of_nat (length d)" "st' = st2"
      using ex ok by auto
    then show ?thesis
      using rep(2) d s wf_queue_bounds(1) [of q'] by (simp add: unat_of_nat_u32)
  qed
qed

end

text \<open>
  C35: the answer to a command. When the transport delivers a reply \<open>d\<close> followed by the status
  word \<open>s1 s2\<close>, the exchange reports success exactly for 9000 and hands out \<open>d\<close>; for 61xx it
  hands out \<open>d\<close> too and returns the code of the status word; for every other status word it
  returns that code and leaves the caller's length untouched.
\<close>

theorem tpdu_exchange_reply:
  assumes "tpdu_pack c qi 0 = Ok (SE_SUCCESS, q1, n)"
    and "tpdu_send q1 qo st = Ok (SE_SUCCESS, q2, qr, ol', st')"
    and "wf_queue qr" "q_data qr = d @ [s1, s2]" "1 \<le> rear_room qr"
  shows "(s1 = 0x90 \<and> s2 = 0 \<longrightarrow> (\<exists>q'. wf_queue q' \<and> q_data q' = d \<and>
            tpdu_exchange c qi qo ol st = Ok (SE_SUCCESS, q2, q', of_nat (length d), st'))) \<and>
    (s1 = 0x61 \<longrightarrow> (\<exists>q'. wf_queue q' \<and> q_data q' = d \<and>
            tpdu_exchange c qi qo ol st =
              Ok (0x10006100 OR ucast s2, q2, q', of_nat (length d), st'))) \<and>
    (s1 \<noteq> 0x61 \<and> \<not> (s1 = 0x90 \<and> s2 = 0) \<longrightarrow>
            tpdu_exchange c qi qo ol st =
              Ok (ucast (push_bit 8 (ucast s1) OR ucast s2 :: u16) OR 0x10000000, q2, qr, ol, st'))"
  using assms by (rule tpdu_exchange_cases)

text \<open>A device that answers every command with the frame it was given at start.\<close>

definition echo_driver :: "double_queue_node \<Rightarrow> unit peripheral_bus_driver" where
  "echo_driver r = (no_driver 0)\<lparr>drv_periph := slots [0] 3,
     drv_transceive := \<lambda>_ qi n qo ol w. Ok (SE_SUCCESS, qi, r, 0, w)\<rparr>"

definition echo_state :: "double_queue_node \<Rightarrow> unit comm_state" where
  "echo_state r = comm_start\<lparr>g_drivers := slots [0] 3, drv_at := \<lambda>_. echo_driver r\<rparr>"

definition reply_queue :: double_queue_node where
  "reply_queue = \<lparr>front_node = 23, rear_node = 27, q_buf_len = 4, capacity = 1024,
     q_buf = replicate 23 0 @ [0xAA, 0xBB, 0x90, 0x00] @ replicate 997 0\<rparr>"

lemma reply_queue_wf: "wf_queue reply_queue" "q_data reply_queue = [0xAA, 0xBB] @ [0x90, 0]"
    "rear_room reply_queue = 996"
  by (simp_all add: reply_queue_def wf_queue_def q_data_def rear_room_def DEQUE_MAX_SIZE_def)

lemma ucast_u16_u32_0: "(ucast (x :: u16) :: u32) = 0 \<longleftrightarrow> x = 0"
  using unat_u16_u32 [of x] by (metis unsigned_0 unsigned_word_eqI)

lemma echo_send:
  "q_buf_len q \<noteq> 0 \<Longrightarrow> tpdu_send q qo (echo_state r) = Ok (SE_SUCCESS, q, r, 0, echo_state r)"
  by (simp add: tpdu_send_def transceive_queue_def pick_first_def first_device_def echo_state_def
      echo_driver_def slots_def comm_start_def comm_state.defs ucast_u16_u32_0)

definition packed_example :: double_queue_node where
  "packed_example = (util_queue_init queue_zero)\<lparr>front_node := 15, q_buf_len := 5,
     q_buf := replicate 15 0 @ [0x80, 0x3E, 0, 0, 0] @ replicate 1004 0\<rparr>"

lemma pack_example: "tpdu_pack (cmd_example ISO_CASE_1) (util_queue_init queue_zero) 0
    = Ok (SE_SUCCESS, packed_example, 5)"
  by (simp add: tpdu_pack_def cmd_example_def apdu_zero_def iso_cases util_queue_front_push_def
      mem_read_def mem_write_def util_queue_init_def packed_example_def DEQUE_MAX_SIZE_def)

theorem tpdu_exchange_reply_witness:
  "\<exists>q'. wf_queue q' \<and> q_data q' = [0xAA, 0xBB] \<and>
      tpdu_exchange (cmd_example ISO_CASE_1) (util_queue_init queue_zero) queue_zero 9
        (echo_state reply_queue)
      = Ok (SE_SUCCESS, packed_example, q', 2, echo_state reply_queue)"
proof -
  have "q_buf_len packed_example \<noteq> 0" by (simp add: packed_example_def)
  from tpdu_exchange_reply [OF pack_example echo_send [OF this] reply_queue_wf(1,2)]
  show ?thesis by (simp add: reply_queue_wf(3))
qed

text \<open>
  C39: the error path. Whenever the transport reports an error, \<open>tpdu_execute\<close> computes a status
  word from two bytes before the start of the reply queue's array (the offset is 0, and
  \<open>off - 2\<close> wraps in \<open>uint32_t\<close>): the access is out of bounds for every command and every error,
  before the error is returned. \<open>tpdu_execute_no_response\<close> returns the same error cleanly.
\<close>

theorem tpdu_execute_error_path:
  assumes "tpdu_pack c qi 0 = Ok (SE_SUCCESS, q1, n)"
    and "tpdu_send q1 (util_queue_init queue_zero) st = Ok (e, q2, qr, ol', st')" "e \<noteq> SE_SUCCESS"
    and "length (q_buf qr) = DEQUE_MAX_SIZE" "unat (front_node qr) < 1023"
  shows "tpdu_execute (Some c) (Some qi) m (Some (util_queue_init queue_zero)) (Some ol) st = Undef \<and>
         tpdu_execute_no_response (Some c) (Some qi) m st = Ok (e, Some q2, st')"
proof
  have "unat (0 - 2 :: u32) = 4294967294" by simp
  then have "status_word_at qr 0 = Undef"
    using assms(4) by (simp add: status_word_at_def mem_byte_def DEQUE_MAX_SIZE_def)
  then show "tpdu_execute (Some c) (Some qi) m (Some (util_queue_init queue_zero)) (Some ol) st = Undef"
    unfolding tpdu_execute_def tpdu_exchange_def using assms(1-3) by simp
  show "tpdu_execute_no_response (Some c) (Some qi) m st = Ok (e, Some q2, st')"
    unfolding tpdu_execute_no_response_def
    using assms by (simp add: mem_byte_def DEQUE_MAX_SIZE_def)
qed

theorem tpdu_execute_error_path_witness:
  "tpdu_execute (Some (cmd_example ISO_CASE_1)) (Some (util_queue_init queue_zero)) 0
     (Some (util_queue_init queue_zero)) (Some 0) comm_start = Undef \<and>
   tpdu_execute_no_response (Some (cmd_example ISO_CASE_1)) (Some (util_queue_init queue_zero)) 0 comm_start
     = Ok (SE_ERR_HANDLE_INVALID, Some packed_example, comm_start)"
  by (rule tpdu_execute_error_path [OF pack_example, where qr = "util_queue_init queue_zero" and ol' = 0])
    (simp_all add: tpdu_send_def transceive_queue_def pick_first_def first_device_start
      packed_example_def util_queue_init_def DEQUE_MAX_SIZE_def)

lemma nonneg_sign: "nonneg w \<longleftrightarrow> unat w < 2147483648"
proof -
  have "0 \<le> sint w \<longleftrightarrow> \<not> odd (uint w div 2147483648)"
    by (simp add: sint_uint signed_take_bit_nonnegative_iff bit_iff_odd)
  also have "\<dots> \<longleftrightarrow> \<not> odd (unat w div 2147483648)"
  proof -
    have "uint w div 2147483648 = int (unat w div 2147483648)" by (simp add: zdiv_int)
    then show ?thesis by (simp only: even_of_nat_iff)
  qed
  also have "\<dots> \<longleftrightarrow> unat w < 2147483648"
  proof -
    have "unat w < 4294967296" using unsigned_less [of w] by simp
    then have "unat w div 2147483648 = (if unat w < 2147483648 then 0 else 1)"
      by (auto intro: div_nat_eqI)
    then show ?thesis by auto
  qed
  finally show ?thesis by (simp add: nonneg_def)
qed

lemma sint_pos_sign: "0 < sint (w :: u32) \<longleftrightarrow> w \<noteq> 0 \<and> unat w < 2147483648"
  using nonneg_sign [of w] by (auto simp: nonneg_def order.strict_iff_order signed_eq_0_iff)

text \<open>
  The setters. \<open>tpdu_init_with_id\<close> loads exactly the header fields of the command's row and
  keeps Lc and Le; \<open>tpdu_set_le\<close> stores a positive \<open>int32_t\<close> and silently ignores 0 and
  anything from 2^31 on, so a stale Le cannot be cleared.
\<close>

theorem tpdu_setters:
  "(unat i < 32 \<longrightarrow> tpdu_init_with_id c i =
      Ok (case command_list ! unat i of (icase, cla, ins, a, b) \<Rightarrow>
            \<lparr>isoCase = icase, classbyte = cla, instruction = ins, apdu_p1 = a, apdu_p2 = b, lc = lc c, le = le c\<rparr>)) \<and>
   (35 \<le> unat i \<longrightarrow> tpdu_init_with_id c i = Undef) \<and>
   tpdu_set_p1p2 c x y = c\<lparr>apdu_p1 := x, apdu_p2 := y\<rparr> \<and>
   tpdu_set_le c 0 = c \<and>
   (0 < n \<and> unat n < 2147483648 \<longrightarrow> tpdu_set_le c n = c\<lparr>le := n\<rparr>) \<and>
   (2147483648 \<le> unat n \<longrightarrow> tpdu_set_le c n = c)"
proof (intro conjI impI)
  have pos: "nonneg (ucast (x :: u8))" for x
    using u8_lt [of x] by (simp add: nonneg_sign unat_u8_u32)
  have neg: "\<not> nonneg (- 1)" "\<not> 0 < sint (- 1 :: u32)" by (simp_all add: nonneg_def)
  have uu: "ucast (ucast x :: u32) = x" for x :: u8
    by (rule bit_word_eqI) (simp add: bit_simps)
  show "tpdu_init_with_id c i = Ok (case command_list ! unat i of (icase, cla, ins, a, b) \<Rightarrow>
     \<lparr>isoCase = icase, classbyte = cla, instruction = ins, apdu_p1 = a, apdu_p2 = b, lc = lc c, le = le c\<rparr>)"
    if "unat i < 32"
    using that pos neg uu
    by (cases "command_list ! unat i") (simp add: tpdu_init_with_id_def command_list_def tpdu_init_def Let_def)
  show "tpdu_init_with_id c i = Undef" if "35 \<le> unat i"
    using that by (simp add: tpdu_init_with_id_def command_list_def)
  show "tpdu_set_p1p2 c x y = c\<lparr>apdu_p1 := x, apdu_p2 := y\<rparr>"
    using pos neg uu by (simp add: tpdu_set_p1p2_def tpdu_init_def Let_def)
  show "tpdu_set_le c 0 = c"
    using neg by (simp add: tpdu_set_le_def tpdu_init_def Let_def)
  show "tpdu_set_le c n = c\<lparr>le := n\<rparr>" if "0 < n \<and> unat n < 2147483648"
    using that neg by (simp add: tpdu_set_le_def tpdu_init_def Let_def sint_pos_sign word_gt_0)
  show "tpdu_set_le c n = c" if "2147483648 \<le> unat n"
    using that neg by (simp add: tpdu_set_le_def tpdu_init_def Let_def sint_pos_sign)
qed

theorem tpdu_setters_witness:
  "tpdu_init_with_id apdu_zero CMD_VERIFY_PIN =
      Ok \<lparr>isoCase = ISO_CASE_3S, classbyte = 0x00, instruction = 0x20, apdu_p1 = 0x00, apdu_p2 = VAR,
          lc = 0, le = 0\<rparr> \<and>
   tpdu_init_with_id apdu_zero 200 = Undef \<and>
   tpdu_set_le (apdu_zero\<lparr>le := 5\<rparr>) 0 = apdu_zero\<lparr>le := 5\<rparr> \<and>
   tpdu_set_le apdu_zero 5 = apdu_zero\<lparr>le := 5\<rparr> \<and>
   tpdu_set_le apdu_zero 0x80000000 = apdu_zero"
  using tpdu_setters [where i = CMD_VERIFY_PIN and c = apdu_zero and n = 5]
    tpdu_setters [where i = 200 and c = apdu_zero and n = "0x80000000"]
    tpdu_setters [where c = "apdu_zero\<lparr>le := 5\<rparr>"]
  by (simp add: CMD_VERIFY_PIN_def command_list_def apdu_zero_def)

end
