(* ===== verification/Proto_Spi.thy ===== *)
theory Proto_Spi
  imports Tpdu Crc16
begin

text \<open>
  The SPI protocol driver, src/sign/testSdk/src/proto/proto_spi.c: framing with PIB, length and
  CRC, retransmission on NAK, waiting-time extension, the RESET and RATR exchanges, and the
  driver entry points behind the communication switch.

  The hardware below (struct \<open>peripheral_PERIPHERAL_SPI\<close> of src/ial/ial_spi.h) is a record of
  functions over the state \<open>'p\<close> of the port layer; a NULL peripheral pointer is \<open>None\<close>. Buffers
  are byte lists and offsets into them; internal functions get buffers that are arrays or
  queue contents at every call, so their NULL checks on buffers cannot fail and have no
  counterpart here. Every \<open>do ... while(1)\<close> that repeats has a fuel argument and ends in
  \<open>Stuck\<close> when it is spent.
\<close>

section \<open>Interface to the port layer\<close>

text \<open>
  \<open>hal_receive\<close> gets the buffer as the caller prepared it and returns the bytes it stored from
  the start of the buffer; \<open>hal_control\<close> gets the optional data and length.
\<close>

record 'p hal_spi =
  hal_periph :: peripheral
  hal_init :: "'p \<Rightarrow> se_error \<times> 'p"
  hal_deinit :: "'p \<Rightarrow> se_error \<times> 'p"
  hal_delay :: "u32 \<Rightarrow> 'p \<Rightarrow> 'p"
  hal_timer_start :: "util_timer_t \<Rightarrow> 'p \<Rightarrow> util_timer_t \<times> 'p"
  hal_timer_differ :: "util_timer_t \<Rightarrow> 'p \<Rightarrow> se_error \<times> 'p"
  hal_chip_select :: "bool \<Rightarrow> 'p \<Rightarrow> 'p"
  hal_transmit :: "bytes \<Rightarrow> 'p \<Rightarrow> se_error \<times> 'p"
  hal_receive :: "bytes \<Rightarrow> 'p \<Rightarrow> se_error \<times> bytes \<times> 'p"
  hal_control :: "u32 \<Rightarrow> bytes option \<Rightarrow> u32 option \<Rightarrow> 'p \<Rightarrow> se_error \<times> bytes option \<times> u32 option \<times> 'p"

section \<open>Constants and state\<close>

definition SPI_SEND_CS_WAKEUP_TIME :: u32 where "SPI_SEND_CS_WAKEUP_TIME = 210"
definition SPI_SEND_DATA_OVER_WAIT_TIME :: u32 where "SPI_SEND_DATA_OVER_WAIT_TIME = 200"
definition SPI_RESET_POLL_SLAVE_INTERVAL_TIME :: u32 where "SPI_RESET_POLL_SLAVE_INTERVAL_TIME = 20"
definition SPI_BEFORE_RECEIVE_DATA_WAIT_TIME :: u32 where "SPI_BEFORE_RECEIVE_DATA_WAIT_TIME = 30"
definition SPI_SEND_BGT_TIME :: u32 where "SPI_SEND_BGT_TIME = 200"
definition SPI_RECEVIE_FRAME_WAIT_TIME :: u32 where "SPI_RECEVIE_FRAME_WAIT_TIME = 700"
definition SPI_COMM_MUTEX_WAIT_TIME :: u32 where "SPI_COMM_MUTEX_WAIT_TIME = 200"
definition SPI_PROTO_SE_RST_DELAY :: u32 where "SPI_PROTO_SE_RST_DELAY = 10000"

definition PIB_ACTIVE_FRAME :: u8 where "PIB_ACTIVE_FRAME = 0x03"
definition PIB_INFORMATION_FRAME :: u8 where "PIB_INFORMATION_FRAME = 0x0E"
definition PIB_PROCESS_FRAME :: u8 where "PIB_PROCESS_FRAME = 0x09"
definition PIB_ACTIVE_FRAME_RESET :: u8 where "PIB_ACTIVE_FRAME_RESET = 0xD3"
definition PIB_ACTIVE_FRAME_RATR :: u8 where "PIB_ACTIVE_FRAME_RATR = 0xE2"
definition PIB_ACTIVE_FRAME_RATR_RESPONSE :: u8 where "PIB_ACTIVE_FRAME_RATR_RESPONSE = 0x3B"
definition PIB_PROCESS_FRAME_NAK_CRC_INFO :: u8 where "PIB_PROCESS_FRAME_NAK_CRC_INFO = 0x3C"
definition PIB_PROCESS_FRAME_NAK_OTHER_INFO :: u8 where "PIB_PROCESS_FRAME_NAK_OTHER_INFO = 0x3D"
definition PIB_PROCESS_FRAME_WTX_INFO :: u8 where "PIB_PROCESS_FRAME_WTX_INFO = 0x60"

lemmas spi_pibs = PIB_ACTIVE_FRAME_def PIB_INFORMATION_FRAME_def PIB_PROCESS_FRAME_def
  PIB_ACTIVE_FRAME_RESET_def PIB_ACTIVE_FRAME_RATR_def PIB_ACTIVE_FRAME_RATR_RESPONSE_def
  PIB_PROCESS_FRAME_NAK_CRC_INFO_def PIB_PROCESS_FRAME_NAK_OTHER_INFO_def
  PIB_PROCESS_FRAME_WTX_INFO_def

definition FRAME_HEAD_LEN :: u32 where "FRAME_HEAD_LEN = 3"
definition EDC_LEN :: u32 where "EDC_LEN = 2"
definition ACTIVE_REQ_FRAME_LEN :: u32 where "ACTIVE_REQ_FRAME_LEN = 7"
definition PROCESS_FRAME_LEN :: u32 where "PROCESS_FRAME_LEN = 6"
definition FRAME_LEN_MAX :: u32 where "FRAME_LEN_MAX = 4101"
definition FRAME_DATA_LEN_MAX :: u32 where
  "FRAME_DATA_LEN_MAX = FRAME_LEN_MAX - EDC_LEN - FRAME_HEAD_LEN"
definition PROTO_SPI_ATR_MAX_LEN :: u32 where "PROTO_SPI_ATR_MAX_LEN = 32"
definition PROTO_SPI_RERESET_MAX_LEN :: u32 where "PROTO_SPI_RERESET_MAX_LEN = 7"
definition PROTO_SPI_RETRY_NUM :: nat where "PROTO_SPI_RETRY_NUM = 3"
definition PROTO_SPI_CTRL_RST :: u32 where "PROTO_SPI_CTRL_RST = 0x10"

lemmas spi_lens = FRAME_HEAD_LEN_def EDC_LEN_def ACTIVE_REQ_FRAME_LEN_def PROCESS_FRAME_LEN_def
  FRAME_LEN_MAX_def FRAME_DATA_LEN_MAX_def PROTO_SPI_ATR_MAX_LEN_def
  PROTO_SPI_RERESET_MAX_LEN_def PROTO_SPI_RETRY_NUM_def

definition cRESETAPDU_HED_SE :: bytes where
  "cRESETAPDU_HED_SE = [PIB_ACTIVE_FRAME, 0x00, 0x04, PIB_ACTIVE_FRAME_RESET, 0x00, 0x89, 0xC4]"
definition cRATRAPDU_HED_SE :: bytes where
  "cRATRAPDU_HED_SE = [PIB_ACTIVE_FRAME, 0x00, 0x04, PIB_ACTIVE_FRAME_RATR, 0x00, 0xF3, 0x6B]"
definition cNAK_HED_SE :: bytes where
  "cNAK_HED_SE = [PIB_PROCESS_FRAME, 0x00, 0x03, PIB_PROCESS_FRAME_NAK_CRC_INFO, 0xD4, 0x3A]"
definition cWTX_HED_SE :: bytes where
  "cWTX_HED_SE = [PIB_PROCESS_FRAME, 0x00, 0x03, PIB_PROCESS_FRAME_WTX_INFO, 0xD3, 0x4C]"

datatype SPI_FRMAE_TYPE = SPI_WTX | SPI_NAK | SPI_INFO | SPI_DEFAULT

record spi_param_t =
  pfsm :: u16
  pfss :: u16
  hbsm :: u16
  hbss :: u16
  frm_type :: SPI_FRMAE_TYPE

text \<open>
  The globals of the driver and the port state. \<open>stack_hi\<close> is not a variable of the program:
  \<open>proto_spi_transceive\<close> passes its \<open>uint16_t rec_len\<close> as a \<open>uint32_t *\<close>, and \<open>stack_hi\<close> are the two
  stack bytes behind it that such an access reads as its upper half.
\<close>

record 'p spi_world =
  g_spi_param :: "spi_param_t list"
  reset_buf :: bytes
  atr_buf :: bytes
  g_bSPIHedOpenSeMode :: u8
  g_bSPIHedRstSeMode :: u8
  stack_hi :: u16
  port :: 'p

definition spi_world_init :: "'p \<Rightarrow> 'p spi_world" where
  "spi_world_init p = \<lparr>g_spi_param = replicate 4 \<lparr>pfsm = 0, pfss = 0, hbsm = 0, hbss = 0, frm_type = SPI_DEFAULT\<rparr>,
     reset_buf = replicate 7 0, atr_buf = replicate 36 0, g_bSPIHedOpenSeMode = 1,
     g_bSPIHedRstSeMode = 1, stack_hi = 0, port = p\<rparr>"

section \<open>Sending and receiving\<close>

definition proto_spi_transmit ::
  "'p hal_spi option \<Rightarrow> bytes \<Rightarrow> u32 \<Rightarrow> 'p \<Rightarrow> (se_error \<times> 'p) res" where
  "proto_spi_transmit periph inbuf n p =
     (case periph of
        None \<Rightarrow> Ok (SE_ERR_HANDLE_INVALID, p)
      | Some h \<Rightarrow>
          if n = 0 then Ok (SE_ERR_PARAM_INVALID, p) else
          res_bind (mem_read inbuf 0 (unat n)) (\<lambda>d.
          let p1 = hal_chip_select h True p;
              (ret, p2) = hal_transmit h d p1
          in Ok (ret, hal_chip_select h False p2)))"

definition proto_spi_receive ::
  "'p hal_spi option \<Rightarrow> bytes \<Rightarrow> nat \<Rightarrow> u32 \<Rightarrow> 'p \<Rightarrow> (se_error \<times> bytes \<times> 'p) res" where
  "proto_spi_receive periph outbuf off n p =
     (case periph of
        None \<Rightarrow> Ok (SE_ERR_HANDLE_INVALID, outbuf, p)
      | Some h \<Rightarrow>
          if n = 0 then Ok (SE_ERR_PARAM_INVALID, outbuf, p) else
          res_bind (mem_write outbuf off (replicate (unat n) 0xFF)) (\<lambda>out1.
          let p1 = hal_chip_select h True p;
              (ret, d, p2) = hal_receive h (replicate (unat n) 0xFF) p1;
              p3 = hal_chip_select h False p2
          in res_bind (mem_write out1 off d) (\<lambda>out2. Ok (ret, out2, p3))))"

definition proto_spi_send_frame ::
  "'p hal_spi option \<Rightarrow> bytes \<Rightarrow> u32 \<Rightarrow> 'p \<Rightarrow> (se_error \<times> 'p) res" where
  "proto_spi_send_frame periph inbuf n p =
     (case periph of
        None \<Rightarrow> Ok (SE_ERR_HANDLE_INVALID, p)
      | Some h \<Rightarrow>
          if n < FRAME_HEAD_LEN then Ok (SE_ERR_PARAM_INVALID, p) else
          res_bind (proto_spi_transmit periph (replicate 4 0) 4 p) (\<lambda>(ret, p1).
          if ret \<noteq> SE_SUCCESS then Ok (ret, p1) else
          let p2 = hal_delay h SPI_SEND_CS_WAKEUP_TIME p1 in
          res_bind (proto_spi_transmit periph inbuf n p2) (\<lambda>(ret, p3).
          if ret \<noteq> SE_SUCCESS then Ok (ret, p3)
          else Ok (ret, hal_delay h SPI_SEND_DATA_OVER_WAIT_TIME p3))))"

text \<open>\<open>*outbuf_len\<close> is assigned on success only: its old value \<open>len\<close> is passed in.\<close>

definition proto_spi_receive_frame_head ::
  "'p hal_spi option \<Rightarrow> bytes \<Rightarrow> u32 \<Rightarrow> 'p \<Rightarrow> (se_error \<times> bytes \<times> u32 \<times> 'p) res" where
  "proto_spi_receive_frame_head periph outbuf len p =
     (case periph of
        None \<Rightarrow> Ok (SE_ERR_HANDLE_INVALID, outbuf, len, p)
      | Some h \<Rightarrow>
          res_bind (proto_spi_receive periph outbuf 0 FRAME_HEAD_LEN p) (\<lambda>(ret, out1, p1).
          if ret \<noteq> SE_SUCCESS then Ok (ret, out1, len, p1)
          else Ok (ret, out1, push_bit 8 (ucast (out1 ! 1)) + ucast (out1 ! 2), p1)))"

definition proto_spi_receive_frame_data ::
  "'p hal_spi option \<Rightarrow> bytes \<Rightarrow> nat \<Rightarrow> u32 \<Rightarrow> 'p \<Rightarrow> (se_error \<times> bytes \<times> 'p) res" where
  "proto_spi_receive_frame_data periph outbuf off n p =
     (case periph of
        None \<Rightarrow> Ok (SE_ERR_HANDLE_INVALID, outbuf, p)
      | Some h \<Rightarrow>
          if n = 0 then Ok (SE_ERR_PARAM_INVALID, outbuf, p) else
          proto_spi_receive periph outbuf off n (hal_delay h SPI_BEFORE_RECEIVE_DATA_WAIT_TIME p))"

text \<open>
  The receiver's check, common to active and information frames: the CRC of the first
  \<open>tot - 2\<close> bytes, low byte first in the two bytes behind them.
\<close>

definition edc_ok :: "bytes \<Rightarrow> u32 \<Rightarrow> bool res" where
  "edc_ok out tot =
     res_bind (proto_spi_crc16 CRC_B (tot - EDC_LEN) out) (\<lambda>edc.
     res_bind (mem_byte out (unat (tot - EDC_LEN + 1))) (\<lambda>hi.
     res_bind (mem_byte out (unat (tot - EDC_LEN))) (\<lambda>lo.
     Ok (ucast (drop_bit 8 edc AND 0xFF) = hi \<and> ucast (edc AND 0xFF) = lo))))"

section \<open>Active frames\<close>

fun active_poll ::
  "nat \<Rightarrow> 'p hal_spi \<Rightarrow> util_timer_t \<Rightarrow> bytes \<Rightarrow> u32 \<Rightarrow> 'p \<Rightarrow> (se_error \<times> bytes \<times> u32 \<times> 'p) res" where
  "active_poll 0 h timer out len p = Stuck"
| "active_poll (Suc k) h timer out len p =
     res_bind (proto_spi_receive_frame_head (Some h) out len
                 (hal_delay h SPI_RESET_POLL_SLAVE_INTERVAL_TIME p)) (\<lambda>(ret, out1, len1, p1).
     if ret \<noteq> SE_SUCCESS then Ok (ret, out1, len1, p1)
     else if out1 ! 0 = PIB_ACTIVE_FRAME \<or> out1 ! 0 = PIB_PROCESS_FRAME
     then Ok (ret, out1, len1, p1)
     else let (late, p2) = hal_timer_differ h timer p1
          in if late \<noteq> SE_SUCCESS then Ok (SE_ERR_TIMEOUT, out1, len1, p2)
             else active_poll k h timer out1 len1 p2)"

fun active_data ::
  "nat \<Rightarrow> 'p hal_spi \<Rightarrow> nat \<Rightarrow> bytes \<Rightarrow> u32 \<Rightarrow> u32 \<Rightarrow> 'p \<Rightarrow> (se_error \<times> bytes \<times> u32 \<times> 'p) res" where
  "active_data 0 h nak out len out_len p = Stuck"
| "active_data (Suc k) h nak out len out_len p =
     (if len + FRAME_HEAD_LEN > out_len then Ok (SE_ERR_LEN, out, out_len, p) else
      res_bind (proto_spi_receive_frame_data (Some h) out 3 len p) (\<lambda>(ret, out1, p1).
      if ret \<noteq> SE_SUCCESS then Ok (ret, out1, out_len, p1) else
      res_bind (edc_ok out1 (len + FRAME_HEAD_LEN)) (\<lambda>good.
      if good then Ok (ret, out1, len + FRAME_HEAD_LEN, p1)
      else if nak + 1 > PROTO_SPI_RETRY_NUM then Ok (SE_ERR_LRC_CRC, out1, out_len, p1) else
      res_bind (proto_spi_send_frame (Some h) cNAK_HED_SE PROCESS_FRAME_LEN
                  (hal_delay h SPI_SEND_BGT_TIME p1)) (\<lambda>(ret, p2).
      if ret \<noteq> SE_SUCCESS then Ok (ret, out1, out_len, p2)
      else active_data k h (nak + 1) out1 len out_len p2))))"

definition proto_spi_receive_active_frame ::
  "nat \<Rightarrow> 'p hal_spi option \<Rightarrow> bytes \<Rightarrow> u32 \<Rightarrow> 'p \<Rightarrow> (se_error \<times> bytes \<times> u32 \<times> 'p) res" where
  "proto_spi_receive_active_frame fuel periph output output_len p =
     (case periph of
        None \<Rightarrow> Ok (SE_ERR_HANDLE_INVALID, output, output_len, p)
      | Some h \<Rightarrow>
          if output_len < FRAME_HEAD_LEN then Ok (SE_ERR_PARAM_INVALID, output, output_len, p) else
          let (timer, p1) = hal_timer_start h (timer_zero\<lparr>interval := SPI_RECEVIE_FRAME_WAIT_TIME\<rparr>) p
          in res_bind (active_poll fuel h timer output 0 p1) (\<lambda>(ret, out1, len, p2).
             if ret \<noteq> SE_SUCCESS then Ok (ret, out1, output_len, p2)
             else active_data fuel h 0 out1 len output_len p2))"

text \<open>A request frame: the constant frame with its parameter byte and the CRC filled in.\<close>

definition active_request :: "bytes \<Rightarrow> u16 \<Rightarrow> bytes res" where
  "active_request template fsz =
     (let tmp = template[4 := ucast (fsz div 16)]
      in res_bind (proto_spi_crc16 CRC_B (ACTIVE_REQ_FRAME_LEN - 2) tmp) (\<lambda>edc.
         Ok (tmp[5 := ucast edc, 6 := ucast (drop_bit 8 edc)])))"

fun reset_frame_loop ::
  "nat \<Rightarrow> nat \<Rightarrow> 'p hal_spi \<Rightarrow> spi_param_t \<Rightarrow> bytes \<Rightarrow> u32 \<Rightarrow> nat \<Rightarrow> nat \<Rightarrow> 'p \<Rightarrow>
     (se_error \<times> bytes \<times> u32 \<times> 'p) res" where
  "reset_frame_loop fuel 0 h param rbuf rlen naks late p = Stuck"
| "reset_frame_loop fuel (Suc k) h param rbuf rlen naks late p =
     res_bind (active_request cRESETAPDU_HED_SE (pfsm param)) (\<lambda>tmp.
     res_bind (proto_spi_send_frame (Some h) tmp ACTIVE_REQ_FRAME_LEN p) (\<lambda>(ret, p1).
     if ret \<noteq> SE_SUCCESS then Ok (ret, rbuf, rlen, p1) else
     res_bind (proto_spi_receive_active_frame fuel (Some h) rbuf rlen p1) (\<lambda>(ret, rbuf1, bufsize, p2).
     if ret \<noteq> SE_SUCCESS then
       (if ret = SE_ERR_TIMEOUT \<and> late + 1 < 2
        then reset_frame_loop fuel k h param rbuf1 rlen naks (late + 1) p2
        else Ok (ret, rbuf1, rlen, p2))
     else res_bind (mem_byte rbuf1 3) (\<lambda>b.
       if b = PIB_PROCESS_FRAME_NAK_CRC_INFO then
         (if naks + 1 > PROTO_SPI_RETRY_NUM then Ok (SE_ERR_COMM, rbuf1, rlen, p2)
          else reset_frame_loop fuel k h param rbuf1 rlen (naks + 1) late p2)
       else if b \<noteq> PIB_ACTIVE_FRAME_RESET then Ok (SE_ERR_DATA, rbuf1, rlen, p2)
       else if bufsize \<noteq> ACTIVE_REQ_FRAME_LEN then Ok (SE_ERR_LEN, rbuf1, bufsize, p2)
       else Ok (SE_SUCCESS, rbuf1, bufsize, p2)))))"

definition proto_spi_reset_frame ::
  "nat \<Rightarrow> 'p hal_spi option \<Rightarrow> spi_param_t \<Rightarrow> bytes \<Rightarrow> u32 \<Rightarrow> 'p \<Rightarrow>
     (se_error \<times> bytes \<times> u32 \<times> 'p) res" where
  "proto_spi_reset_frame fuel periph param rbuf rlen p =
     (case periph of
        None \<Rightarrow> Ok (SE_ERR_HANDLE_INVALID, rbuf, rlen, p)
      | Some h \<Rightarrow> reset_frame_loop fuel fuel h param rbuf rlen 0 0 p)"

fun ratr_frame_loop ::
  "nat \<Rightarrow> nat \<Rightarrow> 'p hal_spi \<Rightarrow> spi_param_t \<Rightarrow> bytes \<Rightarrow> u32 \<Rightarrow> nat \<Rightarrow> nat \<Rightarrow> 'p \<Rightarrow>
     (se_error \<times> bytes \<times> u32 \<times> 'p) res" where
  "ratr_frame_loop fuel 0 h param rbuf rlen naks late p = Stuck"
| "ratr_frame_loop fuel (Suc k) h param rbuf rlen naks late p =
     res_bind (active_request cRATRAPDU_HED_SE (hbsm param)) (\<lambda>tmp.
     res_bind (proto_spi_send_frame (Some h) tmp ACTIVE_REQ_FRAME_LEN p) (\<lambda>(ret, p1).
     if ret \<noteq> SE_SUCCESS then Ok (ret, rbuf, rlen, p1) else
     res_bind (proto_spi_receive_active_frame fuel (Some h) rbuf rlen p1) (\<lambda>(ret, rbuf1, bufsize, p2).
     if ret \<noteq> SE_SUCCESS then
       (if ret = SE_ERR_TIMEOUT \<and> late + 1 < 2
        then ratr_frame_loop fuel k h param rbuf1 rlen naks (late + 1) p2
        else Ok (ret, rbuf1, rlen, p2))
     else res_bind (mem_byte rbuf1 3) (\<lambda>b.
       if b = PIB_PROCESS_FRAME_NAK_CRC_INFO then
         (if naks + 1 > PROTO_SPI_RETRY_NUM then Ok (SE_ERR_LRC_CRC, rbuf1, rlen, p2)
          else ratr_frame_loop fuel k h param rbuf1 rlen (naks + 1) late p2)
       else if b \<noteq> PIB_ACTIVE_FRAME_RATR_RESPONSE then Ok (SE_ERR_ATR, rbuf1, rlen, p2)
       else Ok (SE_SUCCESS, rbuf1, bufsize - FRAME_HEAD_LEN - EDC_LEN, p2)))))"

definition proto_spi_ratr_frame ::
  "nat \<Rightarrow> 'p hal_spi option \<Rightarrow> spi_param_t \<Rightarrow> bytes \<Rightarrow> u32 \<Rightarrow> 'p \<Rightarrow>
     (se_error \<times> bytes \<times> u32 \<times> 'p) res" where
  "proto_spi_ratr_frame fuel periph param rbuf rlen p =
     (case periph of
        None \<Rightarrow> Ok (SE_ERR_HANDLE_INVALID, rbuf, rlen, p)
      | Some h \<Rightarrow> ratr_frame_loop fuel fuel h param rbuf rlen 0 0 p)"

section \<open>Information frames\<close>

text \<open>
  The inner loop of \<open>proto_spi_handle\<close>: poll for a frame head until the timer runs out (one more
  retransmission) or an information or process frame starts.
\<close>

fun handle_poll ::
  "nat \<Rightarrow> 'p hal_spi \<Rightarrow> util_timer_t \<Rightarrow> bytes \<Rightarrow> u32 \<Rightarrow> nat \<Rightarrow> 'p \<Rightarrow>
     (se_error \<times> bytes \<times> u32 \<times> nat \<times> 'p) res" where
  "handle_poll 0 h timer out len retran p = Stuck"
| "handle_poll (Suc k) h timer out len retran p =
     res_bind (proto_spi_receive_frame_head (Some h) out len p) (\<lambda>(ret, out1, len1, p1).
     if ret \<noteq> SE_SUCCESS then Ok (ret, out1, len1, retran, p1) else
     let (late, p2) = hal_timer_differ h timer (hal_delay h SPI_RESET_POLL_SLAVE_INTERVAL_TIME p1)
     in if late \<noteq> SE_SUCCESS then Ok (ret, out1, len1, retran + 1, p2)
        else if out1 ! 0 = PIB_INFORMATION_FRAME \<or> out1 ! 0 = PIB_PROCESS_FRAME
        then Ok (ret, out1, len1, 0, p2)
        else handle_poll k h timer out1 len1 retran p2)"

text \<open>
  What \<open>proto_spi_handle\<close> does with a frame whose EDC is right. \<open>Inl\<close> is a return, with the value of
  \<open>*outbuf_len\<close> when it is assigned; \<open>Inr\<close> goes round the loop again, with the timer, the NAK
  count and the frame type.
\<close>

definition handle_frame ::
  "'p hal_spi \<Rightarrow> bytes \<Rightarrow> u32 \<Rightarrow> util_timer_t \<Rightarrow> bytes \<Rightarrow> u32 \<Rightarrow> nat \<Rightarrow> SPI_FRMAE_TYPE \<Rightarrow> 'p \<Rightarrow>
     ((se_error \<times> u32 option \<times> SPI_FRMAE_TYPE \<times> 'p) + (util_timer_t \<times> nat \<times> SPI_FRMAE_TYPE \<times> 'p)) res" where
  "handle_frame h inbuf n timer out tot rnak ty p =
     res_bind (mem_byte out 3) (\<lambda>b.
     if out ! 0 = PIB_PROCESS_FRAME \<and>
        (b = PIB_PROCESS_FRAME_NAK_CRC_INFO \<or> b = PIB_PROCESS_FRAME_NAK_OTHER_INFO) then
       (if ty = SPI_INFO then
          (if rnak + 1 > PROTO_SPI_RETRY_NUM then Ok (Inl (SE_ERR_LRC_CRC, None, ty, p)) else
           res_bind (proto_spi_send_frame (Some h) inbuf n (hal_delay h SPI_SEND_BGT_TIME p)) (\<lambda>(ret, p1).
           if ret \<noteq> SE_SUCCESS then Ok (Inl (ret, None, ty, p1)) else Ok (Inr (timer, rnak + 1, ty, p1))))
        else if ty = SPI_WTX then
          res_bind (proto_spi_send_frame (Some h) cWTX_HED_SE PROCESS_FRAME_LEN
                      (hal_delay h SPI_SEND_BGT_TIME p)) (\<lambda>(ret, p1).
          if ret \<noteq> SE_SUCCESS then Ok (Inl (ret, None, ty, p1)) else Ok (Inr (timer, rnak, ty, p1)))
        else Ok (Inr (timer, rnak, ty, p)))
     else if out ! 0 = PIB_PROCESS_FRAME \<and> b = PIB_PROCESS_FRAME_WTX_INFO then
       res_bind (proto_spi_send_frame (Some h) cWTX_HED_SE PROCESS_FRAME_LEN p) (\<lambda>(ret, p1).
       if ret \<noteq> SE_SUCCESS then Ok (Inl (ret, None, SPI_WTX, p1)) else
       let (timer1, p2) = hal_timer_start h (timer\<lparr>interval := SPI_RECEVIE_FRAME_WAIT_TIME\<rparr>) p1
       in Ok (Inr (timer1, rnak, SPI_WTX, p2)))
     else if out ! 0 = PIB_INFORMATION_FRAME then Ok (Inl (SE_SUCCESS, Some tot, ty, p))
     else Ok (Inl (SE_ERR_PARAM_INVALID, None, ty, p)))"

text \<open>
  One round of the outer loop after a frame head of \<open>len\<close> bytes was seen: read the rest, check
  the EDC, and answer. \<open>Inl\<close> is a return with the output buffer; \<open>Inr\<close> goes on with the timer, the
  buffer, \<open>rec_len\<close>, \<open>send_nak_count\<close>, \<open>rec_nak_count\<close> and the frame type.
\<close>

definition handle_data ::
  "'p hal_spi \<Rightarrow> bytes \<Rightarrow> u32 \<Rightarrow> util_timer_t \<Rightarrow> bytes \<Rightarrow> u32 \<Rightarrow> nat \<Rightarrow> nat \<Rightarrow> SPI_FRMAE_TYPE \<Rightarrow> 'p \<Rightarrow>
     ((se_error \<times> bytes \<times> u32 option \<times> SPI_FRMAE_TYPE \<times> 'p) +
      (util_timer_t \<times> bytes \<times> u32 \<times> nat \<times> nat \<times> SPI_FRMAE_TYPE \<times> 'p)) res" where
  "handle_data h inbuf n timer out len snak rnak ty p =
     res_bind (proto_spi_receive_frame_data (Some h) out 3 len p) (\<lambda>(ret, out1, p1).
     if ret \<noteq> SE_SUCCESS then Ok (Inl (ret, out1, None, ty, p1)) else
     res_bind (edc_ok out1 (len + FRAME_HEAD_LEN)) (\<lambda>good.
     if good then
       res_bind (handle_frame h inbuf n timer out1 (len + FRAME_HEAD_LEN) rnak ty p1) (\<lambda>r.
       case r of
         Inl (ret, res_len, ty1, p2) \<Rightarrow> Ok (Inl (ret, out1, res_len, ty1, p2))
       | Inr (timer1, rnak1, ty1, p2) \<Rightarrow>
           Ok (Inr (timer1, out1, len + FRAME_HEAD_LEN, 0, rnak1, ty1, p2)))
     else if snak + 1 > PROTO_SPI_RETRY_NUM then Ok (Inl (SE_ERR_LRC_CRC, out1, None, ty, p1))
     else
       res_bind (proto_spi_send_frame (Some h) cNAK_HED_SE PROCESS_FRAME_LEN
                   (hal_delay h SPI_SEND_BGT_TIME p1)) (\<lambda>(ret, p2).
       if ret \<noteq> SE_SUCCESS then Ok (Inl (ret, out1, None, ty, p2))
       else Ok (Inr (timer, out1, len + FRAME_HEAD_LEN, snak + 1, rnak, ty, p2)))))"

text \<open>
  The outer loop; \<open>retran\<close> is \<open>re_tran_count\<close>. The result of the retransmission after a timeout is
  not looked at, as in the code.
\<close>

fun handle_loop ::
  "nat \<Rightarrow> nat \<Rightarrow> 'p hal_spi \<Rightarrow> bytes \<Rightarrow> u32 \<Rightarrow> util_timer_t \<Rightarrow> bytes \<Rightarrow> u32 \<Rightarrow> nat \<Rightarrow> nat \<Rightarrow> nat \<Rightarrow>
     SPI_FRMAE_TYPE \<Rightarrow> 'p \<Rightarrow> (se_error \<times> bytes \<times> u32 option \<times> SPI_FRMAE_TYPE \<times> 'p) res" where
  "handle_loop fuel 0 h inbuf n timer out len snak rnak retran ty p = Stuck"
| "handle_loop fuel (Suc k) h inbuf n timer out len snak rnak retran ty p =
     res_bind (handle_poll fuel h timer out len retran p) (\<lambda>(ret, out1, len1, retran1, p1).
     if ret \<noteq> SE_SUCCESS then Ok (ret, out1, None, ty, p1)
     else if retran1 = 1 then
       res_bind (proto_spi_send_frame (Some h) inbuf n (hal_delay h SPI_SEND_BGT_TIME p1)) (\<lambda>(ret, p2).
       let (timer1, p3) = hal_timer_start h (timer\<lparr>interval := SPI_RECEVIE_FRAME_WAIT_TIME\<rparr>) p2
       in handle_loop fuel k h inbuf n timer1 out1 len1 snak rnak retran1 ty p3)
     else if retran1 = 2 then Ok (SE_ERR_TIMEOUT, out1, None, ty, p1)
     else if len1 > FRAME_DATA_LEN_MAX + EDC_LEN then Ok (SE_ERR_LEN, out1, None, ty, p1)
     else
       res_bind (handle_data h inbuf n timer out1 len1 snak rnak ty p1) (\<lambda>r.
       case r of
         Inl r1 \<Rightarrow> Ok r1
       | Inr (timer1, out2, len2, snak1, rnak1, ty1, p2) \<Rightarrow>
           handle_loop fuel k h inbuf n timer1 out2 len2 snak1 rnak1 retran1 ty1 p2))"

definition proto_spi_handle ::
  "nat \<Rightarrow> 'p hal_spi option \<Rightarrow> spi_param_t \<Rightarrow> bytes \<Rightarrow> u32 \<Rightarrow> bytes \<Rightarrow> 'p \<Rightarrow>
     (se_error \<times> bytes \<times> u32 option \<times> spi_param_t \<times> 'p) res" where
  "proto_spi_handle fuel periph param inbuf n outbuf p =
     (case periph of
        None \<Rightarrow> Ok (SE_ERR_HANDLE_INVALID, outbuf, None, param, p)
      | Some h \<Rightarrow>
          if n > FRAME_LEN_MAX then Ok (SE_ERR_PARAM_INVALID, outbuf, None, param, p) else
          let param1 = param\<lparr>frm_type := SPI_INFO\<rparr> in
          res_bind (proto_spi_send_frame periph inbuf n p) (\<lambda>(ret, p1).
          if ret \<noteq> SE_SUCCESS then Ok (ret, outbuf, None, param1, p1) else
          let (timer, p2) = hal_timer_start h (timer_zero\<lparr>interval := SPI_RECEVIE_FRAME_WAIT_TIME\<rparr>) p1 in
          res_bind (handle_loop fuel fuel h inbuf n timer outbuf 0 0 0 0 SPI_INFO p2)
            (\<lambda>(ret, out1, res_len, ty, p3).
          Ok (ret, out1, res_len, param1\<lparr>frm_type := ty\<rparr>, p3))))"

definition proto_spi_queue_in ::
  "'p hal_spi option \<Rightarrow> double_queue_node \<Rightarrow> u16 \<Rightarrow> (se_error \<times> double_queue_node) res" where
  "proto_spi_queue_in periph q inbuf_len =
     (case periph of
        None \<Rightarrow> Ok (SE_ERR_HANDLE_INVALID, q)
      | Some h \<Rightarrow>
          if inbuf_len = 0 then Ok (SE_ERR_PARAM_INVALID, q) else
          let frame_len = ucast (ucast inbuf_len + EDC_LEN) :: u16;
              frame_head = [PIB_INFORMATION_FRAME, ucast (drop_bit 8 frame_len), ucast frame_len]
          in res_bind (util_queue_front_push frame_head FRAME_HEAD_LEN q) (\<lambda>q1.
             res_bind (proto_spi_crc16 CRC_B (util_queue_size q1)
                         (drop (unat (front_node q1)) (q_buf q1))) (\<lambda>edc.
             res_bind (util_queue_rear_push [ucast edc, ucast (drop_bit 8 edc)] 2 q1) (\<lambda>q2.
             Ok (SE_SUCCESS, q2)))))"

section \<open>Driver entry points\<close>

text \<open>\<open>g_spi_param[dev_id]\<close> has four entries: a larger device id is outside the array.\<close>

definition spi_param_at :: "u8 \<Rightarrow> 'p spi_world \<Rightarrow> spi_param_t res" where
  "spi_param_at dev w =
     (if unat dev < length (g_spi_param w) then Ok (g_spi_param w ! unat dev) else Undef)"

definition set_spi_param :: "u8 \<Rightarrow> spi_param_t \<Rightarrow> 'p spi_world \<Rightarrow> 'p spi_world" where
  "set_spi_param dev param w = w\<lparr>g_spi_param := (g_spi_param w)[unat dev := param]\<rparr>"

text \<open>The lock timer that every entry point starts and then tests.\<close>

definition spi_lock :: "'p hal_spi \<Rightarrow> 'p spi_world \<Rightarrow> util_timer_t \<times> 'p spi_world" where
  "spi_lock h w =
     (let (timer, p) = hal_timer_start h (timer_zero\<lparr>interval := SPI_COMM_MUTEX_WAIT_TIME\<rparr>) (port w)
      in (timer, w\<lparr>port := p\<rparr>))"

definition spi_expired :: "'p hal_spi \<Rightarrow> util_timer_t \<Rightarrow> 'p spi_world \<Rightarrow> bool \<times> 'p spi_world" where
  "spi_expired h timer w =
     (let (late, p) = hal_timer_differ h timer (port w) in (late \<noteq> SE_SUCCESS, w\<lparr>port := p\<rparr>))"

definition proto_spi_init :: "'p hal_spi option \<Rightarrow> 'p spi_world \<Rightarrow> (se_error \<times> 'p spi_world) res" where
  "proto_spi_init periph w =
     (case periph of
        None \<Rightarrow> Ok (SE_ERR_HANDLE_INVALID, w)
      | Some h \<Rightarrow>
          let (timer, w1) = spi_lock h w;
              (late, w2) = spi_expired h timer w1;
              dev = per_id (hal_periph h)
          in if late then Ok (SE_ERR_TIMEOUT, w2) else
             res_bind (spi_param_at dev w2) (\<lambda>param.
             let w3 = set_spi_param dev (param\<lparr>pfsm := 0, pfss := 0, hbsm := 0, hbss := 0\<rparr>) w2;
                 (ret, p) = hal_init h (port w3)
             in Ok (ret, w3\<lparr>port := p\<rparr>)))"

definition proto_spi_deinit :: "'p hal_spi option \<Rightarrow> 'p spi_world \<Rightarrow> (se_error \<times> 'p spi_world) res" where
  "proto_spi_deinit periph w =
     (case periph of
        None \<Rightarrow> Ok (SE_ERR_HANDLE_INVALID, w)
      | Some h \<Rightarrow>
          let (timer, w1) = spi_lock h w;
              (late, w2) = spi_expired h timer w1
          in if late then Ok (SE_ERR_TIMEOUT, w2) else
             let (ret, p) = hal_deinit h (port w2) in Ok (ret, w2\<lparr>port := p\<rparr>))"

definition pfssi :: "u16 list" where
  "pfssi = [0, 16, 32, 64, 128, 256, 272, 384, 512, 1024, 2048, 4096, 8192, 16384, 16384, 16384]"

text \<open>
  Opening, first part: RESET the device and agree on the frame size. The index is clamped to
  16, one past the end of \<open>pfssi\<close>.
\<close>

definition negotiate_pfs :: "spi_param_t \<Rightarrow> u8 \<Rightarrow> spi_param_t res" where
  "negotiate_pfs param b =
     (let index = (if b > 16 then 16 else b)
      in res_bind (guard (unat index < length pfssi)) (\<lambda>_.
         let fs = pfssi ! unat index
         in Ok (if pfsm param \<ge> fs then param\<lparr>pfsm := fs, pfss := fs\<rparr>
                else param\<lparr>pfss := pfsm param\<rparr>)))"

definition open_reset ::
  "nat \<Rightarrow> 'p hal_spi \<Rightarrow> u8 \<Rightarrow> 'p spi_world \<Rightarrow> (se_error \<times> 'p spi_world) res" where
  "open_reset fuel h dev w =
     res_bind (spi_param_at dev w) (\<lambda>param.
     res_bind (proto_spi_reset_frame fuel (Some h) param (reset_buf w) PROTO_SPI_RERESET_MAX_LEN (port w))
       (\<lambda>(ret, rbuf, rlen, p).
     let w1 = w\<lparr>reset_buf := rbuf, port := p\<rparr> in
     if ret \<noteq> SE_SUCCESS then Ok (ret, w1) else
     res_bind (mem_byte rbuf 4) (\<lambda>b.
     res_bind (negotiate_pfs param b) (\<lambda>param1.
     Ok (SE_SUCCESS, set_spi_param dev param1 w1)))))"

text \<open>Second part: read the ATR into the caller's buffer and agree on the block size.\<close>

definition negotiate_hbs :: "spi_param_t \<Rightarrow> u8 \<Rightarrow> spi_param_t" where
  "negotiate_hbs param b =
     (let bs = ucast b * 16
      in if hbsm param \<ge> bs then param\<lparr>hbsm := bs, hbss := bs\<rparr> else param\<lparr>hbss := hbsm param\<rparr>)"

definition open_atr ::
  "nat \<Rightarrow> 'p hal_spi \<Rightarrow> u8 \<Rightarrow> bytes \<Rightarrow> u32 \<Rightarrow> 'p spi_world \<Rightarrow> (se_error \<times> out_ptr \<times> 'p spi_world) res" where
  "open_atr fuel h dev rbuf rlen w =
     res_bind (spi_param_at dev w) (\<lambda>param.
     res_bind (proto_spi_ratr_frame fuel (Some h) param (atr_buf w) PROTO_SPI_ATR_MAX_LEN
                 (hal_delay h SPI_SEND_BGT_TIME (port w))) (\<lambda>(ret, abuf, alen, p).
     let w1 = w\<lparr>atr_buf := abuf, port := p\<rparr> in
     if ret \<noteq> SE_SUCCESS then Ok (ret, (Some rbuf, Some rlen), w1) else
     res_bind (mem_read abuf 3 (unat alen)) (\<lambda>atr.
     res_bind (mem_write rbuf 0 atr) (\<lambda>rbuf1.
     res_bind (mem_byte abuf 5) (\<lambda>b.
     Ok (SE_SUCCESS, (Some rbuf1, Some alen), set_spi_param dev (negotiate_hbs param b) w1))))))"

fun open_loop ::
  "nat \<Rightarrow> nat \<Rightarrow> 'p hal_spi \<Rightarrow> util_timer_t \<Rightarrow> out_ptr \<Rightarrow> 'p spi_world \<Rightarrow>
     (se_error \<times> out_ptr \<times> 'p spi_world) res" where
  "open_loop fuel 0 h timer out w = Stuck"
| "open_loop fuel (Suc k) h timer out w =
     (let (late, w1) = spi_expired h timer w;
          dev = per_id (hal_periph h)
      in if late then Ok (SE_ERR_TIMEOUT, out, w1) else
         let w2 = w1\<lparr>port := hal_delay h SPI_PROTO_SE_RST_DELAY (port w1)\<rparr> in
         res_bind (if g_bSPIHedOpenSeMode w2 = 1 then open_reset fuel h dev w2 else Ok (SE_SUCCESS, w2))
           (\<lambda>(ret, w3).
         if ret = SE_ERR_BUSY then open_loop fuel k h timer out w3
         else if ret \<noteq> SE_SUCCESS then Ok (ret, out, w3)
         else case out of
           (Some rbuf, Some rlen) \<Rightarrow>
             res_bind (open_atr fuel h dev rbuf rlen w3) (\<lambda>(ret, out1, w4).
             if ret = SE_ERR_BUSY then open_loop fuel k h timer out1 w4 else Ok (ret, out1, w4))
         | _ \<Rightarrow> Ok (ret, out, w3)))"

definition proto_spi_open ::
  "nat \<Rightarrow> 'p hal_spi option \<Rightarrow> out_ptr \<Rightarrow> 'p spi_world \<Rightarrow> (se_error \<times> out_ptr \<times> 'p spi_world) res" where
  "proto_spi_open fuel periph out w =
     (case periph of
        None \<Rightarrow> Ok (SE_ERR_HANDLE_INVALID, out, w)
      | Some h \<Rightarrow>
          if half_null out then Ok (SE_ERR_PARAM_INVALID, out, w) else
          let (timer, w1) = spi_lock h w in open_loop fuel fuel h timer out w1)"

definition proto_spi_close :: "'p hal_spi option \<Rightarrow> 'p spi_world \<Rightarrow> (se_error \<times> 'p spi_world) res" where
  "proto_spi_close periph w = Ok (SE_SUCCESS, w)"

text \<open>
  The recovery in \<open>proto_spi_transceive\<close>: RESET the device into a local 7-byte buffer. The
  buffer size passed is \<open>rec_len\<close> read as 32 bits, so its upper half is \<open>stack_hi\<close>.
\<close>

definition transceive_recover ::
  "nat \<Rightarrow> 'p hal_spi \<Rightarrow> spi_param_t \<Rightarrow> 'p spi_world \<Rightarrow> (se_error \<times> 'p spi_world) res" where
  "transceive_recover fuel h param w =
     res_bind (proto_spi_reset_frame fuel (Some h) param (replicate 7 0)
                 (push_bit 16 (ucast (stack_hi w)) OR PROTO_SPI_RERESET_MAX_LEN)
                 (hal_delay h SPI_SEND_BGT_TIME (port w))) (\<lambda>(ret, rbuf, rlen, p).
     Ok (ret, w\<lparr>port := p\<rparr>))"

text \<open>Taking the payload out of the received frame of \<open>rec_len\<close> bytes.\<close>

definition queue_payload :: "u16 \<Rightarrow> double_queue_node \<Rightarrow> double_queue_node res" where
  "queue_payload rec_len q =
     res_bind (util_queue_front_pop FRAME_HEAD_LEN
       (q\<lparr>q_buf_len := rec_len, rear_node := ucast (ucast (front_node q) + ucast rec_len :: u32)\<rparr>))
       (util_queue_rear_pop EDC_LEN)"

fun transceive_loop ::
  "nat \<Rightarrow> nat \<Rightarrow> 'p hal_spi \<Rightarrow> util_timer_t \<Rightarrow> double_queue_node \<Rightarrow> double_queue_node \<Rightarrow> u32 \<Rightarrow>
     'p spi_world \<Rightarrow> (se_error \<times> double_queue_node \<times> u32 \<times> 'p spi_world) res" where
  "transceive_loop fuel 0 h timer qi qo rlen w = Stuck"
| "transceive_loop fuel (Suc k) h timer qi qo rlen w =
     (let (late, w1) = spi_expired h timer w;
          dev = per_id (hal_periph h);
          f = unat (front_node qo)
      in if late then Ok (SE_ERR_TIMEOUT, qo, rlen, w1) else
         res_bind (spi_param_at dev w1) (\<lambda>param.
         res_bind (proto_spi_handle fuel (Some h) param
                     (drop (unat (front_node qi)) (q_buf qi)) (util_queue_size qi)
                     (drop f (q_buf qo)) (port w1)) (\<lambda>(ret, out, res_len, param1, p).
         let qo1 = qo\<lparr>q_buf := take f (q_buf qo) @ out\<rparr>;
             w2 = (set_spi_param dev param1 w1)\<lparr>port := p\<rparr>
         in if ret = SE_ERR_BUSY then transceive_loop fuel k h timer qi qo1 rlen w2
            else if ret = SE_ERR_LRC_CRC \<or> ret = SE_ERR_TIMEOUT then
              res_bind (transceive_recover fuel h param1 w2) (\<lambda>(r, w3).
              Ok (if r \<noteq> SE_SUCCESS then SE_ERR_COMM else ret, qo1, rlen, w3))
            else if ret \<noteq> SE_SUCCESS then Ok (ret, qo1, rlen, w2)
            else case res_len of
              None \<Rightarrow> Undef
            | Some n \<Rightarrow>
                res_bind (queue_payload (ucast n) qo1) (\<lambda>qo2.
                Ok (ret, qo2, util_queue_size qo2, w2)))))"

definition proto_spi_transceive ::
  "nat \<Rightarrow> 'p hal_spi option \<Rightarrow> double_queue_node \<Rightarrow> u32 \<Rightarrow> double_queue_node \<Rightarrow> u32 \<Rightarrow> 'p spi_world \<Rightarrow>
     (se_error \<times> double_queue_node \<times> double_queue_node \<times> u32 \<times> 'p spi_world) res" where
  "proto_spi_transceive fuel periph qi slen qo rlen w =
     (case periph of
        None \<Rightarrow> Ok (SE_ERR_HANDLE_INVALID, qi, qo, rlen, w)
      | Some h \<Rightarrow>
          if slen = 0 then Ok (SE_ERR_PARAM_INVALID, qi, qo, rlen, w) else
          res_bind (proto_spi_queue_in periph qi (ucast slen)) (\<lambda>(ret, qi1).
          if ret \<noteq> SE_SUCCESS then Ok (ret, qi1, qo, rlen, w) else
          let (timer, w1) = spi_lock h w in
          res_bind (transceive_loop fuel fuel h timer qi1 qo rlen w1) (\<lambda>(ret, qo1, rlen1, w2).
          Ok (ret, qi1, qo1, rlen1, w2))))"

text \<open>\<open>proto_spi_reset\<close> pulses the reset line and repeats RESET and RATR, without negotiation.\<close>

definition reset_reset ::
  "nat \<Rightarrow> 'p hal_spi \<Rightarrow> u8 \<Rightarrow> 'p spi_world \<Rightarrow> (se_error \<times> 'p spi_world) res" where
  "reset_reset fuel h dev w =
     res_bind (spi_param_at dev w) (\<lambda>param.
     res_bind (proto_spi_reset_frame fuel (Some h) param (reset_buf w) PROTO_SPI_RERESET_MAX_LEN (port w))
       (\<lambda>(ret, rbuf, rlen, p).
     Ok (ret, w\<lparr>reset_buf := rbuf, port := p\<rparr>)))"

definition reset_atr ::
  "nat \<Rightarrow> 'p hal_spi \<Rightarrow> u8 \<Rightarrow> bytes \<Rightarrow> u32 \<Rightarrow> 'p spi_world \<Rightarrow> (se_error \<times> out_ptr \<times> 'p spi_world) res" where
  "reset_atr fuel h dev rbuf rlen w =
     res_bind (spi_param_at dev w) (\<lambda>param.
     res_bind (proto_spi_ratr_frame fuel (Some h) param (atr_buf w) PROTO_SPI_ATR_MAX_LEN
                 (hal_delay h SPI_SEND_BGT_TIME (port w))) (\<lambda>(ret, abuf, alen, p).
     let w1 = w\<lparr>atr_buf := abuf, port := p\<rparr> in
     if ret \<noteq> SE_SUCCESS then Ok (ret, (Some rbuf, Some rlen), w1) else
     res_bind (mem_read abuf 3 (unat alen)) (\<lambda>atr.
     res_bind (mem_write rbuf 0 atr) (\<lambda>rbuf1.
     Ok (SE_SUCCESS, (Some rbuf1, Some alen), w1)))))"

fun reset_loop ::
  "nat \<Rightarrow> nat \<Rightarrow> 'p hal_spi \<Rightarrow> util_timer_t \<Rightarrow> out_ptr \<Rightarrow> 'p spi_world \<Rightarrow>
     (se_error \<times> out_ptr \<times> 'p spi_world) res" where
  "reset_loop fuel 0 h timer out w = Stuck"
| "reset_loop fuel (Suc k) h timer out w =
     (let (late, w1) = spi_expired h timer w;
          dev = per_id (hal_periph h)
      in if late then Ok (SE_ERR_TIMEOUT, out, w1) else
         let (ret, _, _, p) = hal_control h PROTO_SPI_CTRL_RST None None (port w1);
             w2 = w1\<lparr>port := p\<rparr>
         in if ret \<noteq> SE_SUCCESS then Ok (ret, out, w2) else
         res_bind (if g_bSPIHedRstSeMode w2 = 1 then reset_reset fuel h dev w2 else Ok (SE_SUCCESS, w2))
           (\<lambda>(ret, w3).
         if ret = SE_ERR_BUSY then reset_loop fuel k h timer out w3
         else if ret \<noteq> SE_SUCCESS then Ok (ret, out, w3)
         else case out of
           (Some rbuf, Some rlen) \<Rightarrow>
             res_bind (reset_atr fuel h dev rbuf rlen w3) (\<lambda>(ret, out1, w4).
             if ret = SE_ERR_BUSY then reset_loop fuel k h timer out1 w4 else Ok (ret, out1, w4))
         | _ \<Rightarrow> Ok (ret, out, w3)))"

definition proto_spi_reset ::
  "nat \<Rightarrow> 'p hal_spi option \<Rightarrow> out_ptr \<Rightarrow> 'p spi_world \<Rightarrow> (se_error \<times> out_ptr \<times> 'p spi_world) res" where
  "proto_spi_reset fuel periph out w =
     (case periph of
        None \<Rightarrow> Ok (SE_ERR_HANDLE_INVALID, out, w)
      | Some h \<Rightarrow>
          if half_null out then Ok (SE_ERR_PARAM_INVALID, out, w) else
          let (timer, w1) = spi_lock h w in reset_loop fuel fuel h timer out w1)"

definition proto_spi_control ::
  "'p hal_spi option \<Rightarrow> u32 \<Rightarrow> bytes option \<Rightarrow> u32 \<Rightarrow> out_ptr \<Rightarrow> 'p spi_world \<Rightarrow>
     (se_error \<times> bytes option \<times> out_ptr \<times> 'p spi_world) res" where
  "proto_spi_control periph ctrlcode sbuf slen out w =
     (case periph of
        None \<Rightarrow> Ok (SE_ERR_HANDLE_INVALID, sbuf, out, w)
      | Some h \<Rightarrow>
          if ctrlcode = 0 then Ok (SE_ERR_PARAM_INVALID, sbuf, out, w) else
          let (timer, w1) = spi_lock h w;
              (late, w2) = spi_expired h timer w1
          in if late then Ok (SE_ERR_TIMEOUT, sbuf, out, w2) else
             let (ret, sbuf1, slen1, p) = hal_control h ctrlcode sbuf (Some slen) (port w2)
             in Ok (ret, sbuf1, out, w2\<lparr>port := p\<rparr>))"

definition proto_spi_delay ::
  "'p hal_spi option \<Rightarrow> u32 \<Rightarrow> 'p spi_world \<Rightarrow> (se_error \<times> 'p spi_world) res" where
  "proto_spi_delay periph us w =
     (case periph of
        None \<Rightarrow> Ok (SE_ERR_HANDLE_INVALID, w)
      | Some h \<Rightarrow> Ok (SE_SUCCESS, w\<lparr>port := hal_delay h us (port w)\<rparr>))"

text \<open>
  The driver structure that is registered with the communication switch. \<open>dev_at\<close> gives the SPI
  peripheral at an address.
\<close>

definition g_proto_spi :: "nat \<Rightarrow> (nat \<Rightarrow> 'p hal_spi) \<Rightarrow> 'p spi_world peripheral_bus_driver" where
  "g_proto_spi fuel dev_at =
     \<lparr>drv_type = PERIPHERAL_SPI, drv_periph = replicate 4 None,
      drv_init = \<lambda>a. proto_spi_init (Some (dev_at a)),
      drv_deinit = \<lambda>a. proto_spi_deinit (Some (dev_at a)),
      drv_open = \<lambda>a. proto_spi_open fuel (Some (dev_at a)),
      drv_close = \<lambda>a. proto_spi_close (Some (dev_at a)),
      drv_transceive = \<lambda>a. proto_spi_transceive fuel (Some (dev_at a)),
      drv_reset = \<lambda>a. proto_spi_reset fuel (Some (dev_at a)),
      drv_control = \<lambda>a. proto_spi_control (Some (dev_at a)),
      drv_delay = \<lambda>a. proto_spi_delay (Some (dev_at a))\<rparr>"

end
