(* ===== verification/Spi_Facts.thy ===== *)
theory Spi_Facts
  imports Proto_Spi
begin

text \<open>
  What the SPI driver of Proto_Spi guarantees: the frame it sends, the checks a received frame
  has passed when the driver reports success, the contract it offers the command layer, which
  loops end, and where the code leaves its buffers.
\<close>

section \<open>The information frame\<close>

text \<open>PIB, length of data and EDC, data, CRC with the low byte first.\<close>

definition spi_frame :: "bytes \<Rightarrow> bytes" where
  "spi_frame d =
     (let n = of_nat (length d + 2) :: u16;
          body = [PIB_INFORMATION_FRAME, ucast (drop_bit 8 n), ucast n] @ d;
          c = crc_x25 body
      in body @ [ucast c, ucast (drop_bit 8 c)])"

lemma take_queue: "wf_queue q \<Longrightarrow>
    take (unat (util_queue_size q)) (drop (unat (front_node q)) (q_buf q)) = q_data q"
  by (auto simp: util_queue_size_wf q_data_def wf_queue_def min_def)

lemma queue_in_frame:
  assumes "wf_queue q" "3 \<le> front_room q" "2 \<le> rear_room q" "q_data q \<noteq> []"
  obtains q' where
    "proto_spi_queue_in (Some h) q (of_nat (length (q_data q))) = Ok (SE_SUCCESS, q')"
    "wf_queue q'" "q_data q' = spi_frame (q_data q)"
    "front_room q' = front_room q - 3" "rear_room q' = rear_room q - 2"
proof -
  let ?d = "q_data q"
  let ?n = "of_nat (length ?d + 2) :: u16"
  let ?head = "[PIB_INFORMATION_FRAME, ucast (drop_bit 8 ?n), ucast ?n]"
  let ?c = "crc_x25 (?head @ ?d)"
  have len: "length ?d < 1024" using wf_queue_bounds [OF assms(1)] by simp
  have nz: "(of_nat (length ?d) :: u16) \<noteq> 0"
    using len assms(4) unat_of_nat_u16 [of "length ?d"] by auto
  have n: "unat ?n = length ?d + 2"
    by (rule unat_of_nat_u16) (use len in simp)
  have fl: "ucast (ucast (of_nat (length ?d) :: u16) + EDC_LEN :: u32) = ?n"
  proof -
    have "unat (ucast (ucast (of_nat (length ?d) :: u16) + EDC_LEN :: u32) :: u16) = unat ?n"
      unfolding n using len by (subst u16_add) (simp_all add: unat_of_nat_u16 EDC_LEN_def)
    then show ?thesis by (rule unsigned_word_eqI)
  qed
  obtain q1 where q1: "util_queue_front_push ?head (of_nat 3) q = Ok q1" "wf_queue q1"
    "q_data q1 = take 3 ?head @ ?d" "front_room q1 = front_room q - 3" "rear_room q1 = rear_room q"
    using front_push_head [OF assms(1), of 3 ?head] assms(2) by auto
  have crc: "proto_spi_crc16 CRC_B (util_queue_size q1) (drop (unat (front_node q1)) (q_buf q1)) = Ok ?c"
  proof -
    have "length (q_data q1) \<le> length (drop (unat (front_node q1)) (q_buf q1))"
      by (simp add: q_data_def)
    then show ?thesis
      using take_queue [OF q1(2)] q1(3) util_queue_size_wf [OF q1(2)]
      by (subst proto_spi_crc16_B) simp_all
  qed
  obtain q2 where q2: "util_queue_rear_push [ucast ?c, ucast (drop_bit 8 ?c)] (of_nat 2) q1 = Ok q2"
    "wf_queue q2" "q_data q2 = q_data q1 @ take 2 [ucast ?c, ucast (drop_bit 8 ?c)]"
    "front_room q2 = front_room q1" "rear_room q2 = rear_room q1 - 2"
    using rear_push_tail [OF q1(2), of 2 "[ucast ?c, ucast (drop_bit 8 ?c)]"] assms(3) q1(5) by auto
  show thesis
  proof (rule that)
    show "proto_spi_queue_in (Some h) q (of_nat (length ?d)) = Ok (SE_SUCCESS, q2)"
      using nz q1(1) q2(1) crc unfolding proto_spi_queue_in_def Let_def fl
      by (simp add: FRAME_HEAD_LEN_def)
    show "q_data q2 = spi_frame ?d"
      using q2(3) q1(3) by (simp add: spi_frame_def Let_def)
  qed (use q1 q2 in simp_all)
qed

lemma edc_low_high:
  "ucast (drop_bit 8 c AND 0xFF) = (ucast (drop_bit 8 c) :: u8)" "ucast (c AND 0xFF) = (ucast (c :: u16) :: u8)"
proof -
  have m: "(0xFF :: u16) = mask 8" by (simp add: mask_eq_exp_minus_1)
  show "ucast (drop_bit 8 c AND 0xFF) = (ucast (drop_bit 8 c) :: u8)" "ucast (c AND 0xFF) = (ucast c :: u8)"
    unfolding m by (rule bit_word_eqI; simp only: bit_unsigned_iff bit_and_iff bit_mask_iff; simp)+
qed

lemma edc_ok_iff:
  assumes "3 \<le> unat n" "unat n \<le> length out"
  shows "edc_ok out n = Ok (let c = crc_x25 (take (unat n - 2) out)
     in out ! (unat n - 2) = ucast c \<and> out ! (unat n - 1) = ucast (drop_bit 8 c))"
proof -
  have u: "unat (n - EDC_LEN) = unat n - 2"
    using assms(1) by (simp add: EDC_LEN_def unat_sub word_le_nat_alt)
  have u1: "unat (n - EDC_LEN + 1) = unat n - 1"
  proof -
    have "n - EDC_LEN + 1 = n - 1" by (simp add: EDC_LEN_def)
    moreover have "unat (n - 1) = unat n - 1" using assms(1) by (simp add: unat_sub word_le_nat_alt)
    ultimately show ?thesis by (simp only:)
  qed
  show ?thesis
    using assms unfolding edc_ok_def u u1
    by (subst proto_spi_crc16_B) (auto simp: u mem_byte_def Let_def edc_low_high)
qed

lemma spi_frame_checks:
  assumes "length d + 5 < 65536"
  shows "edc_ok (spi_frame d @ ys) (of_nat (length (spi_frame d))) = Ok True"
    "length (spi_frame d) = length d + 5"
proof -
  show l: "length (spi_frame d) = length d + 5" by (simp add: spi_frame_def Let_def)
  have n: "unat (of_nat (length (spi_frame d)) :: u32) = length d + 5"
    using assms l by (simp add: unat_of_nat_u32 del: of_nat_add of_nat_numeral)
  obtain body c where f: "spi_frame d = body @ [ucast c, ucast (drop_bit 8 c)]" "c = crc_x25 body"
    by (auto simp: spi_frame_def Let_def)
  then have lb: "length body = length d + 3" using l by simp
  then have "take (length d + 5 - 2) (spi_frame d @ ys) = body" by (simp add: f(1))
  then show "edc_ok (spi_frame d @ ys) (of_nat (length (spi_frame d))) = Ok True"
    using lb f(2) by (subst edc_ok_iff) (simp_all only: n Let_def, simp_all add: f(1) nth_append)
qed

section \<open>What the receive path delivers\<close>

lemma receive_out:
  assumes "proto_spi_receive hp out off n p = Ok (ret, out', p')"
  shows "length out' = length out" "take off out' = take off out"
    "ret = SE_SUCCESS \<Longrightarrow> n \<noteq> 0 \<and> off + unat n \<le> length out"
  using assms
  by (auto simp: proto_spi_receive_def Let_def mem_write_def split: option.splits if_splits prod.splits)

lemma receive_head_out:
  assumes "proto_spi_receive_frame_head hp out len p = Ok (ret, out', len', p')"
  shows "length out' = length out"
    "ret = SE_SUCCESS \<Longrightarrow> 3 \<le> length out \<and> len' = push_bit 8 (ucast (out' ! 1)) + ucast (out' ! 2)"
  using assms receive_out [of hp out 0 FRAME_HEAD_LEN p]
  by (auto simp: proto_spi_receive_frame_head_def FRAME_HEAD_LEN_def split: option.splits if_splits)

lemma receive_data_out:
  assumes "proto_spi_receive_frame_data hp out off n p = Ok (ret, out', p')"
  shows "length out' = length out" "take off out' = take off out"
    "ret = SE_SUCCESS \<Longrightarrow> n \<noteq> 0 \<and> off + unat n \<le> length out"
proof -
  have "length out' = length out \<and> take off out' = take off out \<and>
      (ret = SE_SUCCESS \<longrightarrow> n \<noteq> 0 \<and> off + unat n \<le> length out)"
  proof (cases "hp = None \<or> n = 0")
    case True
    then show ?thesis
      using assms by (auto simp: proto_spi_receive_frame_data_def split: option.splits)
  next
    case False
    then show ?thesis
      using assms receive_out [of hp out off n _ ret out' p']
      by (auto simp: proto_spi_receive_frame_data_def)
  qed
  then show "length out' = length out" "take off out' = take off out"
    "ret = SE_SUCCESS \<Longrightarrow> n \<noteq> 0 \<and> off + unat n \<le> length out" by auto
qed

text \<open>The length field of a frame, as the head reader computes it.\<close>

definition frame_len_field :: "bytes \<Rightarrow> u32" where
  "frame_len_field out = push_bit 8 (ucast (out ! 1)) + ucast (out ! 2)"

lemma unat_frame_len_field: "unat (frame_len_field out) = 256 * unat (out ! 1) + unat (out ! 2)"
proof -
  have "push_bit 8 (ucast (out ! 1)) = (256 * ucast (out ! 1) :: u32)"
    by (simp add: push_bit_eq_mult mult.commute)
  moreover have "unat (256 * ucast (out ! 1) :: u32) = 256 * unat (out ! 1)"
    using u8_lt [of "out ! 1"] by (subst unat_mult_lem [THEN iffD1]) (simp_all add: unat_u8_u32)
  ultimately show ?thesis
    using u8_lt [of "out ! 1"] u8_lt [of "out ! 2"] unfolding frame_len_field_def
    by (subst unat_add_lem [THEN iffD1]) (simp_all add: unat_u8_u32)
qed

lemma handle_poll_out:
  assumes "handle_poll k h timer out len retran p = Ok (ret, out', len', retran', p')"
  shows "length out' = length out \<and>
    (ret = SE_SUCCESS \<longrightarrow> 3 \<le> length out \<and> len' = frame_len_field out')"
  using assms
proof (induction k arbitrary: out len p)
  case (Suc k)
  then obtain r1 out1 len1 p1 where
    hd: "proto_spi_receive_frame_head (Some h) out len p = Ok (r1, out1, len1, p1)"
    by auto
  note o = receive_head_out [OF hd, folded frame_len_field_def]
  show ?case
    using Suc.prems Suc.IH [of out1 len1] o hd
    by (auto simp: Let_def split: if_splits prod.splits)
qed simp

text \<open>A received information frame that passed every check, at the start of the buffer.\<close>

definition info_frame_at :: "bytes \<Rightarrow> u32 \<Rightarrow> bool" where
  "info_frame_at out n \<longleftrightarrow>
     out ! 0 = PIB_INFORMATION_FRAME \<and> edc_ok out n = Ok True \<and>
     n = frame_len_field out + FRAME_HEAD_LEN \<and> 5 \<le> unat n \<and> unat n \<le> length out"

lemma crc_head_lone: "crc_x25 [0x0E, 0] = 0x9557"
  by code_simp

lemma no_lone_frame:
  assumes "out ! 0 = PIB_INFORMATION_FRAME" "frame_len_field out = 1" "4 \<le> length out"
  shows "edc_ok out 4 \<noteq> Ok True"
proof -
  have "256 * unat (out ! 1) + unat (out ! 2) = 1"
    using unat_frame_len_field [of out] assms(2) by simp
  then have "unat (out ! 1) = 0" "unat (out ! 2) = 1" by presburger+
  then have b: "out ! 1 = 0" "out ! 2 = 1" using unat_is_1 [of "out ! 2"] by (simp_all add: unat_eq_0)
  obtain x y where "take 2 out = [x, y]" "x = out ! 0" "y = out ! 1"
    using assms(3) by (cases out; cases "tl out") auto
  then have "take 2 out = [0x0E, 0]" using assms(1) b by (simp add: PIB_INFORMATION_FRAME_def)
  then show ?thesis
    using assms(3) b by (subst edc_ok_iff) (simp_all add: Let_def crc_head_lone)
qed

lemma nth_take_same: "take n xs = take n ys \<Longrightarrow> i < n \<Longrightarrow> xs ! i = ys ! i"
  by (metis nth_take)

lemma handle_frame_done:
  assumes "handle_frame h inbuf n timer out tot rnak ty p = Ok (Inl (SE_SUCCESS, rl, ty', p'))"
  shows "rl = Some tot \<and> out ! 0 = PIB_INFORMATION_FRAME"
  using assms by (auto simp: handle_frame_def Let_def split: if_splits prod.splits)

lemma handle_data_out:
  assumes "handle_data h inbuf n timer out len snak rnak ty p = Ok r"
    and o: "3 \<le> length out" "len = frame_len_field out" "len \<le> FRAME_DATA_LEN_MAX + EDC_LEN"
  shows "case r of
      Inl (ret, out', rl, _) \<Rightarrow> length out' = length out \<and>
        (ret = SE_SUCCESS \<longrightarrow> (\<exists>m. rl = Some m \<and> info_frame_at out' m))
    | Inr (_, out', _) \<Rightarrow> length out' = length out"
proof -
  obtain r1 out1 p1 where
    rd: "proto_spi_receive_frame_data (Some h) out 3 len p = Ok (r1, out1, p1)"
    using assms(1) by (auto simp: handle_data_def)
  note o1 = receive_data_out [OF rd]
  show ?thesis
  proof (cases "r1 = SE_SUCCESS")
    case False
    then show ?thesis using assms(1) rd o1 by (auto simp: handle_data_def)
  next
    case True
    let ?tot = "len + FRAME_HEAD_LEN"
    obtain good where good: "edc_ok out1 ?tot = Ok good"
      using assms(1) rd True by (auto simp: handle_data_def)
    have same: "frame_len_field out1 = len"
      using nth_take_same [OF o1(2)] o(2) by (simp add: frame_len_field_def)
    have tot: "unat ?tot = unat len + 3"
      using o(3) by (subst unat_add_lem [THEN iffD1])
        (simp_all add: spi_lens word_le_nat_alt)
    have frame: "info_frame_at out1 ?tot" if "good" "out1 ! 0 = PIB_INFORMATION_FRAME"
    proof -
      have "len \<noteq> 0" "unat len + 3 \<le> length out1" using o1 True by auto
      moreover have "len \<noteq> 1"
        using no_lone_frame [of out1] that good same o1(1) \<open>unat len + 3 \<le> length out1\<close>
        by (auto simp: FRAME_HEAD_LEN_def)
      moreover have "2 \<le> unat len"
        using calculation by (metis One_nat_def Suc_1 less_2_cases not_less unat_eq_0 unat_is_1)
      ultimately show ?thesis
        using that good same tot by (simp add: info_frame_at_def)
    qed
    show ?thesis
    proof (cases good)
      case g: True
      obtain hf where hf: "handle_frame h inbuf n timer out1 ?tot rnak ty p1 = Ok hf"
        using assms(1) rd True good g by (auto simp: handle_data_def)
      show ?thesis
      proof (cases hf)
        case (Inl a)
        obtain r2 rl ty2 p2 where a: "a = (r2, rl, ty2, p2)" by (cases a) auto
        have "r = Inl (r2, out1, rl, ty2, p2)"
          using assms(1) rd True good g hf Inl a by (simp add: handle_data_def)
        moreover have "rl = Some ?tot \<and> info_frame_at out1 ?tot" if "r2 = SE_SUCCESS"
          using handle_frame_done [OF hf [unfolded Inl a that]] frame [OF g] by simp
        ultimately show ?thesis using o1(1) by auto
      next
        case (Inr b)
        obtain t2 k2 ty2 p2 where b: "b = (t2, k2, ty2, p2)" by (cases b) auto
        have "r = Inr (t2, out1, ?tot, 0, k2, ty2, p2)"
          using assms(1) rd True good g hf Inr b by (simp add: handle_data_def)
        then show ?thesis using o1(1) by simp
      qed
    next
      case False
      then show ?thesis
        using assms(1) rd True good o1(1) by (auto simp: handle_data_def split: if_splits)
    qed
  qed
qed

lemma handle_loop_frame:
  assumes "handle_loop fuel k h inbuf n timer out len snak rnak retran ty p = Ok (ret, out', rl, ty', p')"
  shows "length out' = length out \<and> (ret = SE_SUCCESS \<longrightarrow> (\<exists>m. rl = Some m \<and> info_frame_at out' m))"
  using assms
proof (induction k arbitrary: timer out len snak rnak retran ty p)
  case (Suc k)
  obtain r1 out1 len1 ret1 p1 where
    poll: "handle_poll fuel h timer out len retran p = Ok (r1, out1, len1, ret1, p1)"
    using Suc.prems by auto
  note o1 = handle_poll_out [OF poll]
  show ?case
  proof (cases "r1 = SE_SUCCESS \<and> ret1 \<noteq> 1 \<and> ret1 \<noteq> 2 \<and> \<not> len1 > FRAME_DATA_LEN_MAX + EDC_LEN")
    case False
    then show ?thesis
      using Suc.prems poll o1 Suc.IH [of _ out1 len1]
      by (auto simp: Let_def split_beta split: if_splits)
  next
    case True
    then obtain r where r: "handle_data h inbuf n timer out1 len1 snak rnak ty p1 = Ok r"
      using Suc.prems poll by auto
    have "case r of
      Inl (ret, out', rl, _) \<Rightarrow> length out' = length out1 \<and>
        (ret = SE_SUCCESS \<longrightarrow> (\<exists>m. rl = Some m \<and> info_frame_at out' m))
    | Inr (_, out', _) \<Rightarrow> length out' = length out1"
      using True o1 by (intro handle_data_out [OF r]) auto
    note q = this
    show ?thesis
    proof (cases r)
      case (Inl a)
      then have "a = (ret, out', rl, ty', p')"
        using Suc.prems poll True r by auto
      then show ?thesis using q Inl o1 by simp
    next
      case (Inr b)
      obtain t2 out2 len2 s2 k2 ty2 q2 where b: "b = (t2, out2, len2, s2, k2, ty2, q2)"
        by (cases b) auto
      then have "handle_loop fuel k h inbuf n t2 out2 len2 s2 k2 ret1 ty2 q2 = Ok (ret, out', rl, ty', p')"
        using Suc.prems poll True r Inr by auto
      from Suc.IH [OF this] show ?thesis using q Inr b o1 by simp
    qed
  qed
qed simp

section \<open>The payload\<close>

lemma queue_payload_cases:
  assumes q: "length (q_buf q) = 1024" "capacity q = 0 \<or> capacity q = 1024"
    and m: "5 \<le> unat m" "unat (front_node q) + unat m \<le> 1024"
  shows "queue_payload m q =
    (if unat (front_node q) + unat m \<le> 1022
     then Ok (q\<lparr>front_node := front_node q + 3, rear_node := front_node q + m - 2,
                 q_buf_len := m - 5\<rparr>)
     else Undef)"
proof -
  let ?f = "front_node q"
  have cap: "unat (ucast (capacity q) :: u32) \<in> {0, 1024}" using q(2) by (auto simp: unat_u16_u32)
  have f3: "unat (ucast ?f + 3 :: u32) = unat ?f + 3"
    using m by (subst unat_add_lem [THEN iffD1]) (simp_all add: unat_u16_u32)
  have nf: "\<not> (ucast ?f :: u32) = ucast (capacity q) - 3"
  proof
    assume "(ucast ?f :: u32) = ucast (capacity q) - 3"
    then have "ucast ?f + 3 = (ucast (capacity q) :: u32)" by simp
    then have "unat ?f + 3 = unat (ucast (capacity q) :: u32)" using f3 by simp
    then show False using cap m by auto
  qed
  have r: "ucast (ucast ?f + ucast m :: u32) = ?f + m"
    by (simp add: ucast16_add ucast16_u16)
  have c: "ucast (ucast ?f + 3 :: u32) = ?f + 3" "ucast (ucast m - 3 :: u32) = m - 3"
    "ucast (ucast (?f + m) - 2 :: u32) = ?f + m - 2" "ucast (ucast (m - 3) - 2 :: u32) = m - 5"
    by (simp_all add: ucast16_add ucast16_sub ucast16_u16)
  have rn: "unat (?f + m) = unat ?f + unat m"
    using m by (subst unat_add_lem [THEN iffD1]) simp_all
  have rz: "?f + m \<noteq> 0"
    using rn m by auto
  show ?thesis
    using m nf r c rn rz q
    by (simp add: queue_payload_def util_queue_front_pop_def util_queue_rear_pop_def FRAME_HEAD_LEN_def
        EDC_LEN_def DEQUE_MAX_SIZE_def mem_read_def)
qed

lemma handle_result:
  assumes "proto_spi_handle fuel hp param inbuf n out p = Ok (ret, out', rl, param', p')"
  shows "length out' = length out \<and> (ret = SE_SUCCESS \<longrightarrow> (\<exists>m. rl = Some m \<and> info_frame_at out' m))"
proof (cases hp)
  case None
  then show ?thesis using assms by (auto simp: proto_spi_handle_def)
next
  case (Some h)
  show ?thesis
  proof (cases "n > FRAME_LEN_MAX")
    case True
    then show ?thesis using assms Some by (auto simp: proto_spi_handle_def)
  next
    case False
    obtain r1 p1 where sf: "proto_spi_send_frame (Some h) inbuf n p = Ok (r1, p1)"
      using assms Some False by (auto simp: proto_spi_handle_def Let_def)
    show ?thesis
    proof (cases "r1 = SE_SUCCESS")
      case False
      then show ?thesis using assms Some sf \<open>\<not> n > FRAME_LEN_MAX\<close>
        by (auto simp: proto_spi_handle_def Let_def)
    next
      case True
      obtain timer p2 where t: "hal_timer_start h (timer_zero\<lparr>interval := SPI_RECEVIE_FRAME_WAIT_TIME\<rparr>) p1 = (timer, p2)"
        by fastforce
      obtain ty p3 where "handle_loop fuel fuel h inbuf n timer out 0 0 0 0 SPI_INFO p2 = Ok (ret, out', rl, ty, p3)"
        using assms Some sf True t False by (auto simp: proto_spi_handle_def Let_def)
      from handle_loop_frame [OF this] show ?thesis .
    qed
  qed
qed

text \<open>
  What a queue looks like when the driver has put a reply in it: it stands for the data field of
  an information frame that passed every check.
\<close>

definition spi_reply :: "double_queue_node \<Rightarrow> u32 \<Rightarrow> double_queue_node \<Rightarrow> bool" where
  "spi_reply qo rlen q \<longleftrightarrow>
     wf_queue q \<and> util_queue_size q = rlen \<and> reply_ok q \<and>
     (\<exists>out n. info_frame_at out n \<and> unat n \<le> 1022 - unat (front_node qo) \<and>
        q_data q = take (unat n - 5) (drop 3 out) \<and> unat rlen = unat n - 5)"

lemma unat_info_len: "unat (frame_len_field out + 3) = unat (frame_len_field out) + 3"
proof -
  have "unat (frame_len_field out) < 65536"
    using unat_frame_len_field [of out] u8_lt [of "out ! 1"] u8_lt [of "out ! 2"] by simp
  then show ?thesis by (subst unat_add_lem [THEN iffD1]) simp_all
qed

lemma queue_payload_data:
  assumes q: "length (q_buf q) = 1024" "capacity q = 0 \<or> capacity q = 1024"
    and n: "5 \<le> unat n" "unat n \<le> 1024 - unat (front_node q)" "unat (front_node q) \<le> 1024"
    and small: "unat n < 7 \<Longrightarrow>
      unat (q_buf q ! (unat (front_node q) + 1)) = 0 \<and> unat (q_buf q ! (unat (front_node q) + 2)) < 4"
    and ok: "queue_payload n q = Ok q'"
  shows "reply_ok q'" "unat (front_node q) + unat n \<le> 1022"
    "q_data q' = take (unat n - 5) (drop 3 (drop (unat (front_node q)) (q_buf q)))"
    "unat (util_queue_size q') = unat n - 5"
proof -
  let ?f = "unat (front_node q)"
  have bounds: "5 \<le> unat n" "?f + unat n \<le> 1024" using n by linarith+
  show fit: "?f + unat n \<le> 1022"
    using ok queue_payload_cases [OF q bounds] by (auto split: if_splits)
  have q': "q' = q\<lparr>front_node := front_node q + 3, rear_node := front_node q + n - 2, q_buf_len := n - 5\<rparr>"
    using ok queue_payload_cases [OF q bounds] fit by (auto split: if_splits)
  have f': "unat (front_node q') = ?f + 3"
    unfolding q' using fit by (simp, subst unat_add_lem [THEN iffD1]) simp_all
  have fm: "unat (front_node q + n) = ?f + unat n"
    using fit by (subst unat_add_lem [THEN iffD1]) simp_all
  have r': "unat (rear_node q') = ?f + unat n - 2"
    unfolding q' using fm n by (simp, subst unat_sub) (simp_all add: word_le_nat_alt)
  have l': "unat (q_buf_len q') = unat n - 5"
    unfolding q' using n by (simp, subst unat_sub) (simp_all add: word_le_nat_alt)
  have wf: "wf_queue q'"
    using q fit f' r' l' n unfolding wf_queue_def
    by (simp add: q' DEQUE_MAX_SIZE_def) linarith
  show data: "q_data q' = take (unat n - 5) (drop 3 (drop ?f (q_buf q)))"
    using f' r' n unfolding q_data_def by (simp add: q' add.commute)
  show "unat (util_queue_size q') = unat n - 5"
    using util_queue_size_wf [OF wf] data n q by simp
  have room: "1 \<le> rear_room q'"
    using r' fit n by (simp add: rear_room_def DEQUE_MAX_SIZE_def)
  have "2 \<le> unat (rear_node q')" using r' n by simp
  moreover have "q_buf q' ! (unat (rear_node q') - 2) \<notin> {0x90, 0x61}" if "length (q_data q') < 2"
  proof -
    have nn: "unat n < 7" using that data n q by simp
    have "q_buf q' ! (unat (rear_node q') - 2) = q_buf q ! (?f + (unat n - 4))"
      using r' n fit q by (simp add: q')
    moreover have "unat n - 4 = 1 \<or> unat n - 4 = 2" using n nn by linarith
    ultimately show ?thesis using small [OF nn] by auto
  qed
  ultimately show "reply_ok q'" using wf room by (simp add: reply_ok_def)
qed

lemma queue_payload_reply:
  assumes q: "length (q_buf q) = 1024" "capacity q = 0 \<or> capacity q = 1024" "unat (front_node q) \<le> 1024"
    and fr: "info_frame_at (drop (unat (front_node q)) (q_buf q)) n"
    and ok: "queue_payload (ucast n) q = Ok q'"
  shows "spi_reply q (util_queue_size q') q'"
proof -
  let ?f = "unat (front_node q)" and ?out = "drop (unat (front_node q)) (q_buf q)" and ?m = "ucast n :: u16"
  have n: "5 \<le> unat n" "unat n \<le> 1024 - ?f"
    using fr q unfolding info_frame_at_def length_drop by metis+
  then have m: "unat ?m = unat n" by (simp add: unat_u32_u16)
  have small: "unat (q_buf q ! (?f + 1)) = 0 \<and> unat (q_buf q ! (?f + 2)) < 4" if "unat ?m < 7"
  proof -
    have "n = frame_len_field ?out + 3" using fr by (simp add: info_frame_at_def FRAME_HEAD_LEN_def)
    then have "unat (frame_len_field ?out) = unat n - 3"
      using unat_info_len [of ?out] by simp
    then have "256 * unat (?out ! 1) + unat (?out ! 2) = unat n - 3"
      by (simp only: unat_frame_len_field)
    then have "unat (?out ! 1) = 0" "unat (?out ! 2) < 4" using that m by linarith+
    then show ?thesis using n q by simp
  qed
  note d = queue_payload_data [OF q(1,2) _ _ q(3) small ok, unfolded m, OF n]
  show ?thesis
    unfolding spi_reply_def using d fr
    by (intro conjI exI [of _ ?out] exI [of _ n]) (simp_all add: reply_ok_def)
qed

lemma transceive_loop_reply:
  assumes "transceive_loop fuel k h timer qi qo rlen w = Ok (SE_SUCCESS, qo', rlen', w')"
    and q: "length (q_buf qo) = 1024" "capacity qo = 0 \<or> capacity qo = 1024" "unat (front_node qo) \<le> 1024"
  shows "spi_reply qo rlen' qo'"
  using assms
proof (induction k arbitrary: qo w)
  case (Suc k)
  obtain late w1 where w1: "spi_expired h timer w = (late, w1)" by fastforce
  have late: "\<not> late" using Suc.prems(1) w1 by (auto simp: Let_def)
  let ?f = "unat (front_node qo)"
  obtain param where param: "spi_param_at (per_id (hal_periph h)) w1 = Ok param"
    using Suc.prems(1) w1 late by (auto simp: Let_def)
  obtain ret out rl param1 p where
    hd: "proto_spi_handle fuel (Some h) param (drop (unat (front_node qi)) (q_buf qi)) (util_queue_size qi)
      (drop ?f (q_buf qo)) (port w1) = Ok (ret, out, rl, param1, p)"
    using Suc.prems(1) w1 late param by (auto simp: Let_def)
  note hr = handle_result [OF hd]
  let ?q = "qo\<lparr>q_buf := take ?f (q_buf qo) @ out\<rparr>"
  have q: "length (q_buf ?q) = 1024" "capacity ?q = 0 \<or> capacity ?q = 1024" "unat (front_node ?q) \<le> 1024"
      "drop (unat (front_node ?q)) (q_buf ?q) = out"
    using hr Suc.prems(2-4) by simp_all
  let ?w = "(set_spi_param (per_id (hal_periph h)) param1 w1)\<lparr>port := p\<rparr>"
  show ?case
  proof (cases "ret = SE_SUCCESS")
    case True
    then obtain n where n: "rl = Some n" "info_frame_at out n" using hr by auto
    obtain q2 where "queue_payload (ucast n) ?q = Ok q2" "qo' = q2" "rlen' = util_queue_size q2"
      using Suc.prems(1) w1 late param hd True n(1) by (auto simp: Let_def)
    then show ?thesis
      using queue_payload_reply [OF q(1-3)] q(4) n(2) by (auto simp: spi_reply_def)
  next
    case False
    have "transceive_loop fuel k h timer qi ?q rlen ?w = Ok (SE_SUCCESS, qo', rlen', w')"
    proof (cases "ret = SE_ERR_BUSY")
      case True
      then show ?thesis using Suc.prems(1) w1 late param hd by (simp add: Let_def)
    next
      case f: False
      then show ?thesis
        using Suc.prems(1) w1 late param hd False by (auto simp: Let_def split: if_splits)
    qed
    from Suc.IH [OF this q(1-3)] show ?thesis by (simp add: spi_reply_def)
  qed
qed simp

section \<open>The contract with the command layer\<close>

lemma transceive_reply:
  assumes "proto_spi_transceive fuel hp qi n qo ol w = Ok (SE_SUCCESS, qi', qo', ol', w')" "wf_queue qo"
  shows "spi_reply qo ol' qo'"
proof -
  obtain h where h: "hp = Some h"
    using assms(1) by (cases hp) (simp_all add: proto_spi_transceive_def)
  have n: "n \<noteq> 0" using assms(1) h by (auto simp: proto_spi_transceive_def)
  obtain r q1 where q1: "proto_spi_queue_in (Some h) qi (ucast n) = Ok (r, q1)"
    using assms(1) h n by (auto simp: proto_spi_transceive_def)
  have r: "r = SE_SUCCESS"
    using assms(1) h n q1 by (auto simp: proto_spi_transceive_def split: if_splits)
  obtain timer w1 where w1: "spi_lock h w = (timer, w1)" by fastforce
  have "transceive_loop fuel fuel h timer q1 qo ol w1 = Ok (SE_SUCCESS, qo', ol', w')"
    using assms(1) h n q1 r w1 by (auto simp: proto_spi_transceive_def Let_def)
  then show ?thesis
    using assms(2) by (intro transceive_loop_reply) (auto simp: wf_queue_def DEQUE_MAX_SIZE_def)
qed

definition spi_genuine :: "bytes \<Rightarrow> bool" where
  "spi_genuine d \<longleftrightarrow> (\<exists>out n. info_frame_at out n \<and> d = take (unat n - 5) (drop 3 out))"

lemma spi_reply_genuine: "spi_reply qo r q \<Longrightarrow> reply_ok q \<and> spi_genuine (q_data q)"
  unfolding spi_reply_def spi_genuine_def by blast

interpretation spi: frame_transport "proto_spi_transceive fuel (Some h)" spi_genuine
  for fuel :: nat and h :: "'p hal_spi"
proof unfold_locales
  fix qi n qo ol and w :: "'p spi_world" and qi' qo' ol' w'
  assume "proto_spi_transceive fuel (Some h) qi n qo ol w = Ok (SE_SUCCESS, qi', qo', ol', w')" "wf_queue qo"
  then show "reply_ok qo' \<and> spi_genuine (q_data qo')"
    by (rule spi_reply_genuine [OF transceive_reply])
qed

end
