(* ===== verification/Proto_I2c.thy ===== *)
theory Proto_I2c
  imports Tpdu Crc16
begin

text \<open>
  The I2C protocol driver, src/sign/testSdk/src/proto/proto_i2c.c: S, R and I frames with PIB,
  length and CRC, the two-step reception of a frame, retransmission after NAK and timeout, the
  RESET and ATR requests, and the driver entry points behind the communication switch.

  The hardware below (struct \<open>peripheral_PERIPHERAL_I2C\<close> of src/ial/ial_i2c.h) is a record of
  functions over the state \<open>'p\<close> of the port layer; a NULL peripheral pointer is \<open>None\<close>. Buffers
  are byte lists. Every loop that repeats has a fuel argument and ends in \<open>Stuck\<close> when it is
  spent.
\<close>

section \<open>Interface to the port layer\<close>

text \<open>
  \<open>i2c_receive\<close> gets the 32-bit length behind its pointer argument and returns the bytes it stored
  from the start of the buffer and the length it leaves there.
\<close>

record 'p hal_i2c =
  i2c_periph :: peripheral
  i2c_init :: "'p \<Rightarrow> se_error \<times> 'p"
  i2c_deinit :: "'p \<Rightarrow> se_error \<times> 'p"
  i2c_delay :: "u32 \<Rightarrow> 'p \<Rightarrow> 'p"
  i2c_timer_start :: "util_timer_t \<Rightarrow> 'p \<Rightarrow> util_timer_t \<times> 'p"
  i2c_timer_differ :: "util_timer_t \<Rightarrow> 'p \<Rightarrow> se_error \<times> 'p"
  i2c_transmit :: "bytes \<Rightarrow> 'p \<Rightarrow> se_error \<times> 'p"
  i2c_receive :: "u32 \<Rightarrow> 'p \<Rightarrow> se_error \<times> bytes \<times> u32 \<times> 'p"
  i2c_control :: "u32 \<Rightarrow> bytes option \<Rightarrow> u32 \<Rightarrow> 'p \<Rightarrow> se_error \<times> bytes option \<times> 'p"

section \<open>Constants and state\<close>

definition PROTO_I2C_RECEVIE_FRAME_WAIT_TIME :: u32 where "PROTO_I2C_RECEVIE_FRAME_WAIT_TIME = 700"
definition PROTO_I2C_COMM_MUTEX_WAIT_TIME :: u32 where "PROTO_I2C_COMM_MUTEX_WAIT_TIME = 200"
definition PROTO_I2C_RECEVIE_POLL_TIME :: u32 where "PROTO_I2C_RECEVIE_POLL_TIME = 1000"
definition PROTO_I2C_RECEIVE_TO_SEND_BGT :: u32 where "PROTO_I2C_RECEIVE_TO_SEND_BGT = 200"
definition PROTO_I2C_SE_RST_DELAY :: u32 where "PROTO_I2C_SE_RST_DELAY = 10000"

definition PROTO_I2C_EDC_SIZE :: u32 where "PROTO_I2C_EDC_SIZE = 2"
definition PROTO_I2C_PIB_LEN_SIZE :: u32 where "PROTO_I2C_PIB_LEN_SIZE = 3"
definition PROTO_I2C_PIB_LEN_EDC_SIZE :: u32 where "PROTO_I2C_PIB_LEN_EDC_SIZE = 5"
definition PROTO_I2C_RESET_RSP_SIZE :: u16 where "PROTO_I2C_RESET_RSP_SIZE = 5"
definition PROTO_I2C_ATR_RSP_SIZE :: u16 where "PROTO_I2C_ATR_RSP_SIZE = 32"
definition PROTO_I2C_FRONT_FRAME_SIZE :: nat where "PROTO_I2C_FRONT_FRAME_SIZE = 7"
definition PROTO_I2C_FRAME_MAX_SIZE :: u16 where "PROTO_I2C_FRAME_MAX_SIZE = 0x4000"
definition PROTO_I2C_TIMEOUT_RETRY_MAX_NUM :: nat where "PROTO_I2C_TIMEOUT_RETRY_MAX_NUM = 1"
definition PROTO_I2C_CRC_ERROR_RETRY_MAX_NUM :: nat where "PROTO_I2C_CRC_ERROR_RETRY_MAX_NUM = 3"

lemmas i2c_sizes = PROTO_I2C_EDC_SIZE_def PROTO_I2C_PIB_LEN_SIZE_def PROTO_I2C_PIB_LEN_EDC_SIZE_def
  PROTO_I2C_RESET_RSP_SIZE_def PROTO_I2C_ATR_RSP_SIZE_def PROTO_I2C_FRONT_FRAME_SIZE_def
  PROTO_I2C_FRAME_MAX_SIZE_def

definition PROTO_I2C_S_FRAME_WTX :: u8 where "PROTO_I2C_S_FRAME_WTX = 0xC0"
definition PROTO_I2C_S_FRAME_RESET :: u8 where "PROTO_I2C_S_FRAME_RESET = 0xE0"
definition PROTO_I2C_I_FRAME_NO_LINK :: u8 where "PROTO_I2C_I_FRAME_NO_LINK = 0x20"
definition PROTO_I2C_I_FRAME_LINK :: u8 where "PROTO_I2C_I_FRAME_LINK = 0x00"
definition PROTO_I2C_I_FRAME_ATR :: u8 where "PROTO_I2C_I_FRAME_ATR = 0x30"
definition PROTO_I2C_R_FRAME_ACK :: u8 where "PROTO_I2C_R_FRAME_ACK = 0x80"
definition PROTO_I2C_R_FRAME_NAK :: u8 where "PROTO_I2C_R_FRAME_NAK = 0x81"
definition PROTO_I2C_CTRL_RST :: u32 where "PROTO_I2C_CTRL_RST = 0x10"

lemmas i2c_pibs = PROTO_I2C_S_FRAME_WTX_def PROTO_I2C_S_FRAME_RESET_def
  PROTO_I2C_I_FRAME_NO_LINK_def PROTO_I2C_I_FRAME_LINK_def PROTO_I2C_I_FRAME_ATR_def
  PROTO_I2C_R_FRAME_ACK_def PROTO_I2C_R_FRAME_NAK_def

text \<open>
  The globals of the driver and the port state. \<open>i2c_stack_hi\<close> is not a variable of the program:
  the driver passes its local \<open>uint16_t sRspLen\<close> to the port as a \<open>uint32_t *\<close>, and
  \<open>i2c_stack_hi\<close> are the two stack bytes behind it that such an access reads as its upper half.
\<close>

record 'p i2c_world =
  g_bI2cHedPfsmi :: u8
  g_sI2cHedPfsm :: u16
  g_sI2cHedPfss :: u16
  g_bI2cHedOpenSeMode :: u8
  g_bI2cHedRstSeMode :: u8
  i2c_stack_hi :: u16
  i2c_port :: 'p

definition i2c_world_init :: "'p \<Rightarrow> 'p i2c_world" where
  "i2c_world_init p = \<lparr>g_bI2cHedPfsmi = 0, g_sI2cHedPfsm = 0, g_sI2cHedPfss = 0,
     g_bI2cHedOpenSeMode = 1, g_bI2cHedRstSeMode = 1, i2c_stack_hi = 0, i2c_port = p\<rparr>"

section \<open>Sending\<close>

text \<open>Starting a timer, and waiting, on the state of the driver.\<close>

definition i2c_start :: "'p hal_i2c \<Rightarrow> util_timer_t \<Rightarrow> u32 \<Rightarrow> 'p i2c_world \<Rightarrow> util_timer_t \<times> 'p i2c_world" where
  "i2c_start h timer ms w =
     (let (t, p) = i2c_timer_start h (timer\<lparr>interval := ms\<rparr>) (i2c_port w) in (t, w\<lparr>i2c_port := p\<rparr>))"

definition i2c_wait :: "'p hal_i2c \<Rightarrow> u32 \<Rightarrow> 'p i2c_world \<Rightarrow> 'p i2c_world" where
  "i2c_wait h us w = w\<lparr>i2c_port := i2c_delay h us (i2c_port w)\<rparr>"

text \<open>Transmit, again while the port is busy and the mutex time has not passed.\<close>

fun i2c_transmit_loop ::
  "nat \<Rightarrow> 'p hal_i2c \<Rightarrow> util_timer_t \<Rightarrow> bytes \<Rightarrow> 'p i2c_world \<Rightarrow> (se_error \<times> 'p i2c_world) res" where
  "i2c_transmit_loop 0 h timer d w = Stuck"
| "i2c_transmit_loop (Suc k) h timer d w =
     (let (late, p) = i2c_timer_differ h timer (i2c_port w)
      in if late \<noteq> SE_SUCCESS then Ok (SE_ERR_TIMEOUT, w\<lparr>i2c_port := p\<rparr>) else
         let (ret, p1) = i2c_transmit h d p; w1 = w\<lparr>i2c_port := p1\<rparr>
         in if ret = SE_ERR_BUSY then i2c_transmit_loop k h timer d w1 else Ok (ret, w1))"

definition proto_i2c_send_atr_rs_frame ::
  "nat \<Rightarrow> 'p hal_i2c option \<Rightarrow> u8 \<Rightarrow> u8 \<Rightarrow> 'p i2c_world \<Rightarrow> (se_error \<times> 'p i2c_world) res" where
  "proto_i2c_send_atr_rs_frame fuel periph frame_type frame_param w =
     (case periph of
        None \<Rightarrow> Ok (SE_ERR_HANDLE_INVALID, w)
      | Some h \<Rightarrow>
          let w1 = i2c_wait h PROTO_I2C_RECEIVE_TO_SEND_BGT w;
              head = [frame_type OR (frame_param AND 0x0F), 0, 0]
          in res_bind (proto_i2c_crc16 CRC_B PROTO_I2C_PIB_LEN_SIZE head) (\<lambda>crc.
             let (timer, w2) = i2c_start h timer_zero PROTO_I2C_COMM_MUTEX_WAIT_TIME w1
             in i2c_transmit_loop fuel h timer (head @ [ucast crc, ucast (drop_bit 8 crc)]) w2))"

text \<open>
  The queue is framed in place: PIB and length in front, CRC behind. It stays framed when the
  function returns, whatever it returns.
\<close>

definition proto_i2c_send_i_frame ::
  "nat \<Rightarrow> 'p hal_i2c option \<Rightarrow> u8 \<Rightarrow> double_queue_node \<Rightarrow> u16 \<Rightarrow> 'p i2c_world \<Rightarrow>
     (se_error \<times> double_queue_node \<times> 'p i2c_world) res" where
  "proto_i2c_send_i_frame fuel periph frame_type q inbuf_len w =
     (case periph of
        None \<Rightarrow> Ok (SE_ERR_HANDLE_INVALID, q, w)
      | Some h \<Rightarrow>
          if inbuf_len = 0 then Ok (SE_ERR_PARAM_INVALID, q, w) else
          let w1 = i2c_wait h PROTO_I2C_RECEIVE_TO_SEND_BGT w;
              head = [frame_type, ucast (drop_bit 8 inbuf_len), ucast inbuf_len]
          in res_bind (util_queue_front_push head PROTO_I2C_PIB_LEN_SIZE q) (\<lambda>q1.
             res_bind (proto_i2c_crc16 CRC_B (util_queue_size q1)
                         (drop (unat (front_node q1)) (q_buf q1))) (\<lambda>crc.
             res_bind (util_queue_rear_push [ucast crc, ucast (drop_bit 8 crc)] PROTO_I2C_EDC_SIZE q1) (\<lambda>q2.
             let off = ucast (util_queue_size q1) + ucast PROTO_I2C_EDC_SIZE :: u16;
                 (timer, w2) = i2c_start h timer_zero PROTO_I2C_COMM_MUTEX_WAIT_TIME w1
             in res_bind (mem_read (q_buf q2) (unat (front_node q1)) (unat off)) (\<lambda>d.
                res_bind (i2c_transmit_loop fuel h timer d w2) (\<lambda>(ret, w3).
                Ok (ret, q2, w3)))))))"

section \<open>Receiving\<close>

text \<open>
  The inner loop of every reception: ask the port for \<open>sRspLen\<close> bytes until it delivers or the
  frame time has passed.
\<close>

fun i2c_poll ::
  "nat \<Rightarrow> 'p hal_i2c \<Rightarrow> util_timer_t \<Rightarrow> bytes \<Rightarrow> u16 \<Rightarrow> 'p i2c_world \<Rightarrow>
     (se_error \<times> bytes \<times> u16 \<times> 'p i2c_world) res" where
  "i2c_poll 0 h timer rbuf len w = Stuck"
| "i2c_poll (Suc k) h timer rbuf len w =
     (let w1 = i2c_wait h PROTO_I2C_RECEVIE_POLL_TIME w;
          (ret, d, n, p) = i2c_receive h (push_bit 16 (ucast (i2c_stack_hi w1)) OR ucast len) (i2c_port w1)
      in res_bind (mem_write rbuf 0 d) (\<lambda>rbuf1.
         let w2 = w1\<lparr>i2c_port := p, i2c_stack_hi := ucast (drop_bit 16 n)\<rparr>
         in if ret = SE_SUCCESS then Ok (ret, rbuf1, ucast n, w2) else
            let (late, p3) = i2c_timer_differ h timer (i2c_port w2); w3 = w2\<lparr>i2c_port := p3\<rparr>
            in if late \<noteq> SE_SUCCESS then Ok (SE_ERR_TIMEOUT, rbuf1, ucast n, w3)
               else i2c_poll k h timer rbuf1 (ucast n) w3))"

text \<open>
  The CRC test of all three receivers. \<open>sRspLen - PROTO_I2C_EDC_SIZE\<close> is an \<open>int\<close>: for a length
  below 2 it is negative, a huge CRC length and an index in front of the buffer. The second
  byte is looked at only when the first one matches.
\<close>

definition i2c_crc_ok :: "bytes \<Rightarrow> u16 \<Rightarrow> bool res" where
  "i2c_crc_ok rbuf len =
     res_bind (proto_i2c_crc16 CRC_B (ucast len - PROTO_I2C_EDC_SIZE) rbuf) (\<lambda>crc.
     res_bind (mem_byte rbuf (unat (ucast len - PROTO_I2C_EDC_SIZE))) (\<lambda>lo.
     if lo \<noteq> ucast crc then Ok False else
     res_bind (mem_byte rbuf (unat (ucast len - PROTO_I2C_EDC_SIZE + 1))) (\<lambda>hi.
     Ok (hi = ucast (drop_bit 8 crc)))))"

text \<open>The total length a frame head announces, computed as \<open>int\<close> and truncated to \<open>uint16_t\<close>.\<close>

definition i2c_frame_len :: "bytes \<Rightarrow> u16 res" where
  "i2c_frame_len rbuf =
     res_bind (mem_byte rbuf 1) (\<lambda>hi. res_bind (mem_byte rbuf 2) (\<lambda>lo.
     Ok (ucast (push_bit 8 (ucast hi) + ucast lo + PROTO_I2C_PIB_LEN_EDC_SIZE))))"

text \<open>
  The outer loop: a head of three bytes, then the whole frame from its start. \<open>flag\<close> is
  \<open>bReceiveHeadFlag\<close> and \<open>retry\<close> is \<open>bRetryNum\<close>. On success the first seven bytes and the length are
  handed out.
\<close>

fun receive_frame_loop ::
  "nat \<Rightarrow> nat \<Rightarrow> 'p hal_i2c \<Rightarrow> util_timer_t \<Rightarrow> bytes \<Rightarrow> u16 \<Rightarrow> bool \<Rightarrow> nat \<Rightarrow> 'p i2c_world \<Rightarrow>
     (se_error \<times> bytes \<times> (bytes \<times> u16) option \<times> 'p i2c_world) res" where
  "receive_frame_loop fuel 0 h timer rbuf len flag retry w = Stuck"
| "receive_frame_loop fuel (Suc k) h timer rbuf len flag retry w =
     res_bind (i2c_poll fuel h timer rbuf len w) (\<lambda>(ret, rbuf1, _, w1).
     if ret \<noteq> SE_SUCCESS then Ok (ret, rbuf1, None, w1) else
     res_bind (mem_byte rbuf1 0) (\<lambda>pib.
     if pib \<noteq> PROTO_I2C_I_FRAME_NO_LINK \<and> pib \<noteq> PROTO_I2C_S_FRAME_WTX \<and> pib \<noteq> PROTO_I2C_R_FRAME_ACK \<and>
        pib \<noteq> PROTO_I2C_R_FRAME_NAK \<and> pib \<noteq> PROTO_I2C_I_FRAME_LINK
     then Ok (SE_ERR_DATA, rbuf1, None, w1) else
     res_bind (i2c_frame_len rbuf1) (\<lambda>n.
     if n > PROTO_I2C_FRAME_MAX_SIZE then Ok (SE_ERR_LEN, rbuf1, None, w1)
     else if \<not> flag then receive_frame_loop fuel k h timer rbuf1 n True retry w1
     else res_bind (i2c_crc_ok rbuf1 n) (\<lambda>good.
       if \<not> good then
         (if retry \<ge> PROTO_I2C_CRC_ERROR_RETRY_MAX_NUM then Ok (SE_ERR_LRC_CRC, rbuf1, None, w1)
          else receive_frame_loop fuel k h timer rbuf1 3 False (retry + 1) w1)
       else if pib AND 0xC0 = PROTO_I2C_S_FRAME_WTX then
         (let (timer1, w2) = i2c_start h timer PROTO_I2C_RECEVIE_FRAME_WAIT_TIME w1
          in receive_frame_loop fuel k h timer1 rbuf1 3 False retry w2)
       else res_bind (mem_read rbuf1 0 PROTO_I2C_FRONT_FRAME_SIZE) (\<lambda>head.
            Ok (SE_SUCCESS, rbuf1, Some (head, n), w1))))))"

definition proto_i2c_receive_frame ::
  "nat \<Rightarrow> 'p hal_i2c option \<Rightarrow> bytes \<Rightarrow> 'p i2c_world \<Rightarrow>
     (se_error \<times> bytes \<times> (bytes \<times> u16) option \<times> 'p i2c_world) res" where
  "proto_i2c_receive_frame fuel periph rbuf w =
     (case periph of
        None \<Rightarrow> Ok (SE_ERR_HANDLE_INVALID, rbuf, None, w)
      | Some h \<Rightarrow>
          let (timer, w1) = i2c_start h timer_zero PROTO_I2C_RECEVIE_FRAME_WAIT_TIME w
          in receive_frame_loop fuel fuel h timer rbuf 3 False 0 w1)"

section \<open>The RESET and ATR requests\<close>

text \<open>
  The part of a request behind the label that \<open>goto\<close> comes back to: send the request frame and
  start the frame timer.
\<close>

definition i2c_request ::
  "nat \<Rightarrow> 'p hal_i2c \<Rightarrow> u8 \<Rightarrow> u8 \<Rightarrow> util_timer_t \<Rightarrow> 'p i2c_world \<Rightarrow>
     (se_error \<times> util_timer_t \<times> 'p i2c_world) res" where
  "i2c_request fuel h frame_type frame_param timer w =
     res_bind (proto_i2c_send_atr_rs_frame fuel (Some h) frame_type frame_param w) (\<lambda>(ret, w1).
     if ret \<noteq> SE_SUCCESS then Ok (ret, timer, w1) else
     let (timer1, w2) = i2c_start h timer PROTO_I2C_RECEVIE_FRAME_WAIT_TIME w1
     in Ok (SE_SUCCESS, timer1, w2))"

text \<open>Agreeing on the frame size after a RESET response with the given PIB.\<close>

definition i2c_negotiate :: "u8 \<Rightarrow> 'p i2c_world \<Rightarrow> 'p i2c_world" where
  "i2c_negotiate pib w =
     (let b = pib AND 0x0F;
          pfsmi = (if b = 0 \<or> g_bI2cHedPfsmi w = 0 then 0
                   else if g_bI2cHedPfsmi w \<ge> b then b else g_bI2cHedPfsmi w);
          m = push_bit 4 (ucast pfsmi)
      in w\<lparr>g_bI2cHedPfsmi := pfsmi, g_sI2cHedPfsm := m, g_sI2cHedPfss := m\<rparr>)"

text \<open>
  The rest of one round of the request, after the port has delivered: \<open>retry\<close> is \<open>bNakRetryNum\<close> and
  \<open>naks\<close> is \<open>bNakRevNum\<close>. \<open>Inl\<close> leaves the function; \<open>Inr\<close> goes on receiving with the timer, \<open>sRspLen\<close>,
  \<open>bReceiveHeadFlag\<close> and the two counts. After a NAK the request goes out again with the flag
  and the length as they stand.
\<close>

definition reset_request_round ::
  "nat \<Rightarrow> 'p hal_i2c \<Rightarrow> util_timer_t \<Rightarrow> bytes \<Rightarrow> bool \<Rightarrow> nat \<Rightarrow> nat \<Rightarrow> 'p i2c_world \<Rightarrow>
     ((se_error \<times> 'p i2c_world) + (util_timer_t \<times> u16 \<times> bool \<times> nat \<times> nat \<times> 'p i2c_world)) res" where
  "reset_request_round fuel h timer rsp flag retry naks w =
     res_bind (mem_byte rsp 0) (\<lambda>pib.
     if pib \<noteq> PROTO_I2C_I_FRAME_NO_LINK \<and> pib \<noteq> PROTO_I2C_S_FRAME_RESET \<and> pib \<noteq> PROTO_I2C_R_FRAME_NAK
     then Ok (Inl (SE_ERR_DATA, w))
     else if \<not> flag then Ok (Inr (timer, PROTO_I2C_RESET_RSP_SIZE, True, retry, naks, w))
     else res_bind (i2c_crc_ok rsp PROTO_I2C_RESET_RSP_SIZE) (\<lambda>good.
       if \<not> good then
         (if retry \<ge> PROTO_I2C_CRC_ERROR_RETRY_MAX_NUM then Ok (Inl (SE_ERR_LRC_CRC, w))
          else Ok (Inr (timer, 3, False, retry + 1, 0, w)))
       else if pib = PROTO_I2C_R_FRAME_NAK then
         (if naks \<ge> PROTO_I2C_CRC_ERROR_RETRY_MAX_NUM then Ok (Inl (SE_ERR_LRC_CRC, w)) else
          res_bind (i2c_request fuel h PROTO_I2C_S_FRAME_RESET (g_bI2cHedPfsmi w) timer w)
            (\<lambda>(ret, timer1, w1).
          if ret \<noteq> SE_SUCCESS then Ok (Inl (ret, w1))
          else Ok (Inr (timer1, PROTO_I2C_RESET_RSP_SIZE, True, retry, naks + 1, w1))))
       else Ok (Inl (SE_SUCCESS, i2c_negotiate pib w))))"

fun reset_request_loop ::
  "nat \<Rightarrow> nat \<Rightarrow> 'p hal_i2c \<Rightarrow> util_timer_t \<Rightarrow> bytes \<Rightarrow> u16 \<Rightarrow> bool \<Rightarrow> nat \<Rightarrow> nat \<Rightarrow> 'p i2c_world \<Rightarrow>
     (se_error \<times> 'p i2c_world) res" where
  "reset_request_loop fuel 0 h timer rsp len flag retry naks w = Stuck"
| "reset_request_loop fuel (Suc k) h timer rsp len flag retry naks w =
     res_bind (i2c_poll fuel h timer rsp len w) (\<lambda>(ret, rsp1, _, w1).
     if ret \<noteq> SE_SUCCESS then Ok (ret, w1) else
     res_bind (reset_request_round fuel h timer rsp1 flag retry naks w1) (\<lambda>r.
     case r of
       Inl done \<Rightarrow> Ok done
     | Inr (timer1, len1, flag1, retry1, naks1, w2) \<Rightarrow>
         reset_request_loop fuel k h timer1 rsp1 len1 flag1 retry1 naks1 w2))"

definition proto_i2c_reset_request ::
  "nat \<Rightarrow> 'p hal_i2c option \<Rightarrow> 'p i2c_world \<Rightarrow> (se_error \<times> 'p i2c_world) res" where
  "proto_i2c_reset_request fuel periph w =
     (case periph of
        None \<Rightarrow> Ok (SE_ERR_HANDLE_INVALID, w)
      | Some h \<Rightarrow>
          res_bind (i2c_request fuel h PROTO_I2C_S_FRAME_RESET (g_bI2cHedPfsmi w) timer_zero w)
            (\<lambda>(ret, timer, w1).
          if ret \<noteq> SE_SUCCESS then Ok (ret, w1)
          else reset_request_loop fuel fuel h timer (replicate 5 0) 3 False 0 0 w1))"

text \<open>Copying the ATR out; \<open>*rlen\<close> is computed as \<open>int\<close> and stored as \<open>uint32_t\<close>.\<close>

definition atr_copy :: "bytes \<Rightarrow> u16 \<Rightarrow> bytes \<Rightarrow> (bytes \<times> u32) res" where
  "atr_copy rsp n rbuf =
     (let m = ucast n - PROTO_I2C_PIB_LEN_EDC_SIZE
      in res_bind (mem_read rsp 3 (unat m)) (\<lambda>atr.
         res_bind (mem_write rbuf 0 atr) (\<lambda>rbuf1. Ok (rbuf1, m))))"

definition atr_request_round ::
  "nat \<Rightarrow> 'p hal_i2c \<Rightarrow> util_timer_t \<Rightarrow> bytes \<Rightarrow> bool \<Rightarrow> nat \<Rightarrow> nat \<Rightarrow> bytes \<Rightarrow> u32 \<Rightarrow> 'p i2c_world \<Rightarrow>
     ((se_error \<times> bytes \<times> u32 \<times> 'p i2c_world) +
      (util_timer_t \<times> u16 \<times> bool \<times> nat \<times> nat \<times> 'p i2c_world)) res" where
  "atr_request_round fuel h timer rsp flag retry naks rbuf rlen w =
     res_bind (mem_byte rsp 0) (\<lambda>pib.
     if pib \<noteq> PROTO_I2C_I_FRAME_NO_LINK \<and> pib \<noteq> PROTO_I2C_R_FRAME_NAK
     then Ok (Inl (SE_ERR_DATA, rbuf, rlen, w)) else
     res_bind (i2c_frame_len rsp) (\<lambda>n.
     if n > PROTO_I2C_ATR_RSP_SIZE then Ok (Inl (SE_ERR_LEN, rbuf, rlen, w))
     else if \<not> flag then Ok (Inr (timer, n, True, retry, naks, w))
     else res_bind (i2c_crc_ok rsp n) (\<lambda>good.
       if \<not> good then
         (if retry \<ge> PROTO_I2C_CRC_ERROR_RETRY_MAX_NUM then Ok (Inl (SE_ERR_LRC_CRC, rbuf, rlen, w))
          else Ok (Inr (timer, 3, False, retry + 1, 0, w)))
       else if pib = PROTO_I2C_R_FRAME_NAK then
         (if naks \<ge> PROTO_I2C_CRC_ERROR_RETRY_MAX_NUM then Ok (Inl (SE_ERR_LRC_CRC, rbuf, rlen, w)) else
          res_bind (i2c_request fuel h PROTO_I2C_I_FRAME_ATR 0 timer w) (\<lambda>(ret, timer1, w1).
          if ret \<noteq> SE_SUCCESS then Ok (Inl (ret, rbuf, rlen, w1))
          else Ok (Inr (timer1, n, True, retry, naks + 1, w1))))
       else res_bind (mem_byte rsp 3) (\<lambda>b.
         if b \<noteq> 0x3B then Ok (Inl (SE_ERR_DATA, rbuf, rlen, w)) else
         res_bind (atr_copy rsp n rbuf) (\<lambda>(rbuf1, rlen1). Ok (Inl (SE_SUCCESS, rbuf1, rlen1, w)))))))"

fun atr_request_loop ::
  "nat \<Rightarrow> nat \<Rightarrow> 'p hal_i2c \<Rightarrow> util_timer_t \<Rightarrow> bytes \<Rightarrow> u16 \<Rightarrow> bool \<Rightarrow> nat \<Rightarrow> nat \<Rightarrow> bytes \<Rightarrow> u32 \<Rightarrow>
     'p i2c_world \<Rightarrow> (se_error \<times> bytes \<times> u32 \<times> 'p i2c_world) res" where
  "atr_request_loop fuel 0 h timer rsp len flag retry naks rbuf rlen w = Stuck"
| "atr_request_loop fuel (Suc k) h timer rsp len flag retry naks rbuf rlen w =
     res_bind (i2c_poll fuel h timer rsp len w) (\<lambda>(ret, rsp1, _, w1).
     if ret \<noteq> SE_SUCCESS then Ok (ret, rbuf, rlen, w1) else
     res_bind (atr_request_round fuel h timer rsp1 flag retry naks rbuf rlen w1) (\<lambda>r.
     case r of
       Inl done \<Rightarrow> Ok done
     | Inr (timer1, len1, flag1, retry1, naks1, w2) \<Rightarrow>
         atr_request_loop fuel k h timer1 rsp1 len1 flag1 retry1 naks1 rbuf rlen w2))"

definition proto_i2c_atr_request ::
  "nat \<Rightarrow> 'p hal_i2c option \<Rightarrow> bytes \<Rightarrow> u32 \<Rightarrow> 'p i2c_world \<Rightarrow>
     (se_error \<times> bytes \<times> u32 \<times> 'p i2c_world) res" where
  "proto_i2c_atr_request fuel periph rbuf rlen w =
     (case periph of
        None \<Rightarrow> Ok (SE_ERR_HANDLE_INVALID, rbuf, rlen, w)
      | Some h \<Rightarrow>
          res_bind (i2c_request fuel h PROTO_I2C_I_FRAME_ATR 0 timer_zero w) (\<lambda>(ret, timer, w1).
          if ret \<noteq> SE_SUCCESS then Ok (ret, rbuf, rlen, w1)
          else atr_request_loop fuel fuel h timer (replicate 32 0) 3 False 0 0 rbuf rlen w1))"

section \<open>Information frames\<close>

text \<open>Taking the payload out of the received frame of \<open>n\<close> bytes.\<close>

definition i2c_payload :: "u16 \<Rightarrow> double_queue_node \<Rightarrow> double_queue_node res" where
  "i2c_payload n q =
     res_bind (util_queue_front_pop PROTO_I2C_PIB_LEN_SIZE
       (q\<lparr>q_buf_len := n, rear_node := ucast (ucast (front_node q) + ucast n :: u32)\<rparr>))
       (util_queue_rear_pop PROTO_I2C_EDC_SIZE)"

text \<open>Giving up: RESET the device and report \<open>e\<close>, or a communication error if that fails too.\<close>

definition i2c_recover ::
  "nat \<Rightarrow> 'p hal_i2c \<Rightarrow> se_error \<Rightarrow> 'p i2c_world \<Rightarrow> (se_error \<times> 'p i2c_world) res" where
  "i2c_recover fuel h e w =
     res_bind (proto_i2c_reset_request fuel (Some h) w) (\<lambda>(ret, w1).
     Ok (if ret = SE_SUCCESS then e else SE_ERR_COMM, w1))"

text \<open>
  \<open>wtx\<close> is \<open>bWtxRetryNum\<close>, the retransmissions after a timeout, and \<open>naks\<close> is \<open>bNakRetryNum\<close>. With a
  negotiated frame size other than 0 the loop goes round without doing anything.
\<close>

fun i2c_handle_loop ::
  "nat \<Rightarrow> nat \<Rightarrow> 'p hal_i2c \<Rightarrow> double_queue_node \<Rightarrow> u32 \<Rightarrow> double_queue_node \<Rightarrow> u32 \<Rightarrow> nat \<Rightarrow> nat \<Rightarrow>
     'p i2c_world \<Rightarrow> (se_error \<times> double_queue_node \<times> double_queue_node \<times> u32 \<times> 'p i2c_world) res" where
  "i2c_handle_loop fuel 0 h qi n qo ol wtx naks w = Stuck"
| "i2c_handle_loop fuel (Suc k) h qi n qo ol wtx naks w =
     (if g_sI2cHedPfsm w = 0 \<or> g_sI2cHedPfss w = 0 then
        res_bind (proto_i2c_send_i_frame fuel (Some h) PROTO_I2C_I_FRAME_NO_LINK qi (ucast n) w)
          (\<lambda>(ret, qi1, w1).
        if ret \<noteq> SE_SUCCESS then Ok (ret, qi1, qo, ol, w1) else
        res_bind (proto_i2c_receive_frame fuel (Some h) (drop (unat (front_node qo)) (q_buf qo)) w1)
          (\<lambda>(ret, out, frm, w2).
        let qo1 = qo\<lparr>q_buf := take (unat (front_node qo)) (q_buf qo) @ out\<rparr> in
        if ret = SE_ERR_TIMEOUT then
          (if wtx \<ge> PROTO_I2C_TIMEOUT_RETRY_MAX_NUM then
             res_bind (i2c_recover fuel h SE_ERR_TIMEOUT w2) (\<lambda>(e, w3). Ok (e, qi1, qo1, ol, w3))
           else i2c_handle_loop fuel k h qi1 n qo1 ol (wtx + 1) naks w2)
        else if ret \<noteq> SE_SUCCESS then Ok (ret, qi1, qo1, ol, w2)
        else case frm of
          None \<Rightarrow> Undef
        | Some (head, len) \<Rightarrow>
            if head ! 0 = PROTO_I2C_R_FRAME_NAK then
              (if naks \<ge> PROTO_I2C_CRC_ERROR_RETRY_MAX_NUM then
                 res_bind (i2c_recover fuel h SE_ERR_LRC_CRC w2) (\<lambda>(e, w3). Ok (e, qi1, qo1, ol, w3))
               else i2c_handle_loop fuel k h qi1 n qo1 ol wtx (naks + 1) w2)
            else res_bind (i2c_payload len qo1) (\<lambda>qo2.
                 Ok (SE_SUCCESS, qi1, qo2, util_queue_size qo2, w2))))
      else i2c_handle_loop fuel k h qi n qo ol wtx naks w)"

definition proto_i2c_handle ::
  "nat \<Rightarrow> 'p hal_i2c \<Rightarrow> double_queue_node \<Rightarrow> u32 \<Rightarrow> double_queue_node \<Rightarrow> u32 \<Rightarrow> 'p i2c_world \<Rightarrow>
     (se_error \<times> double_queue_node \<times> double_queue_node \<times> u32 \<times> 'p i2c_world) res" where
  "proto_i2c_handle fuel h qi n qo ol w = i2c_handle_loop fuel fuel h qi n qo ol 0 0 w"

section \<open>Driver entry points\<close>

definition proto_i2c_init :: "'p hal_i2c option \<Rightarrow> 'p i2c_world \<Rightarrow> (se_error \<times> 'p i2c_world) res" where
  "proto_i2c_init periph w =
     (case periph of
        None \<Rightarrow> Ok (SE_ERR_HANDLE_INVALID, w)
      | Some h \<Rightarrow> let (ret, p) = i2c_init h (i2c_port w) in Ok (ret, w\<lparr>i2c_port := p\<rparr>))"

definition proto_i2c_deinit :: "'p hal_i2c option \<Rightarrow> 'p i2c_world \<Rightarrow> (se_error \<times> 'p i2c_world) res" where
  "proto_i2c_deinit periph w =
     (case periph of
        None \<Rightarrow> Ok (SE_ERR_HANDLE_INVALID, w)
      | Some h \<Rightarrow> let (ret, p) = i2c_deinit h (i2c_port w) in Ok (ret, w\<lparr>i2c_port := p\<rparr>))"

text \<open>The common second half of open and reset: RESET in the given mode, then the ATR if asked for.\<close>

definition i2c_restart ::
  "nat \<Rightarrow> 'p hal_i2c \<Rightarrow> out_ptr \<Rightarrow> 'p i2c_world \<Rightarrow> (se_error \<times> out_ptr \<times> 'p i2c_world) res" where
  "i2c_restart fuel h out w =
     res_bind (if g_bI2cHedOpenSeMode w = 1 then proto_i2c_reset_request fuel (Some h) w
               else Ok (SE_SUCCESS, w)) (\<lambda>(ret, w1).
     if ret \<noteq> SE_SUCCESS then Ok (ret, out, w1)
     else case out of
       (Some rbuf, Some rlen) \<Rightarrow>
         res_bind (proto_i2c_atr_request fuel (Some h) rbuf rlen w1) (\<lambda>(ret, rbuf1, rlen1, w2).
         Ok (ret, (Some rbuf1, Some rlen1), w2))
     | _ \<Rightarrow> Ok (ret, out, w1))"

definition proto_i2c_open ::
  "nat \<Rightarrow> 'p hal_i2c option \<Rightarrow> out_ptr \<Rightarrow> 'p i2c_world \<Rightarrow> (se_error \<times> out_ptr \<times> 'p i2c_world) res" where
  "proto_i2c_open fuel periph out w =
     (case periph of
        None \<Rightarrow> Ok (SE_ERR_HANDLE_INVALID, out, w)
      | Some h \<Rightarrow>
          if half_null out then Ok (SE_ERR_PARAM_INVALID, out, w)
          else i2c_restart fuel h out (i2c_wait h PROTO_I2C_SE_RST_DELAY w))"

definition proto_i2c_close :: "'p hal_i2c option \<Rightarrow> 'p i2c_world \<Rightarrow> (se_error \<times> 'p i2c_world) res" where
  "proto_i2c_close periph w = Ok (SE_SUCCESS, w)"

definition proto_i2c_transceive ::
  "nat \<Rightarrow> 'p hal_i2c option \<Rightarrow> double_queue_node \<Rightarrow> u32 \<Rightarrow> double_queue_node \<Rightarrow> u32 \<Rightarrow> 'p i2c_world \<Rightarrow>
     (se_error \<times> double_queue_node \<times> double_queue_node \<times> u32 \<times> 'p i2c_world) res" where
  "proto_i2c_transceive fuel periph qi slen qo rlen w =
     (case periph of
        None \<Rightarrow> Ok (SE_ERR_HANDLE_INVALID, qi, qo, rlen, w)
      | Some h \<Rightarrow>
          if slen = 0 then Ok (SE_ERR_PARAM_INVALID, qi, qo, rlen, w)
          else proto_i2c_handle fuel h qi slen qo rlen w)"

text \<open>\<open>proto_i2c_reset\<close> looks at the mode of open, not at \<open>g_bI2cHedRstSeMode\<close>.\<close>

definition proto_i2c_reset ::
  "nat \<Rightarrow> 'p hal_i2c option \<Rightarrow> out_ptr \<Rightarrow> 'p i2c_world \<Rightarrow> (se_error \<times> out_ptr \<times> 'p i2c_world) res" where
  "proto_i2c_reset fuel periph out w =
     (case periph of
        None \<Rightarrow> Ok (SE_ERR_HANDLE_INVALID, out, w)
      | Some h \<Rightarrow>
          if half_null out then Ok (SE_ERR_PARAM_INVALID, out, w) else
          let (ret, _, p) = i2c_control h PROTO_I2C_CTRL_RST None 0 (i2c_port w); w1 = w\<lparr>i2c_port := p\<rparr>
          in if ret \<noteq> SE_SUCCESS then Ok (ret, out, w1) else i2c_restart fuel h out w1)"

definition proto_i2c_control ::
  "'p hal_i2c option \<Rightarrow> u32 \<Rightarrow> bytes option \<Rightarrow> u32 \<Rightarrow> out_ptr \<Rightarrow> 'p i2c_world \<Rightarrow>
     (se_error \<times> bytes option \<times> out_ptr \<times> 'p i2c_world) res" where
  "proto_i2c_control periph ctrlcode sbuf slen out w =
     (case periph of
        None \<Rightarrow> Ok (SE_ERR_HANDLE_INVALID, sbuf, out, w)
      | Some h \<Rightarrow>
          if ctrlcode = 0 then Ok (SE_ERR_PARAM_INVALID, sbuf, out, w) else
          let (ret, sbuf1, p) = i2c_control h ctrlcode sbuf slen (i2c_port w)
          in Ok (ret, sbuf1, out, w\<lparr>i2c_port := p\<rparr>))"

definition proto_i2c_delay ::
  "'p hal_i2c option \<Rightarrow> u32 \<Rightarrow> 'p i2c_world \<Rightarrow> (se_error \<times> 'p i2c_world) res" where
  "proto_i2c_delay periph us w =
     (case periph of
        None \<Rightarrow> Ok (SE_ERR_HANDLE_INVALID, w)
      | Some h \<Rightarrow> Ok (SE_SUCCESS, i2c_wait h us w))"

text \<open>
  The driver structure that is registered with the communication switch. \<open>dev_at\<close> gives the I2C
  peripheral at an address.
\<close>

definition g_proto_i2c :: "nat \<Rightarrow> (nat \<Rightarrow> 'p hal_i2c) \<Rightarrow> 'p i2c_world peripheral_bus_driver" where
  "g_proto_i2c fuel dev_at =
     \<lparr>drv_type = PERIPHERAL_I2C, drv_periph = replicate 4 None,
      drv_init = \<lambda>a. proto_i2c_init (Some (dev_at a)),
      drv_deinit = \<lambda>a. proto_i2c_deinit (Some (dev_at a)),
      drv_open = \<lambda>a. proto_i2c_open fuel (Some (dev_at a)),
      drv_close = \<lambda>a. proto_i2c_close (Some (dev_at a)),
      drv_transceive = \<lambda>a. proto_i2c_transceive fuel (Some (dev_at a)),
      drv_reset = \<lambda>a. proto_i2c_reset fuel (Some (dev_at a)),
      drv_control = \<lambda>a. proto_i2c_control (Some (dev_at a)),
      drv_delay = \<lambda>a. proto_i2c_delay (Some (dev_at a))\<rparr>"

end
