(* ===== verification/Port_Script.thy ===== *)
theory Port_Script
  imports Proto_Spi Proto_I2c
begin

text \<open>
  A scripted port for examples: what the device sends is a list of chunks, what the host sends is
  recorded, and a running timer answers "not yet" a fixed number of times. It instantiates the
  port parameters of both protocol drivers at concrete inputs.
\<close>

record port_script =
  rx :: "bytes list"
  tx :: "bytes list"
  ticks :: nat

definition script :: "bytes list \<Rightarrow> port_script" where
  "script xs = \<lparr>rx = xs, tx = [], ticks = 0\<rparr>"

definition script_time :: nat where "script_time = 3"

definition script_start :: "util_timer_t \<Rightarrow> port_script \<Rightarrow> util_timer_t \<times> port_script" where
  "script_start t p = (t, p\<lparr>ticks := script_time\<rparr>)"

definition script_differ :: "util_timer_t \<Rightarrow> port_script \<Rightarrow> se_error \<times> port_script" where
  "script_differ t p =
     (if ticks p = 0 then (SE_ERR_TIMEOUT, p) else (SE_SUCCESS, p\<lparr>ticks := ticks p - 1\<rparr>))"

definition script_transmit :: "bytes \<Rightarrow> port_script \<Rightarrow> se_error \<times> port_script" where
  "script_transmit d p = (SE_SUCCESS, p\<lparr>tx := tx p @ [d]\<rparr>)"

text \<open>The next chunk, cut to the length asked for; an error when there is none.\<close>

definition script_receive :: "nat \<Rightarrow> port_script \<Rightarrow> se_error \<times> bytes \<times> port_script" where
  "script_receive n p =
     (case rx p of
        [] \<Rightarrow> (SE_ERR_COMM, [], p)
      | d # ds \<Rightarrow> (SE_SUCCESS, take n d, p\<lparr>rx := ds\<rparr>))"

definition script_i2c :: "u8 \<Rightarrow> port_script hal_i2c" where
  "script_i2c dev =
     \<lparr>i2c_periph = \<lparr>per_type = PERIPHERAL_I2C, per_id = dev\<rparr>,
      i2c_init = Pair SE_SUCCESS, i2c_deinit = Pair SE_SUCCESS, i2c_delay = (\<lambda>us p. p),
      i2c_timer_start = script_start, i2c_timer_differ = script_differ,
      i2c_transmit = script_transmit,
      i2c_receive = (\<lambda>n p. let (ret, d, p1) = script_receive (unat n) p in (ret, d, n, p1)),
      i2c_control = (\<lambda>code d n p. (SE_SUCCESS, d, p))\<rparr>"

definition script_spi :: "u8 \<Rightarrow> port_script hal_spi" where
  "script_spi dev =
     \<lparr>hal_periph = \<lparr>per_type = PERIPHERAL_SPI, per_id = dev\<rparr>,
      hal_init = Pair SE_SUCCESS, hal_deinit = Pair SE_SUCCESS, hal_delay = (\<lambda>us p. p),
      hal_timer_start = script_start, hal_timer_differ = script_differ,
      hal_chip_select = (\<lambda>b p. p), hal_transmit = script_transmit,
      hal_receive = (\<lambda>b p. script_receive (length b) p),
      hal_control = (\<lambda>code d n p. (SE_SUCCESS, d, n, p))\<rparr>"

lemmas script_simps = script_i2c_def script_spi_def script_def script_start_def script_differ_def
  script_time_def script_transmit_def script_receive_def

end
