(* ===== verification/I2c_Facts.thy ===== *)
theory I2c_Facts
  imports Spi_Facts Port_Script
begin

text \<open>
  What the I2C driver of Proto_I2c guarantees: the frame it sends and what a retransmission sends,
  the checks a received frame has passed when the driver reports success, the contract it
  offers the command layer, the state it can reach, and which of its loops end.
\<close>

section \<open>The frame checks\<close>

lemma i2c_crc_same: "proto_i2c_crc16 = proto_spi_crc16"
  by (intro ext) (simp add: proto_spi_crc16_def proto_i2c_crc16_def)

lemma i2c_crc_ok_True:
  assumes "i2c_crc_ok out n = Ok True" "length out \<le> 1024"
  shows "3 \<le> unat n \<and> unat n \<le> length out \<and>
    (let c = crc_x25 (take (unat n - 2) out)
     in out ! (unat n - 2) = ucast c \<and> out ! (unat n - 1) = ucast (drop_bit 8 c))"
proof -
  let ?m = "ucast n - PROTO_I2C_EDC_SIZE"
  obtain c lo hi where c: "proto_i2c_crc16 CRC_B ?m out = Ok c"
    and lo: "mem_byte out (unat ?m) = Ok lo" "lo = ucast c"
    and hi: "mem_byte out (unat (?m + 1)) = Ok hi" "hi = ucast (drop_bit 8 c)"
    using assms(1) by (auto simp: i2c_crc_ok_def split: if_splits)
  have cnt: "crc16_count ?m \<le> length out"
    using c by (auto simp: proto_i2c_crc16_def mem_read_def split: if_splits)
  have n3: "3 \<le> unat n"
  proof (rule ccontr)
    assume "\<not> 3 \<le> unat n"
    then have "unat n = 0 \<or> unat n = 1 \<or> unat n = 2" by linarith
    then have "unat n = unat (0 :: u16) \<or> unat n = unat (1 :: u16) \<or> unat n = unat (2 :: u16)" by simp
    then have "n = 0 \<or> n = 1 \<or> n = 2" by (metis unsigned_word_eqI)
    moreover have "unat (- 1 :: u32) = 4294967295" "unat (- 2 :: u32) = 4294967294"
      by (simp_all add: unsigned_minus_1_eq_mask mask_eq_exp_minus_1)
    ultimately have "1024 < crc16_count ?m" by (auto simp: crc16_count_def PROTO_I2C_EDC_SIZE_def)
    then show False using cnt assms(2) by simp
  qed
  have m: "unat ?m = unat n - 2"
    using n3 by (simp add: PROTO_I2C_EDC_SIZE_def unat_sub word_le_nat_alt unat_u16_u32)
  have m1: "unat (?m + 1) = unat n - 1"
    using m n3 u16_lt [of n] by (subst unat_add_lem [THEN iffD1]) simp_all
  have len: "unat n \<le> length out"
    using hi(1) m1 n3 by (auto simp: mem_byte_def split: if_splits)
  have "c = crc_x25 (take (unat n - 2) out)"
    using c n3 len proto_spi_crc16_B [of ?m out] by (simp add: i2c_crc_same m)
  then show ?thesis
    using lo hi n3 len by (auto simp: m m1 mem_byte_def Let_def split: if_splits)
qed

text \<open>
  A frame that passed every check at the start of a buffer: an information or ACK frame whose
  length field is the length of its data.
\<close>

definition i2c_frame_at :: "bytes \<Rightarrow> u16 \<Rightarrow> bool" where
  "i2c_frame_at out n \<longleftrightarrow>
     out ! 0 \<in> {PROTO_I2C_I_FRAME_NO_LINK, PROTO_I2C_I_FRAME_LINK, PROTO_I2C_R_FRAME_ACK, PROTO_I2C_R_FRAME_NAK} \<and>
     unat n = 256 * unat (out ! 1) + unat (out ! 2) + 5 \<and> unat n \<le> length out \<and>
     (let c = crc_x25 (take (unat n - 2) out)
      in out ! (unat n - 2) = ucast c \<and> out ! (unat n - 1) = ucast (drop_bit 8 c))"

text \<open>
  A length field near the top of its range wraps to a total length of 3 or 4: no frame type the
  driver accepts has a CRC that lets such a frame through.
\<close>

lemma crc_tiny:
  "\<forall>p \<in> set [0x20, 0x00, 0x80, 0x81, 0xC0]. (ucast (crc_x25 [p]) :: u8) \<noteq> 0xFF \<and>
     (ucast (crc_x25 [p, 0xFF]) :: u8) \<noteq> 0xFF"
  by code_simp

lemma take_2_nth: "2 \<le> length xs \<Longrightarrow> take 2 xs = [xs ! 0, xs ! 1]"
  by (cases xs; cases "tl xs") auto

lemma take_1_nth: "1 \<le> length xs \<Longrightarrow> take 1 xs = [xs ! 0]"
  by (cases xs) auto

lemma unat_ff: "unat (b :: u8) = 255 \<longleftrightarrow> b = 0xFF"
  using unsigned_word_eqI [of b "0xFF"] by auto

lemma mod_wrap5: "(l :: nat) < 65536 \<Longrightarrow> n = (l + 5) mod 65536 \<Longrightarrow> n = l + 5 \<or> n + 65531 = l"
  by (cases "l < 65531") (auto simp: mod_if)

lemma i2c_frame_len_Ok:
  assumes "i2c_frame_len out = Ok n"
  shows "3 \<le> length out"
    "unat n = 256 * unat (out ! 1) + unat (out ! 2) + 5 \<or>
     unat n + 65531 = 256 * unat (out ! 1) + unat (out ! 2)"
proof -
  have n: "3 \<le> length out" "n = ucast (frame_len_field out + 5)"
    using assms by (auto simp: i2c_frame_len_def mem_byte_def frame_len_field_def
        PROTO_I2C_PIB_LEN_EDC_SIZE_def split: if_splits)
  then show "3 \<le> length out" by simp
  let ?l = "256 * unat (out ! 1) + unat (out ! 2)"
  have l: "?l < 65536" using u8_lt [of "out ! 1"] u8_lt [of "out ! 2"] by simp
  have "unat (frame_len_field out + 5) = ?l + 5"
    using l by (subst unat_add_lem [THEN iffD1]) (simp_all add: unat_frame_len_field)
  then have "unat n = (?l + 5) mod 65536"
    unfolding n(2) by (simp add: unsigned_ucast_eq take_bit_eq_mod)
  then show "unat n = ?l + 5 \<or> unat n + 65531 = ?l"
    using l by (intro mod_wrap5)
qed

lemma i2c_frame_checked:
  assumes "i2c_frame_len out = Ok n" "i2c_crc_ok out n = Ok True" "length out \<le> 1024"
    and pib: "out ! 0 \<in> {PROTO_I2C_I_FRAME_NO_LINK, PROTO_I2C_I_FRAME_LINK,
      PROTO_I2C_R_FRAME_ACK, PROTO_I2C_R_FRAME_NAK}"
  shows "i2c_frame_at out n"
proof -
  note c = i2c_crc_ok_True [OF assms(2,3)]
  have "\<not> unat n + 65531 = 256 * unat (out ! 1) + unat (out ! 2)"
  proof
    assume e: "unat n + 65531 = 256 * unat (out ! 1) + unat (out ! 2)"
    then have b1: "unat (out ! 1) = 255" "unat (out ! 2) \<le> 255"
      using u8_lt [of "out ! 1"] u8_lt [of "out ! 2"] by linarith+
    then have b: "unat (out ! 1) = 255" "unat (out ! 2) \<le> 255" "unat n + 251 = unat (out ! 2)"
      using e by simp_all
    then have ff: "out ! 1 = 0xFF" by (simp add: unat_ff)
    have n34: "unat n = 3 \<or> unat n = 4" using b c by linarith
    have p: "out ! 0 \<in> set [0x20, 0x00, 0x80, 0x81, 0xC0]" using pib by (auto simp: i2c_pibs)
    show False
      using n34
    proof
      assume "unat n = 3"
      then show False
        using c ff p crc_tiny take_1_nth [of out] by (auto simp: Let_def)
    next
      assume n4: "unat n = 4"
      then have "out ! 2 = 0xFF" using b by (simp add: unat_ff)
      then show False
        using n4 c ff p crc_tiny take_2_nth [of out] by (auto simp: Let_def)
    qed
  qed
  then show ?thesis
    using i2c_frame_len_Ok(2) [OF assms(1)] c pib by (auto simp: i2c_frame_at_def)
qed

section \<open>What the receive path delivers\<close>

text \<open>The configuration of the driver, which only the RESET request changes.\<close>

definition i2c_cfg :: "'p i2c_world \<Rightarrow> u8 \<times> u16 \<times> u16 \<times> u8 \<times> u8" where
  "i2c_cfg w = (g_bI2cHedPfsmi w, g_sI2cHedPfsm w, g_sI2cHedPfss w, g_bI2cHedOpenSeMode w, g_bI2cHedRstSeMode w)"

lemma i2c_cfg_simps [simp]:
  "i2c_cfg (w\<lparr>i2c_port := p\<rparr>) = i2c_cfg w" "i2c_cfg (w\<lparr>i2c_stack_hi := x\<rparr>) = i2c_cfg w"
  "i2c_cfg (i2c_wait h us w) = i2c_cfg w"
  by (simp_all add: i2c_cfg_def i2c_wait_def)

lemma i2c_start_cfg: "i2c_start h timer ms w = (t, w') \<Longrightarrow> i2c_cfg w' = i2c_cfg w"
  by (auto simp: i2c_start_def split: prod.splits)

lemma i2c_transmit_cfg: "i2c_transmit_loop k h timer d w = Ok (ret, w') \<Longrightarrow> i2c_cfg w' = i2c_cfg w"
  by (induction k arbitrary: w) (auto simp: Let_def split: prod.splits if_splits)

lemma i2c_poll_out:
  assumes "i2c_poll k h timer rbuf len w = Ok (ret, rbuf', len', w')"
  shows "length rbuf' = length rbuf \<and> i2c_cfg w' = i2c_cfg w"
  using assms
proof (induction k arbitrary: rbuf len w)
  case (Suc k)
  obtain r d n p where rd: "i2c_receive h (push_bit 16 (ucast (i2c_stack_hi (i2c_wait h PROTO_I2C_RECEVIE_POLL_TIME w)))
      OR ucast len) (i2c_port (i2c_wait h PROTO_I2C_RECEVIE_POLL_TIME w)) = (r, d, n, p)"
    by (metis prod_cases4)
  obtain rb where rb: "mem_write rbuf 0 d = Ok rb" "length rb = length rbuf"
    using Suc.prems rd by (auto simp: Let_def dest: mem_write_length)
  show ?case
    using Suc.prems rd rb
    by (auto simp: Let_def split: prod.splits if_splits dest!: Suc.IH)
qed simp

lemma receive_frame_loop_out:
  assumes "receive_frame_loop fuel k h timer rbuf len flag retry w = Ok (ret, out, frm, w')"
    and "length rbuf \<le> 1024"
  shows "length out = length rbuf \<and> i2c_cfg w' = i2c_cfg w \<and>
    (ret = SE_SUCCESS \<longrightarrow> (\<exists>n. frm = Some (take 7 out, n) \<and> i2c_frame_at out n \<and> 7 \<le> length out))"
  using assms
proof (induction k arbitrary: timer rbuf len flag retry w)
  case (Suc k)
  obtain r1 rb len1 w1 where poll: "i2c_poll fuel h timer rbuf len w = Ok (r1, rb, len1, w1)"
    using Suc.prems(1) by auto
  note o = i2c_poll_out [OF poll]
  have small: "length rb \<le> 1024" using o Suc.prems(2) by simp
  note IH = Suc.IH [OF _ small]
  show ?case
  proof (cases "r1 = SE_SUCCESS")
    case False
    then show ?thesis using Suc.prems(1) poll o by auto
  next
    case r1: True
    obtain pib where pib: "mem_byte rb 0 = Ok pib" "pib = rb ! 0"
      using Suc.prems(1) poll r1 by (auto simp: mem_byte_def split: if_splits)
    show ?thesis
    proof (cases "pib \<noteq> PROTO_I2C_I_FRAME_NO_LINK \<and> pib \<noteq> PROTO_I2C_S_FRAME_WTX \<and>
        pib \<noteq> PROTO_I2C_R_FRAME_ACK \<and> pib \<noteq> PROTO_I2C_R_FRAME_NAK \<and> pib \<noteq> PROTO_I2C_I_FRAME_LINK")
      case True
      then show ?thesis using Suc.prems(1) poll r1 o pib(1) by simp
    next
      case ok: False
      obtain n where n: "i2c_frame_len rb = Ok n"
        using Suc.prems(1) poll r1 pib(1) ok by (auto split: if_splits)
      show ?thesis
      proof (cases "n > PROTO_I2C_FRAME_MAX_SIZE \<or> \<not> flag")
        case True
        then show ?thesis
          using Suc.prems(1) poll r1 o pib(1) ok n by (auto split: if_splits dest!: IH)
      next
        case flag: False
        obtain good where good: "i2c_crc_ok rb n = Ok good"
          using Suc.prems(1) poll r1 pib(1) ok n flag by (auto split: if_splits)
        show ?thesis
        proof (cases "good \<and> pib AND 0xC0 \<noteq> PROTO_I2C_S_FRAME_WTX")
          case False
          then show ?thesis
            using Suc.prems(1) poll r1 o pib(1) ok n flag good
            by (auto split: if_splits prod.splits dest!: IH i2c_start_cfg)
        next
          case True
          then obtain head where hd: "mem_read rb 0 PROTO_I2C_FRONT_FRAME_SIZE = Ok head"
              "(ret, out, frm, w') = (SE_SUCCESS, rb, Some (head, n), w1)"
            using Suc.prems(1) poll r1 pib(1) ok n flag good by auto
          have "pib \<noteq> PROTO_I2C_S_FRAME_WTX" using True by (auto simp: PROTO_I2C_S_FRAME_WTX_def)
          then have "rb ! 0 \<in> {PROTO_I2C_I_FRAME_NO_LINK, PROTO_I2C_I_FRAME_LINK,
              PROTO_I2C_R_FRAME_ACK, PROTO_I2C_R_FRAME_NAK}" using ok pib(2) by auto
          then have "i2c_frame_at rb n"
            using i2c_frame_checked [OF n _ small] good True by simp
          then show ?thesis
            using hd o by (auto simp: mem_read_def PROTO_I2C_FRONT_FRAME_SIZE_def split: if_splits)
        qed
      qed
    qed
  qed
qed simp

lemma receive_frame_out:
  assumes "proto_i2c_receive_frame fuel hp rbuf w = Ok (ret, out, frm, w')" "length rbuf \<le> 1024"
  shows "length out = length rbuf \<and> i2c_cfg w' = i2c_cfg w \<and>
    (ret = SE_SUCCESS \<longrightarrow> (\<exists>n. frm = Some (take 7 out, n) \<and> i2c_frame_at out n \<and> 7 \<le> length out))"
  using assms
  by (auto simp: proto_i2c_receive_frame_def Let_def split: option.splits prod.splits
      dest!: receive_frame_loop_out i2c_start_cfg)

lemma send_rs_cfg:
  assumes "proto_i2c_send_atr_rs_frame fuel hp ty a w = Ok (ret, w')"
  shows "i2c_cfg w' = i2c_cfg w"
proof (cases hp)
  case (Some h)
  obtain t w2 where t: "i2c_start h timer_zero PROTO_I2C_COMM_MUTEX_WAIT_TIME
      (i2c_wait h PROTO_I2C_RECEIVE_TO_SEND_BGT w) = (t, w2)" by fastforce
  show ?thesis
    using assms Some t i2c_start_cfg [OF t]
    by (auto simp: proto_i2c_send_atr_rs_frame_def Let_def dest: i2c_transmit_cfg)
qed (use assms in \<open>simp add: proto_i2c_send_atr_rs_frame_def\<close>)

lemma send_i_cfg:
  assumes "proto_i2c_send_i_frame fuel hp ty q n w = Ok (ret, q', w')"
  shows "i2c_cfg w' = i2c_cfg w"
proof (cases hp)
  case (Some h)
  obtain t w2 where t: "i2c_start h timer_zero PROTO_I2C_COMM_MUTEX_WAIT_TIME
      (i2c_wait h PROTO_I2C_RECEIVE_TO_SEND_BGT w) = (t, w2)" by fastforce
  show ?thesis
    using assms Some t i2c_start_cfg [OF t]
    by (auto simp: proto_i2c_send_i_frame_def Let_def split: if_splits dest!: i2c_transmit_cfg)
qed (use assms in \<open>simp add: proto_i2c_send_i_frame_def\<close>)

section \<open>The contract with the command layer\<close>

lemma i2c_payload_same: "i2c_payload n q = queue_payload n q"
  by (simp add: i2c_payload_def queue_payload_def PROTO_I2C_PIB_LEN_SIZE_def PROTO_I2C_EDC_SIZE_def
      FRAME_HEAD_LEN_def EDC_LEN_def)

definition i2c_genuine :: "bytes \<Rightarrow> bool" where
  "i2c_genuine d \<longleftrightarrow> (\<exists>out n. i2c_frame_at out n \<and> out ! 0 \<noteq> PROTO_I2C_R_FRAME_NAK \<and>
     d = take (unat n - 5) (drop 3 out))"

lemma i2c_payload_reply:
  assumes q: "length (q_buf q) = 1024" "capacity q = 0 \<or> capacity q = 1024" "unat (front_node q) \<le> 1024"
    and fr: "i2c_frame_at (drop (unat (front_node q)) (q_buf q)) n"
      "drop (unat (front_node q)) (q_buf q) ! 0 \<noteq> PROTO_I2C_R_FRAME_NAK"
    and ok: "i2c_payload n q = Ok q'"
  shows "reply_ok q' \<and> i2c_genuine (q_data q')"
proof -
  let ?f = "unat (front_node q)" and ?out = "drop (unat (front_node q)) (q_buf q)"
  have n: "5 \<le> unat n" "unat n \<le> 1024 - ?f" "unat n = 256 * unat (?out ! 1) + unat (?out ! 2) + 5"
    using fr q unfolding i2c_frame_at_def length_drop by (metis le_add2, metis, metis)
  have small: "unat (q_buf q ! (?f + 1)) = 0 \<and> unat (q_buf q ! (?f + 2)) < 4" if "unat n < 7"
  proof -
    have "unat (?out ! 1) = 0" "unat (?out ! 2) < 4" using that n(3) by linarith+
    then show ?thesis using n q by simp
  qed
  note d = queue_payload_data [OF q(1,2) n(1,2) q(3) small ok [unfolded i2c_payload_same]]
  show ?thesis
    unfolding i2c_genuine_def using d(1,3) fr by blast
qed

lemma i2c_handle_loop_reply:
  assumes "i2c_handle_loop fuel k h qi n qo ol wtx naks w = Ok (SE_SUCCESS, qi', qo', ol', w')"
    and "length (q_buf qo) = 1024" "capacity qo = 0 \<or> capacity qo = 1024" "unat (front_node qo) \<le> 1024"
  shows "reply_ok qo' \<and> i2c_genuine (q_data qo')"
  using assms
proof (induction k arbitrary: qi qo wtx naks w)
  case (Suc k)
  show ?case
  proof (cases "g_sI2cHedPfsm w = 0 \<or> g_sI2cHedPfss w = 0")
    case False
    then show ?thesis using Suc.prems Suc.IH by simp
  next
    case True
    let ?f = "unat (front_node qo)"
    obtain q1 w1 where send: "proto_i2c_send_i_frame fuel (Some h) PROTO_I2C_I_FRAME_NO_LINK qi (ucast n) w
        = Ok (SE_SUCCESS, q1, w1)"
      using Suc.prems(1) True by (auto split: if_splits)
    obtain ret out frm w2 where
      rc: "proto_i2c_receive_frame fuel (Some h) (drop ?f (q_buf qo)) w1 = Ok (ret, out, frm, w2)"
      using Suc.prems(1) True send by auto
    note o = receive_frame_out [OF rc]
    let ?q = "qo\<lparr>q_buf := take ?f (q_buf qo) @ out\<rparr>"
    have q: "length (q_buf ?q) = 1024" "capacity ?q = 0 \<or> capacity ?q = 1024"
        "unat (front_node ?q) \<le> 1024" "drop (unat (front_node ?q)) (q_buf ?q) = out"
      using o Suc.prems(2-4) by simp_all
    note IH = Suc.IH [OF _ q(1-3)]
    show ?thesis
    proof (cases "ret = SE_SUCCESS")
      case False
      then show ?thesis
        using Suc.prems(1) True send rc
        by (auto simp: i2c_recover_def Let_def split: if_splits dest!: IH)
    next
      case ok: True
      then obtain m where m: "frm = Some (take 7 out, m)" "i2c_frame_at out m" "7 \<le> length out"
        using o Suc.prems(2) by auto
      have hd: "take 7 out ! 0 = out ! 0" by simp
      show ?thesis
      proof (cases "out ! 0 = PROTO_I2C_R_FRAME_NAK")
        case nak: True
        then show ?thesis
          using Suc.prems(1) True send rc ok m(1) hd
          by (auto simp: i2c_recover_def Let_def split: if_splits dest!: IH)
      next
        case False
        then obtain q2 where "i2c_payload m ?q = Ok q2" "qo' = q2"
          using Suc.prems(1) True send rc ok m(1) hd by (auto simp: Let_def)
        then show ?thesis
          using i2c_payload_reply [OF q(1-3)] q(4) m(2) False by auto
      qed
    qed
  qed
qed simp

lemma i2c_transceive_reply:
  assumes "proto_i2c_transceive fuel hp qi n qo ol w = Ok (SE_SUCCESS, qi', qo', ol', w')" "wf_queue qo"
  shows "reply_ok qo' \<and> i2c_genuine (q_data qo')"
proof -
  obtain h where "i2c_handle_loop fuel fuel h qi n qo ol 0 0 w = Ok (SE_SUCCESS, qi', qo', ol', w')"
    using assms(1) by (auto simp: proto_i2c_transceive_def proto_i2c_handle_def split: option.splits if_splits)
  then show ?thesis
    using assms(2) by (intro i2c_handle_loop_reply) (auto simp: wf_queue_def DEQUE_MAX_SIZE_def)
qed

interpretation i2c: frame_transport "proto_i2c_transceive fuel (Some h)" i2c_genuine
  for fuel :: nat and h :: "'p hal_i2c"
  by unfold_locales (rule i2c_transceive_reply)

section \<open>The reachable configurations\<close>

definition chain_free :: "'p i2c_world \<Rightarrow> bool" where
  "chain_free w \<longleftrightarrow> g_bI2cHedPfsmi w = 0 \<and> g_sI2cHedPfsm w = 0 \<and> g_sI2cHedPfss w = 0"

text \<open>An operation leaves the configuration alone or negotiates chaining away.\<close>

definition i2c_settles :: "'p i2c_world \<Rightarrow> 'p i2c_world \<Rightarrow> bool" where
  "i2c_settles w w' \<longleftrightarrow> i2c_cfg w' = i2c_cfg w \<or> chain_free w'"

lemma chain_free_cfg: "i2c_cfg w' = i2c_cfg w \<Longrightarrow> chain_free w' = chain_free w"
  by (simp add: chain_free_def i2c_cfg_def)

lemma i2c_settles_trans: "i2c_settles u v \<Longrightarrow> i2c_settles v w \<Longrightarrow> i2c_settles u w"
  unfolding i2c_settles_def by (metis chain_free_cfg)

lemma i2c_settles_cfg: "i2c_cfg w' = i2c_cfg w \<Longrightarrow> i2c_settles w w'"
  by (simp add: i2c_settles_def)

lemma i2c_settles_chain_free: "i2c_settles w w' \<Longrightarrow> chain_free w \<Longrightarrow> chain_free w'"
  unfolding i2c_settles_def by (metis chain_free_cfg)

lemma i2c_request_cfg:
  "i2c_request fuel h ty a t w = Ok (ret, t', w') \<Longrightarrow> i2c_cfg w' = i2c_cfg w"
  by (auto simp: i2c_request_def split: if_splits prod.splits dest!: send_rs_cfg i2c_start_cfg)

lemma i2c_negotiate_free:
  "chain_free (i2c_negotiate PROTO_I2C_I_FRAME_NO_LINK w)"
  "chain_free (i2c_negotiate PROTO_I2C_S_FRAME_RESET w)"
  by (simp_all add: i2c_negotiate_def chain_free_def i2c_pibs)

text \<open>One round after a delivery: where it may leave the configuration and the counts.\<close>

lemma reset_round_out:
  assumes "reset_request_round fuel h timer rsp flag retry naks w = Ok r"
  shows "case r of
      Inl (ret, w') \<Rightarrow> i2c_settles w w' \<and> (ret = SE_SUCCESS \<longrightarrow> chain_free w')
    | Inr (timer', len', flag', retry', naks', w') \<Rightarrow> i2c_cfg w' = i2c_cfg w"
  using assms
  by (auto simp: reset_request_round_def i2c_settles_def i2c_negotiate_free
      dest: i2c_request_cfg split: if_splits)

lemma atr_round_out:
  assumes "atr_request_round fuel h timer rsp flag retry naks rbuf rlen w = Ok r"
  shows "case r of Inl (_, _, _, w') \<Rightarrow> i2c_cfg w' = i2c_cfg w
    | Inr (_, _, _, _, _, w') \<Rightarrow> i2c_cfg w' = i2c_cfg w"
  using assms by (auto simp: atr_request_round_def dest: i2c_request_cfg split: if_splits)

lemma reset_request_loop_settles:
  assumes "reset_request_loop fuel k h timer rsp len flag retry naks w = Ok (ret, w')"
  shows "i2c_settles w w' \<and> (ret = SE_SUCCESS \<longrightarrow> chain_free w')"
  using assms
proof (induction k arbitrary: timer rsp len flag retry naks w)
  case (Suc k)
  obtain r1 rb len1 w1 where poll: "i2c_poll fuel h timer rsp len w = Ok (r1, rb, len1, w1)"
    using Suc.prems by auto
  have w1: "i2c_settles w w1" using i2c_poll_out [OF poll] by (simp add: i2c_settles_def)
  show ?case
  proof (cases "r1 = SE_SUCCESS")
    case False
    then show ?thesis using Suc.prems poll w1 by auto
  next
    case True
    then obtain r where r: "reset_request_round fuel h timer rb flag retry naks w1 = Ok r"
      using Suc.prems poll by auto
    show ?thesis
    proof (cases r)
      case (Inl a)
      then show ?thesis
        using Suc.prems poll True r reset_round_out [OF r] i2c_settles_trans [OF w1] by auto
    next
      case (Inr b)
      obtain t2 len2 f2 r2 n2 w2 where b: "b = (t2, len2, f2, r2, n2, w2)" by (cases b) auto
      then have "reset_request_loop fuel k h t2 rb len2 f2 r2 n2 w2 = Ok (ret, w')"
        using Suc.prems poll True r Inr by auto
      moreover have "i2c_settles w w2"
        using reset_round_out [OF r] Inr b w1 i2c_settles_cfg i2c_settles_trans by fastforce
      ultimately show ?thesis using Suc.IH i2c_settles_trans by blast
    qed
  qed
qed simp

lemma reset_request_settles:
  assumes "proto_i2c_reset_request fuel hp w = Ok (ret, w')"
  shows "i2c_settles w w'" "ret = SE_SUCCESS \<Longrightarrow> chain_free w'"
proof -
  have "i2c_settles w w' \<and> (ret = SE_SUCCESS \<longrightarrow> chain_free w')"
  proof (cases hp)
    case (Some h)
    then obtain r t w1 where r: "i2c_request fuel h PROTO_I2C_S_FRAME_RESET (g_bI2cHedPfsmi w) timer_zero w = Ok (r, t, w1)"
      using assms by (auto simp: proto_i2c_reset_request_def)
    note w1 = i2c_settles_cfg [OF i2c_request_cfg [OF r]]
    show ?thesis
      using assms Some r w1 i2c_settles_trans [OF w1]
      by (auto simp: proto_i2c_reset_request_def split: if_splits dest!: reset_request_loop_settles)
  qed (use assms in \<open>auto simp: proto_i2c_reset_request_def intro: i2c_settles_cfg\<close>)
  then show "i2c_settles w w'" "ret = SE_SUCCESS \<Longrightarrow> chain_free w'" by auto
qed

lemma atr_request_loop_cfg:
  assumes "atr_request_loop fuel k h timer rsp len flag retry naks rbuf rlen w = Ok (ret, rbuf', rlen', w')"
  shows "i2c_cfg w' = i2c_cfg w"
  using assms
proof (induction k arbitrary: timer rsp len flag retry naks w)
  case (Suc k)
  obtain r1 rb len1 w1 where poll: "i2c_poll fuel h timer rsp len w = Ok (r1, rb, len1, w1)"
    using Suc.prems by auto
  have w1: "i2c_cfg w1 = i2c_cfg w" using i2c_poll_out [OF poll] by simp
  show ?case
  proof (cases "r1 = SE_SUCCESS")
    case False
    then show ?thesis using Suc.prems poll w1 by auto
  next
    case True
    then obtain r where r: "atr_request_round fuel h timer rb flag retry naks rbuf rlen w1 = Ok r"
      using Suc.prems poll by auto
    show ?thesis
      using Suc.prems poll True r w1 atr_round_out [OF r]
      by (cases r) (auto dest!: Suc.IH)
  qed
qed simp

lemma atr_request_cfg:
  "proto_i2c_atr_request fuel hp rbuf rlen w = Ok (ret, rbuf', rlen', w') \<Longrightarrow> i2c_cfg w' = i2c_cfg w"
  by (auto simp: proto_i2c_atr_request_def split: option.splits if_splits
      dest!: atr_request_loop_cfg i2c_request_cfg)

lemma i2c_handle_loop_settles:
  assumes "i2c_handle_loop fuel k h qi n qo ol wtx naks w = Ok (ret, qi', qo', ol', w')"
    and "length (q_buf qo) \<le> 1024"
  shows "i2c_settles w w'"
  using assms
proof (induction k arbitrary: qi qo wtx naks w)
  case (Suc k)
  show ?case
  proof (cases "g_sI2cHedPfsm w = 0 \<or> g_sI2cHedPfss w = 0")
    case False
    then show ?thesis using Suc.prems Suc.IH by simp
  next
    case True
    let ?f = "unat (front_node qo)"
    obtain r1 q1 w1 where
      send: "proto_i2c_send_i_frame fuel (Some h) PROTO_I2C_I_FRAME_NO_LINK qi (ucast n) w = Ok (r1, q1, w1)"
      using Suc.prems(1) True by auto
    have w1: "i2c_settles w w1" using send_i_cfg [OF send] by (rule i2c_settles_cfg)
    show ?thesis
    proof (cases "r1 = SE_SUCCESS")
      case False
      then show ?thesis using Suc.prems(1) True send w1 by auto
    next
      case r1: True
      obtain r2 out frm w2 where
        rc: "proto_i2c_receive_frame fuel (Some h) (drop ?f (q_buf qo)) w1 = Ok (r2, out, frm, w2)"
        using Suc.prems(1) True send r1 by auto
      have o: "length out = length (drop ?f (q_buf qo))" "i2c_settles w w2"
        using receive_frame_out [OF rc] Suc.prems(2) i2c_settles_trans [OF w1 i2c_settles_cfg] by simp_all
      let ?q = "qo\<lparr>q_buf := take ?f (q_buf qo) @ out\<rparr>"
      have q: "length (q_buf ?q) \<le> 1024" using o Suc.prems(2) by simp
      have IH: "i2c_settles w w'"
        if "i2c_handle_loop fuel k h qj n ?q ol a b w2 = Ok (ret, qi', qo', ol', w')" for qj a b
        using Suc.IH [OF that q] o(2) i2c_settles_trans by blast
      have rec: "i2c_settles w v" if "i2c_recover fuel h x w2 = Ok (y, v)" for x y v
        using that i2c_settles_trans [OF o(2) reset_request_settles(1)] by (auto simp: i2c_recover_def)
      show ?thesis
        using Suc.prems(1) True send r1 rc o(2)
        by (auto simp: Let_def split: if_splits option.splits prod.splits dest: IH rec)
    qed
  qed
qed simp

lemma i2c_restart_settles:
  assumes "i2c_restart fuel h out w = Ok (ret, out', w')"
  shows "i2c_settles w w'"
proof -
  obtain r w1 where r: "(if g_bI2cHedOpenSeMode w = 1 then proto_i2c_reset_request fuel (Some h) w
      else Ok (SE_SUCCESS, w)) = Ok (r, w1)"
    using assms by (auto simp: i2c_restart_def)
  have w1: "i2c_settles w w1"
    using r by (auto simp: i2c_settles_cfg split: if_splits dest: reset_request_settles(1))
  have w2: "i2c_settles w v" if "proto_i2c_atr_request fuel (Some h) b n w1 = Ok (e, b', n', v)" for b n e b' n' v
    using i2c_settles_trans [OF w1 i2c_settles_cfg [OF atr_request_cfg [OF that]]] .
  obtain x y where out: "out = (x, y)" by (cases out)
  show ?thesis
  proof (cases "r = SE_SUCCESS")
    case True
    then show ?thesis
      using assms r w1 w2 unfolding i2c_restart_def r out
      by (cases x; cases y) auto
  next
    case False
    then show ?thesis using assms w1 unfolding i2c_restart_def r by simp
  qed
qed

text \<open>The calls a host can make on the driver, and the states they lead to from program start.\<close>

inductive i2c_step :: "nat \<Rightarrow> 'p hal_i2c \<Rightarrow> 'p i2c_world \<Rightarrow> 'p i2c_world \<Rightarrow> bool"
  for fuel :: nat and h :: "'p hal_i2c"
where
  step_init: "proto_i2c_init (Some h) w = Ok (ret, w') \<Longrightarrow> i2c_step fuel h w w'"
| step_deinit: "proto_i2c_deinit (Some h) w = Ok (ret, w') \<Longrightarrow> i2c_step fuel h w w'"
| step_open: "proto_i2c_open fuel (Some h) out w = Ok (ret, out', w') \<Longrightarrow> i2c_step fuel h w w'"
| step_close: "proto_i2c_close (Some h) w = Ok (ret, w') \<Longrightarrow> i2c_step fuel h w w'"
| step_transceive: "\<lbrakk>proto_i2c_transceive fuel (Some h) qi n qo ol w = Ok (ret, qi', qo', ol', w');
    wf_queue qo\<rbrakk> \<Longrightarrow> i2c_step fuel h w w'"
| step_reset: "proto_i2c_reset fuel (Some h) out w = Ok (ret, out', w') \<Longrightarrow> i2c_step fuel h w w'"
| step_control: "proto_i2c_control (Some h) code sbuf n out w = Ok (ret, sbuf', out', w') \<Longrightarrow>
    i2c_step fuel h w w'"
| step_delay: "proto_i2c_delay (Some h) us w = Ok (ret, w') \<Longrightarrow> i2c_step fuel h w w'"

inductive i2c_reach :: "nat \<Rightarrow> 'p hal_i2c \<Rightarrow> 'p i2c_world \<Rightarrow> bool" for fuel :: nat and h :: "'p hal_i2c"
where
  reach_start: "i2c_reach fuel h (i2c_world_init p)"
| reach_step: "\<lbrakk>i2c_reach fuel h w; i2c_step fuel h w w'\<rbrakk> \<Longrightarrow> i2c_reach fuel h w'"

lemma i2c_step_settles: "i2c_step fuel h w w' \<Longrightarrow> i2c_settles w w'"
proof (induction rule: i2c_step.induct)
  case (step_open out w ret out' w')
  then show ?case
    using i2c_restart_settles [of fuel h out "i2c_wait h PROTO_I2C_SE_RST_DELAY w" ret out' w']
    by (auto simp: proto_i2c_open_def i2c_settles_def chain_free_def i2c_cfg_def i2c_wait_def
        split: if_splits)
next
  case (step_transceive qi n qo ol w ret qi' qo' ol' w')
  then show ?case
    by (auto simp: proto_i2c_transceive_def proto_i2c_handle_def wf_queue_def DEQUE_MAX_SIZE_def
        i2c_settles_cfg split: if_splits dest: i2c_handle_loop_settles)
next
  case (step_reset out w ret out' w')
  obtain r x p where c: "i2c_control h PROTO_I2C_CTRL_RST None 0 (i2c_port w) = (r, x, p)"
    by (metis prod_cases3)
  have "i2c_settles (w\<lparr>i2c_port := p\<rparr>) w'" if "r = SE_SUCCESS" "\<not> half_null out"
    using step_reset c that by (auto simp: proto_i2c_reset_def intro: i2c_restart_settles)
  then show ?case
    using step_reset c
    by (auto simp: proto_i2c_reset_def i2c_settles_def Let_def split: if_splits)
qed (auto simp: proto_i2c_init_def proto_i2c_deinit_def proto_i2c_close_def proto_i2c_control_def
    proto_i2c_delay_def i2c_settles_def split: prod.splits if_splits)

lemma i2c_reach_chain_free: "i2c_reach fuel h w \<Longrightarrow> chain_free w"
proof (induction rule: i2c_reach.induct)
  case (reach_start p)
  show ?case by (simp add: chain_free_def i2c_world_init_def)
next
  case (reach_step w w')
  then show ?case using i2c_step_settles i2c_settles_chain_free by blast
qed

end
