(* ===== verification/I2c_Props.thy ===== *)
theory I2c_Props
  imports I2c_Facts
begin

text \<open>
  The properties of the I2C driver: what goes over the wire on the first transmission and on a
  retransmission, what a successful exchange delivers, the configurations the driver can
  reach, the loop that never ends and the ones that do, and the bounds of the ATR.
\<close>

section \<open>Transmission\<close>

text \<open>The frame around \<open>d\<close> with the length field \<open>n\<close>: PIB, length, data, CRC low byte first.\<close>

definition i2c_frame :: "u8 \<Rightarrow> u16 \<Rightarrow> bytes \<Rightarrow> bytes" where
  "i2c_frame ty n d =
     (let body = [ty, ucast (drop_bit 8 n), ucast n] @ d; c = crc_x25 body
      in body @ [ucast c, ucast (drop_bit 8 c)])"

lemma length_i2c_frame [simp]: "length (i2c_frame ty n d) = length d + 5"
  by (simp add: i2c_frame_def Let_def)

text \<open>What sending comes down to: the given bytes go to the port until it is not busy.\<close>

definition i2c_send_bytes ::
  "nat \<Rightarrow> 'p hal_i2c \<Rightarrow> bytes \<Rightarrow> double_queue_node \<Rightarrow> 'p i2c_world \<Rightarrow>
     (se_error \<times> double_queue_node \<times> 'p i2c_world) res" where
  "i2c_send_bytes fuel h d q w =
     (let (timer, w1) = i2c_start h timer_zero PROTO_I2C_COMM_MUTEX_WAIT_TIME
                          (i2c_wait h PROTO_I2C_RECEIVE_TO_SEND_BGT w)
      in res_bind (i2c_transmit_loop fuel h timer d w1) (\<lambda>(ret, w2). Ok (ret, q, w2)))"

lemma send_i_frame_bytes:
  assumes "wf_queue q" "3 \<le> front_room q" "2 \<le> rear_room q" "n \<noteq> 0"
  shows "\<exists>q'. wf_queue q' \<and> q_data q' = i2c_frame ty n (q_data q) \<and>
    front_room q' = front_room q - 3 \<and> rear_room q' = rear_room q - 2 \<and>
    (\<forall>fuel (h :: 'p hal_i2c) w. proto_i2c_send_i_frame fuel (Some h) ty q n w =
       i2c_send_bytes fuel h (i2c_frame ty n (q_data q)) q' w)"
proof -
  let ?d = "q_data q" and ?head = "[ty, ucast (drop_bit 8 n), ucast n] :: bytes"
  let ?c = "crc_x25 (?head @ ?d)"
  obtain q1 where q1: "util_queue_front_push ?head (of_nat 3) q = Ok q1" "wf_queue q1"
    "q_data q1 = take 3 ?head @ ?d" "front_room q1 = front_room q - 3" "rear_room q1 = rear_room q"
    using front_push_head [OF assms(1), of 3 ?head] assms(2) by auto
  have d1: "q_data q1 = ?head @ ?d" using q1(3) by simp
  have crc: "proto_i2c_crc16 CRC_B (util_queue_size q1) (drop (unat (front_node q1)) (q_buf q1)) = Ok ?c"
  proof -
    have "length (q_data q1) \<le> length (drop (unat (front_node q1)) (q_buf q1))"
      by (simp add: q_data_def)
    then show ?thesis
      using take_queue [OF q1(2)] d1 util_queue_size_wf [OF q1(2)]
      unfolding i2c_crc_same by (subst proto_spi_crc16_B) simp_all
  qed
  obtain q2 where q2: "util_queue_rear_push [ucast ?c, ucast (drop_bit 8 ?c)] (of_nat 2) q1 = Ok q2"
    "wf_queue q2" "q_data q2 = q_data q1 @ take 2 [ucast ?c, ucast (drop_bit 8 ?c)]"
    "front_room q2 = front_room q1" "rear_room q2 = rear_room q1 - 2"
    using rear_push_tail [OF q1(2), of 2 "[ucast ?c, ucast (drop_bit 8 ?c)]"] assms(3) q1(5) by auto
  have d2: "q_data q2 = i2c_frame ty n ?d" using q2(3) d1 by (simp add: i2c_frame_def Let_def)
  have len: "length ?d + 5 < 1024"
    using wf_queue_bounds(1) [OF q2(2)] d2 by simp
  have off: "unat (ucast (util_queue_size q1) + 2 :: u16) = length ?d + 5"
  proof -
    have "unat (ucast (util_queue_size q1) :: u16) = length ?d + 3"
      using util_queue_size_wf [OF q1(2)] d1 len by (simp add: unat_u32_u16)
    then show ?thesis
      using len by (subst unat_add_lem [THEN iffD1]) simp_all
  qed
  have fr: "front_node q1 = front_node q2"
    using q2(4) by (simp add: front_room_def word_unat_eq_iff)
  have rd: "mem_read (q_buf q2) (unat (front_node q1)) (length ?d + 5) = Ok (i2c_frame ty n ?d)"
  proof -
    have "unat (util_queue_size q2) = length ?d + 5" using util_queue_size_wf [OF q2(2)] d2 by simp
    then have "take (length ?d + 5) (drop (unat (front_node q2)) (q_buf q2)) = i2c_frame ty n ?d"
      using take_queue [OF q2(2)] d2 by simp
    moreover have "unat (front_node q2) + (length ?d + 5) \<le> length (q_buf q2)"
    proof -
      have "length (q_data q2) = unat (rear_node q2) - unat (front_node q2)"
        using q2(2) by (auto simp: q_data_def wf_queue_def)
      then show ?thesis using q2(2) d2 by (auto simp: wf_queue_def)
    qed
    ultimately show ?thesis by (simp add: mem_read_def fr)
  qed
  show ?thesis
  proof (intro exI [of _ q2] conjI allI)
    show "proto_i2c_send_i_frame fuel (Some h) ty q n w = i2c_send_bytes fuel h (i2c_frame ty n ?d) q2 w"
      for fuel and h :: "'p hal_i2c" and w
      using assms(4) q1(1) crc q2(1)
      by (simp add: proto_i2c_send_i_frame_def i2c_send_bytes_def Let_def off rd split_beta
          PROTO_I2C_PIB_LEN_SIZE_def PROTO_I2C_EDC_SIZE_def)
  qed (use q1 q2 d2 in simp_all)
qed

section \<open>Termination\<close>




lemma stack_len: "(push_bit 16 (ucast (0 :: u16)) OR ucast (len :: u16) :: u32) = ucast len"
  by simp

lemma stack_len_back:
  "(ucast (ucast (len :: u16) :: u32) :: u16) = len" "(ucast (drop_bit 16 (ucast len :: u32)) :: u16) = 0"
  by (rule bit_word_eqI; simp add: bit_simps impossible_bit)+









section \<open>Properties\<close>

definition request_queue :: double_queue_node where
  "request_queue = (util_queue_init queue_zero)\<lparr>rear_node := 25, q_buf_len := 5,
     q_buf := replicate 20 0 @ [0x80, 0x3E, 0, 0, 0] @ replicate 999 0\<rparr>"

lemma request_queue: "wf_queue request_queue" "q_data request_queue = [0x80, 0x3E, 0, 0, 0]"
    "front_room request_queue = 20" "rear_room request_queue = 998" "util_queue_size request_queue = 5"
  by (simp_all add: request_queue_def wf_queue_def q_data_def front_room_def rear_room_def
      util_queue_init_def util_queue_size_def DEQUE_MAX_SIZE_def)

text \<open>
  What goes over the wire. Sending a queue that holds \<open>d\<close> hands the port the frame around \<open>d\<close>,
  and leaves that frame in the queue. So when \<open>proto_i2c_handle\<close> sends the same queue again
  after a NAK or a timeout, the port gets a frame around the frame, still with the length
  field of \<open>d\<close>: the retransmission is not the frame that was lost.
\<close>

theorem i2c_retransmission:
  fixes h :: "'p hal_i2c"
  assumes "wf_queue q" "6 \<le> front_room q" "4 \<le> rear_room q" "n \<noteq> 0"
  shows "\<exists>q1 q2. wf_queue q1 \<and> wf_queue q2 \<and>
    q_data q1 = i2c_frame ty n (q_data q) \<and> q_data q2 = i2c_frame ty n (i2c_frame ty n (q_data q)) \<and>
    proto_i2c_send_i_frame fuel (Some h) ty q n w =
      i2c_send_bytes fuel h (i2c_frame ty n (q_data q)) q1 w \<and>
    proto_i2c_send_i_frame fuel (Some h) ty q1 n w =
      i2c_send_bytes fuel h (i2c_frame ty n (i2c_frame ty n (q_data q))) q2 w"
proof -
  note send = send_i_frame_bytes [OF _ _ _ assms(4), where 'p = 'p]
  obtain q1 where q1: "wf_queue q1" "q_data q1 = i2c_frame ty n (q_data q)"
    "front_room q1 = front_room q - 3" "rear_room q1 = rear_room q - 2"
    "proto_i2c_send_i_frame fuel (Some h) ty q n w = i2c_send_bytes fuel h (i2c_frame ty n (q_data q)) q1 w"
    using send [OF assms(1)] assms(2,3) by fastforce
  obtain q2 where q2: "wf_queue q2" "q_data q2 = i2c_frame ty n (q_data q1)"
    "proto_i2c_send_i_frame fuel (Some h) ty q1 n w = i2c_send_bytes fuel h (i2c_frame ty n (q_data q1)) q2 w"
    using send [OF q1(1)] q1(3,4) assms(2,3) by fastforce
  show ?thesis
    using q1 q2 by (intro exI [of _ q1] exI [of _ q2]) simp
qed

theorem i2c_retransmission_witness:
  "\<exists>q1 q2. wf_queue q1 \<and> wf_queue q2 \<and>
    q_data q1 = i2c_frame 0x20 5 [0x80, 0x3E, 0, 0, 0] \<and>
    q_data q2 = i2c_frame 0x20 5 (i2c_frame 0x20 5 [0x80, 0x3E, 0, 0, 0]) \<and>
    proto_i2c_send_i_frame 1 (Some (script_i2c 0)) 0x20 request_queue 5 (i2c_world_init (script [])) =
      i2c_send_bytes 1 (script_i2c 0) (i2c_frame 0x20 5 [0x80, 0x3E, 0, 0, 0]) q1 (i2c_world_init (script [])) \<and>
    proto_i2c_send_i_frame 1 (Some (script_i2c 0)) 0x20 q1 5 (i2c_world_init (script [])) =
      i2c_send_bytes 1 (script_i2c 0) (i2c_frame 0x20 5 (i2c_frame 0x20 5 [0x80, 0x3E, 0, 0, 0])) q2
        (i2c_world_init (script []))"
  unfolding request_queue(2) [symmetric]
  by (rule i2c_retransmission) (simp_all add: request_queue)





text \<open>
  C15: chained transfer is never entered. A RESET request that succeeds leaves a frame size of 0,
  whatever the device answers and whatever the host had configured, because only responses
  with a zero low nibble are accepted; so in every state the driver can reach from program
  start, through any sequence of calls on any port, host and device frame size are 0.
\<close>

theorem i2c_no_chaining:
  assumes "i2c_reach fuel h w"
  shows "g_bI2cHedPfsmi w = 0 \<and> g_sI2cHedPfsm w = 0 \<and> g_sI2cHedPfss w = 0 \<and>
    (case proto_i2c_reset_request fuel2 hp v of
       Ok (ret, v') \<Rightarrow> ret \<noteq> SE_SUCCESS \<or> (g_sI2cHedPfsm v' = 0 \<and> g_sI2cHedPfss v' = 0)
     | _ \<Rightarrow> True)"
  using i2c_reach_chain_free [OF assms] reset_request_settles(2) [of fuel2 hp v]
  by (auto simp: chain_free_def split: res.splits)

theorem i2c_no_chaining_witness:
  "i2c_reach 9 (script_i2c 0) (i2c_wait (script_i2c 0) 5 (i2c_world_init (script []))) \<and>
   g_sI2cHedPfsm (i2c_wait (script_i2c 0) 5 (i2c_world_init (script []))) = 0"
proof -
  have "proto_i2c_delay (Some (script_i2c 0)) 5 (i2c_world_init (script []))
      = Ok (SE_SUCCESS, i2c_wait (script_i2c 0) 5 (i2c_world_init (script [])))"
    by (simp add: proto_i2c_delay_def)
  from reach_step [OF reach_start step_delay [OF this]]
  have "i2c_reach 9 (script_i2c 0) (i2c_wait (script_i2c 0) 5 (i2c_world_init (script [])))" .
  then show ?thesis using i2c_no_chaining by blast
qed

text \<open>
  What would happen with chaining. If the frame sizes were ever other than 0, an exchange
  would not return: the loop records an error and goes round again without a \<open>break\<close>.
\<close>

lemma i2c_handle_chained:
  "g_sI2cHedPfsm w \<noteq> 0 \<Longrightarrow> g_sI2cHedPfss w \<noteq> 0 \<Longrightarrow>
   i2c_handle_loop fuel k h qi n qo ol wtx naks w = Stuck"
  by (induction k) simp_all

theorem i2c_chained_hangs:
  assumes "g_sI2cHedPfsm w \<noteq> 0" "g_sI2cHedPfss w \<noteq> 0" "n \<noteq> 0"
  shows "proto_i2c_transceive fuel (Some h) qi n qo ol w = Stuck"
  using assms by (simp add: proto_i2c_transceive_def proto_i2c_handle_def i2c_handle_chained)

theorem i2c_chained_hangs_witness:
  "proto_i2c_transceive 1000 (Some (script_i2c 0)) request_queue 5 queue_zero 0
     ((i2c_world_init (script []))\<lparr>g_sI2cHedPfsm := 16, g_sI2cHedPfss := 16\<rparr>) = Stuck"
  by (rule i2c_chained_hangs) simp_all




text \<open>
  The mode of a reset. With the open mode off, \<open>proto_i2c_reset\<close> sends no RESET request even if
  \<open>g_bI2cHedRstSeMode\<close> asks for one; the reset mode has no influence on any call.
\<close>

theorem i2c_reset_mode:
  assumes "g_bI2cHedOpenSeMode w \<noteq> 1"
  shows "proto_i2c_reset fuel (Some h) (None, None) w =
    (let (ret, _, p) = i2c_control h PROTO_I2C_CTRL_RST None 0 (i2c_port w)
     in Ok (ret, (None, None), w\<lparr>i2c_port := p\<rparr>))"
  using assms
  by (simp add: proto_i2c_reset_def half_null_def i2c_restart_def Let_def split: prod.splits)

theorem i2c_reset_mode_witness:
  "proto_i2c_reset 5 (Some (script_i2c 0)) (None, None)
     ((i2c_world_init (script []))\<lparr>g_bI2cHedOpenSeMode := 0, g_bI2cHedRstSeMode := 1\<rparr>) =
    (let (ret, _, p) = i2c_control (script_i2c 0) PROTO_I2C_CTRL_RST None 0
       (i2c_port ((i2c_world_init (script []))\<lparr>g_bI2cHedOpenSeMode := 0, g_bI2cHedRstSeMode := 1\<rparr>))
     in Ok (ret, (None, None),
       (i2c_world_init (script []))\<lparr>g_bI2cHedOpenSeMode := 0, g_bI2cHedRstSeMode := 1\<rparr>\<lparr>i2c_port := p\<rparr>))"
  by (rule i2c_reset_mode) simp

section \<open>The ATR\<close>

lemma atr_copy_out:
  assumes "atr_copy rsp n rbuf = Ok (rbuf', m)" "length rsp = 32"
  shows "unat m \<le> 29" "unat m \<le> length rbuf" "length rbuf' = length rbuf"
    "take (unat m) rbuf' = take (unat m) (drop 3 rsp)" "drop (unat m) rbuf' = drop (unat m) rbuf"
    "ucast n = m + 5"
proof -
  obtain atr where a: "mem_read rsp 3 (unat m) = Ok atr" "mem_write rbuf 0 atr = Ok rbuf'"
    and m: "m = ucast n - 5"
    using assms(1) by (auto simp: atr_copy_def Let_def PROTO_I2C_PIB_LEN_EDC_SIZE_def)
  have "3 + unat m \<le> 32" "atr = take (unat m) (drop 3 rsp)"
    using a(1) assms(2) by (auto simp: mem_read_def split: if_splits)
  moreover have "length atr \<le> length rbuf" "rbuf' = atr @ drop (length atr) rbuf"
    using a(2) by (auto simp: mem_write_def split: if_splits)
  ultimately show "unat m \<le> 29" "unat m \<le> length rbuf" "length rbuf' = length rbuf"
    "take (unat m) rbuf' = take (unat m) (drop 3 rsp)" "drop (unat m) rbuf' = drop (unat m) rbuf"
    "ucast n = m + 5"
    using assms(2) m by auto
qed

definition atr_result :: "bytes \<Rightarrow> bytes \<Rightarrow> u32 \<Rightarrow> bool" where
  "atr_result rbuf rbuf' m \<longleftrightarrow> unat m \<le> 27 \<and> unat m \<le> length rbuf \<and> length rbuf' = length rbuf \<and>
     (0 < unat m \<longrightarrow> rbuf' ! 0 = 0x3B) \<and> drop (unat m) rbuf' = drop (unat m) rbuf"

lemma atr_round_result:
  assumes "atr_request_round fuel h timer rsp flag retry naks rbuf rlen w = Ok (Inl (SE_SUCCESS, rbuf', m, w'))"
    and "length rsp = 32"
  shows "atr_result rbuf rbuf' m"
proof -
  obtain n where n: "i2c_frame_len rsp = Ok n" "\<not> n > PROTO_I2C_ATR_RSP_SIZE" "rsp ! 3 = 0x3B"
    "atr_copy rsp n rbuf = Ok (rbuf', m)"
    using assms by (auto simp: atr_request_round_def mem_byte_def split: if_splits)
  note c = atr_copy_out [OF n(4) assms(2)]
  have u: "unat n \<le> 32" using n(2) by (simp add: PROTO_I2C_ATR_RSP_SIZE_def word_less_nat_alt not_less)
  have "unat m \<le> 27"
  proof (rule ccontr)
    assume "\<not> unat m \<le> 27"
    have "unat (m + 5) = unat m + 5"
      using c(1) by (subst unat_add_lem [THEN iffD1]) simp_all
    then have "unat (ucast n :: u32) = unat m + 5" by (simp only: c(6))
    then show False using u \<open>\<not> unat m \<le> 27\<close> by (simp add: unat_u16_u32)
  qed
  moreover have "rbuf' ! 0 = 0x3B" if "0 < unat m"
  proof -
    have "take (unat m) rbuf' ! 0 = take (unat m) (drop 3 rsp) ! 0" by (simp only: c(4))
    then show ?thesis using that n(3) assms(2) by simp
  qed
  ultimately show ?thesis using c(2,3,5) by (simp add: atr_result_def)
qed

lemma atr_loop_result:
  assumes "atr_request_loop fuel k h timer rsp len flag retry naks rbuf rlen w = Ok (SE_SUCCESS, rbuf', m, w')"
    and "length rsp = 32"
  shows "atr_result rbuf rbuf' m"
  using assms
proof (induction k arbitrary: timer rsp len flag retry naks w)
  case (Suc k)
  obtain r1 rb len1 w1 where poll: "i2c_poll fuel h timer rsp len w = Ok (r1, rb, len1, w1)"
    using Suc.prems by auto
  have rb: "length rb = 32" using i2c_poll_out [OF poll] Suc.prems(2) by simp
  have r1: "r1 = SE_SUCCESS" using Suc.prems poll by (auto split: if_splits)
  obtain r where r: "atr_request_round fuel h timer rb flag retry naks rbuf rlen w1 = Ok r"
    using Suc.prems poll r1 by auto
  show ?case
  proof (cases r)
    case (Inl a)
    then have "a = (SE_SUCCESS, rbuf', m, w')" using Suc.prems poll r1 r by simp
    then show ?thesis using atr_round_result [OF _ rb] r Inl by blast
  next
    case (Inr b)
    then show ?thesis using Suc.prems poll r1 r Suc.IH [OF _ rb] by (cases b) auto
  qed
qed simp

text \<open>
  The ATR. When \<open>proto_i2c_atr_request\<close> succeeds, it has written at most 27 bytes to the
  caller's buffer, all inside it, starting with 3B, and touched nothing behind them. It does not
  ask how large the buffer is: \<open>*rlen\<close> is only an output.
\<close>

theorem i2c_atr_bounds:
  assumes "proto_i2c_atr_request fuel hp rbuf rlen w = Ok (SE_SUCCESS, rbuf', m, w')"
  shows "unat m \<le> 27 \<and> unat m \<le> length rbuf \<and> length rbuf' = length rbuf \<and>
     (0 < unat m \<longrightarrow> rbuf' ! 0 = 0x3B) \<and> drop (unat m) rbuf' = drop (unat m) rbuf"
proof -
  obtain h t w1 where "atr_request_loop fuel fuel h t (replicate 32 0) 3 False 0 0 rbuf rlen w1
      = Ok (SE_SUCCESS, rbuf', m, w')"
    using assms by (auto simp: proto_i2c_atr_request_def split: option.splits if_splits)
  from atr_loop_result [OF this] show ?thesis by (simp add: atr_result_def)
qed

lemma i2c_atr_run:
  "proto_i2c_atr_request 5 (Some (script_i2c 0)) [1, 2, 3] 9
     (i2c_world_init (script (replicate 2 [0x20, 0, 2, 0x3B, 7, 0xEB, 0x3C]))) =
   Ok (SE_SUCCESS, [0x3B, 7, 3], 2, i2c_world_init \<lparr>rx = [], tx = [[0x30, 0, 0, 0x62, 0x40]], ticks = 3\<rparr>)"
  by code_simp

theorem i2c_atr_bounds_witness:
  "unat (2 :: u32) \<le> 27 \<and> unat (2 :: u32) \<le> length [1, 2, 3 :: u8] \<and>
   length [0x3B, 7, 3 :: u8] = length [1, 2, 3 :: u8] \<and> [0x3B, 7, 3] ! 0 = (0x3B :: u8) \<and>
   drop (unat (2 :: u32)) [0x3B, 7, 3] = drop (unat (2 :: u32)) [1, 2, 3 :: u8]"
  using i2c_atr_bounds [OF i2c_atr_run] by simp

section \<open>Waiting-time extension\<close>

text \<open>A device that answers every request for data with a waiting-time extension.\<close>

definition wtx_frame :: bytes where "wtx_frame = [0xC0, 0, 0, 0x56, 0xCC]"

definition wtx_i2c :: "nat hal_i2c" where
  "wtx_i2c = \<lparr>i2c_periph = \<lparr>per_type = PERIPHERAL_I2C, per_id = 0\<rparr>,
      i2c_init = Pair SE_SUCCESS, i2c_deinit = Pair SE_SUCCESS, i2c_delay = (\<lambda>us p. p),
      i2c_timer_start = (\<lambda>t p. (t, 3)),
      i2c_timer_differ = (\<lambda>t p. if p = 0 then (SE_ERR_TIMEOUT, p) else (SE_SUCCESS, p - 1)),
      i2c_transmit = (\<lambda>d p. (SE_SUCCESS, p)),
      i2c_receive = (\<lambda>n p. (SE_SUCCESS, take (unat n) wtx_frame, n, p)),
      i2c_control = (\<lambda>code d n p. (SE_SUCCESS, d, p))\<rparr>"

lemma wtx_poll:
  assumes "i2c_stack_hi w = 0" "unat len \<le> 5" "5 \<le> length rbuf" "0 < k"
  shows "i2c_poll k wtx_i2c t rbuf len w = Ok (SE_SUCCESS, take (unat len) wtx_frame @ drop (unat len) rbuf, len, w)"
proof (cases k)
  case (Suc j)
  have "i2c_stack_hi (i2c_wait wtx_i2c us w) = 0" "i2c_wait wtx_i2c us w = w" for us
    using assms(1) by (simp_all add: i2c_wait_def wtx_i2c_def)
  moreover have "length (take (unat len) wtx_frame) = unat len"
    using assms(2) by (simp add: wtx_frame_def)
  ultimately show ?thesis
    using Suc assms by (simp add: wtx_i2c_def Let_def mem_write_def unat_u16_u32 stack_len_back)
qed (use assms in simp)

lemma wtx_crc: "crc_x25 [0xC0, 0, 0] = 0xCC56"
  by code_simp

lemma wtx_loop:
  assumes "i2c_stack_hi w = 0" "7 \<le> length rbuf"
  shows "receive_frame_loop fuel k wtx_i2c t rbuf (if flag then 5 else 3) flag retry w = Stuck"
  using assms
proof (induction k arbitrary: t rbuf flag w)
  case (Suc k)
  show ?case
  proof (cases "fuel = 0")
    case False
    let ?len = "(if flag then 5 else 3) :: u16"
    let ?rb = "take (unat ?len) wtx_frame @ drop (unat ?len) rbuf"
    have poll: "i2c_poll fuel wtx_i2c t rbuf ?len w = Ok (SE_SUCCESS, ?rb, ?len, w)"
      using wtx_poll [of w ?len rbuf fuel t] Suc.prems False by simp
    have len: "7 \<le> length ?rb" using Suc.prems by (simp add: wtx_frame_def)
    have rb: "mem_byte ?rb 0 = Ok 0xC0" "i2c_frame_len ?rb = Ok 5"
      using len by (auto simp: mem_byte_def wtx_frame_def i2c_frame_len_def nth_append
          PROTO_I2C_PIB_LEN_EDC_SIZE_def)
    show ?thesis
    proof (cases flag)
      case True
      have "i2c_crc_ok ?rb 5 = Ok True"
        using True len wtx_crc unfolding i2c_crc_ok_def i2c_crc_same
        by (subst proto_spi_crc16_B) (simp_all add: PROTO_I2C_EDC_SIZE_def wtx_frame_def mem_byte_def)
      moreover obtain t1 w1 where t1: "i2c_start wtx_i2c t PROTO_I2C_RECEVIE_FRAME_WAIT_TIME w = (t1, w1)"
        by fastforce
      moreover have "i2c_stack_hi w1 = 0"
        using t1 Suc.prems by (auto simp: i2c_start_def split: prod.splits)
      ultimately show ?thesis
        using poll rb True Suc.IH [of w1 ?rb t1 False] len
        by (simp add: i2c_pibs PROTO_I2C_FRAME_MAX_SIZE_def)
    next
      case False
      then show ?thesis
        using poll rb Suc.IH [of w ?rb t True] len Suc.prems
        by (simp add: i2c_pibs PROTO_I2C_FRAME_MAX_SIZE_def)
    qed
  qed simp
qed simp

text \<open>
  Waiting-time extensions are not counted. A device that keeps asking for more time holds the
  driver in \<open>proto_i2c_receive_frame\<close> for ever, on a port whose timers do run out: each request
  starts the timer again.
\<close>

theorem i2c_wtx_unbounded:
  "\<forall>fuel. proto_i2c_receive_frame fuel (Some wtx_i2c) (replicate 100 0) (i2c_world_init p) = Stuck"
proof
  fix fuel
  obtain t w1 where t: "i2c_start wtx_i2c timer_zero PROTO_I2C_RECEVIE_FRAME_WAIT_TIME (i2c_world_init p) = (t, w1)"
    by fastforce
  then have "i2c_stack_hi w1 = 0" by (auto simp: i2c_start_def i2c_world_init_def split: prod.splits)
  then show "proto_i2c_receive_frame fuel (Some wtx_i2c) (replicate 100 0) (i2c_world_init p) = Stuck"
    using wtx_loop [of w1 "replicate 100 0" fuel fuel t False 0] t
    by (simp add: proto_i2c_receive_frame_def)
qed

end
