(* ===== verification/Spi_Props.thy ===== *)
theory Spi_Props
  imports Spi_Facts Port_Script
begin

text \<open>
  The properties of the SPI driver: the frame format and what the receiver makes of it, what a
  successful exchange delivers, the frame sizes that reach the buffers, the parameters the
  driver can reach, the exchanges that end and the one that does not.
\<close>

section \<open>Frames\<close>

definition spi_queue :: double_queue_node where
  "spi_queue = (util_queue_init queue_zero)\<lparr>rear_node := 25, q_buf_len := 5,
     q_buf := replicate 20 0 @ [0x80, 0x3E, 0, 0, 0] @ replicate 999 0\<rparr>"

lemma spi_queue: "wf_queue spi_queue" "q_data spi_queue = [0x80, 0x3E, 0, 0, 0]"
    "front_room spi_queue = 20" "rear_room spi_queue = 998"
  by (simp_all add: spi_queue_def wf_queue_def q_data_def front_room_def rear_room_def
      util_queue_init_def DEQUE_MAX_SIZE_def)

text \<open>
  The frame format. \<open>proto_spi_queue_in\<close> turns a queue with payload \<open>d\<close> into the information
  frame around \<open>d\<close>; the receiver's length and CRC check accepts that frame, whatever follows it in
  the buffer, and the payload is what stands between head and CRC.
\<close>

theorem spi_frame_roundtrip:
  assumes "wf_queue q" "3 \<le> front_room q" "2 \<le> rear_room q" "q_data q \<noteq> []"
  shows "\<exists>q'. proto_spi_queue_in (Some h) q (of_nat (length (q_data q))) = Ok (SE_SUCCESS, q') \<and>
    wf_queue q' \<and> q_data q' = spi_frame (q_data q) \<and>
    edc_ok (q_data q' @ ys) (of_nat (length (q_data q'))) = Ok True \<and>
    take (length (q_data q') - 5) (drop 3 (q_data q' @ ys)) = q_data q"
proof -
  obtain q' where q': "proto_spi_queue_in (Some h) q (of_nat (length (q_data q))) = Ok (SE_SUCCESS, q')"
    "wf_queue q'" "q_data q' = spi_frame (q_data q)"
    using queue_in_frame [OF assms] by blast
  have "length (q_data q) < 1024" using wf_queue_bounds [OF assms(1)] by simp
  then have c: "edc_ok (spi_frame (q_data q) @ ys) (of_nat (length (spi_frame (q_data q)))) = Ok True"
    "length (spi_frame (q_data q)) = length (q_data q) + 5"
    using spi_frame_checks(1) [of "q_data q" ys] spi_frame_checks(2) [of "q_data q"] by simp_all
  have "take (length (q_data q)) (drop 3 (spi_frame (q_data q) @ ys)) = q_data q"
    by (simp add: spi_frame_def Let_def)
  then show ?thesis
    using q' c by (intro exI [of _ q']) simp
qed

theorem spi_frame_roundtrip_witness:
  "\<exists>q'. proto_spi_queue_in (Some (script_spi 0)) spi_queue 5 = Ok (SE_SUCCESS, q') \<and>
    wf_queue q' \<and> q_data q' = spi_frame [0x80, 0x3E, 0, 0, 0] \<and>
    edc_ok (q_data q' @ [1, 2]) (of_nat (length (q_data q'))) = Ok True \<and>
    take (length (q_data q') - 5) (drop 3 (q_data q' @ [1, 2])) = [0x80, 0x3E, 0, 0, 0]"
  using spi_frame_roundtrip [OF spi_queue(1), where h = "script_spi 0" and ys = "[1, 2]"]
  by (simp add: spi_queue)



section \<open>Exchanges\<close>




text \<open>
  The announced length. After a frame head, lengths above 4098 are refused with
  \<open>SE_ERR_LEN\<close>. A length up to 4098 is received whether or not it fits: when head and data are
  longer than the buffer the driver was given (1004 bytes in a fresh queue), the driver
  writes past it.
\<close>

theorem spi_announced_length:
  assumes "handle_poll fuel h timer out len retran p = Ok (SE_SUCCESS, out', len', 0, p')"
  shows "(4098 < unat len' \<longrightarrow>
      handle_loop fuel (Suc k) h inbuf n timer out len snak rnak retran ty p = Ok (SE_ERR_LEN, out', None, ty, p')) \<and>
    (unat len' \<le> 4098 \<and> 0 < unat len' \<and> length out < unat len' + 3 \<longrightarrow>
      handle_loop fuel (Suc k) h inbuf n timer out len snak rnak retran ty p = Undef)"
proof (intro conjI impI)
  have lim: "len' > FRAME_DATA_LEN_MAX + EDC_LEN \<longleftrightarrow> 4098 < unat len'"
    by (simp add: spi_lens word_less_nat_alt)
  have out: "length out' = length out" using handle_poll_out [OF assms] by simp
  show "handle_loop fuel (Suc k) h inbuf n timer out len snak rnak retran ty p = Ok (SE_ERR_LEN, out', None, ty, p')"
    if "4098 < unat len'"
    using assms lim that by simp
  show "handle_loop fuel (Suc k) h inbuf n timer out len snak rnak retran ty p = Undef"
    if l: "unat len' \<le> 4098 \<and> 0 < unat len' \<and> length out < unat len' + 3"
  proof -
    have "len' \<noteq> 0" using l by auto
    then have "proto_spi_receive_frame_data (Some h) out' 3 len' p' = Undef"
      using l out by (simp add: proto_spi_receive_frame_data_def proto_spi_receive_def mem_write_def)
    then have "handle_data h inbuf n timer out' len' snak rnak ty p' = Undef"
      by (simp add: handle_data_def)
    then show ?thesis using assms lim l by simp
  qed
qed

theorem spi_announced_length_witness:
  "handle_loop 1 1 (script_spi 0) [] 0 timer_zero (replicate 1004 0) 0 0 0 0 SPI_INFO
     ((script [[0x0E, 4, 0]])\<lparr>ticks := 3\<rparr>) = Undef"
proof -
  have "handle_poll 1 (script_spi 0) timer_zero (replicate 1004 0) 0 0 ((script [[0x0E, 4, 0]])\<lparr>ticks := 3\<rparr>)
      = Ok (SE_SUCCESS, [0x0E, 4, 0] @ replicate 1001 0, 1024, 0, (script [])\<lparr>ticks := 2\<rparr>)"
    unfolding One_nat_def
    by (simp add: proto_spi_receive_frame_head_def proto_spi_receive_def mem_write_def script_simps
        PIB_INFORMATION_FRAME_def FRAME_HEAD_LEN_def)
  from spi_announced_length [OF this, where k = 0] show ?thesis by simp
qed

text \<open>
  How long a reply may be. Taking the payload out of a received frame of \<open>n\<close> bytes gives
  exactly the bytes between head and CRC when the frame ends two bytes before the end of the
  queue's array or earlier, and reads past the array when it ends in the last two bytes.
\<close>

theorem spi_reply_limit:
  assumes "length (q_buf q) = 1024" "capacity q = 0 \<or> capacity q = 1024"
    and "5 \<le> unat m" "unat (front_node q) + unat m \<le> 1024"
  shows "(unat (front_node q) + unat m \<le> 1022 \<longrightarrow>
      (\<exists>q'. queue_payload m q = Ok q' \<and> unat (util_queue_size q') = unat m - 5 \<and>
         q_data q' = take (unat m - 5) (drop (unat (front_node q) + 3) (q_buf q)))) \<and>
    (1022 < unat (front_node q) + unat m \<longrightarrow> queue_payload m q = Undef)"
proof (intro conjI impI)
  note c = queue_payload_cases [OF assms]
  show "queue_payload m q = Undef" if "1022 < unat (front_node q) + unat m" using c that by simp
  assume fit: "unat (front_node q) + unat m \<le> 1022"
  let ?q = "q\<lparr>front_node := front_node q + 3, rear_node := front_node q + m - 2, q_buf_len := m - 5\<rparr>"
  have f: "unat (front_node q + 3) = unat (front_node q) + 3"
    using fit assms(3) by (subst unat_add_lem [THEN iffD1]) simp_all
  have fm: "unat (front_node q + m) = unat (front_node q) + unat m"
    using fit by (subst unat_add_lem [THEN iffD1]) simp_all
  have r: "unat (front_node q + m - 2) = unat (front_node q) + unat m - 2"
    using fm assms(3) by (subst unat_sub) (simp_all add: word_le_nat_alt)
  have "unat (util_queue_size ?q) = unat m - 5"
    using f r assms(3) by (auto simp: util_queue_size_def word_less_nat_alt width_simps)
  moreover have "q_data ?q = take (unat m - 5) (drop (unat (front_node q) + 3) (q_buf q))"
    using f r by (simp add: q_data_def)
  ultimately show "\<exists>q'. queue_payload m q = Ok q' \<and> unat (util_queue_size q') = unat m - 5 \<and>
         q_data q' = take (unat m - 5) (drop (unat (front_node q) + 3) (q_buf q))"
    using c fit by auto
qed

theorem spi_reply_limit_witness:
  "queue_payload 1003 (util_queue_init queue_zero) = Undef \<and>
   (\<exists>q'. queue_payload 1002 (util_queue_init queue_zero) = Ok q' \<and> unat (util_queue_size q') = 997)"
proof -
  have q: "length (q_buf (util_queue_init queue_zero)) = 1024"
    "capacity (util_queue_init queue_zero) = 0 \<or> capacity (util_queue_init queue_zero) = 1024"
    "front_node (util_queue_init queue_zero) = 20"
    by (simp_all add: util_queue_init_def DEQUE_MAX_SIZE_def)
  show ?thesis
    using spi_reply_limit [OF q(1,2), of 1003] spi_reply_limit [OF q(1,2), of 1002] by (auto simp: q(3))
qed

section \<open>Opening\<close>

text \<open>
  The negotiation of the frame size. When the RESET exchange of \<open>proto_spi_open\<close> succeeds, the
  fifth byte of the response selects an entry of the table of frame sizes. Values below 16
  update the parameters; 16 and everything above it, which the code clamps to 16, index the
  16-entry table out of bounds.
\<close>

theorem spi_open_pfs:
  assumes "unat dev < length (g_spi_param w)"
    and "proto_spi_reset_frame fuel (Some h) (g_spi_param w ! unat dev) (reset_buf w)
           PROTO_SPI_RERESET_MAX_LEN (port w) = Ok (SE_SUCCESS, rbuf, rlen, p)"
    and "5 \<le> length rbuf"
  shows "(if unat (rbuf ! 4) < 16
    then \<exists>param. negotiate_pfs (g_spi_param w ! unat dev) (rbuf ! 4) = Ok param \<and>
      open_reset fuel h dev w =
        Ok (SE_SUCCESS, set_spi_param dev param (w\<lparr>reset_buf := rbuf, port := p\<rparr>)) \<and>
      pfss param \<le> pfssi ! unat (rbuf ! 4) \<and> pfss param \<le> pfsm (g_spi_param w ! unat dev) \<and>
      pfsm param = pfss param
    else open_reset fuel h dev w = Undef)"
proof -
  have cl: "(if b > 16 then 16 else b) = (16 :: u8) \<longleftrightarrow> 16 \<le> unat b" for b
    by (auto simp: word_less_nat_alt word_unat_eq_iff)
  have len: "length pfssi = 16" by (simp add: pfssi_def)
  show ?thesis
  proof (cases "unat (rbuf ! 4) < 16")
    case True
    have "(if rbuf ! 4 > 16 then 16 else rbuf ! 4) = rbuf ! 4" using True by (auto simp: word_less_nat_alt)
    let ?old = "g_spi_param w ! unat dev" and ?fs = "pfssi ! unat (rbuf ! 4)"
    let ?param = "if pfsm ?old \<ge> ?fs then ?old\<lparr>pfsm := ?fs, pfss := ?fs\<rparr> else ?old\<lparr>pfss := pfsm ?old\<rparr>"
    have "negotiate_pfs ?old (rbuf ! 4) = Ok ?param"
      using True len \<open>(if rbuf ! 4 > 16 then 16 else rbuf ! 4) = rbuf ! 4\<close>
      by (simp add: negotiate_pfs_def Let_def)
    moreover have "pfss ?param \<le> ?fs \<and> pfss ?param \<le> pfsm ?old \<and> pfsm ?param = pfss ?param" by auto
    ultimately show ?thesis
      using True assms by (simp add: open_reset_def spi_param_at_def mem_byte_def)
  next
    case False
    then have "(if rbuf ! 4 > 16 then 16 else rbuf ! 4) = 16" using cl by simp
    then have "negotiate_pfs (g_spi_param w ! unat dev) (rbuf ! 4) = Undef"
      unfolding negotiate_pfs_def Let_def by (simp add: len guard_def)
    then show ?thesis
      using False assms by (simp add: open_reset_def spi_param_at_def mem_byte_def)
  qed
qed

lemma spi_reset_run:
  "proto_spi_reset_frame 3 (Some (script_spi 0)) \<lparr>pfsm = 0, pfss = 0, hbsm = 0, hbss = 0, frm_type = SPI_DEFAULT\<rparr>
     (replicate 7 0) PROTO_SPI_RERESET_MAX_LEN (script [[3, 0, 4], [0xD3, 0x10, 0x08, 0xD4]]) =
   Ok (SE_SUCCESS, [3, 0, 4, 0xD3, 0x10, 0x08, 0xD4], 7,
     \<lparr>rx = [], tx = [[0, 0, 0, 0], [3, 0, 4, 0xD3, 0, 0x89, 0xC4]], ticks = 3\<rparr>)"
  by code_simp

theorem spi_open_pfs_witness:
  "open_reset 3 (script_spi 0) 0 (spi_world_init (script [[3, 0, 4], [0xD3, 0x10, 0x08, 0xD4]])) = Undef"
proof -
  let ?w = "spi_world_init (script [[3, 0, 4], [0xD3, 0x10, 0x08, 0xD4]])"
  have w: "g_spi_param ?w ! unat (0 :: u8) =
      \<lparr>pfsm = 0, pfss = 0, hbsm = 0, hbss = 0, frm_type = SPI_DEFAULT\<rparr>"
    "reset_buf ?w = replicate 7 0" "port ?w = script [[3, 0, 4], [0xD3, 0x10, 0x08, 0xD4]]"
    "unat (0 :: u8) < length (g_spi_param ?w)"
    by (simp_all add: spi_world_init_def)
  from spi_open_pfs [OF w(4), unfolded w(1-3), OF spi_reset_run] show ?thesis by simp
qed

section \<open>The reachable parameters\<close>

definition zero_param :: "spi_param_t \<Rightarrow> bool" where
  "zero_param c \<longleftrightarrow> pfsm c = 0 \<and> pfss c = 0 \<and> hbsm c = 0 \<and> hbss c = 0"

definition spi_zero :: "'p spi_world \<Rightarrow> bool" where
  "spi_zero w \<longleftrightarrow> (\<forall>c\<in>set (g_spi_param w). zero_param c)"

lemma spi_zero_update [simp]:
  "spi_zero (w\<lparr>port := p\<rparr>) = spi_zero w" "spi_zero (w\<lparr>reset_buf := b\<rparr>) = spi_zero w"
  "spi_zero (w\<lparr>atr_buf := b\<rparr>) = spi_zero w"
  by (simp_all add: spi_zero_def)

lemma spi_zero_param: "spi_zero w \<Longrightarrow> spi_param_at dev w = Ok c \<Longrightarrow> zero_param c"
  by (auto simp: spi_zero_def spi_param_at_def split: if_splits)

lemma spi_zero_set: "spi_zero w \<Longrightarrow> zero_param c \<Longrightarrow> spi_zero (set_spi_param dev c w)"
  by (auto simp: spi_zero_def set_spi_param_def dest!: set_update_subset_insert [THEN subsetD])

lemma spi_lock_zero: "spi_lock h w = (t, w') \<Longrightarrow> spi_zero w' = spi_zero w"
  by (auto simp: spi_lock_def split: prod.splits)

lemma spi_expired_zero: "spi_expired h t w = (b, w') \<Longrightarrow> spi_zero w' = spi_zero w"
  by (auto simp: spi_expired_def split: prod.splits)

lemma negotiate_zero:
  "zero_param c \<Longrightarrow> negotiate_pfs c b = Ok c' \<Longrightarrow> zero_param c'"
  "zero_param c \<Longrightarrow> zero_param (negotiate_hbs c b)"
  by (auto simp: negotiate_pfs_def negotiate_hbs_def zero_param_def Let_def)

lemma handle_zero:
  assumes "proto_spi_handle fuel hp c inb n out p = Ok (ret, out', rl, c', p')" "zero_param c"
  shows "zero_param c'"
proof -
  have "c' = c \<or> (\<exists>ty. c' = c\<lparr>frm_type := SPI_INFO\<rparr> \<or> c' = c\<lparr>frm_type := SPI_INFO\<rparr>\<lparr>frm_type := ty\<rparr>)"
    using assms(1)
    by (cases hp) (auto simp: proto_spi_handle_def Let_def split: if_splits prod.splits)
  then show ?thesis using assms(2) by (auto simp: zero_param_def)
qed

lemma open_reset_zero:
  "open_reset fuel h dev w = Ok (ret, w') \<Longrightarrow> spi_zero w \<Longrightarrow> spi_zero w'"
  by (auto simp: open_reset_def Let_def split: if_splits
      intro!: spi_zero_set dest: spi_zero_param negotiate_zero(1))

lemma open_atr_zero:
  "open_atr fuel h dev b n w = Ok (ret, out, w') \<Longrightarrow> spi_zero w \<Longrightarrow> spi_zero w'"
  by (auto simp: open_atr_def Let_def split: if_splits
      intro!: spi_zero_set negotiate_zero(2) dest: spi_zero_param)

lemma reset_parts_zero:
  "reset_reset fuel h dev w = Ok (ret, w') \<Longrightarrow> spi_zero w' = spi_zero w"
  "reset_atr fuel h dev b n w = Ok (ret, out, w') \<Longrightarrow> spi_zero w' = spi_zero w"
  by (auto simp: reset_reset_def reset_atr_def Let_def split: if_splits)

lemma open_loop_zero:
  assumes "open_loop fuel k h t out w = Ok (ret, out', w')" "spi_zero w"
  shows "spi_zero w'"
  using assms
proof (induction k arbitrary: out w)
  case (Suc k)
  obtain late w1 where e: "spi_expired h t w = (late, w1)" by fastforce
  have w1: "spi_zero w1" using spi_expired_zero [OF e] Suc.prems(2) by simp
  let ?w2 = "w1\<lparr>port := hal_delay h SPI_PROTO_SE_RST_DELAY (port w1)\<rparr>" and ?dev = "per_id (hal_periph h)"
  show ?case
  proof (cases late)
    case True
    then show ?thesis using Suc.prems(1) e w1 by simp
  next
    case False
    obtain r w3 where r: "(if g_bSPIHedOpenSeMode ?w2 = 1 then open_reset fuel h ?dev ?w2
        else Ok (SE_SUCCESS, ?w2)) = Ok (r, w3)"
      using Suc.prems(1) e False by (auto simp: Let_def split: if_splits)
    have w3: "spi_zero w3" using r w1 by (auto split: if_splits dest: open_reset_zero)
    obtain x y where out: "out = (x, y)" by (cases out)
    have atr: "spi_zero v" if "open_atr fuel h ?dev b n w3 = Ok (a, o', v)" for b n a o' v
      using open_atr_zero [OF that w3] .
    show ?thesis
    proof (cases "r = SE_SUCCESS \<and> x \<noteq> None \<and> y \<noteq> None")
      case True
      then obtain b n where "x = Some b" "y = Some n" by auto
      then show ?thesis
        using Suc.prems(1) Suc.IH e False r True out w3 atr
        by (auto simp: Let_def split: if_splits)
    next
      case f: False
      show ?thesis
        using Suc.prems(1) Suc.IH [of out w3] e False r f out w3
        by (cases x; cases y) (auto simp: Let_def split: if_splits)
    qed
  qed
qed simp

lemma reset_loop_zero:
  assumes "reset_loop fuel k h t out w = Ok (ret, out', w')" "spi_zero w"
  shows "spi_zero w'"
  using assms
proof (induction k arbitrary: out w)
  case (Suc k)
  obtain late w1 where e: "spi_expired h t w = (late, w1)" by fastforce
  have w1: "spi_zero w1" using spi_expired_zero [OF e] Suc.prems(2) by simp
  obtain c d n p where ctl: "hal_control h PROTO_SPI_CTRL_RST None None (port w1) = (c, d, n, p)"
    by (metis prod_cases4)
  let ?w2 = "w1\<lparr>port := p\<rparr>" and ?dev = "per_id (hal_periph h)"
  show ?case
  proof (cases "late \<or> c \<noteq> SE_SUCCESS")
    case True
    then show ?thesis using Suc.prems(1) e w1 ctl by (auto simp: Let_def split: if_splits)
  next
    case False
    obtain r w3 where r: "(if g_bSPIHedRstSeMode ?w2 = 1 then reset_reset fuel h ?dev ?w2
        else Ok (SE_SUCCESS, ?w2)) = Ok (r, w3)"
      using Suc.prems(1) e False ctl by (auto simp: Let_def split: if_splits)
    have w3: "spi_zero w3" using r w1 by (auto split: if_splits dest: reset_parts_zero(1))
    obtain x y where out: "out = (x, y)" by (cases out)
    have atr: "spi_zero v" if "reset_atr fuel h ?dev b n w3 = Ok (a, o', v)" for b n a o' v
      using reset_parts_zero(2) [OF that] w3 by simp
    show ?thesis
    proof (cases "r = SE_SUCCESS \<and> x \<noteq> None \<and> y \<noteq> None")
      case True
      then obtain b n where "x = Some b" "y = Some n" by auto
      then show ?thesis
        using Suc.prems(1) Suc.IH e False ctl r True out w3 atr
        by (auto simp: Let_def split: if_splits)
    next
      case f: False
      show ?thesis
        using Suc.prems(1) Suc.IH [of out w3] e False ctl r f out w3
        by (cases x; cases y) (auto simp: Let_def split: if_splits)
    qed
  qed
qed simp

lemma transceive_loop_zero:
  assumes "transceive_loop fuel k h t qi qo n w = Ok (ret, qo', n', w')" "spi_zero w"
  shows "spi_zero w'"
  using assms
proof (induction k arbitrary: qo w)
  case (Suc k)
  obtain late w1 where e: "spi_expired h t w = (late, w1)" by fastforce
  have w1: "spi_zero w1" using spi_expired_zero [OF e] Suc.prems(2) by simp
  let ?dev = "per_id (hal_periph h)" and ?f = "unat (front_node qo)"
  show ?case
  proof (cases late)
    case True
    then show ?thesis using Suc.prems(1) e w1 by simp
  next
    case False
    obtain c where c: "spi_param_at ?dev w1 = Ok c"
      using Suc.prems(1) e False by (auto simp: Let_def)
    obtain r out rl c1 p where hd: "proto_spi_handle fuel (Some h) c (drop (unat (front_node qi)) (q_buf qi))
        (util_queue_size qi) (drop ?f (q_buf qo)) (port w1) = Ok (r, out, rl, c1, p)"
      using Suc.prems(1) e False c by (auto simp: Let_def)
    let ?w2 = "(set_spi_param ?dev c1 w1)\<lparr>port := p\<rparr>"
    have w2: "spi_zero ?w2"
      using spi_zero_set [OF w1 handle_zero [OF hd spi_zero_param [OF w1 c]]] by simp
    have rec: "spi_zero v" if "transceive_recover fuel h c1 ?w2 = Ok (x, v)" for x v
      using that w2 by (auto simp: transceive_recover_def)
    show ?thesis
      using Suc.prems(1) e False c hd w2 rec
      by (auto simp: Let_def split: if_splits option.splits dest: Suc.IH)
  qed
qed simp

text \<open>The calls a host can make on the driver, and the states they lead to from program start.\<close>

inductive spi_step :: "nat \<Rightarrow> 'p hal_spi \<Rightarrow> 'p spi_world \<Rightarrow> 'p spi_world \<Rightarrow> bool"
  for fuel :: nat and h :: "'p hal_spi"
where
  spi_step_init: "proto_spi_init (Some h) w = Ok (ret, w') \<Longrightarrow> spi_step fuel h w w'"
| spi_step_deinit: "proto_spi_deinit (Some h) w = Ok (ret, w') \<Longrightarrow> spi_step fuel h w w'"
| spi_step_open: "proto_spi_open fuel (Some h) out w = Ok (ret, out', w') \<Longrightarrow> spi_step fuel h w w'"
| spi_step_close: "proto_spi_close (Some h) w = Ok (ret, w') \<Longrightarrow> spi_step fuel h w w'"
| spi_step_transceive: "proto_spi_transceive fuel (Some h) qi n qo ol w = Ok (ret, qi', qo', ol', w') \<Longrightarrow>
    spi_step fuel h w w'"
| spi_step_reset: "proto_spi_reset fuel (Some h) out w = Ok (ret, out', w') \<Longrightarrow> spi_step fuel h w w'"
| spi_step_control: "proto_spi_control (Some h) code sbuf n out w = Ok (ret, sbuf', out', w') \<Longrightarrow>
    spi_step fuel h w w'"
| spi_step_delay: "proto_spi_delay (Some h) us w = Ok (ret, w') \<Longrightarrow> spi_step fuel h w w'"

inductive spi_reach :: "nat \<Rightarrow> 'p hal_spi \<Rightarrow> 'p spi_world \<Rightarrow> bool" for fuel :: nat and h :: "'p hal_spi"
where
  spi_reach_start: "spi_reach fuel h (spi_world_init p)"
| spi_reach_step: "\<lbrakk>spi_reach fuel h w; spi_step fuel h w w'\<rbrakk> \<Longrightarrow> spi_reach fuel h w'"

lemma spi_init_zero:
  assumes "proto_spi_init (Some h) w = Ok (ret, w')" "spi_zero w"
  shows "spi_zero w'"
proof -
  obtain t w1 late w2 where l: "spi_lock h w = (t, w1)" "spi_expired h t w1 = (late, w2)"
    by (metis surj_pair)
  have w2: "spi_zero w2" using spi_lock_zero [OF l(1)] spi_expired_zero [OF l(2)] assms(2) by simp
  show ?thesis
  proof (cases late)
    case True
    then show ?thesis using assms(1) l w2 by (simp add: proto_spi_init_def)
  next
    case False
    let ?dev = "per_id (hal_periph h)"
    obtain c where c: "spi_param_at ?dev w2 = Ok c"
      using assms(1) l False by (auto simp: proto_spi_init_def Let_def)
    let ?w3 = "set_spi_param ?dev (c\<lparr>pfsm := 0, pfss := 0, hbsm := 0, hbss := 0\<rparr>) w2"
    obtain r p where i: "hal_init h (port ?w3) = (r, p)" by fastforce
    have "w' = ?w3\<lparr>port := p\<rparr>" using assms(1) l False c i by (simp add: proto_spi_init_def Let_def)
    moreover have "spi_zero ?w3" by (rule spi_zero_set [OF w2]) (simp add: zero_param_def)
    ultimately show ?thesis by simp
  qed
qed

lemma spi_step_zero: "spi_step fuel h w w' \<Longrightarrow> spi_zero w \<Longrightarrow> spi_zero w'"
proof (induction rule: spi_step.induct)
  case (spi_step_init w ret w')
  then show ?case by (rule spi_init_zero)
next
  case (spi_step_open out w ret out' w')
  obtain t w1 where "spi_lock h w = (t, w1)" by fastforce
  then show ?case
    using spi_step_open
    by (auto simp: proto_spi_open_def Let_def split: if_splits dest: spi_lock_zero open_loop_zero)
next
  case (spi_step_transceive qi n qo ol w ret qi' qo' ol' w')
  obtain t w1 where "spi_lock h w = (t, w1)" by fastforce
  then show ?case
    using spi_step_transceive
    by (auto simp: proto_spi_transceive_def Let_def split: if_splits dest: spi_lock_zero transceive_loop_zero)
next
  case (spi_step_reset out w ret out' w')
  obtain t w1 where "spi_lock h w = (t, w1)" by fastforce
  then show ?case
    using spi_step_reset
    by (auto simp: proto_spi_reset_def Let_def split: if_splits dest: spi_lock_zero reset_loop_zero)
qed (auto simp: proto_spi_deinit_def proto_spi_close_def proto_spi_control_def proto_spi_delay_def Let_def
    split: prod.splits if_splits dest!: spi_lock_zero spi_expired_zero)

lemma spi_reach_zero: "spi_reach fuel h w \<Longrightarrow> spi_zero w"
proof (induction rule: spi_reach.induct)
  case (spi_reach_start p)
  show ?case by (simp add: spi_zero_def zero_param_def spi_world_init_def)
next
  case (spi_reach_step w w')
  then show ?case using spi_step_zero by blast
qed

text \<open>
  C16: the negotiated parameters. \<open>proto_spi_init\<close> resets them to 0 and the negotiation only ever
  lowers them, so in every state the driver can reach, through any sequence of calls on any
  port and whatever the device answers, all four sizes of every device are 0; the RESET
  request the driver sends always carries 0 as the host's frame size.
\<close>

theorem spi_params_zero:
  assumes "spi_reach fuel h w"
  shows "\<forall>dev c. spi_param_at dev w = Ok c \<longrightarrow>
    pfsm c = 0 \<and> pfss c = 0 \<and> hbsm c = 0 \<and> hbss c = 0 \<and>
    active_request cRESETAPDU_HED_SE (pfsm c) = Ok cRESETAPDU_HED_SE"
proof (intro allI impI)
  fix dev c
  assume "spi_param_at dev w = Ok c"
  then have "zero_param c" using spi_zero_param [OF spi_reach_zero [OF assms]] by blast
  moreover have "active_request cRESETAPDU_HED_SE 0 = Ok cRESETAPDU_HED_SE" by code_simp
  ultimately show "pfsm c = 0 \<and> pfss c = 0 \<and> hbsm c = 0 \<and> hbss c = 0 \<and>
    active_request cRESETAPDU_HED_SE (pfsm c) = Ok cRESETAPDU_HED_SE"
    by (simp add: zero_param_def)
qed

theorem spi_params_zero_witness:
  "spi_reach 9 (script_spi 0) (spi_world_init (script [])) \<and>
   (\<exists>c. spi_param_at 2 (spi_world_init (script [])) = Ok c \<and> pfsm c = 0 \<and> hbss c = 0)"
proof -
  have r: "spi_reach 9 (script_spi 0) (spi_world_init (script []))" by (rule spi_reach_start)
  have "\<exists>c. spi_param_at 2 (spi_world_init (script [])) = Ok c"
    by (simp add: spi_param_at_def spi_world_init_def)
  then show ?thesis using r spi_params_zero [OF r] by blast
qed

section \<open>Exchanges that end\<close>

















section \<open>An exchange that does not end\<close>

text \<open>
  A device that answers every command with a request for more time: alternately the head and
  the rest of the process frame 09 00 03 60. The state of the port is what is left of the timer
  and whether the head has been sent.
\<close>

definition wtx_spi :: "(nat \<times> bool) hal_spi" where
  "wtx_spi =
     \<lparr>hal_periph = \<lparr>per_type = PERIPHERAL_SPI, per_id = 0\<rparr>,
      hal_init = Pair SE_SUCCESS, hal_deinit = Pair SE_SUCCESS, hal_delay = (\<lambda>us p. p),
      hal_timer_start = (\<lambda>t p. (t, (3, snd p))),
      hal_timer_differ = (\<lambda>t p. if fst p = 0 then (SE_ERR_TIMEOUT, p) else (SE_SUCCESS, (fst p - 1, snd p))),
      hal_chip_select = (\<lambda>b p. p), hal_transmit = (\<lambda>d p. (SE_SUCCESS, p)),
      hal_receive = (\<lambda>b p. (SE_SUCCESS,
         take (length b) (if snd p then [0x60, 0xD3, 0x4C] else [9, 0, 3]), (fst p, \<not> snd p))),
      hal_control = (\<lambda>code d n p. (SE_SUCCESS, d, n, p))\<rparr>"

lemma wtx_send:
  assumes "3 \<le> unat n" "unat n \<le> length d"
  shows "proto_spi_send_frame (Some wtx_spi) d n p = Ok (SE_SUCCESS, p)"
proof -
  have "n \<noteq> 0" "\<not> n < 3" using assms(1) by (auto simp: word_less_nat_alt)
  then show ?thesis
    using assms(2) by (simp add: proto_spi_send_frame_def proto_spi_transmit_def wtx_spi_def
        mem_read_def FRAME_HEAD_LEN_def)
qed

lemma wtx_head:
  assumes "3 \<le> length out"
  shows "proto_spi_receive_frame_head (Some wtx_spi) out len (m, False)
    = Ok (SE_SUCCESS, [9, 0, 3] @ drop 3 out, 3, (m, True))"
  using assms
  by (simp add: proto_spi_receive_frame_head_def proto_spi_receive_def wtx_spi_def mem_write_def
      FRAME_HEAD_LEN_def)

lemma wtx_data:
  assumes "3 \<le> length out"
  shows "proto_spi_receive_frame_data (Some wtx_spi) ([9, 0, 3] @ out) 3 3 (m, True)
    = Ok (SE_SUCCESS, [9, 0, 3, 0x60, 0xD3, 0x4C] @ drop 3 out, (m, False))"
  using assms
  by (simp add: proto_spi_receive_frame_data_def proto_spi_receive_def wtx_spi_def mem_write_def)

lemma wtx_edc: "edc_ok ([9, 0, 3, 0x60, 0xD3, 0x4C] @ ys) 6 = Ok True"
proof -
  have "crc_x25 [9, 0, 3, 0x60] = 0x4CD3"
    unfolding crc_x25_def crc16_fold_eq [symmetric] by code_simp
  then show ?thesis by (subst edc_ok_iff) (simp_all add: Let_def)
qed

lemma wtx_handle_loop:
  assumes "6 \<le> length out"
  shows "handle_loop fuel k wtx_spi inb n t out len 0 rnak 0 ty (3, False) = Stuck"
  using assms
proof (induction k arbitrary: t out len rnak ty)
  case (Suc k)
  show ?case
  proof (cases fuel)
    case (Suc f)
    let ?o1 = "[9, 0, 3] @ drop 3 out" and ?o2 = "[9, 0, 3, 0x60, 0xD3, 0x4C] @ drop 6 out"
    have poll: "handle_poll fuel wtx_spi t out len 0 (3, False) = Ok (SE_SUCCESS, ?o1, 3, 0, (2, True))"
      using Suc Suc.prems by (simp add: wtx_head) (simp add: wtx_spi_def PIB_PROCESS_FRAME_def)
    have data: "proto_spi_receive_frame_data (Some wtx_spi) ?o1 3 3 (2, True) = Ok (SE_SUCCESS, ?o2, (2, False))"
      using Suc.prems by (subst wtx_data) simp_all
    have snd: "proto_spi_send_frame (Some wtx_spi) cWTX_HED_SE PROCESS_FRAME_LEN (2, False) = Ok (SE_SUCCESS, (2, False))"
      by (rule wtx_send) (simp_all add: PROCESS_FRAME_LEN_def cWTX_HED_SE_def)
    have st: "hal_timer_start wtx_spi t' (2, False) = (t', (3, False))" for t'
      by (simp add: wtx_spi_def)
    have "handle_frame wtx_spi inb n t ?o2 6 rnak ty (2, False)
        = Ok (Inr (t\<lparr>interval := SPI_RECEVIE_FRAME_WAIT_TIME\<rparr>, rnak, SPI_WTX, (3, False)))"
      using snd st by (simp add: handle_frame_def mem_byte_def spi_pibs)
    then have hd: "handle_data wtx_spi inb n t ?o1 3 0 rnak ty (2, True)
        = Ok (Inr (t\<lparr>interval := SPI_RECEVIE_FRAME_WAIT_TIME\<rparr>, ?o2, 6, 0, rnak, SPI_WTX, (3, False)))"
      using wtx_edc [of "drop 6 out"] data
      unfolding handle_data_def by (simp add: FRAME_HEAD_LEN_def)
    have "6 \<le> length ?o2" by simp
    note IH = Suc.IH [OF this]
    show ?thesis
      using poll hd IH by (simp add: spi_lens)
  qed simp
qed simp

text \<open>
  C40: waiting-time extensions are not counted. The bound \<open>PROTO_SPI_WTX_NUM\<close> of proto_spi.h is not
  used: against a device that keeps asking for more time an exchange never returns, on a port
  whose timers do run out, because each request starts the timer again.
\<close>

theorem spi_wtx_unbounded:
  "\<forall>fuel. proto_spi_transceive fuel (Some wtx_spi) spi_queue 5 (util_queue_init queue_zero) 0
     (spi_world_init (0, False)) = Stuck"
proof
  fix fuel
  let ?qo = "util_queue_init queue_zero" and ?w = "spi_world_init (0, False) :: (nat \<times> bool) spi_world"
  obtain q where q: "proto_spi_queue_in (Some wtx_spi) spi_queue 5 = Ok (SE_SUCCESS, q)" "wf_queue q"
    "q_data q = spi_frame [0x80, 0x3E, 0, 0, 0]"
    using queue_in_frame [OF spi_queue(1), where h = wtx_spi] by (auto simp: spi_queue)
  have size: "unat (util_queue_size q) = 10"
    using util_queue_size_wf [OF q(2)] q(3) spi_frame_checks(2) [of "[0x80, 0x3E, 0, 0, 0]"] by simp
  have len: "10 \<le> length (drop (unat (front_node q)) (q_buf q))"
    using size util_queue_size_wf [OF q(2)] by (auto simp: q_data_def)
  have small: "\<not> util_queue_size q > FRAME_LEN_MAX"
    using size by (simp add: FRAME_LEN_MAX_def word_less_nat_alt)
  have send: "proto_spi_send_frame (Some wtx_spi) (drop (unat (front_node q)) (q_buf q)) (util_queue_size q) p
      = Ok (SE_SUCCESS, p)" for p
    by (rule wtx_send) (use size len in simp_all)
  have out: "6 \<le> length (drop (unat (front_node ?qo)) (q_buf ?qo))"
    by (simp add: util_queue_init_def DEQUE_MAX_SIZE_def)
  have handle: "proto_spi_handle fuel (Some wtx_spi) c (drop (unat (front_node q)) (q_buf q)) (util_queue_size q)
      (drop (unat (front_node ?qo)) (q_buf ?qo)) (m, False) = Stuck" for c m
    using small send wtx_handle_loop [OF out]
    by (simp add: proto_spi_handle_def wtx_spi_def [THEN arg_cong, of hal_timer_start] Let_def)
  show "proto_spi_transceive fuel (Some wtx_spi) spi_queue 5 ?qo 0 ?w = Stuck"
  proof (cases fuel)
    case 0
    then show ?thesis using q(1) by (simp add: proto_spi_transceive_def Let_def split: prod.splits)
  next
    case (Suc k)
    have lock: "spi_lock wtx_spi ?w = (timer_zero\<lparr>interval := SPI_COMM_MUTEX_WAIT_TIME\<rparr>, ?w\<lparr>port := (3, False)\<rparr>)"
      by (simp add: spi_lock_def wtx_spi_def spi_world_init_def)
    have exp: "spi_expired wtx_spi t (?w\<lparr>port := (3, False)\<rparr>) = (False, ?w\<lparr>port := (2, False)\<rparr>)" for t
      by (simp add: spi_expired_def wtx_spi_def)
    have par: "\<exists>c. spi_param_at (per_id (hal_periph wtx_spi)) (?w\<lparr>port := (2, False)\<rparr>) = Ok c"
      by (simp add: spi_param_at_def wtx_spi_def spi_world_init_def)
    then show ?thesis
      using q(1) lock exp handle [of _ 2] Suc
      by (auto simp: proto_spi_transceive_def Let_def)
  qed
qed

end
