(* ===== verification/Apdu.thy ===== *)
theory Apdu
  imports Tpdu Sm3 Sm4
begin

text \<open>
  The data types, constants and shared helpers of src/sign/testSdk/src/cmd/apdu.h and apdu.c:
  transport encryption, PIN blocks, padding of symmetric data. The commands are in the
  theories Apdu_Key, Apdu_Crypto and Apdu_Card.

  The C type \<open>bool\<close> of the SDK is \<open>char\<close>, an unsigned byte on the target: \<open>if(b)\<close> tests for
  non-zero, \<open>b==true\<close> for 1 and \<open>b==false\<close> for 0, and the model keeps the three apart.
\<close>

section \<open>Constants\<close>

type_synonym cbool = u8

named_theorems apdu_consts \<open>values of the constants of apdu.h\<close>

definition KEYUSAGE :: nat where [apdu_consts]: "KEYUSAGE = 0"
definition KID :: nat where [apdu_consts]: "KID = 1"
definition KALG :: nat where [apdu_consts]: "KALG = 2"
definition KMODEL_LEN :: nat where [apdu_consts]: "KMODEL_LEN = 3"
definition KLEN_HIGH :: nat where [apdu_consts]: "KLEN_HIGH = 6"
definition KLEN_LOW :: nat where [apdu_consts]: "KLEN_LOW = 7"

definition ALG_AES128 :: u8 where [apdu_consts]: "ALG_AES128 = 0x60"
definition ALG_DES128 :: u8 where [apdu_consts]: "ALG_DES128 = 0x00"
definition ALG_SM4 :: u8 where [apdu_consts]: "ALG_SM4 = 0x40"
definition ALG_RSA1024_STANDAND :: u8 where [apdu_consts]: "ALG_RSA1024_STANDAND = 0x30"
definition ALG_RSA1024_CRT :: u8 where [apdu_consts]: "ALG_RSA1024_CRT = 0x31"
definition ALG_RSA2048_STANDAND :: u8 where [apdu_consts]: "ALG_RSA2048_STANDAND = 0x32"
definition ALG_RSA2048_CRT :: u8 where [apdu_consts]: "ALG_RSA2048_CRT = 0x33"
definition ALG_ECC256_NIST :: u8 where [apdu_consts]: "ALG_ECC256_NIST = 0x70"
definition ALG_SM2 :: u8 where [apdu_consts]: "ALG_SM2 = 0x50"

definition ALG_SHA1 :: u32 where [apdu_consts]: "ALG_SHA1 = 0x00"
definition ALG_SHA224 :: u32 where [apdu_consts]: "ALG_SHA224 = 0x01"
definition ALG_SHA256 :: u32 where [apdu_consts]: "ALG_SHA256 = 0x02"
definition ALG_SHA384 :: u32 where [apdu_consts]: "ALG_SHA384 = 0x03"
definition ALG_SHA512 :: u32 where [apdu_consts]: "ALG_SHA512 = 0x04"
definition ALG_SM3 :: u32 where [apdu_consts]: "ALG_SM3 = 0x05"
definition ALG_NONE :: u32 where [apdu_consts]: "ALG_NONE = 0xFF"

definition SYM_MODE_CBC :: u8 where [apdu_consts]: "SYM_MODE_CBC = 0x00"
definition SYM_MODE_ECB :: u8 where [apdu_consts]: "SYM_MODE_ECB = 0x01"

definition PRI :: u8 where [apdu_consts]: "PRI = 0x00"
definition PUB :: u8 where [apdu_consts]: "PUB = 0x01"
definition PRI_PUB_PAIR :: u8 where [apdu_consts]: "PRI_PUB_PAIR = 0x02"
definition SYM :: u8 where [apdu_consts]: "SYM = 0x03"

definition PADDING_NOPADDING :: u32 where [apdu_consts]: "PADDING_NOPADDING = 0x00"
definition PADDING_ISO9797_M1 :: u32 where [apdu_consts]: "PADDING_ISO9797_M1 = 0x01"
definition PADDING_ISO9797_M2 :: u32 where [apdu_consts]: "PADDING_ISO9797_M2 = 0x02"
definition PADDING_PKCS7 :: u32 where [apdu_consts]: "PADDING_PKCS7 = 0x03"
definition PADDING_PKCS1 :: u32 where [apdu_consts]: "PADDING_PKCS1 = 0x04"

definition CHIP_ID :: u32 where [apdu_consts]: "CHIP_ID = 0x00"
definition PRODUCT_INFO :: u32 where [apdu_consts]: "PRODUCT_INFO = 0x01"

definition ADMIN_PIN :: u8 where [apdu_consts]: "ADMIN_PIN = 0x00"
definition USER_PIN :: u8 where [apdu_consts]: "USER_PIN = 0x01"

definition ALG_ECDH_ECC256 :: u8 where [apdu_consts]: "ALG_ECDH_ECC256 = 0x00"
definition ALG_ECDH_SM2 :: u8 where [apdu_consts]: "ALG_ECDH_SM2 = 0x01"
definition ALG_SM2_SM2 :: u8 where [apdu_consts]: "ALG_SM2_SM2 = 0x02"

definition CMD_CLA_CASE1 :: u32 where [apdu_consts]: "CMD_CLA_CASE1 = 0x00"
definition CMD_CLA_CASE2 :: u32 where [apdu_consts]: "CMD_CLA_CASE2 = 0x04"
definition CMD_CLA_CASE3 :: u32 where [apdu_consts]: "CMD_CLA_CASE3 = 0x80"
definition CMD_CLA_CASE4 :: u32 where [apdu_consts]: "CMD_CLA_CASE4 = 0x84"

definition MAX_KEY_LEN :: nat where [apdu_consts]: "MAX_KEY_LEN = 912"
definition MAX_IV_LEN :: nat where [apdu_consts]: "MAX_IV_LEN = 16"
definition MAX_ID_LEN :: nat where [apdu_consts]: "MAX_ID_LEN = 128"
definition LE_MAX_LEN :: u32 where [apdu_consts]: "LE_MAX_LEN = of_nat (DEQUE_MAX_SIZE - 20 - 5 - 2)"

section \<open>Types\<close>

record unikey_t =
  key_alg :: u8
  key_id :: u8
  key_len :: u32
  key_val :: bytes
  key_type :: u8

record pin_t =
  pin_owner :: u8
  pin_value :: bytes
  pin_len :: u8
  pin_limit :: u8

record alg_sym_param_t =
  sym_mode :: u8
  iv_len :: u8
  sym_iv :: bytes
  sym_padding_type :: u8

record alg_asym_param_t =
  hash_type :: u32
  asym_padding_type :: u32

record user_id_t =
  uid_len :: u32
  uid_val :: bytes

record se_info_t =
  chip_id :: bytes
  product_info :: bytes

record derive_seed_t =
  SM4_KS :: bytes
  SM4_KE :: bytes
  SM2_A :: bytes
  SM2_P :: bytes

section \<open>Calls into the command codec\<close>

text \<open>
  Every command function passes \<open>tpdu_execute\<close> the addresses of its local command, queues and
  length, so nothing is NULL: the call returns the code, the reply queue and the length.
\<close>

definition run_command ::
  "iso_command_apdu_t \<Rightarrow> double_queue_node \<Rightarrow> double_queue_node \<Rightarrow> u32 \<Rightarrow> 'w comm_state \<Rightarrow>
     (se_error \<times> double_queue_node \<times> u32 \<times> 'w comm_state) res" where
  "run_command command queue_in queue_out out_len st =
     res_bind (tpdu_execute (Some command) (Some queue_in) (util_queue_size queue_in)
                 (Some queue_out) (Some out_len) st) (\<lambda>(ret, _, qo, ol, st').
     case (qo, ol) of
       (Some q, Some l) \<Rightarrow> Ok (ret, q, l, st')
     | _ \<Rightarrow> Undef)"

definition run_silent ::
  "iso_command_apdu_t \<Rightarrow> double_queue_node \<Rightarrow> 'w comm_state \<Rightarrow> (se_error \<times> 'w comm_state) res" where
  "run_silent command queue_in st =
     res_bind (tpdu_execute_no_response (Some command) (Some queue_in) (util_queue_size queue_in) st)
       (\<lambda>(ret, _, st'). Ok (ret, st'))"

lemma run_command_exchange:
  "run_command c qi qo ol st =
     res_bind (tpdu_exchange c qi qo ol st) (\<lambda>(ret, qi', qo', ol', st'). Ok (ret, qo', ol', st'))"
  by (cases "tpdu_exchange c qi qo ol st") (auto simp: run_command_def tpdu_execute_def split: prod.splits)

text \<open>A queue declared with \<open>= {0}\<close> and initialised, and \<open>memcpy(dst, &queue.q_buf[front+skip], n)\<close>.\<close>

definition new_queue :: double_queue_node where
  "new_queue = util_queue_init queue_zero"

definition fetch :: "bytes \<Rightarrow> double_queue_node \<Rightarrow> nat \<Rightarrow> nat \<Rightarrow> bytes res" where
  "fetch dst q skip n =
     res_bind (mem_read (q_buf q) (unat (front_node q) + skip) n) (\<lambda>d. mem_write dst 0 d)"

text \<open>Commands with a variable payload become extended when it is longer than 255 bytes.\<close>

definition by_length :: "nat \<Rightarrow> iso_command_apdu_t \<Rightarrow> iso_command_apdu_t" where
  "by_length n command = command\<lparr>isoCase := if 0xFF < n then ISO_CASE_3E else ISO_CASE_3S\<rparr>"

section \<open>Transport encryption\<close>

text \<open>
  The global \<open>sm4_ctxt\<close> is written before each use, so the model builds it anew. \<open>key\<close> is the
  global \<open>trans_key\<close>. Length and data go to the rear, followed by 0x80 and zeros when the part
  from \<open>off\<close> is not made of whole blocks; that part is then encrypted in place.
\<close>

definition sm4_ctxt :: sm4_context where
  "sm4_ctxt = \<lparr>ctx_mode = 0, ctx_sk = replicate 32 0\<rparr>"

definition crypt_in_place :: "sm4_context \<Rightarrow> int \<Rightarrow> u32 \<Rightarrow> double_queue_node \<Rightarrow> double_queue_node res" where
  "crypt_in_place ctx mode off q =
     (let at = unat (ucast (front_node q) + off)
      in res_bind (sm4_crypt_ecb ctx mode (sint (ucast (q_buf_len q) - off)) (drop at (q_buf q))) (\<lambda>e.
         res_bind (mem_write (q_buf q) at e) (\<lambda>b. Ok (q\<lparr>q_buf := b\<rparr>))))"

definition pad_80 :: "u32 \<Rightarrow> double_queue_node \<Rightarrow> double_queue_node res" where
  "pad_80 off q =
     (if (ucast (q_buf_len q) - off) mod 16 \<noteq> 0 then
        res_bind (util_queue_rear_push (0x80 # replicate 15 0) 1 q) (\<lambda>q1.
        if (ucast (q_buf_len q1) - off) mod 16 \<noteq> 0
        then util_queue_rear_push (replicate 16 0) (16 - (ucast (q_buf_len q1) - off) mod 16) q1
        else Ok q1)
      else Ok q)"

definition apdu_trans_encrypt ::
  "bytes \<Rightarrow> bytes \<Rightarrow> u32 \<Rightarrow> u32 \<Rightarrow> double_queue_node \<Rightarrow> (se_error \<times> double_queue_node) res" where
  "apdu_trans_encrypt key input input_len off in_queue =
     (let ctx = sm4_setkey_enc key sm4_ctxt
      in res_bind (util_queue_rear_push [ucast (drop_bit 8 input_len)] 1 in_queue) (\<lambda>q1.
         res_bind (util_queue_rear_push [ucast (input_len AND 0xFF)] 1 q1) (\<lambda>q2.
         res_bind (util_queue_rear_push input input_len q2) (\<lambda>q3.
         res_bind (pad_80 off q3) (\<lambda>q4.
         res_bind (crypt_in_place ctx SM4_ENCRYPT off q4) (\<lambda>q5.
         Ok (SE_SUCCESS, q5)))))))"

definition apdu_trans_decrypt :: "bytes \<Rightarrow> double_queue_node \<Rightarrow> (se_error \<times> double_queue_node) res" where
  "apdu_trans_decrypt key in_queue =
     res_bind (crypt_in_place (sm4_setkey_dec key sm4_ctxt) SM4_DECRYPT 0 in_queue) (\<lambda>q.
     Ok (SE_SUCCESS, q))"

section \<open>PIN blocks\<close>

text \<open>
  The new PIN with its length byte, filled up with 0x80 and zeros, each block masked with the
  first half of the digest. \<open>pin_buf\<close> has 32 bytes.
\<close>

definition pin_fill :: "bytes \<Rightarrow> u32 \<Rightarrow> (bytes \<times> u32) res" where
  "pin_fill pin_buf n =
     (if n mod 16 \<noteq> 0 then
        res_bind (mem_write pin_buf (unat n) [0x80]) (\<lambda>b.
        let m = n + 1
        in Ok (b, if m mod 16 \<noteq> 0 then (if m < 16 then 16 else if 16 < m then 32 else m) else m))
      else Ok (pin_buf, n))"

definition pin_mask :: "bytes \<Rightarrow> bytes \<Rightarrow> u32 \<Rightarrow> bytes res" where
  "pin_mask sm3_buf pin_buf n =
     (let m = 16 * (unat n div 16)
      in res_bind (guard (m \<le> length pin_buf)) (\<lambda>_.
         Ok (map (\<lambda>i. sm3_buf ! (i mod 16) XOR pin_buf ! i) [0..<m] @ drop m pin_buf)))"

definition pin_block :: "bytes \<Rightarrow> bytes \<Rightarrow> u32 \<Rightarrow> (bytes \<times> u32) res" where
  "pin_block sm3_buf in_buf in_buf_len =
     res_bind (mem_read in_buf 0 (unat in_buf_len)) (\<lambda>d.
     res_bind (mem_write ((replicate 32 0)[1 := ucast (in_buf_len AND 0xFF)]) 2 d) (\<lambda>b.
     res_bind (pin_fill b (in_buf_len + 2)) (\<lambda>(b1, n).
     res_bind (pin_mask sm3_buf b1 n) (\<lambda>b2. Ok (b2, n)))))"

text \<open>The context of the one-shot \<open>sm3\<close> is an uninitialised local there; any contents do.\<close>

definition sm3_local :: sm3_context where
  "sm3_local = \<lparr>sm3_total0 = 0, sm3_total1 = 0, sm3_state = replicate 8 0, sm3_buffer = replicate 64 0,
     sm3_ipad = replicate 64 0, sm3_opad = replicate 64 0\<rparr>"

definition apdu_pin_encrypt ::
  "pin_t \<Rightarrow> bytes \<Rightarrow> u32 \<Rightarrow> double_queue_node \<Rightarrow> cbool \<Rightarrow> 'w comm_state \<Rightarrow>
     (se_error \<times> double_queue_node \<times> 'w comm_state) res" where
  "apdu_pin_encrypt pin in_buf in_buf_len queue_out if_xor st =
     res_bind (tpdu_init_with_id apdu_zero CMD_GET_RANDOM) (\<lambda>c.
     res_bind (run_command (tpdu_set_le c 0x10) new_queue queue_out 0 st) (\<lambda>(ret, qo, _, st1).
     if ret \<noteq> SE_SUCCESS then Ok (ret, qo, st1) else
     res_bind (util_queue_rear_push (pin_value pin) (ucast (pin_len pin)) qo) (\<lambda>q1.
     res_bind (sm3 sm3_local (drop (unat (front_node q1)) (q_buf q1)) (int (unat (q_buf_len q1)))) (\<lambda>sm3_buf.
     if if_xor \<noteq> 0 then
       res_bind (pin_block sm3_buf in_buf in_buf_len) (\<lambda>(pin_buf, n).
       res_bind (util_queue_rear_push pin_buf n (util_queue_init q1)) (\<lambda>q2.
       Ok (SE_SUCCESS, q2, st1)))
     else
       res_bind (util_queue_rear_push sm3_buf 16 (util_queue_init q1)) (\<lambda>q2.
       Ok (SE_SUCCESS, q2, st1))))))"

section \<open>Padding of symmetric data\<close>

text \<open>
  \<open>input\<close> and \<open>output\<close> are the queue, never NULL. \<open>*output_len\<close> says how long the padded data is
  to be; \<open>temp_buf\<close> has 16 bytes. The case without padding falls through to the default.
\<close>

definition apdu_sym_padding ::
  "u32 \<Rightarrow> double_queue_node \<Rightarrow> u32 \<Rightarrow> u32 \<Rightarrow> (se_error \<times> double_queue_node \<times> u32) res" where
  "apdu_sym_padding padding q input_len output_len =
     (if padding \<noteq> PADDING_NOPADDING \<and> padding \<noteq> PADDING_PKCS7 then Ok (SE_ERR_PARAM_INVALID, q, output_len)
      else if input_len = 0 then Ok (SE_ERR_PARAM_INVALID, q, output_len)
      else
        let buffer_len = output_len;
            fill = (if padding = PADDING_PKCS7 then buffer_len - input_len else 0)
        in res_bind (mem_write (replicate 16 0) 0
                       (replicate (unat (buffer_len - input_len)) (ucast fill))) (\<lambda>temp_buf.
           res_bind (util_queue_rear_push temp_buf (buffer_len - input_len) q) (\<lambda>q1.
           Ok (SE_SUCCESS, q1, buffer_len))))"

definition apdu_sym_unpadding ::
  "u32 \<Rightarrow> double_queue_node \<Rightarrow> u32 \<Rightarrow> u32 \<Rightarrow> (se_error \<times> double_queue_node \<times> u32) res" where
  "apdu_sym_unpadding padding q input_len output_len =
     (if input_len = 0 then Ok (SE_ERR_PARAM_INVALID, q, output_len)
      else
        res_bind (if padding = PADDING_PKCS7
                  then res_bind (mem_byte (q_buf q) (unat (ucast (rear_node q) - 1 :: u32))) (\<lambda>b.
                       Ok (input_len - ucast b, ucast b))
                  else Ok (input_len, 0)) (\<lambda>(buffer_len, offset).
        res_bind (util_queue_rear_pop offset q) (\<lambda>q1.
        Ok (SE_SUCCESS, q1, buffer_len))))"

text \<open>The loop that rounds up to a multiple of the block; it ends at 0 at the latest.\<close>

function align_up :: "u32 \<Rightarrow> u32 \<Rightarrow> u32" where
  "align_up align_size buffer_len =
     (if buffer_len mod align_size \<noteq> 0 then align_up align_size (buffer_len + 1) else buffer_len)"
  by pat_completeness auto
termination
proof (relation "measure (\<lambda>(a, n). if n = 0 then 0 else 2 ^ 32 - unat n)", goal_cases)
  case (2 a n)
  then have n: "n \<noteq> 0" by auto
  have "unat (n + 1) = unat n + 1" if "n + 1 \<noteq> 0"
    using that unatSuc [of n] by (simp add: add.commute)
  then show ?case using n unsigned_less [of n] by auto
qed simp

declare align_up.simps [simp del]

definition apdu_sym_padding_length :: "u32 \<Rightarrow> u32 \<Rightarrow> u32 \<Rightarrow> u32" where
  "apdu_sym_padding_length alg padding input_len =
     (let align_size = (if alg = ucast ALG_DES128 then 8 else 16);
          buffer_len = (if padding = PADDING_PKCS7 \<and> (input_len = 0 \<or> input_len mod align_size = 0)
                        then input_len + 1 else input_len)
      in align_up align_size buffer_len)"

end
