(* ===== verification/Apdu_Key.thy ===== *)
theory Apdu_Key
  imports Apdu
begin

text \<open>
  The key commands of src/sign/testSdk/src/cmd/apdu.c: writing, generating, agreeing on,
  deleting, importing and exporting keys, and the table of key information. Each takes the
  state of the communication switch and returns the code, what the C function writes through
  its pointers, and the new state. \<open>trans_key\<close> is the global of key.c.
\<close>

definition apdu_write_key ::
  "bytes \<Rightarrow> bytes option \<Rightarrow> u32 \<Rightarrow> cbool \<Rightarrow> cbool \<Rightarrow> cbool \<Rightarrow> 'w comm_state \<Rightarrow>
     (se_error \<times> 'w comm_state) res" where
  "apdu_write_key trans_key in_buf in_buf_len if_encrypt if_write if_update_mkey st =
     (case in_buf of
        None \<Rightarrow> Ok (SE_ERR_PARAM_INVALID, st)
      | Some d \<Rightarrow>
          if in_buf_len = 0 then Ok (SE_ERR_PARAM_INVALID, st)
          else if if_write = 1 \<and> if_update_mkey = 1 then Ok (SE_ERR_PARAM_INVALID, st)
          else
            res_bind (tpdu_init_with_id apdu_zero CMD_WRITE_KEY) (\<lambda>c.
            let c1 = (if if_write = 1 then tpdu_set_p1p2 c 0x00 0x00
                      else if if_update_mkey = 1 then tpdu_set_p1p2 c 0x01 0x00
                      else if if_update_mkey = 0 then tpdu_set_p1p2 c 0x01 0x01 else c)
            in if if_encrypt \<noteq> 0 then
                 res_bind (apdu_trans_encrypt trans_key d in_buf_len 0 new_queue) (\<lambda>(_, q).
                 run_silent (tpdu_set_cla c1 CMD_CLA_CASE4) q st)
               else
                 res_bind (util_queue_rear_push d in_buf_len new_queue) (\<lambda>q.
                 run_silent (tpdu_set_cla c1 CMD_CLA_CASE3) q st)))"

section \<open>Generating keys\<close>

text \<open>
  The attribute bytes by algorithm: for a symmetric key; for a public and a private key under
  different ids (algorithm byte of each, modulus length); for a pair under one id. An algorithm
  that is not listed leaves the zeros of \<open>temp_buf\<close>.
\<close>

definition gen_sym_attr :: "u8 \<Rightarrow> u8" where
  "gen_sym_attr alg =
     (if alg = ALG_AES128 then 0x60 else if alg = ALG_DES128 then 0x00
      else if alg = ALG_SM4 then 0x40 else 0)"

definition gen_split_attr :: "u8 \<Rightarrow> u8 \<times> u8 \<times> u8" where
  "gen_split_attr alg =
     (if alg = ALG_ECC256_NIST then (0xA0, 0xA1, 0x20)
      else if alg = ALG_SM2 then (0x90, 0x91, 0x20)
      else if alg = ALG_RSA1024_CRT then (0x80, 0x82, 0x20)
      else if alg = ALG_RSA2048_CRT then (0x80, 0x82, 0x40)
      else if alg = ALG_RSA1024_STANDAND then (0x80, 0x81, 0x20)
      else if alg = ALG_RSA2048_STANDAND then (0x80, 0x81, 0x40)
      else (0, 0, 0))"

definition gen_pair_attr :: "u8 \<Rightarrow> u8 \<times> u8" where
  "gen_pair_attr alg =
     (if alg = ALG_ECC256_NIST then (0xA2, 0x20)
      else if alg = ALG_SM2 then (0x92, 0x20)
      else if alg = ALG_RSA1024_CRT then (0x84, 0x20)
      else if alg = ALG_RSA2048_CRT then (0x84, 0x40)
      else if alg = ALG_RSA1024_STANDAND then (0x83, 0x20)
      else if alg = ALG_RSA2048_STANDAND then (0x83, 0x40)
      else (0, 0))"

text \<open>The payload of the command: 8 attribute bytes for one object, 16 for two.\<close>

definition generate_payload :: "unikey_t option \<Rightarrow> unikey_t option \<Rightarrow> unikey_t option \<Rightarrow> bytes res" where
  "generate_payload pub_key pri_key symkey =
     (let temp_buf = (replicate 16 0)[KEYUSAGE := 0x02]
      in case symkey of
           Some k \<Rightarrow> Ok (take 8 (temp_buf[KID := key_id k, KALG := gen_sym_attr (key_alg k)]))
         | None \<Rightarrow>
             (case (pub_key, pri_key) of
                (Some pub, Some pri) \<Rightarrow>
                  if key_id pub \<noteq> key_id pri then
                    (let (a, b, m) = gen_split_attr (key_alg pub)
                     in Ok (temp_buf[KID := key_id pub, KID + 8 := key_id pri, KEYUSAGE + 8 := 0x02,
                              KALG := a, KMODEL_LEN := m, KALG + 8 := b, KMODEL_LEN + 8 := m]))
                  else
                    (let (a, m) = gen_pair_attr (key_alg pub)
                     in Ok (take 8 (temp_buf[KID := key_id pub, KALG := a, KMODEL_LEN := m])))
              | _ \<Rightarrow> Undef))"

text \<open>What is copied to the public key of the caller.\<close>

definition generate_reply :: "double_queue_node \<Rightarrow> unikey_t \<Rightarrow> unikey_t res" where
  "generate_reply q pub =
     (let alg = key_alg pub;
          n = (if alg = ALG_ECC256_NIST \<or> alg = ALG_SM2 then 64
               else if alg = ALG_RSA1024_CRT \<or> alg = ALG_RSA1024_STANDAND then 132
               else if alg = ALG_RSA2048_CRT \<or> alg = ALG_RSA2048_STANDAND then 260 else 0)
      in if n = 0 then Ok pub
         else res_bind (fetch (key_val pub) q 0 n) (\<lambda>v. Ok (pub\<lparr>key_val := v, key_len := of_nat n\<rparr>)))"

definition apdu_generate_key ::
  "unikey_t option \<Rightarrow> unikey_t option \<Rightarrow> unikey_t option \<Rightarrow> 'w comm_state \<Rightarrow>
     (se_error \<times> unikey_t option \<times> 'w comm_state) res" where
  "apdu_generate_key pub_key pri_key symkey st =
     res_bind (tpdu_init_with_id apdu_zero CMD_GENERATE_KEY) (\<lambda>c.
     res_bind (generate_payload pub_key pri_key symkey) (\<lambda>d.
     res_bind (util_queue_rear_push d (of_nat (length d)) new_queue) (\<lambda>qi.
     res_bind (run_command c qi new_queue 0 st) (\<lambda>(ret, qo, _, st1).
     if ret \<noteq> SE_SUCCESS then Ok (ret, pub_key, st1)
     else case (symkey, pub_key) of
       (None, Some pub) \<Rightarrow> res_bind (generate_reply qo pub) (\<lambda>pub1. Ok (SE_SUCCESS, Some pub1, st1))
     | _ \<Rightarrow> Ok (SE_SUCCESS, pub_key, st1)))))"

text \<open>Key agreement; an algorithm that is not listed leaves \<open>p1\<close> at 0.\<close>

definition shared_p1 :: "u8 \<Rightarrow> cbool \<Rightarrow> cbool \<Rightarrow> u8" where
  "shared_p1 alg if_return_key if_return_s =
     (let flags = (if if_return_key = 1 then 0x10 else 0x00) OR (if if_return_s = 1 then 0x20 else 0x00)
      in if alg = ALG_ECDH_ECC256 then flags OR 0x00
         else if alg = ALG_ECDH_SM2 then flags OR 0x01
         else if alg = ALG_SM2_SM2 then flags OR 0x02 else 0)"

definition shared_reply ::
  "double_queue_node \<Rightarrow> cbool \<Rightarrow> cbool \<Rightarrow> unikey_t \<Rightarrow> bytes \<Rightarrow> (unikey_t \<times> bytes) res" where
  "shared_reply q if_return_key if_return_s key sm2_s =
     (let ecdh = (key_alg key = ALG_ECDH_ECC256 \<or> key_alg key = ALG_ECDH_SM2);
          n = (if ecdh then 32 else 16)
      in res_bind (if if_return_key = 1
                   then res_bind (fetch (key_val key) q 0 n) (\<lambda>v. Ok (key\<lparr>key_val := v, key_len := of_nat n\<rparr>))
                   else Ok key) (\<lambda>key1.
         res_bind (if \<not> ecdh \<and> if_return_s = 1 then fetch sm2_s q 16 64 else Ok sm2_s) (\<lambda>s1.
         Ok (key1, s1))))"

definition apdu_generate_shared_key ::
  "bytes \<Rightarrow> u32 \<Rightarrow> unikey_t \<Rightarrow> bytes \<Rightarrow> cbool \<Rightarrow> cbool \<Rightarrow> 'w comm_state \<Rightarrow>
     (se_error \<times> unikey_t \<times> bytes \<times> 'w comm_state) res" where
  "apdu_generate_shared_key in_buf in_buf_len shared_key sm2_s if_return_key if_return_s st =
     res_bind (tpdu_init_with_id apdu_zero CMD_GEN_SHARED_KEY) (\<lambda>c.
     let p2 = (if key_alg shared_key = ALG_ECDH_ECC256 \<or> key_alg shared_key = ALG_ECDH_SM2
               then key_id shared_key else 0);
         c1 = tpdu_set_p1p2 c (shared_p1 (key_alg shared_key) if_return_key if_return_s) p2
     in res_bind (util_queue_rear_push in_buf in_buf_len new_queue) (\<lambda>qi.
        res_bind (run_command c1 qi new_queue 0 st) (\<lambda>(ret, qo, _, st1).
        if ret \<noteq> SE_SUCCESS then Ok (ret, shared_key, sm2_s, st1) else
        res_bind (shared_reply qo if_return_key if_return_s shared_key sm2_s) (\<lambda>(key1, s1).
        Ok (SE_SUCCESS, key1, s1, st1)))))"

definition apdu_delete_key :: "u8 \<Rightarrow> 'w comm_state \<Rightarrow> (se_error \<times> 'w comm_state) res" where
  "apdu_delete_key kid st =
     res_bind (tpdu_init_with_id apdu_zero CMD_DEL_KEY) (\<lambda>c.
     run_silent (tpdu_set_p1p2 c 0x00 kid) new_queue st)"

section \<open>Import and export\<close>

text \<open>
  How the key is protected in transit: \<open>p1\<close> and \<open>p2\<close> of both commands. \<open>ukey\<close> is only looked at
  when it protects the key.
\<close>

definition cipher_alg_code :: "u8 \<Rightarrow> u8" where
  "cipher_alg_code alg =
     (if alg = ALG_RSA1024_CRT then 0x08 else if alg = ALG_RSA2048_CRT then 0x08
      else if alg = ALG_ECC256_NIST then 0x0A else if alg = ALG_SM2 then 0x09
      else if alg = ALG_DES128 then 0x00 else if alg = ALG_SM4 then 0x04
      else if alg = ALG_AES128 then 0x06 else 0)"

definition key_protection :: "unikey_t option \<Rightarrow> bool \<Rightarrow> cbool \<Rightarrow> (u8 \<times> u8) res" where
  "key_protection ukey cipher if_trans_key =
     (if cipher then
        (if if_trans_key \<noteq> 0 then Ok (0x10 OR 0x20 OR 0x04, 0x02)
         else case ukey of
           None \<Rightarrow> Undef
         | Some k \<Rightarrow> Ok (0x10 OR cipher_alg_code (key_alg k), key_id k))
      else Ok (0x00, 0x00))"

text \<open>Algorithm byte, modulus length and key length (high and low byte) of the attributes.\<close>

definition import_sym_attr :: "u8 \<Rightarrow> u8 \<times> u8 \<times> u8 \<times> u8" where
  "import_sym_attr alg =
     (if alg = ALG_AES128 then (0x60, 0, 0, 0x10)
      else if alg = ALG_DES128 then (0x00, 0, 0, 0x10) else (0x40, 0, 0, 0x10))"

definition import_ecc_attr :: "u8 \<Rightarrow> u8 \<Rightarrow> u8 \<times> u8 \<times> u8 \<times> u8" where
  "import_ecc_attr alg ty =
     (let base = (if alg = ALG_ECC256_NIST then 0xA0 else 0x90 :: u8)
      in if ty = PRI then (base + 1, 0x20, 0, 0x20)
         else if ty = PUB then (base, 0x20, 0, 0x40)
         else if ty = PRI_PUB_PAIR then (base + 2, 0x20, 0, 0x60)
         else (0, 0, 0, 0))"

definition import_rsa_crt_attr :: "u8 \<Rightarrow> u8 \<Rightarrow> u8 \<times> u8 \<times> u8 \<times> u8" where
  "import_rsa_crt_attr alg ty =
     (if alg = ALG_RSA1024_CRT then
        (if ty = PRI then (0x82, 0x20, 0x01, 0x44)
         else if ty = PUB then (0x80, 0x20, 0, 0x84)
         else if ty = PRI_PUB_PAIR then (0x84, 0x20, 0x01, 0xC4) else (0, 0, 0, 0))
      else
        (if ty = PRI then (0x82, 0x40, 0x02, 0x84)
         else if ty = PUB then (0x80, 0x40, 0x01, 0x04)
         else if ty = PRI_PUB_PAIR then (0x84, 0x40, 0x03, 0x84) else (0, 0, 0, 0)))"

definition import_rsa_attr :: "u8 \<Rightarrow> u8 \<Rightarrow> u8 \<times> u8 \<times> u8 \<times> u8" where
  "import_rsa_attr alg ty =
     (if alg = ALG_RSA1024_STANDAND then
        (if ty = PRI then (0x81, 0x20, 0x01, 0x00)
         else if ty = PUB then (0x80, 0x20, 0, 0x84)
         else if ty = PRI_PUB_PAIR then (0x83, 0x20, 0x01, 0x04) else (0, 0, 0, 0))
      else
        (if ty = PRI then (0x81, 0x40, 0x02, 0x00)
         else if ty = PUB then (0x80, 0x40, 0x01, 0x04)
         else if ty = PRI_PUB_PAIR then (0x83, 0x40, 0x02, 0x04) else (0, 0, 0, 0)))"

definition import_attr :: "u8 \<Rightarrow> u8 \<Rightarrow> u8 \<times> u8 \<times> u8 \<times> u8" where
  "import_attr alg ty =
     (if alg = ALG_AES128 \<or> alg = ALG_DES128 \<or> alg = ALG_SM4 then import_sym_attr alg
      else if alg = ALG_ECC256_NIST \<or> alg = ALG_SM2 then import_ecc_attr alg ty
      else if alg = ALG_RSA1024_CRT \<or> alg = ALG_RSA2048_CRT then import_rsa_crt_attr alg ty
      else if alg = ALG_RSA1024_STANDAND \<or> alg = ALG_RSA2048_STANDAND then import_rsa_attr alg ty
      else (0, 0, 0, 0))"

definition import_head :: "unikey_t \<Rightarrow> bytes" where
  "import_head inkey =
     (let (a, m, hi, lo) = import_attr (key_alg inkey) (key_type inkey)
      in (replicate 8 0)[KEYUSAGE := 0x02, KID := key_id inkey, KALG := a, KMODEL_LEN := m,
           KLEN_HIGH := hi, KLEN_LOW := lo])"

definition apdu_import_key ::
  "bytes \<Rightarrow> unikey_t option \<Rightarrow> unikey_t \<Rightarrow> cbool \<Rightarrow> cbool \<Rightarrow> 'w comm_state \<Rightarrow> (se_error \<times> 'w comm_state) res" where
  "apdu_import_key trans_key ukey inkey if_cipher if_trans_key st =
     res_bind (key_protection ukey (if_cipher \<noteq> 0) if_trans_key) (\<lambda>(p1, p2).
     res_bind (util_queue_rear_push (import_head inkey) 8 new_queue) (\<lambda>q1.
     res_bind (if if_trans_key \<noteq> 0
               then apdu_trans_encrypt trans_key (key_val inkey) (key_len inkey) 8 q1
               else res_bind (util_queue_rear_push (key_val inkey) (key_len inkey) q1) (\<lambda>q.
                    Ok (SE_SUCCESS, q))) (\<lambda>(ret, q2).
     if ret \<noteq> SE_SUCCESS then Ok (ret, st) else
     res_bind (tpdu_init_with_id apdu_zero CMD_IMPORT_KEY) (\<lambda>c.
     run_silent (tpdu_set_p1p2 (by_length (unat (q_buf_len q2) + 8) c) p1 p2) q2 st))))"

definition export_attr :: "u8 \<Rightarrow> u8 \<Rightarrow> u8" where
  "export_attr alg ty =
     (if alg = ALG_AES128 then 0x60 else if alg = ALG_DES128 then 0x00
      else if alg = ALG_SM4 then 0x40
      else if alg = ALG_ECC256_NIST then (if ty = PRI then 0xA1 else if ty = PUB then 0xA0 else 0)
      else if alg = ALG_SM2 then (if ty = PRI then 0x91 else if ty = PUB then 0x90 else 0)
      else if alg = ALG_RSA1024_CRT then (if ty = PRI then 0x82 else if ty = PUB then 0x80 else 0)
      else if alg = ALG_RSA2048_CRT then (if ty = PRI then 0x82 else if ty = PUB then 0x80 else 0)
      else if alg = ALG_RSA1024_STANDAND then (if ty = PRI then 0x81 else if ty = PUB then 0x80 else 0)
      else if alg = ALG_RSA2048_STANDAND then (if ty = PRI then 0x81 else if ty = PUB then 0x80 else 0)
      else 0)"

text \<open>
  The key in the reply. With transport encryption the reply is decrypted and starts with the
  length of the key; the length is checked after the copy only.
\<close>

definition export_reply :: "bytes \<Rightarrow> cbool \<Rightarrow> double_queue_node \<Rightarrow> unikey_t \<Rightarrow> (se_error \<times> unikey_t) res" where
  "export_reply trans_key if_trans_key q exkey =
     (if if_trans_key \<noteq> 0 then
        res_bind (apdu_trans_decrypt trans_key q) (\<lambda>(ret, q1).
        if ret \<noteq> SE_SUCCESS then Ok (ret, exkey) else
        res_bind (mem_byte (q_buf q1) (unat (front_node q1))) (\<lambda>hi.
        res_bind (mem_byte (q_buf q1) (unat (front_node q1) + 1)) (\<lambda>lo.
        let n = push_bit 8 (ucast hi) OR ucast lo :: u32
        in res_bind (fetch (key_val exkey) q1 2 (unat n)) (\<lambda>v.
           Ok (SE_SUCCESS, exkey\<lparr>key_val := v, key_len := n\<rparr>)))))
      else
        res_bind (fetch (key_val exkey) q 0 (unat (q_buf_len q))) (\<lambda>v.
        Ok (SE_SUCCESS, exkey\<lparr>key_val := v, key_len := ucast (q_buf_len q)\<rparr>)))"

text \<open>\<open>queue_out\<close> is zeroed but not initialised here; the test of the array against NULL is void.\<close>

definition apdu_export_key ::
  "bytes \<Rightarrow> unikey_t option \<Rightarrow> unikey_t \<Rightarrow> cbool \<Rightarrow> cbool \<Rightarrow> 'w comm_state \<Rightarrow>
     (se_error \<times> unikey_t \<times> 'w comm_state) res" where
  "apdu_export_key trans_key ukey exkey if_cipher if_trans_key st =
     res_bind (key_protection ukey (if_cipher = 1) if_trans_key) (\<lambda>(p1, p2).
      let temp_buf = [key_id exkey, export_attr (key_alg exkey) (key_type exkey), 0, 0, 0, 0, 0, 0]
      in res_bind (tpdu_init_with_id apdu_zero CMD_EXPORT_KEY) (\<lambda>c.
         res_bind (util_queue_rear_push temp_buf 2 new_queue) (\<lambda>qi.
         res_bind (run_command (tpdu_set_p1p2 c p1 p2) qi queue_zero 0 st) (\<lambda>(ret, qo, _, st1).
         if ret \<noteq> SE_SUCCESS then Ok (ret, exkey, st1) else
         res_bind (export_reply trans_key if_trans_key qo exkey) (\<lambda>(ret, exkey1).
         if ret \<noteq> SE_SUCCESS then Ok (ret, exkey1, st1)
         else if key_len exkey1 < 16 \<or> key_len exkey1 > 656 then Ok (SE_ERR_DATA, exkey1, st1)
         else Ok (SE_SUCCESS, exkey1, st1))))))"

definition apdu_get_key_info ::
  "cbool \<Rightarrow> bytes \<Rightarrow> 'w comm_state \<Rightarrow> (se_error \<times> bytes \<times> u32 option \<times> 'w comm_state) res" where
  "apdu_get_key_info if_app_key out_buf st =
     res_bind (tpdu_init_with_id apdu_zero CMD_GET_KEY_INFO) (\<lambda>c.
     let c1 = tpdu_set_le (tpdu_set_p1p2 c (if if_app_key = 1 then 0x01 else 0x00) 0x00) 0
     in res_bind (run_command c1 new_queue new_queue 0 st) (\<lambda>(ret, qo, _, st1).
        if ret \<noteq> SE_SUCCESS then Ok (ret, out_buf, None, st1) else
        res_bind (fetch out_buf qo 0 (unat (q_buf_len qo))) (\<lambda>b.
        Ok (if q_buf_len qo \<noteq> 0x200 then SE_ERR_LENGTH else SE_SUCCESS, b,
            Some (ucast (q_buf_len qo)), st1))))"

end
