(* ===== verification/Apdu_Crypto.thy ===== *)
theory Apdu_Crypto
  imports Apdu
begin

text \<open>
  The cryptographic commands of src/sign/testSdk/src/cmd/apdu.c: symmetric ciphers, MAC,
  asymmetric ciphers with the collection of long responses, signatures, digests and random
  numbers. Caller buffers are byte lists of the size the caller allocated; a length pointer
  that is only written is returned as an option, \<open>None\<close> when the function did not write it.
\<close>

section \<open>Symmetric ciphers\<close>

definition chain_bit :: "cbool \<Rightarrow> u8" where
  "chain_bit if_last_block = (if if_last_block = 0 then 0x80 else 0x00)"

definition sym_alg_bits :: "u8 \<Rightarrow> u8" where
  "sym_alg_bits alg =
     (if alg = ALG_DES128 then 0x00 else if alg = ALG_SM4 then 0x40
      else if alg = ALG_AES128 then 0x60 else 0)"

definition sym_mode_bits :: "u8 \<Rightarrow> u8" where
  "sym_mode_bits mode = (if mode = SYM_MODE_CBC then 0x01 else 0x00)"

text \<open>The payload: the IV in front of the first block in CBC mode, the data, and the padding.\<close>

definition sym_payload ::
  "alg_sym_param_t \<Rightarrow> bytes \<Rightarrow> u32 \<Rightarrow> u32 \<Rightarrow> cbool \<Rightarrow> cbool \<Rightarrow> cbool \<Rightarrow>
     (se_error \<times> double_queue_node \<times> u32) res" where
  "sym_payload sym_param in_buf in_buf_len out_buf_len if_first_block if_last_block if_enc =
     res_bind (if if_first_block \<noteq> 0 \<and> sym_mode sym_param = SYM_MODE_CBC
               then util_queue_rear_push (sym_iv sym_param) (ucast (iv_len sym_param)) new_queue
               else Ok new_queue) (\<lambda>q1.
     res_bind (util_queue_rear_push in_buf in_buf_len q1) (\<lambda>q2.
     if if_enc \<noteq> 0 \<and> if_last_block \<noteq> 0 \<and> ucast (sym_padding_type sym_param) = PADDING_PKCS7
     then apdu_sym_padding (ucast (sym_padding_type sym_param)) q2 in_buf_len out_buf_len
     else Ok (SE_SUCCESS, q2, out_buf_len)))"

text \<open>\<open>*out_buf_len\<close> is read (the padded length) and written.\<close>

definition apdu_sym_enc_dec ::
  "unikey_t \<Rightarrow> alg_sym_param_t \<Rightarrow> bytes \<Rightarrow> u32 \<Rightarrow> bytes \<Rightarrow> u32 \<Rightarrow> cbool \<Rightarrow> cbool \<Rightarrow> cbool \<Rightarrow>
     'w comm_state \<Rightarrow> (se_error \<times> bytes \<times> u32 \<times> 'w comm_state) res" where
  "apdu_sym_enc_dec key sym_param in_buf in_buf_len out_buf out_buf_len if_first_block if_last_block
     if_enc st =
     (let p1 = chain_bit if_last_block OR sym_alg_bits (key_alg key) OR
               (if if_enc \<noteq> 0 then 0x00 else 0x04) OR sym_mode_bits (sym_mode sym_param)
      in res_bind (sym_payload sym_param in_buf in_buf_len out_buf_len if_first_block if_last_block if_enc)
           (\<lambda>(ret, qi, olen).
         if ret \<noteq> SE_SUCCESS then Ok (ret, out_buf, olen, st) else
         res_bind (tpdu_init_with_id apdu_zero CMD_CIPHER_DATA) (\<lambda>c.
         res_bind (run_command (by_length (unat (q_buf_len qi)) (tpdu_set_p1p2 c p1 (key_id key)))
                     qi new_queue 0 st) (\<lambda>(ret, qo, temp_len, st1).
         if ret \<noteq> SE_SUCCESS then Ok (ret, out_buf, olen, st1) else
         res_bind (if if_enc = 0 \<and> if_last_block \<noteq> 0 \<and> ucast (sym_padding_type sym_param) = PADDING_PKCS7
                   then apdu_sym_unpadding (ucast (sym_padding_type sym_param)) qo (ucast (q_buf_len qo)) temp_len
                   else Ok (SE_SUCCESS, qo, temp_len)) (\<lambda>(ret, qo1, temp_len1).
         if ret \<noteq> SE_SUCCESS then Ok (ret, out_buf, olen, st1) else
         res_bind (fetch out_buf qo1 0 (unat temp_len1)) (\<lambda>b.
         Ok (SE_SUCCESS, b, temp_len1, st1)))))))"

definition mac_padding_bits :: "u8 \<Rightarrow> u8" where
  "mac_padding_bits padding =
     (if ucast padding = PADDING_ISO9797_M1 then 0x01
      else if ucast padding = PADDING_ISO9797_M2 then 0x02 else 0x00)"

definition mac_payload ::
  "alg_sym_param_t \<Rightarrow> bytes \<Rightarrow> u32 \<Rightarrow> bytes \<Rightarrow> u32 \<Rightarrow> cbool \<Rightarrow> cbool \<Rightarrow> cbool \<Rightarrow> double_queue_node res" where
  "mac_payload sym_param in_buf in_buf_len mac mac_len if_first_block if_last_block if_mac =
     res_bind (if if_first_block \<noteq> 0 \<and> iv_len sym_param \<noteq> 0
               then util_queue_rear_push (sym_iv sym_param) (ucast (iv_len sym_param)) new_queue
               else Ok new_queue) (\<lambda>q1.
     res_bind (util_queue_rear_push in_buf in_buf_len q1) (\<lambda>q2.
     if if_mac = 0 \<and> if_last_block \<noteq> 0 then util_queue_rear_push mac mac_len q2 else Ok q2))"

definition apdu_mac ::
  "unikey_t \<Rightarrow> alg_sym_param_t \<Rightarrow> bytes \<Rightarrow> u32 \<Rightarrow> bytes \<Rightarrow> u32 \<Rightarrow> cbool \<Rightarrow> cbool \<Rightarrow> cbool \<Rightarrow>
     'w comm_state \<Rightarrow> (se_error \<times> bytes \<times> u32 \<times> 'w comm_state) res" where
  "apdu_mac key sym_param in_buf in_buf_len mac mac_len if_first_block if_last_block if_mac st =
     (let p1 = chain_bit if_last_block OR sym_alg_bits (key_alg key) OR
               (if if_mac \<noteq> 0 then 0x08 else 0x0C) OR mac_padding_bits (sym_padding_type sym_param)
      in res_bind (tpdu_init_with_id apdu_zero CMD_CIPHER_DATA) (\<lambda>c.
         res_bind (mac_payload sym_param in_buf in_buf_len mac mac_len if_first_block if_last_block if_mac)
           (\<lambda>qi.
         res_bind (run_command (by_length (unat (q_buf_len qi)) (tpdu_set_p1p2 c p1 (key_id key)))
                     qi new_queue 0 st) (\<lambda>(ret, qo, temp_len, st1).
         if ret \<noteq> SE_SUCCESS then Ok (ret, mac, mac_len, st1)
         else if if_mac \<noteq> 0 \<and> if_last_block \<noteq> 0 then
           res_bind (fetch mac qo 0 (unat temp_len)) (\<lambda>b. Ok (SE_SUCCESS, b, temp_len, st1))
         else Ok (SE_SUCCESS, mac, mac_len, st1)))))"

section \<open>Asymmetric ciphers\<close>

definition asym_alg_bits :: "u8 \<Rightarrow> u8" where
  "asym_alg_bits alg =
     (if alg = ALG_RSA1024_CRT then 0x00 else if alg = ALG_RSA2048_CRT then 0x00
      else if alg = ALG_ECC256_NIST then 0x20 else if alg = ALG_SM2 then 0x10 else 0)"

definition rsa_padding_bits :: "u8 \<Rightarrow> u32 \<Rightarrow> u8" where
  "rsa_padding_bits alg padding =
     (if alg = ALG_RSA1024_CRT \<or> alg = ALG_RSA2048_CRT then
        (if padding = PADDING_NOPADDING then 0x00
         else if padding = PADDING_PKCS1 then 0x01 else 0)
      else 0)"

text \<open>
  \<open>while((ret>>8&0xff)==0x61)\<close>: GET RESPONSE until the device has no more data, each part
  behind the last. \<open>fuel\<close> bounds the model only, a device can keep the code here.
\<close>

fun get_responses ::
  "nat \<Rightarrow> se_error \<Rightarrow> iso_command_apdu_t \<Rightarrow> bytes \<Rightarrow> u32 \<Rightarrow> u32 \<Rightarrow> 'w comm_state \<Rightarrow>
     (se_error \<times> bytes \<times> u32 \<times> 'w comm_state) res" where
  "get_responses 0 ret c out_buf out_buf_len temp_len st = Stuck"
| "get_responses (Suc k) ret c out_buf out_buf_len temp_len st =
     (if drop_bit 8 ret AND 0xFF = 0x61 then
        res_bind (tpdu_init_with_id c CMD_GET_RESPONSE) (\<lambda>c1.
        let c2 = tpdu_set_le c1 LE_MAX_LEN
        in res_bind (run_command c2 new_queue new_queue temp_len st) (\<lambda>(ret1, qo, temp_len1, st1).
           if ret1 \<noteq> SE_SUCCESS \<and> ret1 \<noteq> SE_ERR_DATA_REMAINING then Ok (ret1, out_buf, out_buf_len, st1) else
           res_bind (mem_read (q_buf qo) (unat (front_node qo)) (unat temp_len1)) (\<lambda>d.
           res_bind (mem_write out_buf (unat out_buf_len) d) (\<lambda>b.
           get_responses k ret1 c2 b (out_buf_len + temp_len1) temp_len1 st1))))
      else Ok (SE_SUCCESS, out_buf, out_buf_len, st))"

text \<open>The body that \<open>apdu_asym_enc\<close> and \<open>apdu_asym_dec\<close> share, but for the command.\<close>

definition asym_cipher ::
  "nat \<Rightarrow> u8 \<Rightarrow> unikey_t \<Rightarrow> alg_asym_param_t \<Rightarrow> bytes \<Rightarrow> u32 \<Rightarrow> bytes \<Rightarrow> u32 \<Rightarrow> cbool \<Rightarrow>
     'w comm_state \<Rightarrow> (se_error \<times> bytes \<times> u32 \<times> 'w comm_state) res" where
  "asym_cipher fuel cmd key asym_param in_buf in_buf_len out_buf out_buf_len if_last_block st =
     res_bind (tpdu_init_with_id apdu_zero cmd) (\<lambda>c.
     let p1 = chain_bit if_last_block OR asym_alg_bits (key_alg key) OR
              rsa_padding_bits (key_alg key) (asym_padding_type asym_param);
         c1 = tpdu_set_p1p2 c p1 (key_id key)
     in res_bind (util_queue_rear_push in_buf in_buf_len new_queue) (\<lambda>qi.
        let c2 = by_length (unat (q_buf_len qi)) c1;
            c3 = (if if_last_block \<noteq> 0 then tpdu_set_le (c2\<lparr>isoCase := ISO_CASE_4E\<rparr>) LE_MAX_LEN else c2)
        in res_bind (run_command c3 qi new_queue 0 st) (\<lambda>(ret, qo, temp_len, st1).
           if ret \<noteq> SE_SUCCESS \<and> ret \<noteq> SE_ERR_DATA_REMAINING then Ok (ret, out_buf, out_buf_len, st1)
           else if if_last_block \<noteq> 0 then
             res_bind (fetch out_buf qo 0 (unat temp_len)) (\<lambda>b.
             get_responses fuel ret c3 b temp_len temp_len st1)
           else Ok (SE_SUCCESS, out_buf, out_buf_len, st1))))"

definition apdu_asym_enc ::
  "nat \<Rightarrow> unikey_t \<Rightarrow> alg_asym_param_t \<Rightarrow> bytes \<Rightarrow> u32 \<Rightarrow> bytes \<Rightarrow> u32 \<Rightarrow> cbool \<Rightarrow>
     'w comm_state \<Rightarrow> (se_error \<times> bytes \<times> u32 \<times> 'w comm_state) res" where
  "apdu_asym_enc fuel = asym_cipher fuel CMD_PKI_ENCIPHER"

definition apdu_asym_dec ::
  "nat \<Rightarrow> unikey_t \<Rightarrow> alg_asym_param_t \<Rightarrow> bytes \<Rightarrow> u32 \<Rightarrow> bytes \<Rightarrow> u32 \<Rightarrow> cbool \<Rightarrow>
     'w comm_state \<Rightarrow> (se_error \<times> bytes \<times> u32 \<times> 'w comm_state) res" where
  "apdu_asym_dec fuel = asym_cipher fuel CMD_PKI_DECIPHER"

section \<open>Signatures\<close>

definition hash_bits :: "u32 \<Rightarrow> u8" where
  "hash_bits h =
     (if h = ALG_NONE then 0x08 else if h = ALG_SHA1 then 0x00 else if h = ALG_SHA224 then 0x01
      else if h = ALG_SHA256 then 0x02 else if h = ALG_SHA384 then 0x03
      else if h = ALG_SHA512 then 0x04 else if h = ALG_SM3 then 0x05 else 0)"

definition apdu_asym_sign ::
  "unikey_t \<Rightarrow> alg_asym_param_t \<Rightarrow> bytes \<Rightarrow> u32 \<Rightarrow> bytes \<Rightarrow> u32 \<Rightarrow> cbool \<Rightarrow>
     'w comm_state \<Rightarrow> (se_error \<times> bytes \<times> u32 \<times> 'w comm_state) res" where
  "apdu_asym_sign key asym_param in_buf in_buf_len sign_buf sign_buf_len if_last_block st =
     res_bind (tpdu_init_with_id apdu_zero CMD_COMPUTE_SIGNATURE) (\<lambda>c.
     let p1 = chain_bit if_last_block OR asym_alg_bits (key_alg key) OR hash_bits (hash_type asym_param);
         c1 = tpdu_set_p1p2 c p1 (key_id key)
     in res_bind (util_queue_rear_push in_buf in_buf_len new_queue) (\<lambda>qi.
        res_bind (run_command (by_length (unat (q_buf_len qi)) c1) qi new_queue 0 st)
          (\<lambda>(ret, qo, temp_len, st1).
        if ret \<noteq> SE_SUCCESS \<and> ret \<noteq> SE_ERR_DATA_REMAINING then Ok (ret, sign_buf, sign_buf_len, st1)
        else if if_last_block \<noteq> 0 then
          res_bind (fetch sign_buf qo 0 (unat temp_len)) (\<lambda>b. Ok (SE_SUCCESS, b, temp_len, st1))
        else Ok (SE_SUCCESS, sign_buf, sign_buf_len, st1))))"

definition apdu_asym_verify ::
  "unikey_t \<Rightarrow> alg_asym_param_t \<Rightarrow> bytes \<Rightarrow> u32 \<Rightarrow> bytes \<Rightarrow> u32 \<Rightarrow> cbool \<Rightarrow> cbool \<Rightarrow>
     'w comm_state \<Rightarrow> (se_error \<times> 'w comm_state) res" where
  "apdu_asym_verify key asym_param in_buf in_buf_len sign_buf sign_buf_len if_first_block if_last_block st =
     res_bind (tpdu_init_with_id apdu_zero CMD_VERIFY_SIGNATURE) (\<lambda>c.
     let p1 = chain_bit if_last_block OR asym_alg_bits (key_alg key) OR hash_bits (hash_type asym_param);
         c1 = tpdu_set_p1p2 c p1 (key_id key)
     in res_bind (if if_first_block \<noteq> 0 then util_queue_rear_push sign_buf sign_buf_len new_queue
                  else Ok new_queue) (\<lambda>q1.
        res_bind (util_queue_rear_push in_buf in_buf_len q1) (\<lambda>qi.
        res_bind (run_command (by_length (unat (q_buf_len qi)) c1) qi new_queue 0 st)
          (\<lambda>(ret, _, _, st1).
        if ret \<noteq> SE_SUCCESS \<and> ret \<noteq> SE_ERR_DATA_REMAINING then Ok (ret, st1)
        else Ok (SE_SUCCESS, st1)))))"

section \<open>Digests, identity hash and random numbers\<close>

definition apdu_sm2_get_za ::
  "user_id_t option \<Rightarrow> unikey_t option \<Rightarrow> bytes option \<Rightarrow> 'w comm_state \<Rightarrow>
     (se_error \<times> bytes option \<times> 'w comm_state) res" where
  "apdu_sm2_get_za uid pub_key za st =
     (case (uid, pub_key, za) of
        (Some u, Some k, Some z) \<Rightarrow>
          if uid_len u = 0 \<or> uid_len u > 32 \<or> key_len k \<noteq> 64 then Ok (SE_ERR_PARAM_INVALID, za, st) else
          res_bind (util_queue_rear_push [ucast (uid_len u AND 0xFF)] 1 new_queue) (\<lambda>q1.
          res_bind (util_queue_rear_push (uid_val u) (uid_len u) q1) (\<lambda>q2.
          res_bind (util_queue_rear_push (key_val k) (key_len k) q2) (\<lambda>qi.
          res_bind (tpdu_init_with_id apdu_zero CMD_SM2_GET_ZA) (\<lambda>c.
          res_bind (run_command c qi new_queue 0 st) (\<lambda>(ret, qo, _, st1).
          if ret \<noteq> SE_SUCCESS then Ok (ret, za, st1) else
          res_bind (fetch z qo 0 (unat (q_buf_len qo))) (\<lambda>z1. Ok (SE_SUCCESS, Some z1, st1)))))))
      | _ \<Rightarrow> Ok (SE_ERR_PARAM_INVALID, za, st))"

text \<open>\<open>apdu_digest\<close> has no case for \<open>ALG_NONE\<close>.\<close>

definition digest_bits :: "u32 \<Rightarrow> u8" where
  "digest_bits h = (if h = ALG_NONE then 0 else hash_bits h)"

definition apdu_digest ::
  "u32 \<Rightarrow> bytes \<Rightarrow> u32 \<Rightarrow> bytes \<Rightarrow> u32 \<Rightarrow> cbool \<Rightarrow> 'w comm_state \<Rightarrow>
     (se_error \<times> bytes \<times> u32 \<times> 'w comm_state) res" where
  "apdu_digest alg in_buf in_buf_len out_buf out_buf_len if_last_block st =
     res_bind (tpdu_init_with_id apdu_zero CMD_DIGEST) (\<lambda>c.
     let c1 = tpdu_set_p1p2 c (chain_bit if_last_block OR digest_bits alg) 0
     in res_bind (util_queue_rear_push in_buf in_buf_len new_queue) (\<lambda>qi.
        res_bind (run_command (by_length (unat (q_buf_len qi)) c1) qi new_queue 0 st)
          (\<lambda>(ret, qo, temp_len, st1).
        if ret \<noteq> SE_SUCCESS then Ok (ret, out_buf, out_buf_len, st1) else
        res_bind (fetch out_buf qo 0 (unat temp_len)) (\<lambda>b. Ok (SE_SUCCESS, b, temp_len, st1)))))"

definition apdu_get_random ::
  "u32 \<Rightarrow> bytes \<Rightarrow> 'w comm_state \<Rightarrow> (se_error \<times> bytes \<times> 'w comm_state) res" where
  "apdu_get_random expected_len random st =
     res_bind (tpdu_init_with_id apdu_zero CMD_GET_RANDOM) (\<lambda>c.
     res_bind (run_command (tpdu_set_le c (expected_len AND 0xFF)) new_queue new_queue 0 st)
       (\<lambda>(ret, qo, _, st1).
     if ret \<noteq> SE_SUCCESS then Ok (ret, random, st1) else
     res_bind (fetch random qo 0 (unat (q_buf_len qo))) (\<lambda>b. Ok (SE_SUCCESS, b, st1))))"

end
