(* ===== verification/Apdu_Card.thy ===== *)
theory Apdu_Card
  imports Apdu
begin

text \<open>
  The remaining commands of src/sign/testSdk/src/cmd/apdu.c: power mode, external
  authentication, device information, PINs, files, the firmware loader and the V2X keys.
\<close>

section \<open>Mode, authentication, identity\<close>

text \<open>The argument of \<open>apdu_switch_mode\<close> is not used.\<close>

definition apdu_switch_mode :: "u32 \<Rightarrow> 'w comm_state \<Rightarrow> (se_error \<times> 'w comm_state) res" where
  "apdu_switch_mode ty st =
     res_bind (tpdu_init_with_id apdu_zero CMD_ENTER_LOWPOWER) (\<lambda>c.
     run_silent (tpdu_set_p1p2 c 0x00 0x00) new_queue st)"

definition apdu_control ::
  "u32 \<Rightarrow> bytes \<Rightarrow> u32 \<Rightarrow> bytes \<Rightarrow> u32 \<Rightarrow> 'w comm_state \<Rightarrow> (se_error \<times> bytes \<times> u32 \<times> 'w comm_state) res" where
  "apdu_control ctrlcode in_buf in_buf_len out_buf out_buf_len st = Ok (SE_SUCCESS, out_buf, out_buf_len, st)"

definition apdu_ext_auth :: "bytes option \<Rightarrow> u32 \<Rightarrow> 'w comm_state \<Rightarrow> (se_error \<times> 'w comm_state) res" where
  "apdu_ext_auth in_buf in_buf_len st =
     (case in_buf of
        None \<Rightarrow> Ok (SE_ERR_PARAM_INVALID, st)
      | Some d \<Rightarrow>
          if in_buf_len = 0 then Ok (SE_ERR_PARAM_INVALID, st) else
          res_bind (util_queue_rear_push d in_buf_len new_queue) (\<lambda>qi.
          res_bind (tpdu_init_with_id apdu_zero CMD_EXTTERN_AUTH) (\<lambda>c.
          run_silent c qi st)))"

definition apdu_get_info ::
  "u32 \<Rightarrow> se_info_t \<Rightarrow> 'w comm_state \<Rightarrow> (se_error \<times> se_info_t \<times> 'w comm_state) res" where
  "apdu_get_info ty info st =
     res_bind (tpdu_init_with_id apdu_zero CMD_GET_INFO) (\<lambda>c.
     let n = (if ty = CHIP_ID then 0x08 else if ty = PRODUCT_INFO then 0x08 else 0);
         c1 = tpdu_set_le (tpdu_set_p1p2 c (ucast (ty AND 0xFF)) 0x00) n
     in res_bind (run_command c1 new_queue new_queue 0 st) (\<lambda>(ret, qo, _, st1).
        if ret \<noteq> SE_SUCCESS then Ok (ret, info, st1)
        else if ty = CHIP_ID then
          res_bind (fetch (chip_id info) qo 0 (unat (q_buf_len qo))) (\<lambda>b.
          Ok (SE_SUCCESS, info\<lparr>chip_id := b\<rparr>, st1))
        else if ty = PRODUCT_INFO then
          res_bind (fetch (product_info info) qo 0 (unat (q_buf_len qo))) (\<lambda>b.
          Ok (SE_SUCCESS, info\<lparr>product_info := b\<rparr>, st1))
        else Ok (SE_SUCCESS, info, st1)))"

definition apdu_get_id ::
  "user_id_t \<Rightarrow> 'w comm_state \<Rightarrow> (se_error \<times> user_id_t \<times> 'w comm_state) res" where
  "apdu_get_id se_id st =
     res_bind (tpdu_init_with_id apdu_zero CMD_GET_ID) (\<lambda>c.
     res_bind (run_command (tpdu_set_le c 0x02) new_queue new_queue 0 st) (\<lambda>(ret, qo, _, st1).
     if ret \<noteq> SE_SUCCESS then Ok (ret, se_id, st1) else
     res_bind (fetch (uid_val se_id) qo 0 (unat (q_buf_len qo))) (\<lambda>b.
     Ok (SE_SUCCESS, se_id\<lparr>uid_val := b, uid_len := ucast (q_buf_len qo)\<rparr>, st1))))"

definition apdu_write_SEID :: "user_id_t \<Rightarrow> 'w comm_state \<Rightarrow> (se_error \<times> 'w comm_state) res" where
  "apdu_write_SEID se_id st =
     res_bind (util_queue_rear_push (uid_val se_id) (uid_len se_id) new_queue) (\<lambda>qi.
     res_bind (tpdu_init_with_id apdu_zero CMD_WRITE_SEID) (\<lambda>c.
     run_silent (tpdu_set_p1p2 c 0x00 0x00) qi st))"

section \<open>PINs\<close>

text \<open>The result of \<open>apdu_pin_encrypt\<close> is not looked at: the command goes out with the queue as it is.\<close>

definition apdu_change_reload_pin ::
  "pin_t \<Rightarrow> bytes \<Rightarrow> u32 \<Rightarrow> cbool \<Rightarrow> 'w comm_state \<Rightarrow> (se_error \<times> 'w comm_state) res" where
  "apdu_change_reload_pin pin in_buf in_buf_len if_change_pin st =
     res_bind (tpdu_init_with_id apdu_zero CMD_CHANGE_RELOAD_PIN) (\<lambda>c.
     res_bind (apdu_pin_encrypt pin in_buf in_buf_len new_queue 1 st) (\<lambda>(_, qi, st1).
     let p1 = (if if_change_pin \<noteq> 0 then 0x01 else 0x02);
         p2 = (if if_change_pin \<noteq> 0 \<and> pin_owner pin = USER_PIN then 0x01 else 0x00)
     in run_silent (tpdu_set_p1p2 c p1 p2) qi st1))"

definition apdu_verify_pin :: "pin_t \<Rightarrow> 'w comm_state \<Rightarrow> (se_error \<times> 'w comm_state) res" where
  "apdu_verify_pin pin st =
     res_bind (tpdu_init_with_id apdu_zero CMD_VERIFY_PIN) (\<lambda>c.
     res_bind (apdu_pin_encrypt pin [] 0 new_queue 0 st) (\<lambda>(_, qi, st1).
     run_silent (tpdu_set_p1p2 c 0x00 (if pin_owner pin = USER_PIN then 0x01 else 0x00)) qi st1))"

section \<open>Files\<close>

definition apdu_select_file :: "u32 \<Rightarrow> 'w comm_state \<Rightarrow> (se_error \<times> 'w comm_state) res" where
  "apdu_select_file fid st =
     res_bind (util_queue_rear_push [ucast (drop_bit 8 fid AND 0xFF), ucast (fid AND 0xFF)] 2 new_queue) (\<lambda>qi.
     res_bind (tpdu_init_with_id apdu_zero CMD_SELECT_FILE) (\<lambda>c.
     run_silent (tpdu_set_p1p2 c 0x00 0x00) qi st))"

definition apdu_write_file ::
  "bytes \<Rightarrow> u32 \<Rightarrow> cbool \<Rightarrow> bytes \<Rightarrow> u32 \<Rightarrow> 'w comm_state \<Rightarrow> (se_error \<times> 'w comm_state) res" where
  "apdu_write_file trans_key offset if_encrypt in_buf in_buf_len st =
     res_bind (tpdu_init_with_id apdu_zero CMD_WRITE_FILE) (\<lambda>c.
     let c1 = tpdu_set_p1p2 c (ucast (drop_bit 8 offset AND 0xFF)) (ucast (offset AND 0xFF))
     in res_bind (if if_encrypt = 1
                  then res_bind (apdu_trans_encrypt trans_key in_buf in_buf_len 0 new_queue) (\<lambda>(_, q).
                       Ok (q, tpdu_set_cla c1 CMD_CLA_CASE2))
                  else res_bind (util_queue_rear_push in_buf in_buf_len new_queue) (\<lambda>q.
                       Ok (q, tpdu_set_cla c1 CMD_CLA_CASE1))) (\<lambda>(qi, c2).
        run_silent (by_length (unat (q_buf_len qi)) c2) qi st))"

text \<open>\<open>queue_out\<close> is zeroed but not initialised in the two functions that read files.\<close>

definition read_file_le :: "cbool \<Rightarrow> u32 \<Rightarrow> u32" where
  "read_file_le if_encrypt expect_len =
     (if if_encrypt \<noteq> 0 then (expect_len + 1 + 16) div 16 * 16 else expect_len)"

definition apdu_read_file ::
  "bytes \<Rightarrow> u32 \<Rightarrow> cbool \<Rightarrow> u32 \<Rightarrow> bytes \<Rightarrow> 'w comm_state \<Rightarrow>
     (se_error \<times> bytes \<times> u32 option \<times> 'w comm_state) res" where
  "apdu_read_file trans_key offset if_encrypt expect_len out_buf st =
     res_bind (tpdu_init_with_id apdu_zero CMD_READ_FILE) (\<lambda>c.
     let c1 = tpdu_set_cla c (if if_encrypt \<noteq> 0 then CMD_CLA_CASE2 else CMD_CLA_CASE1);
         c2 = tpdu_set_p1p2 c1 (ucast (drop_bit 8 offset AND 0xFF)) (ucast (offset AND 0xFF));
         c3 = (tpdu_set_le c2 (read_file_le if_encrypt expect_len))\<lparr>isoCase := ISO_CASE_2E\<rparr>
     in res_bind (run_command c3 new_queue queue_zero 0 st) (\<lambda>(ret, qo, temp_len, st1).
        if ret \<noteq> SE_SUCCESS then Ok (ret, out_buf, None, st1)
        else if if_encrypt = 1 then
          res_bind (apdu_trans_decrypt trans_key qo) (\<lambda>(ret, q1).
          if ret \<noteq> SE_SUCCESS then Ok (ret, out_buf, None, st1) else
          res_bind (fetch out_buf q1 2 (unat expect_len)) (\<lambda>b.
          Ok (SE_SUCCESS, b, Some expect_len, st1)))
        else
          res_bind (fetch out_buf qo 0 (unat temp_len)) (\<lambda>b.
          Ok (SE_SUCCESS, b, Some temp_len, st1))))"

definition apdu_get_file_info ::
  "cbool \<Rightarrow> bytes \<Rightarrow> 'w comm_state \<Rightarrow> (se_error \<times> bytes \<times> u32 option \<times> 'w comm_state) res" where
  "apdu_get_file_info if_df out_buf st =
     res_bind (tpdu_init_with_id apdu_zero CMD_GET_FILE_INFO) (\<lambda>c.
     let c1 = tpdu_set_le (tpdu_set_p1p2 c (if if_df \<noteq> 0 then 0x00 else 0x01) 0x00) 0x00
     in res_bind (run_command c1 new_queue queue_zero 0 st) (\<lambda>(ret, qo, temp_len, st1).
        if ret \<noteq> SE_SUCCESS then Ok (ret, out_buf, None, st1) else
        res_bind (fetch out_buf qo 0 (unat temp_len)) (\<lambda>b. Ok (SE_SUCCESS, b, Some temp_len, st1))))"

section \<open>Firmware loader\<close>

text \<open>
  \<open>image_addr\<close> points into the firmware image: a 16-bit big-endian length and a prepared
  command. The C functions compute the length in \<open>int\<close> and store it in \<open>uint16_t\<close>.
\<close>

definition image_len :: "bytes \<Rightarrow> u16 res" where
  "image_len img =
     res_bind (mem_byte img 0) (\<lambda>hi.
     res_bind (mem_byte img 1) (\<lambda>lo. Ok (push_bit 8 (ucast hi) OR ucast lo)))"

definition apdu_loader_init :: "bytes option \<Rightarrow> 'w comm_state \<Rightarrow> (se_error \<times> 'w comm_state) res" where
  "apdu_loader_init image_addr st =
     (case image_addr of
        None \<Rightarrow> Ok (SE_ERR_PARAM_INVALID, st)
      | Some img \<Rightarrow>
          res_bind (image_len img) (\<lambda>cmd_len.
          if cmd_len \<noteq> 0x0009 then Ok (SE_ERR_PARAM_INVALID, st) else
          res_bind (mem_read img 2 3) (\<lambda>head.
          if head \<noteq> [0xBF, 0x41, 0x00] then Ok (SE_ERR_PARAM_INVALID, st) else
          res_bind (tpdu_init_with_id apdu_zero CMD_LOADER_INIT) (\<lambda>c.
          res_bind (mem_read img 7 4) (\<lambda>mac_buf.
          res_bind (util_queue_rear_push mac_buf 4 new_queue) (\<lambda>qi.
          res_bind (mem_byte img 5) (\<lambda>b.
          run_silent (tpdu_set_p1p2 c 0x00 b) qi st)))))))"

text \<open>
  The five bytes copied over \<open>classbyte\<close> fill the four header fields and a padding byte of the
  struct. The length of the data is computed in \<open>int\<close> and passed as \<open>uint32_t\<close>.
\<close>

definition apdu_loader_program :: "bytes option \<Rightarrow> 'w comm_state \<Rightarrow> (se_error \<times> 'w comm_state) res" where
  "apdu_loader_program image_addr st =
     (case image_addr of
        None \<Rightarrow> Ok (SE_ERR_PARAM_INVALID, st)
      | Some img \<Rightarrow>
          res_bind (image_len img) (\<lambda>cmd_len.
          if cmd_len > 0x2007 then Ok (SE_ERR_PARAM_INVALID, st) else
          res_bind (tpdu_init_with_id apdu_zero CMD_LOADER_PROGRAM) (\<lambda>c.
          res_bind (mem_read img 2 5) (\<lambda>head.
          let c1 = c\<lparr>classbyte := head ! 0, instruction := head ! 1, apdu_p1 := head ! 2, apdu_p2 := head ! 3\<rparr>;
              off = (if cmd_len > 0x104 then 9 else 7)
          in res_bind (util_queue_rear_push (drop off img) (ucast cmd_len - of_nat off + 2) new_queue) (\<lambda>qi.
             run_silent c1 qi st)))))"

definition apdu_loader_checkprogram :: "bytes option \<Rightarrow> 'w comm_state \<Rightarrow> (se_error \<times> 'w comm_state) res" where
  "apdu_loader_checkprogram image_addr st =
     (case image_addr of
        None \<Rightarrow> Ok (SE_ERR_PARAM_INVALID, st)
      | Some img \<Rightarrow>
          res_bind (image_len img) (\<lambda>cmd_len.
          if cmd_len \<noteq> 0x0025 then Ok (SE_ERR_PARAM_INVALID, st) else
          res_bind (mem_read img 2 5) (\<lambda>head.
          if head \<noteq> [0xBF, 0x42, 0x00, 0x00, 0x20] then Ok (SE_ERR_PARAM_INVALID, st) else
          res_bind (tpdu_init_with_id apdu_zero CMD_LOADER_CHECKPROGRAM) (\<lambda>c.
          res_bind (util_queue_rear_push (drop 7 img) (ucast cmd_len - 5) new_queue) (\<lambda>qi.
          run_silent c qi st)))))"

section \<open>V2X keys\<close>

text \<open>\<open>derive_type\<close> is not used. The reply is read at fixed offsets whatever its length.\<close>

definition apdu_v2x_gen_key_derive_seed ::
  "u8 \<Rightarrow> derive_seed_t \<Rightarrow> 'w comm_state \<Rightarrow> (se_error \<times> derive_seed_t \<times> 'w comm_state) res" where
  "apdu_v2x_gen_key_derive_seed derive_type out_buf st =
     res_bind (tpdu_init_with_id apdu_zero CMD_V2X_GENERATE_KEY_DERIVE_SEED) (\<lambda>c.
     res_bind (run_command (tpdu_set_le c 0xA0) new_queue new_queue 0 st) (\<lambda>(ret, qo, _, st1).
     if ret \<noteq> SE_SUCCESS then Ok (ret, out_buf, st1) else
     res_bind (fetch (SM4_KS out_buf) qo 0 16) (\<lambda>ks.
     res_bind (fetch (SM4_KE out_buf) qo 16 16) (\<lambda>ke.
     res_bind (fetch (SM2_A out_buf) qo 32 64) (\<lambda>a.
     res_bind (fetch (SM2_P out_buf) qo 96 64) (\<lambda>p.
     Ok (SE_SUCCESS, out_buf\<lparr>SM4_KS := ks, SM4_KE := ke, SM2_A := a, SM2_P := p\<rparr>, st1)))))))"

definition apdu_v2x_reconsitution_key ::
  "bytes \<Rightarrow> u32 \<Rightarrow> bytes \<Rightarrow> 'w comm_state \<Rightarrow> (se_error \<times> bytes \<times> u32 option \<times> 'w comm_state) res" where
  "apdu_v2x_reconsitution_key in_buf in_buf_len out_buf st =
     res_bind (tpdu_init_with_id apdu_zero CMD_V2X_RECONSITUTION_KEY) (\<lambda>c.
     res_bind (mem_byte in_buf 0) (\<lambda>p2.
     let c1 = tpdu_set_p1p2 (tpdu_set_le c 0x00) 0 p2
     in res_bind (util_queue_rear_push (drop 1 in_buf) (in_buf_len - 1) new_queue) (\<lambda>qi.
        res_bind (run_command c1 qi new_queue 0 st) (\<lambda>(ret, qo, out_len, st1).
        if ret \<noteq> SE_SUCCESS then Ok (ret, out_buf, None, st1) else
        res_bind (fetch out_buf qo 0 (unat out_len)) (\<lambda>b.
        Ok (SE_SUCCESS, b, Some out_len, st1))))))"

end
