(* ===== verification/Apdu_Facts.thy ===== *)
theory Apdu_Facts
  imports Apdu_Key Apdu_Crypto Apdu_Card
begin

text \<open>
  Lemmas on the helpers of the command functions: what padding and in-place encryption do to
  the contents of a queue, and what the copies from a reply deliver.
\<close>

section \<open>Queues\<close>

lemma new_queue [simp]:
  "wf_queue new_queue" "q_data new_queue = []" "front_room new_queue = 20" "rear_room new_queue = 1003"
  by (simp_all add: new_queue_def)

lemma queue_len_word:
  assumes "wf_queue q"
  shows "(ucast (q_buf_len q) :: u32) = of_nat (length (q_data q))"
proof -
  have "unat (ucast (q_buf_len q) :: u32) = unat (of_nat (length (q_data q)) :: u32)"
    using length_q_data [OF assms] wf_queue_bounds(1) [OF assms]
    by (simp add: unat_u16_u32 unat_of_nat_u32)
  then show ?thesis by (rule unsigned_word_eqI)
qed

lemma queue_len_sub:
  assumes "wf_queue q" "off \<le> length (q_data q)"
  shows "ucast (q_buf_len q) - of_nat off = (of_nat (length (q_data q) - off) :: u32)"
  using assms(2) by (simp add: queue_len_word [OF assms(1)] of_nat_diff)

lemma queue_at:
  assumes "wf_queue q" "off \<le> length (q_data q)"
  shows "unat (ucast (front_node q) + of_nat off :: u32) = unat (front_node q) + off"
proof -
  have "length (q_data q) < 1024" "unat (front_node q) < 1024"
    using wf_queue_bounds [OF assms(1)] by (simp_all add: front_room_def)
  then show ?thesis
    using assms(2) by (subst unat_add_lem [THEN iffD1]) (simp_all add: unat_u16_u32 unat_of_nat_u32)
qed

lemma queue_from:
  assumes "wf_queue q" "off \<le> length (q_data q)"
  shows "drop (unat (front_node q) + off) (q_buf q)
    = drop off (q_data q) @ drop (unat (rear_node q)) (q_buf q)"
proof -
  let ?r = "unat (rear_node q)" and ?f = "unat (front_node q)"
  have b: "?f \<le> ?r" "?r \<le> length (q_buf q)" "length (q_data q) = ?r - ?f"
    using assms(1) by (auto simp: wf_queue_def q_data_def)
  have "drop off (q_data q) = take (?r - (?f + off)) (drop (?f + off) (q_buf q))"
    by (simp add: q_data_def drop_take add.commute)
  moreover have "drop ?r (q_buf q) = drop (?r - (?f + off)) (drop (?f + off) (q_buf q))"
    using assms(2) b by simp
  ultimately show ?thesis by (metis append_take_drop_id)
qed

text \<open>Overwriting the tail of the contents.\<close>

lemma queue_overwrite:
  assumes "wf_queue q" "off + length e = length (q_data q)"
    and "mem_write (q_buf q) (unat (front_node q) + off) e = Ok b"
  shows "wf_queue (q\<lparr>q_buf := b\<rparr>)" "q_data (q\<lparr>q_buf := b\<rparr>) = take off (q_data q) @ e"
    "front_room (q\<lparr>q_buf := b\<rparr>) = front_room q" "rear_room (q\<lparr>q_buf := b\<rparr>) = rear_room q"
proof -
  let ?f = "unat (front_node q)" and ?r = "unat (rear_node q)"
  have bd: "?f \<le> ?r" "?r \<le> length (q_buf q)" "length (q_data q) = ?r - ?f"
    using assms(1) by (auto simp: wf_queue_def q_data_def)
  have b: "b = take (?f + off) (q_buf q) @ e @ drop (?f + off + length e) (q_buf q)"
    using assms(3) by (auto simp: mem_write_def split: if_splits)
  have d: "off \<le> ?r - ?f" "off + length e = ?r - ?f" using assms(2) bd(3) by simp_all
  show "wf_queue (q\<lparr>q_buf := b\<rparr>)"
    using assms(1) mem_write_length [OF assms(3)] by (simp add: wf_queue_def)
  have "take (?r - ?f) (drop ?f b) = take off (drop ?f (q_buf q)) @ e"
    unfolding b using bd(1,2) d by (simp add: drop_take)
  then show "q_data (q\<lparr>q_buf := b\<rparr>) = take off (q_data q) @ e"
    using d(1) by (simp add: q_data_def min_def)
qed (simp_all add: front_room_def rear_room_def)

lemma fetch_queue:
  assumes "wf_queue q" "skip + n \<le> length (q_data q)" "n \<le> length dst"
  shows "fetch dst q skip n = Ok (take n (drop skip (q_data q)) @ drop n dst)"
proof -
  have "length (q_data q) + unat (front_node q) \<le> length (q_buf q)"
    using assms(1) by (auto simp: q_data_def wf_queue_def)
  moreover have "skip \<le> length (q_data q)" using assms(2) by simp
  note queue_from [OF assms(1) this]
  ultimately show ?thesis
    using assms(2,3) by (simp add: fetch_def mem_read_def mem_write_def)
qed

lemma fetch_overflow:
  assumes "length dst < n"
  shows "fetch dst q skip n = Undef"
  using assms by (cases "mem_read (q_buf q) (unat (front_node q) + skip) n")
    (auto simp: fetch_def mem_write_def mem_read_def split: if_splits)

lemma rear_push_take:
  "unat n \<le> length d \<Longrightarrow> util_queue_rear_push d n q = util_queue_rear_push (take (unat n) d) n q"
  by (simp add: util_queue_rear_push_def mem_read_def)

lemma queue_rooms:
  assumes "wf_queue q"
  shows "front_room q + length (q_data q) + rear_room q = 1023"
  using assms length_q_data [OF assms]
  by (auto simp: wf_queue_def front_room_def rear_room_def DEQUE_MAX_SIZE_def)

section \<open>Transport encryption\<close>

definition pad80 :: "nat \<Rightarrow> bytes" where
  "pad80 m = (if m mod 16 = 0 then [] else 0x80 # replicate (15 - m mod 16) 0)"

lemma length_pad80: "(m + length (pad80 m)) mod 16 = 0" "length (pad80 m) \<le> 15"
proof -
  have "(m + (16 - r)) mod 16 = 0" if "m mod 16 = r" "r < 16" for r
  proof -
    have "m + (16 - r) = 16 * (m div 16) + 16" using that div_mult_mod_eq [of m 16] by simp
    then show ?thesis by simp
  qed
  note m = this [OF refl]
  have "length (pad80 m) = (if m mod 16 = 0 then 0 else 16 - m mod 16)"
    using mod_less_divisor [of 16 m] by (auto simp: pad80_def)
  then show "(m + length (pad80 m)) mod 16 = 0" "length (pad80 m) \<le> 15"
    using m by auto
qed

lemma mod16_next:
  fixes m :: nat
  shows "(m + 1) mod 16 = 0 \<Longrightarrow> m mod 16 = 15"
    "(m + 1) mod 16 \<noteq> 0 \<Longrightarrow> 16 - (m + 1) mod 16 = 15 - m mod 16"
  using mod_Suc [of m 16] by (auto split: if_splits)

lemma pad_80_queue:
  assumes "wf_queue q" "off \<le> length (q_data q)" "16 \<le> rear_room q"
  obtains q' where "pad_80 (of_nat off) q = Ok q'" "wf_queue q'"
    "q_data q' = q_data q @ pad80 (length (q_data q) - off)"
    "rear_room q \<le> rear_room q' + 15" "front_room q' = front_room q"
proof -
  let ?m = "length (q_data q) - off"
  have small: "?m < 1024" using wf_queue_bounds(1) [OF assms(1)] by simp
  have w: "(of_nat k :: u32) mod 16 = of_nat (k mod 16)" if "k < 2048" for k
    using that by (intro word_unat_eq_iff [THEN iffD2]) (simp add: unat_mod unat_of_nat_u32)
  have z: "(of_nat k :: u32) mod 16 = 0 \<longleftrightarrow> k mod 16 = 0" if "k < 2048" for k
    using that by (simp add: w word_unat_eq_iff unat_of_nat_u32)
  note len = queue_len_sub [OF assms(1,2)]
  show thesis
  proof (cases "?m mod 16 = 0")
    case True
    then show thesis
      using that [of q] assms(1) z [of ?m] small by (simp add: pad_80_def len pad80_def)
  next
    case False
    obtain q1 where q1: "util_queue_rear_push (0x80 # replicate 15 0) (of_nat 1) q = Ok q1" "wf_queue q1"
        "q_data q1 = q_data q @ [0x80]" "rear_room q1 = rear_room q - 1" "front_room q1 = front_room q"
      using rear_push_tail [OF assms(1), of 1 "0x80 # replicate 15 0"] assms(3) by auto
    have push: "util_queue_rear_push (0x80 # replicate 15 0) 1 q = Ok q1" using q1(1) by simp
    have nz: "(of_nat ?m :: u32) mod 16 \<noteq> 0" using False z [of ?m] small by (simp del: of_nat_diff)
    have off1: "off \<le> length (q_data q1)" "length (q_data q1) - off = ?m + 1"
      using assms(2) q1(3) by simp_all
    note len1 = queue_len_sub [OF q1(2) off1(1), unfolded off1(2)]
    show thesis
    proof (cases "(?m + 1) mod 16 = 0")
      case True
      then have "?m mod 16 = 15" by (rule mod16_next)
      then have "pad80 ?m = [0x80]" by (simp add: pad80_def)
      moreover have "pad_80 (of_nat off) q = Ok q1"
        using push nz z [of "?m + 1"] True small unfolding pad_80_def len by (simp add: len1 del: of_nat_add of_nat_Suc of_nat_diff)
      ultimately show thesis using that [of q1] q1 by simp
    next
      case F2: False
      let ?k = "16 - (?m + 1) mod 16"
      have k: "?k = 15 - ?m mod 16" using F2 by (rule mod16_next)
      then have k15: "?k \<le> 15" by simp
      have kw: "16 - (of_nat (?m + 1) :: u32) mod 16 = of_nat ?k"
        using small by (simp add: w of_nat_diff del: of_nat_add of_nat_Suc)
      obtain q2 where q2: "util_queue_rear_push (replicate 16 0) (of_nat ?k) q1 = Ok q2" "wf_queue q2"
          "q_data q2 = q_data q1 @ take ?k (replicate 16 0)" "rear_room q2 = rear_room q1 - ?k"
          "front_room q2 = front_room q1"
      proof (rule rear_push_tail [OF q1(2), of ?k "replicate 16 0"])
        show "?k \<le> length (replicate 16 (0 :: u8))" using k15 unfolding length_replicate by linarith
        show "?k \<le> rear_room q1" using assms(3) q1(4) k15 by linarith
        show "?k < 1024" using k15 by linarith
      qed (rule that)
      have t: "take ?k (replicate 16 0) = (replicate (15 - ?m mod 16) 0 :: bytes)" using k by simp
      have "q_data q2 = q_data q @ pad80 ?m"
        unfolding q2(3) q1(3) pad80_def t using False by (simp only: if_False append_assoc append_Cons append_Nil)
      moreover have "rear_room q \<le> rear_room q2 + 15"
      proof -
        have "?k \<le> 14" unfolding k using False by linarith
        then show ?thesis using q2(4) q1(4) by linarith
      qed
      moreover have "pad_80 (of_nat off) q = Ok q2"
        using push q2(1) nz F2 z [of "?m + 1"] small
        unfolding pad_80_def len len1
        by (simp only: kw [symmetric] res_bind.simps if_True not_False_eq_True) (simp add: len1 del: of_nat_add of_nat_Suc of_nat_diff)
      moreover have "front_room q2 = front_room q" using q1(5) q2(5) by simp
      ultimately show thesis
        using that [of q2] q2(2) by blast
    qed
  qed
qed

lemma sm4_crypt_ecb_append:
  assumes "length d = 16 * n"
  shows "sm4_crypt_ecb ctx m (int (16 * n)) (d @ ys) = sm4_crypt_ecb ctx m (int (16 * n)) d"
  using assms
proof (induction n arbitrary: d)
  case (Suc n)
  have "sm4_crypt_ecb ctx m (int (16 * n)) (drop 16 d @ ys) = sm4_crypt_ecb ctx m (int (16 * n)) (drop 16 d)"
    using Suc.prems by (intro Suc.IH) simp
  moreover have "int (16 * Suc n) - 16 = int (16 * n)" by simp
  ultimately show ?case
    using Suc.prems by (subst (1 2) sm4_crypt_ecb.simps) (simp add: mem_read_Ok)
qed (simp add: sm4_crypt_ecb.simps)

lemma sint_of_nat_u32: "k < 2147483648 \<Longrightarrow> sint (of_nat k :: u32) = int k"
  by (simp add: signed_of_nat signed_take_bit_int_eq_self)

lemma crypt_in_place_queue:
  assumes "wf_queue q" "off + 16 * n = length (q_data q)"
    and "sm4_crypt_ecb ctx mode (int (16 * n)) (drop off (q_data q)) = Ok e" "length e = 16 * n"
  obtains q' where "crypt_in_place ctx mode (of_nat off) q = Ok q'" "wf_queue q'"
    "q_data q' = take off (q_data q) @ e" "rear_room q' = rear_room q" "front_room q' = front_room q"
proof -
  have off: "off \<le> length (q_data q)" using assms(2) by simp
  have n: "length (q_data q) - off = 16 * n" using assms(2) by simp
  have small: "16 * n < 1024" using wf_queue_bounds(1) [OF assms(1)] assms(2) by simp
  have len: "sint (ucast (q_buf_len q) - of_nat off :: u32) = int (16 * n)"
    unfolding queue_len_sub [OF assms(1) off] n
    using small by (intro sint_of_nat_u32) simp
  have "length (q_data q) + unat (front_node q) \<le> length (q_buf q)"
    using assms(1) by (auto simp: q_data_def wf_queue_def)
  then obtain b where b: "mem_write (q_buf q) (unat (front_node q) + off) e = Ok b"
    using assms(2,4) by (simp add: mem_write_def)
  have ecb: "sm4_crypt_ecb ctx mode (int (16 * n)) (drop (unat (front_node q) + off) (q_buf q)) = Ok e"
    unfolding queue_from [OF assms(1) off]
    using sm4_crypt_ecb_append [of "drop off (q_data q)" n] assms(3) n by simp
  have "off + length e = length (q_data q)" using assms(2,4) by simp
  note over = queue_overwrite [OF assms(1) this b]
  show thesis
    by (rule that [OF _ over(1,2,4,3)])
      (simp add: crypt_in_place_def queue_at [OF assms(1) off] len ecb b del: of_nat_mult)
qed

end
