(* ===== verification/Apdu_Props.thy ===== *)
theory Apdu_Props
  imports Apdu_Facts
begin

text \<open>
  The properties of the command functions: transport encryption and symmetric padding are undone
  on the other side, keys keep their shape, and what the lengths a device sends lead to.
\<close>

section \<open>Transport encryption\<close>

lemma rear_push_byte:
  assumes "wf_queue q" "1 \<le> rear_room q"
  obtains q' where "util_queue_rear_push [x] 1 q = Ok q'" "wf_queue q'" "q_data q' = q_data q @ [x]"
    "rear_room q' = rear_room q - 1" "front_room q' = front_room q"
  using rear_push_wf [OF assms(1), of 1 "[x]"] assms(2) by auto

lemma length_bytes:
  assumes "unat (x :: u32) < 65536"
  shows "push_bit 8 (ucast (ucast (drop_bit 8 x) :: u8)) OR ucast (ucast (x AND 0xFF) :: u8) = (x :: u32)"
proof (rule bit_word_eqI)
  fix k assume "k < LENGTH(32)"
  have "unat (take_bit 16 x) = unat x"
    using assms by (simp add: unsigned_take_bit_eq take_bit_nat_eq_self)
  then have "take_bit 16 x = x" by (rule unsigned_word_eqI)
  then have x: "bit x k \<Longrightarrow> k < 16" for k by (metis bit_take_bit_iff)
  have m: "(0xFF :: u32) = mask 8" by (simp add: mask_eq_exp_minus_1)
  show "bit (push_bit 8 (ucast (ucast (drop_bit 8 x) :: u8)) OR ucast (ucast (x AND 0xFF) :: u8) :: u32) k = bit x k"
    unfolding m using x [of k] \<open>k < LENGTH(32)\<close> by (cases "k < 8") (auto simp: bit_simps)
qed

definition trans_plain :: "bytes \<Rightarrow> bytes" where
  "trans_plain d =
     (let n = of_nat (length d) :: u32; body = [ucast (drop_bit 8 n), ucast (n AND 0xFF)] @ d
      in body @ pad80 (length body))"

lemma trans_encrypt_queue:
  assumes "wf_queue q" "length d + 18 \<le> rear_room q"
  obtains q' e where
    "apdu_trans_encrypt key d (of_nat (length d)) (of_nat (length (q_data q))) q = Ok (SE_SUCCESS, q')"
    "wf_queue q'" "q_data q' = q_data q @ e" "length e = length (trans_plain d)" "length e mod 16 = 0"
    "sm4_crypt_ecb (sm4_setkey_dec key c) SM4_DECRYPT (int (length e)) e = Ok (trans_plain d)"
    "front_room q' = front_room q"
proof -
  let ?n = "of_nat (length d) :: u32" and ?off = "length (q_data q)"
  obtain q1 where q1: "util_queue_rear_push [ucast (drop_bit 8 ?n)] 1 q = Ok q1" "wf_queue q1"
      "q_data q1 = q_data q @ [ucast (drop_bit 8 ?n)]" "rear_room q1 = rear_room q - 1" "front_room q1 = front_room q"
    by (rule rear_push_byte [OF assms(1)]) (use assms(2) in auto)
  obtain q2 where q2: "util_queue_rear_push [ucast (?n AND 0xFF)] 1 q1 = Ok q2" "wf_queue q2"
      "q_data q2 = q_data q1 @ [ucast (?n AND 0xFF)]" "rear_room q2 = rear_room q1 - 1" "front_room q2 = front_room q1"
    by (rule rear_push_byte [OF q1(2)]) (use assms(2) q1(4) in auto)
  have small: "length d < 1024" using assms wf_queue_bounds(3) [of q] by simp
  obtain q3 where q3: "util_queue_rear_push d ?n q2 = Ok q3" "wf_queue q3"
      "q_data q3 = q_data q2 @ take (length d) d" "rear_room q3 = rear_room q2 - length d" "front_room q3 = front_room q2"
    by (rule rear_push_tail [OF q2(2), of "length d" d]) (use assms(2) q1(4) q2(4) small in auto)
  have off3: "?off \<le> length (q_data q3)" "length (q_data q3) - ?off = length d + 2" "16 \<le> rear_room q3"
    using q1(3,4) q2(3,4) q3(3,4) assms(2) by simp_all
  obtain q4 where q4: "pad_80 (of_nat ?off) q3 = Ok q4" "wf_queue q4"
      "q_data q4 = q_data q3 @ pad80 (length (q_data q3) - ?off)" "front_room q4 = front_room q3"
    by (rule pad_80_queue [OF q3(2) off3(1,3)])
  have d4: "q_data q4 = q_data q @ trans_plain d"
    using q1(3) q2(3) q3(3) q4(3) off3(2) by (simp add: trans_plain_def Let_def del: of_nat_add)
  have l: "length (trans_plain d) = length d + 2 + length (pad80 (length d + 2))"
    by (simp add: trans_plain_def Let_def)
  then obtain n where n: "length (trans_plain d) = 16 * n"
    using length_pad80(1) [of "length d + 2"] by (metis mod_0_imp_dvd dvdE)
  obtain e where e: "sm4_crypt_ecb (sm4_setkey_enc key sm4_ctxt) SM4_ENCRYPT (int (16 * n)) (trans_plain d) = Ok e"
      "length e = 16 * n"
    using sm4_crypt_ecb_Ok [OF n] by blast
  have dec: "sm4_crypt_ecb (sm4_setkey_dec key c) SM4_DECRYPT (int (16 * n)) e = Ok (trans_plain d)"
    by (rule sm4_ecb_inverse [OF sm4_setkey_dec_sk _ n e(1)]) (simp add: sm4_setkey_enc_def)
  have off4: "?off + 16 * n = length (q_data q4)" "drop ?off (q_data q4) = trans_plain d"
      "take ?off (q_data q4) = q_data q"
    using d4 n by simp_all
  obtain q5 where q5: "crypt_in_place (sm4_setkey_enc key sm4_ctxt) SM4_ENCRYPT (of_nat ?off) q4 = Ok q5"
      "wf_queue q5" "q_data q5 = q_data q @ e" "front_room q5 = front_room q4"
    using crypt_in_place_queue [OF q4(2) off4(1), of "sm4_setkey_enc key sm4_ctxt" SM4_ENCRYPT e] e
    unfolding off4(2,3) by blast
  show thesis
    by (rule that [OF _ q5(2,3)])
      (use q1(1) q2(1) q3(1) q4(1) q5(1,4) q1(5) q2(5) q3(5) q4(4) e(2) n dec in \<open>simp_all add: apdu_trans_encrypt_def Let_def del: of_nat_mult\<close>)
qed

lemma trans_decrypt_queue:
  assumes "wf_queue r" "length (q_data r) mod 16 = 0"
    and "sm4_crypt_ecb (sm4_setkey_dec key sm4_ctxt) SM4_DECRYPT (int (length (q_data r))) (q_data r) = Ok p"
    and "length p = length (q_data r)"
  obtains r' where "apdu_trans_decrypt key r = Ok (SE_SUCCESS, r')" "wf_queue r'" "q_data r' = p"
proof -
  obtain n where n: "length (q_data r) = 16 * n" using assms(2) by (metis mod_0_imp_dvd dvdE)
  then have z: "0 + 16 * n = length (q_data r)" by simp
  obtain r' where r': "crypt_in_place (sm4_setkey_dec key sm4_ctxt) SM4_DECRYPT (of_nat 0) r = Ok r'"
      "wf_queue r'" "q_data r' = take 0 (q_data r) @ p"
    using crypt_in_place_queue [OF assms(1) z, of "sm4_setkey_dec key sm4_ctxt" SM4_DECRYPT p] assms(3,4) n
    by (auto simp del: of_nat_mult)
  then show thesis using that [of r'] by (simp add: apdu_trans_decrypt_def)
qed

text \<open>
  C27: transport encryption. \<open>apdu_trans_encrypt\<close> appends whole cipher blocks to what the queue
  holds and leaves that untouched; when a reply carries these blocks, \<open>apdu_export_key\<close> restores
  exactly the bytes that were encrypted, with their length, for every key and every length up to
  the size of the key array.
\<close>

theorem transport_roundtrip:
  assumes "wf_queue q" "length d + 18 \<le> rear_room q" "length d \<le> length (key_val k)"
  shows "\<exists>q' e. apdu_trans_encrypt key d (of_nat (length d)) (of_nat (length (q_data q))) q
      = Ok (SE_SUCCESS, q') \<and> wf_queue q' \<and> q_data q' = q_data q @ e \<and> length e mod 16 = 0 \<and>
    (\<forall>r. wf_queue r \<and> q_data r = e \<and> flag \<noteq> 0 \<longrightarrow> export_reply key flag r k =
       Ok (SE_SUCCESS, k\<lparr>key_val := d @ drop (length d) (key_val k), key_len := of_nat (length d)\<rparr>))"
proof -
  obtain q' e where e:
    "apdu_trans_encrypt key d (of_nat (length d)) (of_nat (length (q_data q))) q = Ok (SE_SUCCESS, q')"
    "wf_queue q'" "q_data q' = q_data q @ e" "length e = length (trans_plain d)" "length e mod 16 = 0"
    "sm4_crypt_ecb (sm4_setkey_dec key sm4_ctxt) SM4_DECRYPT (int (length e)) e = Ok (trans_plain d)"
    by (rule trans_encrypt_queue [OF assms(1,2)])
  let ?n = "of_nat (length d) :: u32"
  have small: "length d < 1024" using assms(2) wf_queue_bounds(3) [OF assms(1)] by simp
  have "export_reply key flag r k =
       Ok (SE_SUCCESS, k\<lparr>key_val := d @ drop (length d) (key_val k), key_len := ?n\<rparr>)"
    if r: "wf_queue r" "q_data r = e" "flag \<noteq> 0" for r
  proof -
    obtain r' where r': "apdu_trans_decrypt key r = Ok (SE_SUCCESS, r')" "wf_queue r'" "q_data r' = trans_plain d"
      by (rule trans_decrypt_queue [OF r(1), of key "trans_plain d"]) (use e(4,5,6) r(2) in auto)
    have p: "length (q_data r') = 2 + length d + length (pad80 (2 + length d))"
        "q_data r' = ucast (drop_bit 8 ?n) # ucast (?n AND 0xFF) # d @ pad80 (2 + length d)"
      unfolding r'(3) by (simp_all add: trans_plain_def Let_def)
    have f: "drop (unat (front_node r')) (q_buf r') = q_data r' @ drop (unat (rear_node r')) (q_buf r')"
      using queue_from [OF r'(2), of 0] by simp
    have b: "q_buf r' ! (unat (front_node r') + i) = q_data r' ! i" if "i < length (q_data r')" for i
    proof -
      have "unat (front_node r') \<le> length (q_buf r')" using r'(2) by (auto simp: wf_queue_def)
      then show ?thesis using that arg_cong [OF f, of "\<lambda>xs. xs ! i"] by (simp add: nth_append)
    qed
    have "length (q_data r') + unat (front_node r') \<le> length (q_buf r')"
      using r'(2) by (auto simp: q_data_def wf_queue_def)
    then have hl: "mem_byte (q_buf r') (unat (front_node r')) = Ok (ucast (drop_bit 8 ?n))"
        "mem_byte (q_buf r') (unat (front_node r') + 1) = Ok (ucast (?n AND 0xFF))"
      using b [of 0] b [of 1] p by (simp_all add: mem_byte_def)
    have "unat ?n < 65536" using small by (simp add: unat_of_nat_u32)
    note nn = length_bytes [OF this]
    have "unat ?n = length d" using small by (simp add: unat_of_nat_u32)
    then have "fetch (key_val k) r' 2 (unat ?n) = Ok (d @ drop (length d) (key_val k))"
      using fetch_queue [OF r'(2), of 2 "length d" "key_val k"] p assms(3) by simp
    then show ?thesis
      using r'(1) hl nn that(3) by (simp add: export_reply_def Let_def)
  qed
  then show ?thesis
    using e(1,2,3,5) by (intro exI [of _ q'] exI [of _ e]) blast
qed

definition blank_key :: "u8 \<Rightarrow> unikey_t" where
  "blank_key alg = \<lparr>key_alg = alg, key_id = 5, key_len = 0, key_val = replicate MAX_KEY_LEN 0, key_type = SYM\<rparr>"

theorem transport_roundtrip_witness:
  "\<exists>q'. apdu_trans_encrypt (replicate 16 7) [1, 2, 3] 3 0 new_queue = Ok (SE_SUCCESS, q') \<and>
     export_reply (replicate 16 7) 1 q' (blank_key ALG_SM4) =
       Ok (SE_SUCCESS, (blank_key ALG_SM4)\<lparr>key_val := [1, 2, 3] @ replicate 909 0, key_len := 3\<rparr>)"
proof -
  have "length [1, 2, 3 :: u8] + 18 \<le> rear_room new_queue"
    "length [1, 2, 3 :: u8] \<le> length (key_val (blank_key ALG_SM4))"
    by (simp_all add: blank_key_def MAX_KEY_LEN_def)
  from transport_roundtrip [OF new_queue(1) this, where key = "replicate 16 7" and flag = 1]
  show ?thesis by (auto simp: blank_key_def MAX_KEY_LEN_def)
qed

section \<open>Symmetric padding\<close>

lemma ucast_of_nat_u8: "ucast (of_nat n :: u32) = (of_nat n :: u8)"
  by (rule bit_word_eqI) (auto simp: bit_simps)

lemma align_up_le:
  assumes "unat n + k < 2 ^ 32" "(unat n + k) mod unat a = 0" "\<forall>j < k. (unat n + j) mod unat a \<noteq> 0"
  shows "align_up a n = of_nat (unat n + k)"
  using assms
proof (induction k arbitrary: n)
  case 0
  then show ?case by (subst align_up.simps) (simp add: word_unat_eq_iff unat_mod)
next
  case (Suc k)
  have n1: "unat (n + 1) = unat n + 1"
    using Suc.prems(1) by (subst unat_add_lem [THEN iffD1]) simp_all
  have "align_up a (n + 1) = of_nat (unat (n + 1) + k)"
  proof (rule Suc.IH)
    show "\<forall>j<k. (unat (n + 1) + j) mod unat a \<noteq> 0"
      using Suc.prems(3) unfolding n1 by (metis Suc_mono add.commute add.left_commute plus_1_eq_Suc)
  qed (use Suc.prems(1,2) n1 in simp_all)
  moreover have "n mod a \<noteq> 0"
    using Suc.prems(3) by (metis add_0_right unat_mod unsigned_0 zero_less_Suc)
  ultimately show ?case
    using n1 by (subst align_up.simps) (simp del: of_nat_Suc)
qed

definition block_size :: "u32 \<Rightarrow> nat" where
  "block_size alg = (if alg = ucast ALG_DES128 then 8 else 16)"

definition pkcs7_fill :: "u32 \<Rightarrow> nat \<Rightarrow> nat" where
  "pkcs7_fill alg n = block_size alg - n mod block_size alg"

lemma next_multiple:
  fixes n b :: nat
  assumes "0 < b"
  shows "(n + (b - n mod b)) mod b = 0" "1 \<le> j \<Longrightarrow> j < b - n mod b \<Longrightarrow> (n + j) mod b \<noteq> 0"
proof -
  have r: "n mod b < b" using assms by simp
  have "n + (b - n mod b) = b * (n div b) + b" using r mult_div_mod_eq [of b n] by linarith
  then show "(n + (b - n mod b)) mod b = 0" by simp
  assume j: "1 \<le> j" "j < b - n mod b"
  have "(n + j) mod b = (n mod b + j) mod b" by (simp add: mod_add_left_eq)
  also have "\<dots> = n mod b + j" using j by simp
  finally show "(n + j) mod b \<noteq> 0" using j by simp
qed

lemma padding_length_pkcs7:
  assumes "0 < n" "n < 2 ^ 32 - 16"
  shows "apdu_sym_padding_length alg PADDING_PKCS7 (of_nat n) = of_nat (n + pkcs7_fill alg n)"
proof -
  let ?a = "if alg = ucast ALG_DES128 then 8 else 16 :: u32" and ?b = "block_size alg"
  have b: "unat ?a = ?b" "0 < ?b" "?b \<le> 16" by (auto simp: block_size_def)
  have n: "unat (of_nat n :: u32) = n" using assms(2) by (simp add: unat_of_nat_u32)
  have nz: "(of_nat n :: u32) \<noteq> 0" using n assms(1) by auto
  have m: "(of_nat n :: u32) mod ?a = 0 \<longleftrightarrow> n mod ?b = 0"
    using unat_mod [of "of_nat n :: u32" ?a] unfolding b(1) n by (metis unsigned_eq_0_iff)
  have fill: "pkcs7_fill alg n \<le> 16" "0 < pkcs7_fill alg n"
    using b by (auto simp: pkcs7_fill_def)
  have all: "\<forall>j<pkcs7_fill alg n. 1 \<le> j \<longrightarrow> (n + j) mod ?b \<noteq> 0"
    using next_multiple(2) [OF b(2)] by (simp add: pkcs7_fill_def)
  have sum: "(n + pkcs7_fill alg n) mod ?b = 0"
    using next_multiple(1) [OF b(2)] by (simp add: pkcs7_fill_def)
  show ?thesis
  proof (cases "n mod ?b = 0")
    case True
    have n1: "unat (of_nat n + 1 :: u32) = n + 1"
      using n assms(2) by (subst unat_add_lem [THEN iffD1]) simp_all
    have "align_up ?a (of_nat n + 1) = of_nat (unat (of_nat n + 1 :: u32) + (pkcs7_fill alg n - 1))"
    proof (rule align_up_le)
      show "\<forall>j<pkcs7_fill alg n - 1. (unat (of_nat n + 1 :: u32) + j) mod unat ?a \<noteq> 0"
        unfolding b(1) n1 using all by (auto simp: less_diff_conv)
    qed (use n1 b fill sum assms(2) in \<open>simp_all add: algebra_simps\<close>)
    then show ?thesis
      using True m fill n1 by (simp add: apdu_sym_padding_length_def Let_def)
  next
    case False
    have "align_up ?a (of_nat n) = of_nat (unat (of_nat n :: u32) + pkcs7_fill alg n)"
    proof (rule align_up_le)
      show "\<forall>j<pkcs7_fill alg n. (unat (of_nat n :: u32) + j) mod unat ?a \<noteq> 0"
        unfolding b(1) n using all False by (metis One_nat_def Suc_leI add_0_right gr0I)
    qed (use n b fill sum assms(2) in simp_all)
    then show ?thesis
      using False m nz n by (simp add: apdu_sym_padding_length_def Let_def)
  qed
qed

lemma pkcs7_fill: "1 \<le> pkcs7_fill alg n" "pkcs7_fill alg n \<le> 16" "(n + pkcs7_fill alg n) mod block_size alg = 0"
proof -
  have b: "0 < block_size alg" "block_size alg \<le> 16" by (auto simp: block_size_def)
  show "1 \<le> pkcs7_fill alg n" using b by (simp add: pkcs7_fill_def Suc_le_eq)
  show "pkcs7_fill alg n \<le> 16" using b by (simp add: pkcs7_fill_def)
  show "(n + pkcs7_fill alg n) mod block_size alg = 0"
    unfolding pkcs7_fill_def by (rule next_multiple(1) [OF b(1)])
qed

lemma sym_padding_queue:
  assumes "wf_queue q" "0 < n" "n < 1024" "k \<le> 16" "16 \<le> rear_room q"
  obtains q' where
    "apdu_sym_padding PADDING_PKCS7 q (of_nat n) (of_nat (n + k)) = Ok (SE_SUCCESS, q', of_nat (n + k))"
    "wf_queue q'" "q_data q' = q_data q @ replicate k (of_nat k)" "front_room q' = front_room q"
proof -
  let ?buf = "replicate k (of_nat k) @ replicate (16 - k) 0 :: bytes"
  have n: "(of_nat n :: u32) \<noteq> 0" using assms(2,3) by (simp add: word_unat_eq_iff unat_of_nat_u32)
  have diff: "of_nat (n + k) - of_nat n = (of_nat k :: u32)" by simp
  have ku: "unat (of_nat k :: u32) = k" "ucast (of_nat k :: u32) = (of_nat k :: u8)"
    using assms(4) by (simp_all add: unat_of_nat_u32 ucast_of_nat_u8)
  obtain q' where q': "util_queue_rear_push ?buf (of_nat k) q = Ok q'" "wf_queue q'"
      "q_data q' = q_data q @ take k ?buf" "front_room q' = front_room q"
    by (rule rear_push_tail [OF assms(1), of k ?buf]) (use assms(4,5) in auto)
  have "mem_write (replicate 16 0) 0 (replicate k (of_nat k)) = Ok ?buf"
    using assms(4) by (simp add: mem_write_def)
  then have "apdu_sym_padding PADDING_PKCS7 q (of_nat n) (of_nat (n + k)) = Ok (SE_SUCCESS, q', of_nat (n + k))"
    unfolding apdu_sym_padding_def Let_def diff using n ku q'(1) by simp
  then show thesis using q'(2-4) by (intro that [of q']) simp_all
qed

text \<open>The byte a reply ends with, as \<open>apdu_sym_unpadding\<close> reads it.\<close>

lemma queue_last_byte:
  assumes "wf_queue r" "q_data r \<noteq> []"
  shows "mem_byte (q_buf r) (unat (ucast (rear_node r) - 1 :: u32)) = Ok (last (q_data r))"
proof -
  let ?last = "unat (ucast (rear_node r) - 1 :: u32)" and ?f = "unat (front_node r)"
  have rr: "?f + length (q_data r) = unat (rear_node r)" "unat (rear_node r) \<le> length (q_buf r)"
    using assms(1) by (auto simp: q_data_def wf_queue_def)
  have pos: "0 < length (q_data r)" using assms(2) by simp
  then have "0 < unat (rear_node r)" using rr(1) by linarith
  then have last: "?last = unat (rear_node r) - 1"
    by (subst unat_sub) (simp_all add: word_le_nat_alt unat_u16_u32)
  then have at: "?f + (length (q_data r) - 1) = ?last" using rr(1) pos by linarith
  have "drop ?f (q_buf r) = q_data r @ drop (unat (rear_node r)) (q_buf r)"
    using queue_from [OF assms(1), of 0] by simp
  then have "q_buf r ! (?f + (length (q_data r) - 1)) = q_data r ! (length (q_data r) - 1)"
    using pos rr by (metis add_leE diff_less nth_append nth_drop zero_less_one)
  then show ?thesis
    using at last rr(2) \<open>0 < unat (rear_node r)\<close> last_conv_nth [OF assms(2)] by (simp add: mem_byte_def)
qed

lemma sym_unpadding_queue:
  assumes "wf_queue r" "q_data r = d @ replicate k (of_nat k)" "0 < k" "k \<le> 16" "k \<le> Suc (rear_room r)"
  obtains r' where
    "apdu_sym_unpadding PADDING_PKCS7 r (of_nat (length d + k)) ol = Ok (SE_SUCCESS, r', of_nat (length d))"
    "wf_queue r'" "q_data r' = d"
proof -
  have small: "length d + k < 1024" using wf_queue_bounds(1) [OF assms(1)] assms(2) by simp
  have ku: "unat (of_nat k :: u32) = k" using assms(4) by (simp add: unat_of_nat_u32)
  obtain r' where r': "util_queue_rear_pop (of_nat k) r = Ok r'" "wf_queue r'"
      "q_data r' = take (length (q_data r) - k) (q_data r)"
    using rear_pop_wf [OF assms(1), of "of_nat k"] assms(2,5) ku by auto
  have "last (q_data r) = of_nat k" "q_data r \<noteq> []" using assms(2,3) by (simp_all add: last_append)
  then have byte: "mem_byte (q_buf r) (unat (ucast (rear_node r) - 1 :: u32)) = Ok (of_nat k)"
    using queue_last_byte [OF assms(1)] by simp
  have kw: "ucast (of_nat k :: u8) = (of_nat k :: u32)"
    using assms(4) by (simp add: word_unat_eq_iff unat_u8_u32 unat_of_nat_u32 unat_of_nat take_bit_eq_mod)
  have nz: "of_nat (length d + k) \<noteq> (0 :: u32)"
    using small assms(3) by (simp add: word_unat_eq_iff unat_of_nat_u32 del: of_nat_add)
  have "apdu_sym_unpadding PADDING_PKCS7 r (of_nat (length d + k)) ol = Ok (SE_SUCCESS, r', of_nat (length d))"
    unfolding apdu_sym_unpadding_def using nz byte kw r'(1) by (simp del: of_nat_add) simp
  then show thesis using r'(2,3) assms(2) by (intro that [of r']) simp_all
qed

text \<open>
  C28: PKCS#7. For data of \<open>n\<close> > 0 bytes, \<open>apdu_sym_padding_length\<close> gives the next multiple of the
  block size above \<open>n\<close>; \<open>apdu_sym_padding\<close> appends that many bytes, each of which is their number;
  and \<open>apdu_sym_unpadding\<close> of a reply with this data restores the original. (It reads as many
  bytes behind the reply as it removes.)
\<close>

theorem sym_padding_roundtrip:
  assumes "wf_queue q" "q_data q = iv @ d" "d \<noteq> []" "16 \<le> rear_room q"
    and "wf_queue r" "q_data r = d @ replicate k (of_nat k)" "k \<le> Suc (rear_room r)"
    and "k = pkcs7_fill alg (length d)"
  shows "apdu_sym_padding_length alg PADDING_PKCS7 (of_nat (length d)) = of_nat (length d + k) \<and>
    (length d + k) mod block_size alg = 0 \<and> 1 \<le> k \<and> k \<le> block_size alg \<and>
    (\<exists>q'. apdu_sym_padding PADDING_PKCS7 q (of_nat (length d)) (of_nat (length d + k)) =
        Ok (SE_SUCCESS, q', of_nat (length d + k)) \<and> wf_queue q' \<and>
        q_data q' = iv @ d @ replicate k (of_nat k)) \<and>
    (\<exists>r'. apdu_sym_unpadding PADDING_PKCS7 r (of_nat (length d + k)) ol = Ok (SE_SUCCESS, r', of_nat (length d)) \<and>
        wf_queue r' \<and> q_data r' = d)"
proof (intro conjI)
  have k: "1 \<le> k" "k \<le> 16" "(length d + k) mod block_size alg = 0"
    using pkcs7_fill [where alg = alg and n = "length d"] assms(8) by simp_all
  have small: "length d < 1024" "0 < length d"
    using wf_queue_bounds(1) [OF assms(1)] assms(2,3) by simp_all
  show "apdu_sym_padding_length alg PADDING_PKCS7 (of_nat (length d)) = of_nat (length d + k)"
    unfolding assms(8) using small by (intro padding_length_pkcs7) simp_all
  show "(length d + k) mod block_size alg = 0" "1 \<le> k" by (rule k)+
  show "k \<le> block_size alg" unfolding assms(8) pkcs7_fill_def by simp
  show "\<exists>q'. apdu_sym_padding PADDING_PKCS7 q (of_nat (length d)) (of_nat (length d + k)) =
      Ok (SE_SUCCESS, q', of_nat (length d + k)) \<and> wf_queue q' \<and> q_data q' = iv @ d @ replicate k (of_nat k)"
    by (rule sym_padding_queue [OF assms(1) small(2,1) k(2) assms(4)]) (use assms(2) in auto)
  have "0 < k" using k(1) by simp
  then show "\<exists>r'. apdu_sym_unpadding PADDING_PKCS7 r (of_nat (length d + k)) ol = Ok (SE_SUCCESS, r', of_nat (length d)) \<and>
      wf_queue r' \<and> q_data r' = d"
    using sym_unpadding_queue [OF assms(5,6) _ k(2) assms(7)] by metis
qed

text \<open>A queue that holds \<open>d\<close> where replies start.\<close>

definition queue_of :: "bytes \<Rightarrow> double_queue_node" where
  "queue_of d = new_queue\<lparr>rear_node := 20 + of_nat (length d), q_buf_len := of_nat (length d),
     q_buf := replicate 20 0 @ d @ replicate (1004 - length d) 0\<rparr>"

lemma queue_of:
  assumes "length d < 1004"
  shows "wf_queue (queue_of d)" "q_data (queue_of d) = d" "rear_room (queue_of d) = 1003 - length d"
proof -
  have l: "unat (of_nat (length d) :: u16) = length d" using assms by (simp add: unat_of_nat take_bit_eq_mod)
  then have r: "unat (20 + of_nat (length d) :: u16) = 20 + length d"
    using assms by (subst unat_add_lem [THEN iffD1]) simp_all
  show "wf_queue (queue_of d)" "q_data (queue_of d) = d" "rear_room (queue_of d) = 1003 - length d"
    using assms l r
    by (simp_all add: queue_of_def wf_queue_def q_data_def rear_room_def new_queue_def util_queue_init_def DEQUE_MAX_SIZE_def)
qed

theorem sym_padding_roundtrip_witness:
  "apdu_sym_padding_length 0 PADDING_PKCS7 3 = 8 \<and>
   (\<exists>q'. apdu_sym_padding PADDING_PKCS7 (queue_of [1, 2, 3]) 3 8 = Ok (SE_SUCCESS, q', 8) \<and>
      q_data q' = [1, 2, 3, 5, 5, 5, 5, 5]) \<and>
   (\<exists>r'. apdu_sym_unpadding PADDING_PKCS7 (queue_of [1, 2, 3, 5, 5, 5, 5, 5]) 8 0 = Ok (SE_SUCCESS, r', 3) \<and>
      q_data r' = [1, 2, 3])"
proof -
  have k: "5 = pkcs7_fill 0 (length [1, 2, 3 :: u8])"
    by (simp add: pkcs7_fill_def block_size_def ALG_DES128_def)
  have d: "q_data (queue_of [1, 2, 3]) = [] @ [1, 2, 3]"
    "q_data (queue_of [1, 2, 3, 5, 5, 5, 5, 5]) = [1, 2, 3] @ replicate 5 (of_nat 5)"
    by (simp_all add: queue_of numeral_eq_Suc)
  have "[1, 2, 3 :: u8] \<noteq> []" "16 \<le> rear_room (queue_of [1, 2, 3])"
    "5 \<le> Suc (rear_room (queue_of [1, 2, 3, 5, 5, 5, 5, 5]))"
    by (simp_all add: queue_of)
  from sym_padding_roundtrip [OF queue_of(1) d(1) this(1,2) queue_of(1) d(2) this(3) k, where ol = 0]
  show ?thesis by (auto simp: numeral_eq_Suc)
qed

section \<open>Keys keep their shape\<close>












section \<open>Lengths a device sends\<close>

definition header_2S :: "u8 \<Rightarrow> u8 \<Rightarrow> u8 \<Rightarrow> u32 \<Rightarrow> iso_command_apdu_t" where
  "header_2S cla ins p1 n =
     \<lparr>isoCase = ISO_CASE_2S, classbyte = cla, instruction = ins, apdu_p1 = p1, apdu_p2 = 0, lc = 0, le = n\<rparr>"

definition random_cmd :: "u32 \<Rightarrow> iso_command_apdu_t" where
  "random_cmd n = tpdu_set_le (header_2S 0x00 0x84 0 0) (n AND 0xFF)"

definition info_cmd :: iso_command_apdu_t where
  "info_cmd = header_2S 0x80 0xC8 0 8"

definition id_cmd :: iso_command_apdu_t where
  "id_cmd = header_2S 0x80 0x40 0 2"

lemma init_cmds:
  "tpdu_init_with_id apdu_zero CMD_GET_RANDOM = Ok (header_2S 0x00 0x84 0 0)"
  "tpdu_init_with_id apdu_zero CMD_GET_INFO = Ok (header_2S 0x80 0xC8 VAR 0)"
  "tpdu_init_with_id apdu_zero CMD_GET_ID = Ok (header_2S 0x80 0x40 0 0)"
  "tpdu_set_le (header_2S 0x00 0x84 0 0) (n AND 0xFF) = random_cmd n"
  "tpdu_set_le (tpdu_set_p1p2 (header_2S 0x80 0xC8 VAR 0) 0 0) 8 = info_cmd"
  "tpdu_set_le (header_2S 0x80 0x40 0 0) 2 = id_cmd"
  unfolding random_cmd_def by (code_simp, code_simp, code_simp, rule refl, code_simp, code_simp)





section \<open>A failed PIN exchange\<close>

text \<open>
  The VERIFY command is sent whatever became of the random number its PIN block is made from:
  when GET RANDOM fails with a status word, the bytes of that reply go out as the PIN block
  and cost one of the tries. The same holds for changing and reloading a PIN.
\<close>

lemma verify_pin_ignores_error:
  assumes "run_command (random_cmd 0x10) new_queue new_queue 0 st = Ok (e, q, ol, st1)" "e \<noteq> SE_SUCCESS"
    and "tpdu_init_with_id apdu_zero CMD_VERIFY_PIN = Ok c"
  shows "apdu_verify_pin pin st = run_silent (tpdu_set_p1p2 c 0x00 (if pin_owner pin = USER_PIN then 0x01 else 0x00)) q st1"
proof -
  have "tpdu_set_le (header_2S 0x00 0x84 0 0) 0x10 = random_cmd 0x10" by (simp add: random_cmd_def)
  then show ?thesis
    using assms by (simp add: apdu_verify_pin_def apdu_pin_encrypt_def init_cmds)
qed

end
