(* ===== verification/Api_Crypto.thy ===== *)
theory Api_Crypto
  imports Apdu_Crypto
begin

text \<open>
  The public cryptographic functions of src/sign/testSdk/src/api/crypto.c. They check the
  caller's parameters and cut the input into segments that fit one command each.

  Pointers the code compares with NULL are options; a length variable behind an output buffer is
  part of the \<open>out_ptr\<close> of the theory Comm.
\<close>

section \<open>Segments\<close>

text \<open>\<open>DBLOCK\<close> is a macro without parentheses; \<open>DBLOCK+16\<close> and \<open>DBLOCK-16\<close> still mean what they say.\<close>

definition DBLOCK :: u32 where [apdu_consts]: "DBLOCK = of_nat (DEQUE_MAX_SIZE - 20 - 4 - 24 - 16)"

definition seg_count :: "u32 \<Rightarrow> u32 \<Rightarrow> u32" where
  "seg_count block n =
     (let count = n div block + 1 in if n mod block = 0 then count - 1 else count)"

text \<open>
  The loop of all functions below but \<open>api_asym_verify\<close>. \<open>call\<close> gets \<open>in_buf+off\<close>, the length of the
  segment, \<open>off\<close>, the two flags and what the command changes.
\<close>

type_synonym 's segment_call = "bytes \<Rightarrow> u32 \<Rightarrow> u32 \<Rightarrow> cbool \<Rightarrow> cbool \<Rightarrow> 's \<Rightarrow> (se_error \<times> 's) res"

function segments ::
  "u32 \<Rightarrow> 's segment_call \<Rightarrow> bytes \<Rightarrow> u32 \<Rightarrow> u32 \<Rightarrow> u32 \<Rightarrow> cbool \<Rightarrow> 's \<Rightarrow> (se_error \<times> 's) res" where
  "segments block call in_buf count temp_len off if_first_block s =
     (if 0 < count then
        let seg_len = (if temp_len \<le> block then temp_len else block);
            if_last_block = (if count = 1 then 1 else 0)
        in res_bind (call (drop (unat off) in_buf) seg_len off if_first_block if_last_block s) (\<lambda>(ret, s1).
           if ret \<noteq> SE_SUCCESS then Ok (ret, s1)
           else segments block call in_buf (count - 1) (temp_len - seg_len) (off + seg_len) 0 s1)
      else Ok (SE_SUCCESS, s))"
  by pat_completeness auto
termination
  by (relation "measure (\<lambda>(_, _, _, count, _). unat count)") (auto simp: unat_gt_0 unat_minus_one)

declare segments.simps [simp del]

definition in_segments ::
  "u32 \<Rightarrow> 's segment_call \<Rightarrow> bytes \<Rightarrow> u32 \<Rightarrow> 's \<Rightarrow> (se_error \<times> 's) res" where
  "in_segments block call in_buf n s = segments block call in_buf (seg_count block n) n 0 1 s"

section \<open>Symmetric ciphers\<close>

definition is_sym_alg :: "u8 \<Rightarrow> bool" where
  "is_sym_alg alg \<longleftrightarrow> alg = ALG_AES128 \<or> alg = ALG_DES128 \<or> alg = ALG_SM4"

definition iv_len_of :: "u8 \<Rightarrow> u8" where
  "iv_len_of alg = (if alg = ALG_DES128 then 8 else 16)"

text \<open>Without padding the input has whole blocks.\<close>

definition blocks_ok :: "u8 \<Rightarrow> u8 \<Rightarrow> u32 \<Rightarrow> bool" where
  "blocks_ok alg padding n \<longleftrightarrow>
     (ucast padding = PADDING_NOPADDING \<longrightarrow> n mod (if alg = ALG_DES128 then 8 else 16) = 0)"

definition cipher_args_ok :: "unikey_t \<Rightarrow> alg_sym_param_t \<Rightarrow> u32 \<Rightarrow> bool" where
  "cipher_args_ok key p n \<longleftrightarrow>
     is_sym_alg (key_alg key) \<and>
     (sym_mode p = SYM_MODE_CBC \<or> sym_mode p = SYM_MODE_ECB) \<and>
     (sym_mode p = SYM_MODE_CBC \<longrightarrow> iv_len p = iv_len_of (key_alg key)) \<and>
     (ucast (sym_padding_type p) = PADDING_NOPADDING \<or> ucast (sym_padding_type p) = PADDING_PKCS7) \<and>
     blocks_ok (key_alg key) (sym_padding_type p) n"

text \<open>
  The commands of one segment. The output of a segment goes to \<open>out_buf+off\<close>; \<open>out_len\<close> is set to
  the padded length of the last segment before it is encrypted.
\<close>

definition encrypt_segment ::
  "unikey_t \<Rightarrow> alg_sym_param_t \<Rightarrow> (bytes \<times> u32 \<times> 'w comm_state) segment_call" where
  "encrypt_segment key p = (\<lambda>d seg_len off if_first_block if_last_block (out_buf, out_len, st).
     let out_len1 = (if if_last_block \<noteq> 0 \<and> ucast (sym_padding_type p) = PADDING_PKCS7
                     then apdu_sym_padding_length (ucast (key_alg key)) PADDING_PKCS7 seg_len else out_len)
     in res_bind (apdu_sym_enc_dec key p d seg_len (drop (unat off) out_buf) out_len1
                    if_first_block if_last_block 1 st) (\<lambda>(ret, b, out_len2, st1).
        Ok (ret, take (unat off) out_buf @ b, out_len2, st1)))"

definition decrypt_segment ::
  "unikey_t \<Rightarrow> alg_sym_param_t \<Rightarrow> (bytes \<times> u32 \<times> u32 \<times> 'w comm_state) segment_call" where
  "decrypt_segment key p = (\<lambda>d seg_len off if_first_block if_last_block (out_buf, out_len, padding_len, st).
     res_bind (apdu_sym_enc_dec key p d seg_len (drop (unat off) out_buf) out_len
                 if_first_block if_last_block 0 st) (\<lambda>(ret, b, out_len1, st1).
     Ok (ret, take (unat off) out_buf @ b, out_len1,
         if ret \<noteq> SE_SUCCESS then padding_len else padding_len + out_len1, st1)))"

definition api_sym_encrypt ::
  "unikey_t option \<Rightarrow> alg_sym_param_t option \<Rightarrow> bytes option \<Rightarrow> u32 \<Rightarrow> out_ptr \<Rightarrow> 'w comm_state \<Rightarrow>
     (se_error \<times> out_ptr \<times> 'w comm_state) res" where
  "api_sym_encrypt key sym_param in_buf in_buf_len out st =
     (case (key, sym_param, in_buf, out) of
        (Some k, Some p, Some d, (Some ob, Some ol)) \<Rightarrow>
          if in_buf_len = 0 \<or> \<not> cipher_args_ok k p in_buf_len then Ok (SE_ERR_PARAM_INVALID, out, st)
          else
            let padding_len = (if ucast (sym_padding_type p) = PADDING_NOPADDING then in_buf_len
                               else apdu_sym_padding_length (ucast (key_alg k)) PADDING_PKCS7 in_buf_len)
            in res_bind (in_segments DBLOCK (encrypt_segment k p) d in_buf_len (ob, 0, st))
                 (\<lambda>(ret, ob1, _, st1).
               Ok (ret, (Some ob1, Some (if ret \<noteq> SE_SUCCESS then ol else padding_len)), st1))
      | _ \<Rightarrow> Ok (SE_ERR_PARAM_INVALID, out, st))"

definition api_sym_decrypt ::
  "unikey_t option \<Rightarrow> alg_sym_param_t option \<Rightarrow> bytes option \<Rightarrow> u32 \<Rightarrow> out_ptr \<Rightarrow> 'w comm_state \<Rightarrow>
     (se_error \<times> out_ptr \<times> 'w comm_state) res" where
  "api_sym_decrypt key sym_param in_buf in_buf_len out st =
     (case (key, sym_param, in_buf, out) of
        (Some k, Some p, Some d, (Some ob, Some ol)) \<Rightarrow>
          if in_buf_len = 0 \<or> \<not> cipher_args_ok k p in_buf_len then Ok (SE_ERR_PARAM_INVALID, out, st)
          else
            res_bind (in_segments DBLOCK (decrypt_segment k p) d in_buf_len (ob, 0, 0, st))
              (\<lambda>(ret, ob1, _, padding_len, st1).
            Ok (ret, (Some ob1, Some (if ret \<noteq> SE_SUCCESS then ol else padding_len)), st1))
      | _ \<Rightarrow> Ok (SE_ERR_PARAM_INVALID, out, st))"

section \<open>Message authentication codes\<close>

definition mac_args_ok :: "unikey_t \<Rightarrow> alg_sym_param_t \<Rightarrow> u32 \<Rightarrow> bool" where
  "mac_args_ok key p n \<longleftrightarrow>
     is_sym_alg (key_alg key) \<and> iv_len p = iv_len_of (key_alg key) \<and>
     (ucast (sym_padding_type p) = PADDING_NOPADDING \<or> ucast (sym_padding_type p) = PADDING_ISO9797_M1 \<or>
      ucast (sym_padding_type p) = PADDING_ISO9797_M2) \<and>
     blocks_ok (key_alg key) (sym_padding_type p) n"

definition mac_segment ::
  "cbool \<Rightarrow> unikey_t \<Rightarrow> alg_sym_param_t \<Rightarrow> (bytes \<times> u32 \<times> 'w comm_state) segment_call" where
  "mac_segment if_mac key p = (\<lambda>d seg_len off if_first_block if_last_block (mac, mac_len, st).
     apdu_mac key p d seg_len mac mac_len if_first_block if_last_block if_mac st)"

definition api_mac ::
  "unikey_t option \<Rightarrow> alg_sym_param_t option \<Rightarrow> bytes option \<Rightarrow> u32 \<Rightarrow> out_ptr \<Rightarrow> 'w comm_state \<Rightarrow>
     (se_error \<times> out_ptr \<times> 'w comm_state) res" where
  "api_mac key sym_param in_buf in_buf_len mac st =
     (case (key, sym_param, in_buf, mac) of
        (Some k, Some p, Some d, (Some m, Some ml)) \<Rightarrow>
          if in_buf_len = 0 \<or> \<not> mac_args_ok k p in_buf_len then Ok (SE_ERR_PARAM_INVALID, mac, st)
          else
            res_bind (in_segments DBLOCK (mac_segment 1 k p) d in_buf_len (m, ml, st)) (\<lambda>(ret, m1, ml1, st1).
            Ok (ret, (Some m1, Some ml1), st1))
      | _ \<Rightarrow> Ok (SE_ERR_PARAM_INVALID, mac, st))"

text \<open>\<open>count\<close> is signed here, and at most 4549754.\<close>

definition api_mac_verify ::
  "unikey_t option \<Rightarrow> alg_sym_param_t option \<Rightarrow> bytes option \<Rightarrow> u32 \<Rightarrow> bytes option \<Rightarrow> u32 \<Rightarrow> 'w comm_state \<Rightarrow>
     (se_error \<times> 'w comm_state) res" where
  "api_mac_verify key sym_param in_buf in_buf_len mac mac_len st =
     (case (key, sym_param, in_buf, mac) of
        (Some k, Some p, Some d, Some m) \<Rightarrow>
          if in_buf_len = 0 \<or> mac_len = 0 \<or> \<not> mac_args_ok k p in_buf_len \<or>
             mac_len \<noteq> ucast (iv_len_of (key_alg k)) then Ok (SE_ERR_PARAM_INVALID, st)
          else
            res_bind (in_segments (DBLOCK - 16) (mac_segment 0 k p) d in_buf_len (m, mac_len, st))
              (\<lambda>(ret, _, _, st1). Ok (ret, st1))
      | _ \<Rightarrow> Ok (SE_ERR_PARAM_INVALID, st))"

section \<open>Asymmetric ciphers\<close>

definition is_asym_alg :: "u8 \<Rightarrow> bool" where
  "is_asym_alg alg \<longleftrightarrow>
     alg = ALG_ECC256_NIST \<or> alg = ALG_SM2 \<or> alg = ALG_RSA1024_CRT \<or> alg = ALG_RSA2048_CRT"

definition is_rsa :: "u8 \<Rightarrow> bool" where
  "is_rsa alg \<longleftrightarrow> alg = ALG_RSA1024_CRT \<or> alg = ALG_RSA2048_CRT"

text \<open>
  \<open>asym_param\<close> is not compared with NULL by the two ciphers; only the RSA branches look at it, so
  for the others any record does. The result says whether the arguments are accepted.
\<close>

definition rsa_param :: "u8 \<Rightarrow> alg_asym_param_t option \<Rightarrow> alg_asym_param_t res" where
  "rsa_param alg asym_param =
     (case asym_param of
        Some p \<Rightarrow> Ok p
      | None \<Rightarrow> if is_rsa alg then Undef else Ok \<lparr>hash_type = 0, asym_padding_type = 0\<rparr>)"

definition rsa_padding_ok :: "u8 \<Rightarrow> alg_asym_param_t \<Rightarrow> bool" where
  "rsa_padding_ok alg p \<longleftrightarrow>
     (is_rsa alg \<longrightarrow> asym_padding_type p = PADDING_NOPADDING \<or> asym_padding_type p = PADDING_PKCS1)"

definition asym_enc_len_ok :: "u8 \<Rightarrow> alg_asym_param_t \<Rightarrow> u32 \<Rightarrow> bool" where
  "asym_enc_len_ok alg p n \<longleftrightarrow>
     (if alg = ALG_ECC256_NIST \<or> alg = ALG_SM2 then n \<le> 4096
      else if asym_padding_type p = PADDING_NOPADDING then n = 128 \<or> n = 256
      else \<not> (alg = ALG_RSA2048_CRT \<and> asym_padding_type p = PADDING_PKCS1 \<and> n > 245 \<or>
              alg = ALG_RSA1024_CRT \<and> asym_padding_type p = PADDING_PKCS1 \<and> n > 117))"

definition asym_dec_len_ok :: "u8 \<Rightarrow> u32 \<Rightarrow> bool" where
  "asym_dec_len_ok alg n \<longleftrightarrow>
     (if alg = ALG_ECC256_NIST \<or> alg = ALG_SM2 then n \<le> 4096 + 96 else n = 128 \<or> n = 256)"

definition asym_enc_segment ::
  "nat \<Rightarrow> unikey_t \<Rightarrow> alg_asym_param_t \<Rightarrow> (bytes \<times> u32 \<times> 'w comm_state) segment_call" where
  "asym_enc_segment fuel key p = (\<lambda>d seg_len off if_first_block if_last_block (out_buf, out_len, st).
     apdu_asym_enc fuel key p d seg_len out_buf out_len if_last_block st)"

definition asym_dec_segment ::
  "nat \<Rightarrow> unikey_t \<Rightarrow> alg_asym_param_t \<Rightarrow> (bytes \<times> u32 \<times> 'w comm_state) segment_call" where
  "asym_dec_segment fuel key p = (\<lambda>d seg_len off if_first_block if_last_block (out_buf, out_len, st).
     apdu_asym_dec fuel key p d seg_len out_buf out_len if_last_block st)"

definition api_asym_encrypt ::
  "nat \<Rightarrow> unikey_t option \<Rightarrow> alg_asym_param_t option \<Rightarrow> bytes option \<Rightarrow> u32 \<Rightarrow> out_ptr \<Rightarrow> 'w comm_state \<Rightarrow>
     (se_error \<times> out_ptr \<times> 'w comm_state) res" where
  "api_asym_encrypt fuel key asym_param in_buf in_buf_len out st =
     (case (key, in_buf, out) of
        (Some k, Some d, (Some ob, Some ol)) \<Rightarrow>
          if in_buf_len = 0 \<or> \<not> is_asym_alg (key_alg k) then Ok (SE_ERR_PARAM_INVALID, out, st) else
          res_bind (rsa_param (key_alg k) asym_param) (\<lambda>p.
          if \<not> rsa_padding_ok (key_alg k) p \<or> \<not> asym_enc_len_ok (key_alg k) p in_buf_len
          then Ok (SE_ERR_PARAM_INVALID, out, st) else
          res_bind (in_segments (DBLOCK + 16) (asym_enc_segment fuel k p) d in_buf_len (ob, ol, st))
            (\<lambda>(ret, ob1, ol1, st1). Ok (ret, (Some ob1, Some ol1), st1)))
      | _ \<Rightarrow> Ok (SE_ERR_PARAM_INVALID, out, st))"

definition api_asym_decrypt ::
  "nat \<Rightarrow> unikey_t option \<Rightarrow> alg_asym_param_t option \<Rightarrow> bytes option \<Rightarrow> u32 \<Rightarrow> out_ptr \<Rightarrow> 'w comm_state \<Rightarrow>
     (se_error \<times> out_ptr \<times> 'w comm_state) res" where
  "api_asym_decrypt fuel key asym_param in_buf in_buf_len out st =
     (case (key, in_buf, out) of
        (Some k, Some d, (Some ob, Some ol)) \<Rightarrow>
          if in_buf_len = 0 \<or> \<not> is_asym_alg (key_alg k) then Ok (SE_ERR_PARAM_INVALID, out, st) else
          res_bind (rsa_param (key_alg k) asym_param) (\<lambda>p.
          if \<not> rsa_padding_ok (key_alg k) p \<or> \<not> asym_dec_len_ok (key_alg k) in_buf_len
          then Ok (SE_ERR_PARAM_INVALID, out, st) else
          res_bind (in_segments (DBLOCK + 16) (asym_dec_segment fuel k p) d in_buf_len (ob, ol, st))
            (\<lambda>(ret, ob1, ol1, st1). Ok (ret, (Some ob1, Some ol1), st1)))
      | _ \<Rightarrow> Ok (SE_ERR_PARAM_INVALID, out, st))"

section \<open>Signatures\<close>

definition is_hash :: "u32 \<Rightarrow> bool" where
  "is_hash h \<longleftrightarrow> h = ALG_SHA1 \<or> h = ALG_SHA224 \<or> h = ALG_SHA256 \<or> h = ALG_SHA384 \<or> h = ALG_SHA512 \<or> h = ALG_SM3"

text \<open>What is signed when the caller has hashed already.\<close>

definition sign_len_ok :: "u8 \<Rightarrow> u32 \<Rightarrow> u32 \<Rightarrow> bool" where
  "sign_len_ok alg h n \<longleftrightarrow>
     (h = ALG_NONE \<longrightarrow>
        ((alg = ALG_SM2 \<or> alg = ALG_ECC256_NIST) \<longrightarrow> n = 32) \<and>
        (alg = ALG_RSA1024_CRT \<longrightarrow> n = 128) \<and> (alg = ALG_RSA2048_CRT \<longrightarrow> n = 256))"

definition sign_args_ok :: "unikey_t \<Rightarrow> alg_asym_param_t \<Rightarrow> u32 \<Rightarrow> bool" where
  "sign_args_ok key p n \<longleftrightarrow>
     is_asym_alg (key_alg key) \<and> (hash_type p = ALG_NONE \<or> is_hash (hash_type p)) \<and>
     sign_len_ok (key_alg key) (hash_type p) n"

definition sign_segment ::
  "unikey_t \<Rightarrow> alg_asym_param_t \<Rightarrow> (bytes \<times> u32 \<times> 'w comm_state) segment_call" where
  "sign_segment key p = (\<lambda>d seg_len off if_first_block if_last_block (sign_buf, sign_len, st).
     apdu_asym_sign key p d seg_len sign_buf sign_len if_last_block st)"

definition api_asym_sign ::
  "unikey_t option \<Rightarrow> alg_asym_param_t option \<Rightarrow> bytes option \<Rightarrow> u32 \<Rightarrow> out_ptr \<Rightarrow> 'w comm_state \<Rightarrow>
     (se_error \<times> out_ptr \<times> 'w comm_state) res" where
  "api_asym_sign key asym_param in_buf in_buf_len sign st =
     (case (key, asym_param, in_buf, sign) of
        (Some k, Some p, Some d, (Some sb, Some sl)) \<Rightarrow>
          if in_buf_len = 0 \<or> \<not> sign_args_ok k p in_buf_len then Ok (SE_ERR_PARAM_INVALID, sign, st) else
          res_bind (in_segments (DBLOCK + 16) (sign_segment k p) d in_buf_len (sb, sl, st))
            (\<lambda>(ret, sb1, sl1, st1). Ok (ret, (Some sb1, Some sl1), st1))
      | _ \<Rightarrow> Ok (SE_ERR_PARAM_INVALID, sign, st))"

text \<open>
  Verification sends the signature in front of the first segment, which is shorter by its length;
  both lengths are unsigned, so the subtraction wraps for a signature longer than a block.
\<close>

definition verify_args_ok :: "unikey_t \<Rightarrow> alg_asym_param_t \<Rightarrow> u32 \<Rightarrow> u32 \<Rightarrow> bool" where
  "verify_args_ok key p n sign_len \<longleftrightarrow>
     sign_args_ok key p n \<and>
     (key_alg key = ALG_RSA1024_CRT \<longrightarrow> sign_len = 128) \<and> (key_alg key = ALG_RSA2048_CRT \<longrightarrow> sign_len = 256)"

definition verify_seg_len :: "u32 \<Rightarrow> u32 \<Rightarrow> u32 \<Rightarrow> cbool \<Rightarrow> u32" where
  "verify_seg_len block temp_len sign_len if_first_block =
     (if if_first_block = 1
      then (if temp_len + sign_len \<le> block then temp_len else block - sign_len)
      else (if temp_len \<le> block then temp_len else block))"

function verify_segments ::
  "unikey_t \<Rightarrow> alg_asym_param_t \<Rightarrow> bytes \<Rightarrow> bytes \<Rightarrow> u32 \<Rightarrow> u32 \<Rightarrow> u32 \<Rightarrow> u32 \<Rightarrow> cbool \<Rightarrow>
     'w comm_state \<Rightarrow> (se_error \<times> 'w comm_state) res" where
  "verify_segments key p in_buf sign_buf sign_len count temp_len off if_first_block st =
     (if 0 < count then
        let seg_len = verify_seg_len (DBLOCK + 16) temp_len sign_len if_first_block;
            if_last_block = (if count = 1 then 1 else 0)
        in res_bind (apdu_asym_verify key p (drop (unat off) in_buf) seg_len sign_buf sign_len
                       if_first_block if_last_block st) (\<lambda>(ret, st1).
           if ret \<noteq> SE_SUCCESS then Ok (ret, st1)
           else verify_segments key p in_buf sign_buf sign_len (count - 1) (temp_len - seg_len)
                  (off + seg_len) 0 st1)
      else Ok (SE_SUCCESS, st))"
  by pat_completeness auto
termination
  by (relation "measure (\<lambda>(_, _, _, _, _, count, _). unat count)") (auto simp: unat_gt_0 unat_minus_one)

declare verify_segments.simps [simp del]

definition api_asym_verify ::
  "unikey_t option \<Rightarrow> alg_asym_param_t option \<Rightarrow> bytes option \<Rightarrow> u32 \<Rightarrow> out_ptr \<Rightarrow> 'w comm_state \<Rightarrow>
     (se_error \<times> 'w comm_state) res" where
  "api_asym_verify key asym_param in_buf in_buf_len sign st =
     (case (key, asym_param, in_buf, sign) of
        (Some k, Some p, Some d, (Some sb, Some sl)) \<Rightarrow>
          if in_buf_len = 0 \<or> \<not> verify_args_ok k p in_buf_len sl then Ok (SE_ERR_PARAM_INVALID, st)
          else verify_segments k p d sb sl (seg_count (DBLOCK + 16) (in_buf_len + sl)) in_buf_len 0 1 st
      | _ \<Rightarrow> Ok (SE_ERR_PARAM_INVALID, st))"

section \<open>Digests, identity hash and random numbers\<close>

definition api_sm2_get_za ::
  "user_id_t option \<Rightarrow> unikey_t option \<Rightarrow> bytes option \<Rightarrow> 'w comm_state \<Rightarrow>
     (se_error \<times> bytes option \<times> 'w comm_state) res" where
  "api_sm2_get_za uid pub_key za st =
     (case (uid, pub_key, za) of
        (Some u, Some k, Some z) \<Rightarrow>
          if uid_len u = 0 \<or> uid_len u > 32 \<or> key_len k \<noteq> 64 then Ok (SE_ERR_PARAM_INVALID, za, st)
          else apdu_sm2_get_za uid pub_key za st
      | _ \<Rightarrow> Ok (SE_ERR_PARAM_INVALID, za, st))"

definition digest_segment :: "u32 \<Rightarrow> (bytes \<times> u32 \<times> 'w comm_state) segment_call" where
  "digest_segment alg = (\<lambda>d seg_len off if_first_block if_last_block (out_buf, out_len, st).
     apdu_digest alg d seg_len out_buf out_len if_last_block st)"

definition api_digest ::
  "u32 \<Rightarrow> bytes option \<Rightarrow> u32 \<Rightarrow> out_ptr \<Rightarrow> 'w comm_state \<Rightarrow> (se_error \<times> out_ptr \<times> 'w comm_state) res" where
  "api_digest alg in_buf in_buf_len out st =
     (case (in_buf, out) of
        (Some d, (Some ob, Some ol)) \<Rightarrow>
          if in_buf_len = 0 \<or> \<not> is_hash alg then Ok (SE_ERR_PARAM_INVALID, out, st) else
          res_bind (in_segments 254 (digest_segment alg) d in_buf_len (ob, ol, st)) (\<lambda>(ret, ob1, ol1, st1).
          Ok (ret, (Some ob1, Some ol1), st1))
      | _ \<Rightarrow> Ok (SE_ERR_PARAM_INVALID, out, st))"

definition api_get_random ::
  "u32 \<Rightarrow> bytes option \<Rightarrow> 'w comm_state \<Rightarrow> (se_error \<times> bytes option \<times> 'w comm_state) res" where
  "api_get_random expected_len random st =
     (case random of
        None \<Rightarrow> Ok (SE_ERR_PARAM_INVALID, random, st)
      | Some r \<Rightarrow>
          if expected_len < 4 \<or> expected_len > 16 then Ok (SE_ERR_PARAM_INVALID, random, st) else
          res_bind (apdu_get_random expected_len r st) (\<lambda>(ret, b, st1). Ok (ret, Some b, st1)))"

end
