(* ===== verification/Api_Key.thy ===== *)
theory Api_Key
  imports Apdu_Key
begin

text \<open>
  The public key management of src/sign/testSdk/src/api/key.c. The global \<open>trans_key\<close>, the
  transport key the host encrypts with, is an argument of the functions that use it and a result
  of the one that sets it. A pointer is an option where the code compares it with NULL or follows
  it in some cases only.
\<close>

definition trans_key_init :: bytes where
  "trans_key_init = replicate 16 0x00"

definition api_update_mkey ::
  "bytes \<Rightarrow> unikey_t option \<Rightarrow> cbool \<Rightarrow> 'w comm_state \<Rightarrow> (se_error \<times> 'w comm_state) res" where
  "api_update_mkey trans_key mkey if_encrypt st =
     (case mkey of
        None \<Rightarrow> Ok (SE_ERR_PARAM_INVALID, st)
      | Some k \<Rightarrow>
          if if_encrypt \<noteq> 0 \<and> if_encrypt \<noteq> 1 then Ok (SE_ERR_PARAM_INVALID, st)
          else apdu_write_key trans_key (Some (key_val k)) (key_len k) if_encrypt 0 1 st)"

section \<open>Generating keys\<close>

definition is_pair_alg :: "u8 \<Rightarrow> bool" where
  "is_pair_alg alg \<longleftrightarrow>
     alg = ALG_ECC256_NIST \<or> alg = ALG_SM2 \<or> alg = ALG_RSA1024_CRT \<or> alg = ALG_RSA2048_CRT \<or>
     alg = ALG_RSA1024_STANDAND \<or> alg = ALG_RSA2048_STANDAND"

text \<open>The ids are compared with NULL, that is with 0.\<close>

definition api_generate_keypair ::
  "unikey_t option \<Rightarrow> unikey_t option \<Rightarrow> 'w comm_state \<Rightarrow> (se_error \<times> unikey_t option \<times> 'w comm_state) res" where
  "api_generate_keypair pub_key pri_key st =
     (case (pub_key, pri_key) of
        (Some pub, Some pri) \<Rightarrow>
          if key_id pub = 0 \<or> key_id pri = 0 then Ok (SE_ERR_PARAM_INVALID, pub_key, st)
          else if \<not> is_pair_alg (key_alg pub) then Ok (SE_ERR_PARAM_INVALID, pub_key, st)
          else apdu_generate_key pub_key pri_key None st
      | _ \<Rightarrow> Ok (SE_ERR_PARAM_INVALID, pub_key, st))"

text \<open>
  The new key is copied to \<open>trans_key\<close> before it is sent to the device. \<open>key->val\<close> is an array, its
  comparison with NULL is void.
\<close>

definition api_set_transkey ::
  "bytes \<Rightarrow> unikey_t option \<Rightarrow> 'w comm_state \<Rightarrow> (se_error \<times> bytes \<times> 'w comm_state) res" where
  "api_set_transkey trans_key key st =
     (case key of
        None \<Rightarrow> Ok (SE_ERR_PARAM_INVALID, trans_key, st)
      | Some k \<Rightarrow>
          if key_len k \<noteq> 16 \<or> key_id k \<noteq> 0x02 then Ok (SE_ERR_PARAM_INVALID, trans_key, st) else
          res_bind (mem_read (key_val k) 0 (unat (key_len k))) (\<lambda>v.
          res_bind (mem_write ((replicate 19 0)[0 := 0x01, 1 := key_id k, 2 := 0x40]) 3 v) (\<lambda>inbuf.
          res_bind (mem_write trans_key 0 v) (\<lambda>trans_key1.
          res_bind (apdu_write_key trans_key1 (Some inbuf) 19 0 0 0 st) (\<lambda>(ret, st1).
          Ok (ret, trans_key1, st1))))))"

text \<open>
  The test is \<open>alg!=ALG_AES128 && ((alg!=ALG_DES128) & (alg!=ALG_SM4))\<close>: a bitwise and of two
  truth values.
\<close>

definition api_generate_symkey ::
  "unikey_t option \<Rightarrow> 'w comm_state \<Rightarrow> (se_error \<times> 'w comm_state) res" where
  "api_generate_symkey symkey st =
     (case symkey of
        None \<Rightarrow> Ok (SE_ERR_PARAM_INVALID, st)
      | Some k \<Rightarrow>
          if key_alg k \<noteq> ALG_AES128 \<and> key_alg k \<noteq> ALG_DES128 \<and> key_alg k \<noteq> ALG_SM4
          then Ok (SE_ERR_PARAM_INVALID, st)
          else res_bind (apdu_generate_key None None symkey st) (\<lambda>(ret, _, st1). Ok (ret, st1)))"

text \<open>
  \<open>shared_key\<close> is followed without a test. For ECDH the peer's data goes behind two fixed bytes into
  a local array of 66 bytes.
\<close>

definition shared_len_ok :: "u8 \<Rightarrow> u32 \<Rightarrow> bool" where
  "shared_len_ok alg n \<longleftrightarrow>
     (if alg = ALG_ECDH_ECC256 \<or> alg = ALG_ECDH_SM2 then n \<le> 66 else 139 \<le> n \<and> n \<le> 201)"

definition api_generate_shared_key ::
  "bytes option \<Rightarrow> u32 \<Rightarrow> unikey_t \<Rightarrow> bytes \<Rightarrow> cbool \<Rightarrow> cbool \<Rightarrow> 'w comm_state \<Rightarrow>
     (se_error \<times> unikey_t \<times> bytes \<times> 'w comm_state) res" where
  "api_generate_shared_key in_buf in_buf_len shared_key sm2_s if_return_key if_return_s st =
     (let alg = key_alg shared_key
      in if alg \<noteq> ALG_ECDH_ECC256 \<and> alg \<noteq> ALG_ECDH_SM2 \<and> alg \<noteq> ALG_SM2_SM2
         then Ok (SE_ERR_PARAM_INVALID, shared_key, sm2_s, st) else
         case in_buf of
           None \<Rightarrow> Ok (SE_ERR_PARAM_INVALID, shared_key, sm2_s, st)
         | Some d \<Rightarrow>
             if \<not> shared_len_ok alg in_buf_len then Ok (SE_ERR_PARAM_INVALID, shared_key, sm2_s, st)
             else if alg = ALG_SM2_SM2 then
               apdu_generate_shared_key d in_buf_len shared_key sm2_s if_return_key if_return_s st
             else
               res_bind (mem_read d 0 (unat in_buf_len)) (\<lambda>x.
               res_bind (mem_write ([0xF0, 0x60] @ replicate 64 0) 2 x) (\<lambda>int_buf_tmp.
               apdu_generate_shared_key int_buf_tmp (in_buf_len + 2) shared_key sm2_s
                 if_return_key if_return_s st)))"

definition api_del_key :: "u8 \<Rightarrow> 'w comm_state \<Rightarrow> (se_error \<times> 'w comm_state) res" where
  "api_del_key kid st = apdu_delete_key kid st"

section \<open>Import and export\<close>

definition is_cipher_alg :: "u8 \<Rightarrow> bool" where
  "is_cipher_alg alg \<longleftrightarrow>
     alg = ALG_RSA1024_CRT \<or> alg = ALG_RSA2048_CRT \<or> alg = ALG_ECC256_NIST \<or> alg = ALG_SM2 \<or>
     alg = ALG_AES128 \<or> alg = ALG_DES128 \<or> alg = ALG_SM4"

definition is_key_alg :: "u8 \<Rightarrow> bool" where
  "is_key_alg alg \<longleftrightarrow> is_cipher_alg alg \<or> alg = ALG_RSA1024_STANDAND \<or> alg = ALG_RSA2048_STANDAND"

text \<open>The tests of the protecting key; it is followed when a cipher without transport key is asked for.\<close>

definition import_protection_ok :: "unikey_t option \<Rightarrow> cbool \<Rightarrow> cbool \<Rightarrow> bool res" where
  "import_protection_ok ukey if_cipher if_trans_key =
     (if if_cipher = 1 then
        (if if_trans_key = 0
         then (case ukey of None \<Rightarrow> Undef | Some u \<Rightarrow> Ok (is_key_alg (key_alg u)))
         else Ok True)
      else Ok (if_trans_key \<noteq> 1))"

definition api_import_key ::
  "bytes \<Rightarrow> unikey_t option \<Rightarrow> unikey_t option \<Rightarrow> cbool \<Rightarrow> cbool \<Rightarrow> 'w comm_state \<Rightarrow>
     (se_error \<times> 'w comm_state) res" where
  "api_import_key trans_key ukey inkey if_cipher if_trans_key st =
     res_bind (import_protection_ok ukey if_cipher if_trans_key) (\<lambda>ok.
     if \<not> ok then Ok (SE_ERR_PARAM_INVALID, st) else
     case inkey of
       None \<Rightarrow> Ok (SE_ERR_PARAM_INVALID, st)
     | Some k \<Rightarrow>
         if \<not> is_key_alg (key_alg k) then Ok (SE_ERR_PARAM_INVALID, st)
         else if key_len k < 16 \<or> key_len k > 912 then Ok (SE_ERR_PARAM_INVALID, st)
         else if key_type k \<noteq> PRI \<and> key_type k \<noteq> PUB \<and> key_type k \<noteq> PRI_PUB_PAIR \<and> key_type k \<noteq> SYM
         then Ok (SE_ERR_PARAM_INVALID, st)
         else apdu_import_key trans_key ukey k if_cipher if_trans_key st)"

text \<open>Here \<open>exkey\<close> is followed too, before it is compared with NULL.\<close>

definition export_protection_ok :: "unikey_t option \<Rightarrow> unikey_t option \<Rightarrow> cbool \<Rightarrow> cbool \<Rightarrow> bool res" where
  "export_protection_ok ukey exkey if_cipher if_trans_key =
     (if if_cipher = 1 then
        res_bind (if if_trans_key = 0
                  then (case ukey of
                          None \<Rightarrow> Undef
                        | Some u \<Rightarrow>
                            if \<not> is_cipher_alg (key_alg u) then Ok False
                            else (case exkey of
                                    None \<Rightarrow> Undef
                                  | Some x \<Rightarrow> Ok (\<not> (key_type x = PRI \<and> is_pair_alg (key_alg u)))))
                  else Ok True) (\<lambda>ok.
        if \<not> ok then Ok False
        else (case exkey of None \<Rightarrow> Undef | Some x \<Rightarrow> Ok (key_type x \<noteq> PUB)))
      else Ok (if_trans_key \<noteq> 1))"

definition api_export_key ::
  "bytes \<Rightarrow> unikey_t option \<Rightarrow> unikey_t option \<Rightarrow> cbool \<Rightarrow> cbool \<Rightarrow> 'w comm_state \<Rightarrow>
     (se_error \<times> unikey_t option \<times> 'w comm_state) res" where
  "api_export_key trans_key ukey exkey if_cipher if_trans_key st =
     res_bind (export_protection_ok ukey exkey if_cipher if_trans_key) (\<lambda>ok.
     if \<not> ok then Ok (SE_ERR_PARAM_INVALID, exkey, st) else
     case exkey of
       None \<Rightarrow> Ok (SE_ERR_PARAM_INVALID, exkey, st)
     | Some x \<Rightarrow>
         if \<not> is_key_alg (key_alg x) then Ok (SE_ERR_PARAM_INVALID, exkey, st)
         else if key_type x \<noteq> PRI \<and> key_type x \<noteq> PUB \<and> key_type x \<noteq> SYM then Ok (SE_ERR_PARAM_INVALID, exkey, st)
         else if (key_type x = PRI \<or> key_type x = SYM) \<and> key_id x < 0xF0 then Ok (SE_ERR_PARAM_INVALID, exkey, st)
         else res_bind (apdu_export_key trans_key ukey x if_cipher if_trans_key st) (\<lambda>(ret, x1, st1).
              Ok (ret, Some x1, st1)))"

definition api_get_key_info ::
  "cbool \<Rightarrow> bytes \<Rightarrow> 'w comm_state \<Rightarrow> (se_error \<times> bytes \<times> u32 option \<times> 'w comm_state) res" where
  "api_get_key_info if_app_key out_buf st = apdu_get_key_info if_app_key out_buf st"

end
