(* ===== verification/Api_Card.thy ===== *)
theory Api_Card
  imports Apdu_Key Apdu_Card
begin

text \<open>
  The public functions of src/sign/testSdk/src/api/auth.c, ctrl.c, fs.c, info.c, pin.c and v2x.c.
  Most check the caller's parameters and pass the call on to the command of the same name. A
  pointer is an option where the code compares it with NULL; calls of the log macro are left out.
\<close>

section \<open>Authentication and control\<close>

definition api_ext_auth :: "bytes option \<Rightarrow> u32 \<Rightarrow> 'w comm_state \<Rightarrow> (se_error \<times> 'w comm_state) res" where
  "api_ext_auth in_buf in_buf_len st =
     (if in_buf = None \<or> in_buf_len = 0 then Ok (SE_ERR_PARAM_INVALID, st)
      else apdu_ext_auth in_buf in_buf_len st)"

definition STANDBY :: u32 where [apdu_consts]: "STANDBY = 0x00"

definition api_switch_mode :: "u32 \<Rightarrow> 'w comm_state \<Rightarrow> (se_error \<times> 'w comm_state) res" where
  "api_switch_mode ty st =
     (if ty \<noteq> STANDBY then Ok (SE_ERR_PARAM_INVALID, st) else apdu_switch_mode ty st)"

text \<open>Bit 4 of the code addresses the driver in charge, bit 5 the command layer.\<close>

definition api_control ::
  "u32 \<Rightarrow> bytes option \<Rightarrow> u32 \<Rightarrow> out_ptr \<Rightarrow> 'w comm_state \<Rightarrow>
     (se_error \<times> bytes option \<times> out_ptr \<times> 'w comm_state) res" where
  "api_control ctrlcode in_buf in_buf_len out st =
     (case (in_buf, out) of
        (Some d, (Some ob, Some ol)) \<Rightarrow>
          if in_buf_len = 0 then Ok (SE_ERR_PARAM_INVALID, in_buf, out, st)
          else if ctrlcode AND 0x10 \<noteq> 0 then api_control' ctrlcode in_buf in_buf_len out st
          else if ctrlcode AND 0x20 \<noteq> 0 then
            res_bind (apdu_control ctrlcode d in_buf_len ob ol st) (\<lambda>(ret, ob1, ol1, st1).
            Ok (ret, in_buf, (Some ob1, Some ol1), st1))
          else Ok (SE_ERR_PARAM_INVALID, in_buf, out, st)
      | _ \<Rightarrow> Ok (SE_ERR_PARAM_INVALID, in_buf, out, st))"

definition api_power_on :: se_error where "api_power_on = SE_SUCCESS"
definition api_power_off :: se_error where "api_power_off = SE_SUCCESS"

section \<open>Files\<close>

definition api_select_file :: "u32 \<Rightarrow> 'w comm_state \<Rightarrow> (se_error \<times> 'w comm_state) res" where
  "api_select_file fid st = apdu_select_file fid st"

text \<open>The limits \<open>DBLOCK+16\<close> and \<open>LE_MAX_LEN-16\<close>, from macros without parentheses.\<close>

definition write_file_max :: u32 where
  [apdu_consts]: "write_file_max = of_nat (DEQUE_MAX_SIZE - 20 - 4 - 24 - 16 + 16)"

definition read_file_max :: u32 where
  [apdu_consts]: "read_file_max = of_nat (DEQUE_MAX_SIZE - 20 - 5 - 2 - 16)"

definition api_write_file ::
  "bytes \<Rightarrow> u32 \<Rightarrow> bytes option \<Rightarrow> u32 \<Rightarrow> cbool \<Rightarrow> 'w comm_state \<Rightarrow> (se_error \<times> 'w comm_state) res" where
  "api_write_file trans_key offset in_buf in_buf_len if_encrypt st =
     (case in_buf of
        None \<Rightarrow> Ok (SE_ERR_PARAM_INVALID, st)
      | Some d \<Rightarrow>
          if in_buf_len > write_file_max then Ok (SE_ERR_PARAM_INVALID, st)
          else apdu_write_file trans_key offset if_encrypt d in_buf_len st)"

definition api_read_file ::
  "bytes \<Rightarrow> u32 \<Rightarrow> u32 \<Rightarrow> cbool \<Rightarrow> bytes \<Rightarrow> 'w comm_state \<Rightarrow>
     (se_error \<times> bytes \<times> u32 option \<times> 'w comm_state) res" where
  "api_read_file trans_key offset expect_len if_encrypt out_buf st =
     (if expect_len > read_file_max then Ok (SE_ERR_PARAM_INVALID, out_buf, None, st)
      else apdu_read_file trans_key offset if_encrypt expect_len out_buf st)"

section \<open>Identity\<close>

definition api_get_info ::
  "u32 \<Rightarrow> se_info_t option \<Rightarrow> 'w comm_state \<Rightarrow> (se_error \<times> se_info_t option \<times> 'w comm_state) res" where
  "api_get_info ty info st =
     (case info of
        None \<Rightarrow> Ok (SE_ERR_PARAM_INVALID, info, st)
      | Some i \<Rightarrow>
          if ty \<noteq> CHIP_ID \<and> ty \<noteq> PRODUCT_INFO then Ok (SE_ERR_PARAM_INVALID, info, st)
          else res_bind (apdu_get_info ty i st) (\<lambda>(ret, i1, st1). Ok (ret, Some i1, st1)))"

definition api_get_id ::
  "user_id_t option \<Rightarrow> 'w comm_state \<Rightarrow> (se_error \<times> user_id_t option \<times> 'w comm_state) res" where
  "api_get_id se_id st =
     (case se_id of
        None \<Rightarrow> Ok (SE_ERR_PARAM_INVALID, se_id, st)
      | Some i \<Rightarrow> res_bind (apdu_get_id i st) (\<lambda>(ret, i1, st1). Ok (ret, Some i1, st1)))"

definition api_write_id :: "user_id_t option \<Rightarrow> 'w comm_state \<Rightarrow> (se_error \<times> 'w comm_state) res" where
  "api_write_id se_id st =
     (case se_id of
        None \<Rightarrow> Ok (SE_ERR_PARAM_INVALID, st)
      | Some i \<Rightarrow> if uid_len i = 0 then Ok (SE_ERR_PARAM_INVALID, st) else apdu_write_SEID i st)"

definition SDK_VERSION_NUM :: u32 where "SDK_VERSION_NUM = 0x01020100"

definition SDK_VERSION_STRING :: bytes where
  "SDK_VERSION_STRING = map of_char ''CIU98_B V2 Host SDK[V1.2.1-release]''"

definition api_sdk_version_number :: "u32 option \<Rightarrow> se_error \<times> u32 option" where
  "api_sdk_version_number num =
     (case num of None \<Rightarrow> (SE_ERR_PARAM_INVALID, None) | Some _ \<Rightarrow> (SE_SUCCESS, Some SDK_VERSION_NUM))"

definition api_sdk_version_string :: "bytes option \<Rightarrow> (se_error \<times> bytes option) res" where
  "api_sdk_version_string str =
     (case str of
        None \<Rightarrow> Ok (SE_ERR_PARAM_INVALID, None)
      | Some s \<Rightarrow> res_bind (mem_write s 0 (SDK_VERSION_STRING @ [0])) (\<lambda>s1. Ok (SE_SUCCESS, Some s1)))"

section \<open>PINs\<close>

text \<open>\<open>pin->pin_value\<close> is an array, so its comparisons with NULL are void.\<close>

definition pin_len_ok :: "u8 \<Rightarrow> bool" where
  "pin_len_ok n \<longleftrightarrow> 6 \<le> n \<and> n \<le> 16"

definition new_len_ok :: "u32 \<Rightarrow> bool" where
  "new_len_ok n \<longleftrightarrow> 6 \<le> n \<and> n \<le> 16"

definition api_write_pin ::
  "bytes \<Rightarrow> pin_t option \<Rightarrow> cbool \<Rightarrow> 'w comm_state \<Rightarrow> (se_error \<times> 'w comm_state) res" where
  "api_write_pin trans_key pin if_encrypt st =
     (case pin of
        None \<Rightarrow> Ok (SE_ERR_PARAM_INVALID, st)
      | Some p \<Rightarrow>
          if pin_owner p \<noteq> ADMIN_PIN \<and> pin_owner p \<noteq> USER_PIN then Ok (SE_ERR_PARAM_INVALID, st)
          else if \<not> pin_len_ok (pin_len p) then Ok (SE_ERR_PARAM_INVALID, st)
          else
            let inbuf = (replicate 24 0)[0 := 0x00, 1 := if pin_owner p = ADMIN_PIN then 0x00 else 0x01,
                          2 := pin_limit p, 6 := 0x00, 7 := pin_len p]
            in res_bind (mem_read (pin_value p) 0 (unat (pin_len p))) (\<lambda>v.
               res_bind (mem_write inbuf 8 v) (\<lambda>inbuf1.
               apdu_write_key trans_key (Some inbuf1) (ucast (pin_len p) + 8) if_encrypt 1 0 st)))"

definition api_change_pin ::
  "pin_t option \<Rightarrow> bytes option \<Rightarrow> u32 \<Rightarrow> 'w comm_state \<Rightarrow> (se_error \<times> 'w comm_state) res" where
  "api_change_pin pin in_buf in_buf_len st =
     (case (pin, in_buf) of
        (Some p, Some d) \<Rightarrow>
          if pin_owner p \<noteq> ADMIN_PIN \<and> pin_owner p \<noteq> USER_PIN then Ok (SE_ERR_PARAM_INVALID, st)
          else if \<not> pin_len_ok (pin_len p) \<or> \<not> new_len_ok in_buf_len then Ok (SE_ERR_PARAM_INVALID, st)
          else apdu_change_reload_pin p d in_buf_len 1 st
      | _ \<Rightarrow> Ok (SE_ERR_PARAM_INVALID, st))"

definition api_reload_pin ::
  "pin_t option \<Rightarrow> bytes option \<Rightarrow> u32 \<Rightarrow> 'w comm_state \<Rightarrow> (se_error \<times> 'w comm_state) res" where
  "api_reload_pin pin in_buf in_buf_len st =
     (case (pin, in_buf) of
        (Some p, Some d) \<Rightarrow>
          if \<not> pin_len_ok (pin_len p) \<or> \<not> new_len_ok in_buf_len then Ok (SE_ERR_PARAM_INVALID, st)
          else apdu_change_reload_pin p d in_buf_len 0 st
      | _ \<Rightarrow> Ok (SE_ERR_PARAM_INVALID, st))"

definition api_verify_pin :: "pin_t option \<Rightarrow> 'w comm_state \<Rightarrow> (se_error \<times> 'w comm_state) res" where
  "api_verify_pin pin st =
     (case pin of
        None \<Rightarrow> Ok (SE_ERR_PARAM_INVALID, st)
      | Some p \<Rightarrow>
          if \<not> pin_len_ok (pin_len p) then Ok (SE_ERR_PARAM_INVALID, st) else apdu_verify_pin p st)"

section \<open>V2X keys\<close>

definition v2x_gen_key_derive_seed ::
  "u8 \<Rightarrow> derive_seed_t option \<Rightarrow> 'w comm_state \<Rightarrow> (se_error \<times> derive_seed_t option \<times> 'w comm_state) res" where
  "v2x_gen_key_derive_seed derive_type out_buf st =
     (case out_buf of
        None \<Rightarrow> Ok (SE_ERR_PARAM_INVALID, out_buf, st)
      | Some s \<Rightarrow> res_bind (apdu_v2x_gen_key_derive_seed 0x00 s st) (\<lambda>(ret, s1, st1). Ok (ret, Some s1, st1)))"

text \<open>\<open>in_buf_len\<close> is a pointer that is followed without a test.\<close>

definition v2x_reconsitution_key ::
  "bytes option \<Rightarrow> u32 option \<Rightarrow> out_ptr \<Rightarrow> 'w comm_state \<Rightarrow> (se_error \<times> out_ptr \<times> 'w comm_state) res" where
  "v2x_reconsitution_key in_buf in_buf_len out st =
     (case in_buf of
        None \<Rightarrow> Ok (SE_ERR_PARAM_INVALID, out, st)
      | Some d \<Rightarrow>
          (case in_buf_len of
             None \<Rightarrow> Undef
           | Some n \<Rightarrow>
               (case out of
                  (Some ob, Some ol) \<Rightarrow>
                    if n = 0 then Ok (SE_ERR_PARAM_INVALID, out, st) else
                    res_bind (apdu_v2x_reconsitution_key d n ob st) (\<lambda>(ret, ob1, ol1, st1).
                    Ok (ret, (Some ob1, Some (case ol1 of Some l \<Rightarrow> l | None \<Rightarrow> ol)), st1))
                | _ \<Rightarrow> Ok (SE_ERR_PARAM_INVALID, out, st))))"

end
