(* ===== verification/Api_Update.thy ===== *)
theory Api_Update
  imports Api_Card
begin

text \<open>
  The firmware download of src/sign/testSdk/src/api/update.c. The image is a sequence of records,
  each a 16-bit big-endian length and that many bytes: the command that starts the loader, the
  program commands, the check command (37 bytes) and a record that starts with the version.
  Behind the last record the image ends with the version again.
\<close>

section \<open>Is an update needed\<close>

text \<open>
  The uninitialised \<open>info\<close> of the caller, of which a short reply leaves a part as it is: any contents
  do, the model takes zeros.
\<close>

definition info_local :: se_info_t where
  "info_local = \<lparr>chip_id = replicate 8 0, product_info = replicate 8 0\<rparr>"

text \<open>
  What \<open>api_loader_download\<close> and its end share: reset the device and look at byte 9 of the ATR. The
  result is an error, or \<open>atr\<close> with the version the device reports, or no version when bit 5 says
  that there is no valid system. \<open>!atr[9]&0x10\<close> is \<open>(!atr[9])&0x10\<close>.
\<close>

definition no_patch :: "u8 \<Rightarrow> bool" where
  "no_patch b \<longleftrightarrow> (if b = 0 then 1 else 0 :: u32) AND 0x10 \<noteq> 0"

datatype cos_state = Reset_failed se_error | Cos_invalid | No_patch | Info_failed se_error | Version bytes

definition reset_and_ask ::
  "out_ptr \<Rightarrow> se_info_t \<Rightarrow> 'w comm_state \<Rightarrow> (cos_state \<times> out_ptr \<times> se_info_t \<times> 'w comm_state) res" where
  "reset_and_ask atr info st =
     res_bind (api_reset atr st) (\<lambda>(ret, atr1, st1).
     if ret \<noteq> SE_SUCCESS then Ok (Reset_failed ret, atr1, info, st1) else
     res_bind (case fst atr1 of Some a \<Rightarrow> mem_byte a 9 | None \<Rightarrow> Undef) (\<lambda>b.
     if b AND 0x20 \<noteq> 0 then Ok (Cos_invalid, atr1, info, st1)
     else if no_patch b then Ok (No_patch, atr1, info, st1) else
     res_bind (api_get_info PRODUCT_INFO (Some info) st1) (\<lambda>(ret, i, st2).
     case i of
       None \<Rightarrow> Undef
     | Some info1 \<Rightarrow>
         if ret \<noteq> SE_SUCCESS then Ok (Info_failed ret, atr1, info1, st2)
         else res_bind (mem_read (product_info info1) 0 4) (\<lambda>v. Ok (Version v, atr1, info1, st2)))))"

section \<open>The records of the image\<close>

definition record_len :: "bytes \<Rightarrow> u32 \<Rightarrow> u16 res" where
  "record_len img off =
     res_bind (mem_byte img (unat off)) (\<lambda>hi.
     res_bind (mem_byte img (unat (off + 1))) (\<lambda>lo. Ok (push_bit 8 (ucast hi) OR ucast lo)))"

text \<open>
  The loop over the records. \<open>addr_off\<close> equals \<open>download_len\<close> whenever the loop starts over. The
  result is an error or the version behind the check command. Each round moves on by at least two
  bytes; \<open>fuel\<close> bounds the rounds.
\<close>

fun loader_loop ::
  "nat \<Rightarrow> bytes \<Rightarrow> u32 \<Rightarrow> u32 \<Rightarrow> 'w comm_state \<Rightarrow> ((se_error + bytes) \<times> 'w comm_state) res" where
  "loader_loop 0 img img_len addr_off st = Stuck"
| "loader_loop (Suc fuel) img img_len addr_off st =
     res_bind (record_len img addr_off) (\<lambda>n.
     let download_len = addr_off + ucast n + 2
     in if download_len > img_len then Ok (Inl SE_ERR_PARAM_INVALID, st)
        else if n = 0x0025 then
          res_bind (apdu_loader_checkprogram (Some (drop (unat addr_off) img)) st) (\<lambda>(ret, st1).
          if ret \<noteq> SE_SUCCESS then Ok (Inl ret, st1) else
          res_bind (record_len img download_len) (\<lambda>m.
          if download_len + ucast m + 2 > img_len then Ok (Inl SE_ERR_PARAM_INVALID, st1) else
          res_bind (mem_read img (unat download_len + 2) 4) (\<lambda>v. Ok (Inr v, st1))))
        else
          res_bind (apdu_loader_program (Some (drop (unat addr_off) img)) st) (\<lambda>(ret, st1).
          if ret \<noteq> SE_SUCCESS then Ok (Inl ret, st1)
          else loader_loop fuel img img_len download_len st1))"

definition loader_records ::
  "nat \<Rightarrow> bytes \<Rightarrow> u32 \<Rightarrow> 'w comm_state \<Rightarrow> ((se_error + bytes) \<times> 'w comm_state) res" where
  "loader_records fuel img img_len st =
     res_bind (record_len img 0) (\<lambda>n.
     let download_len = ucast n + 2
     in if download_len > img_len then Ok (Inl SE_ERR_PARAM_INVALID, st) else
        res_bind (apdu_loader_init (Some img) st) (\<lambda>(ret, st1).
        if ret \<noteq> SE_SUCCESS then Ok (Inl ret, st1)
        else loader_loop fuel img img_len download_len st1))"

text \<open>After the download: wait a second, reset, and compare the version.\<close>

definition loader_confirm ::
  "out_ptr \<Rightarrow> se_info_t \<Rightarrow> bytes \<Rightarrow> 'w comm_state \<Rightarrow> (se_error \<times> 'w comm_state) res" where
  "loader_confirm atr info version st =
     res_bind (api_delay 1000000 st) (\<lambda>(ret, st1).
     if ret \<noteq> SE_SUCCESS then Ok (ret, st1) else
     res_bind (reset_and_ask atr info st1) (\<lambda>(c, _, _, st2).
     case c of
       Reset_failed e \<Rightarrow> Ok (e, st2)
     | Cos_invalid \<Rightarrow> Ok (SE_ERR_UPDATE, st2)
     | No_patch \<Rightarrow> Ok (SE_ERR_UPDATE, st2)
     | Info_failed e \<Rightarrow> Ok (e, st2)
     | Version v \<Rightarrow> Ok (if version \<noteq> v then SE_ERR_UPDATE else SE_SUCCESS, st2)))"

text \<open>The first loop of the code is left in its first round on every path.\<close>

definition api_loader_download ::
  "nat \<Rightarrow> bytes option \<Rightarrow> u32 \<Rightarrow> 'w comm_state \<Rightarrow> (se_error \<times> 'w comm_state) res" where
  "api_loader_download fuel image_addr img_len st =
     (case image_addr of
        None \<Rightarrow> Ok (SE_ERR_PARAM_INVALID, st)
      | Some img \<Rightarrow>
          if img_len = 0 then Ok (SE_ERR_PARAM_INVALID, st) else
          res_bind (guard (4 \<le> unat img_len)) (\<lambda>_.
          res_bind (mem_read img (unat img_len - 4) 4) (\<lambda>version.
          res_bind (reset_and_ask (Some (replicate 32 0), Some 0) info_local st) (\<lambda>(c, atr, info, st1).
          let download = res_bind (loader_records fuel img img_len st1) (\<lambda>(r, st2).
                case r of
                  Inl e \<Rightarrow> Ok (e, st2)
                | Inr version1 \<Rightarrow> loader_confirm atr info version1 st2)
          in case c of
               Reset_failed e \<Rightarrow> Ok (e, st1)
             | Info_failed e \<Rightarrow> Ok (e, st1)
             | Version v \<Rightarrow> if version \<noteq> v then download else Ok (SE_SUCCESS, st1)
             | _ \<Rightarrow> download))))"

end
