(* ===== verification/Api_Facts.thy ===== *)
theory Api_Facts
  imports Api_Crypto Apdu_Facts
begin

text \<open>
  What the segment loops of crypto.c do: the loop over a command that reads no more than the
  segment it is given is the same as sending the list of chunks of the input, one after the other.
\<close>

section \<open>Chunks\<close>

fun chunks :: "nat \<Rightarrow> bytes \<Rightarrow> bytes list" where
  "chunks b d = (if d = [] \<or> b = 0 then [] else take b d # chunks b (drop b d))"

declare chunks.simps [simp del]

lemma chunks_simps [simp]:
  "chunks b [] = []"
  "d \<noteq> [] \<Longrightarrow> 0 < b \<Longrightarrow> chunks b d = take b d # chunks b (drop b d)"
  by (subst chunks.simps, simp)+

lemma chunks_eq_Nil: "0 < b \<Longrightarrow> chunks b d = [] \<longleftrightarrow> d = []"
  by (cases "d = []") simp_all

lemma concat_chunks: "0 < b \<Longrightarrow> concat (chunks b d) = d"
  by (induction b d rule: chunks.induct) (subst chunks.simps, simp)

lemma length_chunks:
  assumes "0 < b"
  shows "length (chunks b d) = (length d + b - 1) div b"
  using assms
proof (induction b d rule: chunks.induct)
  case (1 b d)
  show ?case
  proof (cases "d = []")
    case False
    then have "length (chunks b d) = Suc ((length d - b + b - 1) div b)"
      using 1 by simp
    also have "\<dots> = (length d + b - 1) div b"
    proof (cases "b \<le> length d")
      case True
      have "length d + b - 1 = (length d - b + b - 1) + b" using True 1(2) by linarith
      moreover have "((length d - b + b - 1) + b) div b = Suc ((length d - b + b - 1) div b)"
        using 1(2) by (subst div_add_self2) simp_all
      ultimately show ?thesis by simp
    next
      case F: False
      have e: "length d + b - 1 = (length d - 1) + b" using False by (cases d) simp_all
      have "(length d + b - 1) div b = (length d - 1) div b + 1"
        unfolding e using 1(2) by (intro div_add_self2) simp
      moreover have "(length d - 1) div b = 0" "(length d - b + b - 1) div b = 0" using F 1(2) by simp_all
      ultimately show ?thesis by linarith
    qed
    finally show ?thesis .
  qed (use 1(2) in simp)
qed

lemma chunks_length: "0 < b \<Longrightarrow> c \<in> set (chunks b d) \<Longrightarrow> 0 < length c \<and> length c \<le> b"
proof (induction b d rule: chunks.induct)
  case (1 b d)
  show ?case
  proof (cases "d = []")
    case False
    then have "c = take b d \<or> c \<in> set (chunks b (drop b d))" using 1(2,3) by simp
    then show ?thesis using False 1 by auto
  qed (use 1(3) in simp)
qed

lemma chunks_full: "0 < b \<Longrightarrow> c \<in> set (butlast (chunks b d)) \<Longrightarrow> length c = b"
proof (induction b d rule: chunks.induct)
  case (1 b d)
  show ?case
  proof (cases "d = [] \<or> drop b d = []")
    case True
    then show ?thesis using 1(2,3) by (cases "d = []") simp_all
  next
    case False
    then have "butlast (chunks b d) = take b d # butlast (chunks b (drop b d))"
      using 1(2) chunks_eq_Nil [of b "drop b d"] by simp
    then have "c = take b d \<or> c \<in> set (butlast (chunks b (drop b d)))" using 1(3) by simp
    then show ?thesis using False 1(1,2) by auto
  qed
qed

text \<open>The abstract form of the loop: the chunks in order, flags on the first and on the last.\<close>

fun run_chunks :: "'s segment_call \<Rightarrow> u32 \<Rightarrow> cbool \<Rightarrow> bytes list \<Rightarrow> 's \<Rightarrow> (se_error \<times> 's) res" where
  "run_chunks call off first [] s = Ok (SE_SUCCESS, s)"
| "run_chunks call off first (c # cs) s =
     res_bind (call c (of_nat (length c)) off first (if cs = [] then 1 else 0) s) (\<lambda>(ret, s1).
     if ret \<noteq> SE_SUCCESS then Ok (ret, s1)
     else run_chunks call (off + of_nat (length c)) 0 cs s1)"

lemma unat_seg_count:
  assumes "1 < block" "length d = unat n"
  shows "unat (seg_count block n) = length (chunks (unat block) d)"
proof -
  have b: "1 < unat block" using assms(1) by (simp add: word_less_nat_alt)
  have "unat n div unat block < 2 ^ 31"
  proof -
    have "unat n div unat block \<le> unat n div 2" using b by (intro div_le_mono2) simp_all
    then show ?thesis using u32_lt [of n] by simp
  qed
  then have one: "unat (n div block + 1) = unat n div unat block + 1"
    by (subst unat_add_lem [THEN iffD1]) (simp_all add: unat_div)
  have m: "n mod block = 0 \<longleftrightarrow> unat n mod unat block = 0"
    by (metis unat_mod unsigned_0 unsigned_word_eqI)
  have "unat n mod unat block = 0 \<Longrightarrow> (unat n + unat block - 1) div unat block = unat n div unat block"
    "unat n mod unat block \<noteq> 0 \<Longrightarrow> (unat n + unat block - 1) div unat block = unat n div unat block + 1"
  proof -
    let ?q = "unat n div unat block" and ?r = "unat n mod unat block"
    have n: "unat n = unat block * ?q + ?r" by simp
    have r: "?r < unat block" using b by simp
    {
      assume "?r = 0"
      then have e: "unat n + unat block - 1 = (unat block - 1) + ?q * unat block" using n b
        by (simp add: mult.commute)
      show "(unat n + unat block - 1) div unat block = ?q"
        unfolding e using b by (subst div_mult_self1) simp_all
    next
      assume "?r \<noteq> 0"
      then have "unat n + unat block - 1 = (?r - 1) + unat block * (?q + 1)"
        using n b by (simp only: distrib_left mult_1_right)
      then have e: "unat n + unat block - 1 = (?r - 1) + (?q + 1) * unat block"
        by (simp only: mult.commute)
      have "(?r - 1) div unat block = 0" using r by simp
      then show "(unat n + unat block - 1) div unat block = ?q + 1"
        unfolding e using b by (subst div_mult_self1) simp_all
    }
  qed
  moreover have "unat (n div block) = unat n div unat block" by (simp add: unat_div)
  ultimately show ?thesis
    using b one assms(2) m by (simp add: seg_count_def Let_def length_chunks)
qed

section \<open>The loop over chunks\<close>

text \<open>A command that looks at the bytes of its segment only.\<close>

locale segment_command =
  fixes call :: "bytes \<Rightarrow> u32 \<Rightarrow> u32 \<Rightarrow> cbool \<Rightarrow> cbool \<Rightarrow> 's \<Rightarrow> (se_error \<times> 's) res"
  assumes reads: "unat n \<le> length d \<Longrightarrow> call d n off f l s = call (take (unat n) d) n off f l s"
begin

lemma segments_chunks:
  assumes "0 < block" "unat off + unat n \<le> length buf" "length buf < 2 ^ 32"
    and "unat count = length (chunks (unat block) (take (unat n) (drop (unat off) buf)))"
  shows "segments block call buf count n off f s
    = run_chunks call off f (chunks (unat block) (take (unat n) (drop (unat off) buf))) s"
  using assms
proof (induction "unat count" arbitrary: count n off f s)
  case 0
  then have "chunks (unat block) (take (unat n) (drop (unat off) buf)) = []" "\<not> 0 < count"
    by (simp_all add: unsigned_eq_0_iff)
  then show ?case by (subst segments.simps) simp
next
  case (Suc k)
  let ?b = "unat block" and ?d = "take (unat n) (drop (unat off) buf)"
  let ?m = "if n \<le> block then n else block"
  have b: "0 < ?b" using Suc.prems(1) by (simp add: unat_gt_0)
  have ne: "?d \<noteq> []"
  proof
    assume "?d = []"
    then show False using Suc(2) Suc.prems(4) by (simp only: chunks_simps list.size)
  qed
  have m: "unat ?m = min (unat n) ?b" by (simp add: word_le_nat_alt min_def)
  have t: "take (unat ?m) (drop (unat off) buf) = take ?b ?d" "unat ?m \<le> length (drop (unat off) buf)"
    "length (take ?b ?d) = unat ?m"
    using Suc.prems(2) unfolding m by (simp_all add: min.commute)
  have w: "of_nat (length (take ?b ?d)) = ?m" unfolding t(3) by simp
  have ch: "chunks ?b ?d = take ?b ?d # chunks ?b (drop ?b ?d)" using ne b by simp
  have "count \<noteq> 0" using Suc(2) by auto
  then have c: "0 < count" "unat (count - 1) = k"
    using Suc(2) by (simp_all add: word_gt_0 unat_minus_one)
  have last: "count = 1 \<longleftrightarrow> chunks ?b (drop ?b ?d) = []"
  proof -
    have "count = 1 \<longleftrightarrow> unat count = 1" using unat_is_1 [of count] by simp
    also have "\<dots> \<longleftrightarrow> length (chunks ?b (drop ?b ?d)) = 0" unfolding Suc.prems(4) ch by simp
    finally show ?thesis by simp
  qed
  have off: "unat (off + ?m) = unat off + unat ?m"
    using Suc.prems(2,3) m by (subst unat_add_lem [THEN iffD1]) simp_all
  have rest: "unat (n - ?m) = unat n - unat ?m"
    by (subst unat_sub) (auto simp: word_le_nat_alt)
  have d': "take (unat (n - ?m)) (drop (unat (off + ?m)) buf) = drop ?b ?d"
    unfolding off rest m by (auto simp: drop_take min_def add.commute)
  have IH: "segments block call buf (count - 1) (n - ?m) (off + ?m) 0 s1
      = run_chunks call (off + ?m) 0 (chunks ?b (drop ?b ?d)) s1" for s1
    unfolding d' [symmetric]
  proof (rule Suc.hyps(1))
    show "unat (off + ?m) + unat (n - ?m) \<le> length buf"
      unfolding off rest m using Suc.prems(2) by simp
    show "unat (count - 1) = length (chunks ?b (take (unat (n - ?m)) (drop (unat (off + ?m)) buf)))"
      unfolding d' using Suc.prems(4) c(2) Suc(2) unfolding ch by simp
  qed (use c(2) Suc.prems(1,3) in simp_all)
  show ?case
    unfolding ch run_chunks.simps w
    by (subst segments.simps)
      (simp only: c(1) if_True Let_def reads [OF t(2)] t(1) last [symmetric] IH)
qed

theorem in_segments_chunks:
  assumes "1 < block" "unat n \<le> length buf" "length buf < 2 ^ 32"
  shows "in_segments block call buf n s = run_chunks call 0 1 (chunks (unat block) (take (unat n) buf)) s"
  unfolding in_segments_def
  by (subst segments_chunks)
    (use assms unat_seg_count [OF assms(1), of "take (unat n) buf" n] in
      \<open>simp_all add: word_less_nat_alt\<close>)

end

section \<open>The commands\<close>

text \<open>All of them push the input once and do not look at it again.\<close>

lemmas segment_defs = encrypt_segment_def decrypt_segment_def mac_segment_def asym_enc_segment_def
  asym_dec_segment_def sign_segment_def digest_segment_def apdu_sym_enc_dec_def apdu_mac_def
  apdu_asym_enc_def apdu_asym_dec_def asym_cipher_def apdu_asym_sign_def apdu_digest_def
  sym_payload_def mac_payload_def

interpretation enc: segment_command "encrypt_segment key p" for key p
  by unfold_locales (simp only: segment_defs rear_push_take [symmetric])

interpretation dec: segment_command "decrypt_segment key p" for key p
  by unfold_locales (simp only: segment_defs rear_push_take [symmetric])

interpretation mac: segment_command "mac_segment if_mac key p" for if_mac key p
  by unfold_locales (simp only: segment_defs rear_push_take [symmetric])

interpretation pki_enc: segment_command "asym_enc_segment fuel key p" for fuel key p
  by unfold_locales (simp only: segment_defs rear_push_take [symmetric])

interpretation pki_dec: segment_command "asym_dec_segment fuel key p" for fuel key p
  by unfold_locales (simp only: segment_defs rear_push_take [symmetric])

interpretation sign: segment_command "sign_segment key p" for key p
  by unfold_locales (simp only: segment_defs rear_push_take [symmetric])

interpretation digest: segment_command "digest_segment alg" for alg
  by unfold_locales (simp only: segment_defs rear_push_take [symmetric])

end
