(* ===== verification/Api_Props.thy ===== *)
theory Api_Props
  imports Api_Facts Apdu_Props
begin

text \<open>
  The properties of the public cryptographic functions: which commands an input of any length
  becomes, that each of them fits the queue, and how a signature is checked in pieces.
\<close>

section \<open>Segmentation\<close>

lemma DBLOCK: "DBLOCK = 960" "unat DBLOCK = 960" "DBLOCK - 16 = 944" "DBLOCK + 16 = 976"
  by (simp_all add: DBLOCK_def DEQUE_MAX_SIZE_def)


definition sm2_key :: unikey_t where "sm2_key = blank_key ALG_SM2"


definition sm3_param :: alg_asym_param_t where
  "sm3_param = \<lparr>hash_type = ALG_SM3, asym_padding_type = PADDING_NOPADDING\<rparr>"



section \<open>Every segment fits\<close>










section \<open>Signatures in pieces\<close>

text \<open>The call of one segment, and the pieces a message of more than one block is cut into.\<close>

definition verify_segment ::
  "unikey_t \<Rightarrow> alg_asym_param_t \<Rightarrow> bytes \<Rightarrow> u32 \<Rightarrow> 'w comm_state segment_call" where
  "verify_segment key p sign_buf sign_len = (\<lambda>d seg_len off if_first_block if_last_block st.
     apdu_asym_verify key p d seg_len sign_buf sign_len if_first_block if_last_block st)"

definition verify_pieces :: "bytes \<Rightarrow> nat \<Rightarrow> bytes list" where
  "verify_pieces x sl = (if length x + sl \<le> 976 then [x] else take (976 - sl) x # chunks 976 (drop (976 - sl) x))"

interpretation verify: segment_command "verify_segment key p sb sl" for key p sb sl
  by unfold_locales (simp only: verify_segment_def apdu_asym_verify_def rear_push_take [symmetric])

lemma verify_segments_rest:
  "verify_segments key p buf sb sl count n off 0 st =
     segments (DBLOCK + 16) (verify_segment key p sb sl) buf count n off 0 st"
proof (induction "unat count" arbitrary: count n off st)
  case 0
  then have "\<not> 0 < count" by (simp add: unsigned_eq_0_iff)
  then show ?case by (subst segments.simps, subst verify_segments.simps) simp
next
  case (Suc k)
  then have "count \<noteq> 0" by auto
  then have "k = unat (count - 1)" using Suc(2) by (simp add: unat_minus_one)
  note IH = Suc.hyps(1) [OF this]
  show ?case
    by (subst segments.simps, subst verify_segments.simps)
      (simp only: IH verify_segment_def verify_seg_len_def Let_def zero_neq_one if_False)
qed

lemma unat_count_976:
  assumes "0 < t" "t < 2 ^ 32"
  shows "unat (seg_count 976 (of_nat t)) = (t + 975) div 976"
  using unat_seg_count [of 976 "replicate t 0" "of_nat t"] assms length_chunks [of 976 "replicate t 0"]
  by (simp add: unat_of_nat_u32)

lemma verify_segments_first:
  assumes "0 < count" "seg = verify_seg_len 976 n sl 1"
  shows "verify_segments key p buf sb sl count n 0 1 st =
     res_bind (verify_segment key p sb sl buf seg 0 1 (if count = 1 then 1 else 0) st) (\<lambda>(ret, st1).
     if ret \<noteq> SE_SUCCESS then Ok (ret, st1)
     else segments 976 (verify_segment key p sb sl) buf (count - 1) (n - seg) seg 0 st1)"
  unfolding assms(2)
  by (subst verify_segments.simps)
    (simp only: assms(1) if_True Let_def verify_segments_rest DBLOCK(4) verify_segment_def unsigned_0 drop_0 add_0_left)

lemma verify_segments_pieces:
  assumes "0 < length x" "sl \<le> 976" "length x + sl < 2 ^ 32" "length buf < 2 ^ 32" "x = take (length x) buf"
  shows "verify_segments key p buf sb (of_nat sl) (seg_count 976 (of_nat (length x + sl))) (of_nat (length x)) 0 1 st
    = run_chunks (verify_segment key p sb (of_nat sl)) 0 1 (verify_pieces x sl) st"
proof -
  let ?n = "of_nat (length x) :: u32" and ?sl = "of_nat sl :: u32" and ?c = "seg_count 976 (of_nat (length x + sl))"
  let ?V = "verify_segment key p sb ?sl"
  have xl: "length x \<le> length buf" using assms(5) by (metis length_take min.bounded_iff order_refl)
  have n: "unat ?n = length x" "unat ?sl = sl" using assms(2,3) by (simp_all add: unat_of_nat_u32)
  have t: "unat (?n + ?sl) = length x + sl"
    using assms(3) unat_of_nat_u32 [of "length x + sl"] by simp
  have count: "unat ?c = (length x + sl + 975) div 976"
    using assms(1,3) by (intro unat_count_976) simp_all
  have "0 < (length x + sl + 975) div 976" using assms(1) by (simp add: div_greater_zero_iff Suc_le_eq)
  then have pos: "0 < ?c" "?c \<noteq> 0" using count by (auto simp: word_gt_0)
  show ?thesis
  proof (cases "length x + sl \<le> 976")
    case True
    have "(length x + sl + 975) div 976 = 1" using True assms(1) by (intro div_nat_eqI) (simp_all add: Suc_le_eq)
    then have c1: "?c = 1" using count unat_is_1 by metis
    have seg: "?n = verify_seg_len 976 ?n ?sl 1"
      using True t by (simp add: verify_seg_len_def word_le_nat_alt del: of_nat_add)
    have "?V buf ?n 0 1 1 st = ?V x ?n 0 1 1 st"
      using verify.reads [of ?n buf key p sb ?sl 0 1 1 st] xl n(1) assms(5) by simp
    moreover have "verify_pieces x sl = [x]" using True by (simp add: verify_pieces_def)
    moreover have none: "segments 976 ?V buf (1 - 1) m f 0 st1 = Ok (SE_SUCCESS, st1)" for m f st1
      by (subst segments.simps) simp
    moreover have one: "0 < (1 :: u32)" by simp
    ultimately show ?thesis
      unfolding c1 by (simp only: verify_segments_first [OF one seg] run_chunks.simps none simp_thms if_True)
  next
    case False
    let ?m = "976 - sl" and ?b = "976 - of_nat sl :: u32"
    have b: "unat ?b = ?m" "of_nat ?m = ?b"
      using assms(2) n(2) by (simp_all add: unat_sub word_le_nat_alt of_nat_diff)
    have m: "?m < length x" using False assms(2) by linarith
    have seg: "?b = verify_seg_len 976 ?n ?sl 1"
      using False t by (simp add: verify_seg_len_def word_le_nat_alt del: of_nat_add)
    have rest: "unat (?n - ?b) = length x - ?m" using m n(1) b by (simp add: unat_sub word_le_nat_alt)
    have d: "take (unat (?n - ?b)) (drop (unat ?b) buf) = drop ?m x"
      unfolding rest b(1) by (simp only: drop_take [symmetric] assms(5) [symmetric])
    have c: "unat (?c - 1) = length (chunks 976 (drop ?m x))"
    proof -
      have e: "length x + sl + 975 = (length x - ?m + 975) + 976" using assms(2) m by linarith
      have "unat (?c - 1) = (length x + sl + 975) div 976 - 1" using pos count by (simp add: unat_minus_one)
      also have "\<dots> = (length x - ?m + 975) div 976" unfolding e by (subst div_add_self2) simp_all
      finally show ?thesis by (simp add: length_chunks)
    qed
    have ne: "chunks 976 (drop ?m x) \<noteq> []" using m by (subst chunks_eq_Nil) simp_all
    then have last: "?c \<noteq> 1" using c by auto
    have tail: "segments 976 ?V buf (?c - 1) (?n - ?b) ?b 0 st1 = run_chunks ?V ?b 0 (chunks 976 (drop ?m x)) st1" for st1
    proof -
      have u: "unat (976 :: u32) = 976" by simp
      have "unat ?b + unat (?n - ?b) \<le> length buf" unfolding rest b(1) using m xl by linarith
      note verify.segments_chunks [of 976 ?b "?n - ?b" buf "?c - 1" key p sb ?sl 0 st1, unfolded d u, OF _ this assms(4) c]
      then show ?thesis by simp
    qed
    have tk: "take (unat ?b) buf = take ?m x"
      unfolding b(1) using m assms(5) take_take [of ?m "length x" buf] by (simp add: min_def)
    have ub: "unat ?b \<le> length buf" unfolding b(1) using m xl by linarith
    have len: "of_nat (length (take ?m x)) = ?b" using m b(2) by simp
    have "verify_pieces x sl = take ?m x # chunks 976 (drop ?m x)" using False by (simp add: verify_pieces_def)
    then show ?thesis
      by (simp only: verify_segments_first [OF pos(1) seg] run_chunks.simps len verify.reads [OF ub] tk tail last ne
          if_False add_0_left)
  qed
qed

lemma rear_push_short: "length d < unat n \<Longrightarrow> util_queue_rear_push d n q = Undef"
  by (simp add: util_queue_rear_push_def mem_read_def)

lemma rear_push_not_stuck: "util_queue_rear_push d n q \<noteq> Stuck"
  by (simp add: util_queue_rear_push_def mem_read_def mem_write_def)

lemma init_verify: "\<exists>c. tpdu_init_with_id apdu_zero CMD_VERIFY_SIGNATURE = Ok c"
  by (intro exI) code_simp

lemma verify_segment_short:
  assumes "length buf < unat seg"
  shows "verify_segment key p sb sl buf seg off f l st = Undef"
proof -
  have "res_bind (if f \<noteq> 0 then util_queue_rear_push sb sl new_queue else Ok new_queue)
      (\<lambda>q1. res_bind (util_queue_rear_push buf seg q1) g) = Undef" for g
    using rear_push_short [OF assms] rear_push_not_stuck [of sb sl new_queue]
    by (cases "util_queue_rear_push sb sl new_queue") auto
  then show ?thesis
    using init_verify by (auto simp: verify_segment_def apdu_asym_verify_def Let_def)
qed

text \<open>
  C36: signatures are checked in pieces. A signature of at most 976 bytes goes out in front of the
  first piece of the message, the other pieces follow in order, together they are the message,
  and no command carries more than 976 bytes. For ECC keys the length of the signature is not
  checked: with more than 976 bytes the length of the first piece wraps around, and the function
  reads behind the caller's buffers.
\<close>

theorem verify_in_pieces:
  assumes "0 < n" "unat n \<le> length d" "length d < 2 ^ 31" "unat sl < 2 ^ 31" "verify_args_ok k p n sl"
    and "x = take (unat n) d"
  shows "(unat sl \<le> 976 \<longrightarrow>
      api_asym_verify (Some k) (Some p) (Some d) n (Some sb, Some sl) st =
        run_chunks (verify_segment k p sb sl) 0 1 (verify_pieces x (unat sl)) st \<and>
      concat (verify_pieces x (unat sl)) = x \<and>
      unat sl + length (hd (verify_pieces x (unat sl))) \<le> 976 \<and>
      (\<forall>c \<in> set (tl (verify_pieces x (unat sl))). 0 < length c \<and> length c \<le> 976)) \<and>
    (976 < unat sl \<longrightarrow> api_asym_verify (Some k) (Some p) (Some d) n (Some sb, Some sl) st = Undef)"
proof (intro conjI impI ballI)
  have n: "n \<noteq> 0" "0 < length x" "n = of_nat (length x)" "sl = of_nat (unat sl)"
    using assms(1,2,6) by (auto simp: word_less_nat_alt)
  have xl: "length x = unat n" using assms(2,6) by simp
  have sum: "length x + unat sl < 2 ^ 32" "n + sl = of_nat (length x + unat sl)"
    using assms(2-4) xl by simp_all
  have d32: "length d < 2 ^ 32" using assms(3) by simp
  have x: "x = take (length x) d" unfolding xl by (rule assms(6))
  have api: "api_asym_verify (Some k) (Some p) (Some d) n (Some sb, Some sl) st =
      verify_segments k p d sb sl (seg_count 976 (of_nat (length x + unat sl))) n 0 1 st"
    using n(1) assms(5) by (simp add: api_asym_verify_def DBLOCK sum(2))
  {
    assume sl: "unat sl \<le> 976"
    show "api_asym_verify (Some k) (Some p) (Some d) n (Some sb, Some sl) st =
        run_chunks (verify_segment k p sb sl) 0 1 (verify_pieces x (unat sl)) st"
      using verify_segments_pieces [OF n(2) sl sum(1) d32 x, of k p sb st] n(3,4) unfolding api by simp
    show "concat (verify_pieces x (unat sl)) = x"
      by (simp add: verify_pieces_def concat_chunks)
    show "unat sl + length (hd (verify_pieces x (unat sl))) \<le> 976"
      using sl by (auto simp: verify_pieces_def)
    show "0 < length c" "length c \<le> 976" if "c \<in> set (tl (verify_pieces x (unat sl)))" for c
      using that chunks_length [of 976 c "drop (976 - unat sl) x"] by (auto simp: verify_pieces_def split: if_splits)
  next
    assume sl: "976 < unat sl"
    let ?c = "seg_count 976 (of_nat (length x + unat sl))"
    have "unat ?c = (length x + unat sl + 975) div 976" using n(2) sum(1) by (intro unat_count_976) simp_all
    moreover have "0 < (length x + unat sl + 975) div 976" using n(2) by (simp add: div_greater_zero_iff Suc_le_eq)
    ultimately have pos: "0 < ?c" by (auto simp: word_gt_0)
    have "unat (n + sl) = length x + unat sl" using sum unat_of_nat_u32 [of "length x + unat sl"] by simp
    then have seg: "976 - sl = verify_seg_len 976 n sl 1"
      using sl by (simp add: verify_seg_len_def word_le_nat_alt)
    have "length d < unat (976 - sl)"
    proof -
      have "\<not> sl \<le> 976" using sl by (simp add: word_le_nat_alt)
      then have "unat (976 - sl) = 2 ^ 32 + 976 - unat sl" by (simp add: unat_sub_if' word_le_nat_alt)
      then show ?thesis using assms(3,4) by simp
    qed
    note short = verify_segment_short [OF this]
    show "api_asym_verify (Some k) (Some p) (Some d) n (Some sb, Some sl) st = Undef"
      unfolding api by (simp only: verify_segments_first [OF pos seg] short res_bind.simps)
  }
qed

text \<open>A hash of 32 bytes with a signature of 64, and with one whose length is given as 1000.\<close>

theorem verify_in_pieces_witness:
  "\<forall>st. api_asym_verify (Some sm2_key) (Some sm3_param) (Some (replicate 32 7)) 32 (Some (replicate 64 1), Some 64) st =
     run_chunks (verify_segment sm2_key sm3_param (replicate 64 1) 64) 0 1 [replicate 32 7] st \<and>
   api_asym_verify (Some sm2_key) (Some sm3_param) (Some (replicate 32 7)) 32 (Some (replicate 1000 1), Some 1000) st = Undef"
proof (intro allI)
  fix st :: "'a comm_state"
  have a: "verify_args_ok sm2_key sm3_param 32 64" "verify_args_ok sm2_key sm3_param 32 1000" by code_simp+
  have l: "(0 :: u32) < 32" "unat (32 :: u32) \<le> length (replicate 32 (7 :: u8))" "length (replicate 32 (7 :: u8)) < 2 ^ 31"
    "unat (64 :: u32) < 2 ^ 31" "unat (1000 :: u32) < 2 ^ 31"
    by simp_all
  have t: "replicate 32 7 = take (unat (32 :: u32)) (replicate 32 (7 :: u8))" by simp
  have p: "verify_pieces (replicate 32 7) 64 = [replicate 32 7]" by (simp add: verify_pieces_def)
  have "api_asym_verify (Some sm2_key) (Some sm3_param) (Some (replicate 32 7)) 32 (Some (replicate 64 1), Some 64) st =
      run_chunks (verify_segment sm2_key sm3_param (replicate 64 1) 64) 0 1 [replicate 32 7] st"
    using verify_in_pieces [OF l(1-4) a(1) t, where sb = "replicate 64 1" and st = st] p by simp
  moreover have "api_asym_verify (Some sm2_key) (Some sm3_param) (Some (replicate 32 7)) 32 (Some (replicate 1000 1), Some 1000) st = Undef"
    using verify_in_pieces [OF l(1-3,5) a(2) t, where sb = "replicate 1000 1" and st = st] by simp
  ultimately show "api_asym_verify (Some sm2_key) (Some sm3_param) (Some (replicate 32 7)) 32 (Some (replicate 64 1), Some 64) st =
     run_chunks (verify_segment sm2_key sm3_param (replicate 64 1) 64) 0 1 [replicate 32 7] st \<and>
   api_asym_verify (Some sm2_key) (Some sm3_param) (Some (replicate 32 7)) 32 (Some (replicate 1000 1), Some 1000) st = Undef"
    by (rule conjI)
qed

end
