(* ===== verification/Card_Props.thy ===== *)
theory Card_Props
  imports Api_Key Api_Card Apdu_Props
begin

text \<open>
  The properties of the public functions for keys and PINs: what is sent for the keys they accept,
  what becomes of the transport key, and that a PIN block carries the new PIN.
\<close>

section \<open>PIN blocks\<close>

definition unmask :: "bytes \<Rightarrow> bytes \<Rightarrow> bytes" where
  "unmask h b = map (\<lambda>i. h ! (i mod 16) XOR b ! i) [0..<length b]"

lemma pin_fill_pad80:
  assumes "8 \<le> n" "n \<le> 18" "length b = 32" "drop n b = replicate (32 - n) 0"
  shows "\<exists>b' m. pin_fill b (of_nat n) = Ok (b', of_nat m) \<and> length b' = 32 \<and> (m = 16 \<or> m = 32) \<and>
    take m b' = take n b @ pad80 n"
proof (cases "n = 16")
  case True
  then show ?thesis
    using assms(3) by (intro exI [of _ b] exI [of _ 16]) (simp add: pin_fill_def pad80_def)
next
  case False
  let ?b = "take n b @ 0x80 # replicate (31 - n) 0" and ?m = "if n < 16 then 16 else 32 :: nat"
  have un: "unat (of_nat n :: u32) = n" using assms(2) by (simp add: unat_of_nat_u32)
  have "drop (n + 1) b = drop 1 (drop n b)" by simp
  then have w: "mem_write b n [0x80] = Ok ?b"
    unfolding assms(4) using assms(1-3) by (simp add: mem_write_def)
  have n: "n \<in> {8, 9, 10, 11, 12, 13, 14, 15, 17, 18}"
    using assms(1,2) False by (simp del: One_nat_def) presburger
  then have "pin_fill b (of_nat n) = Ok (?b, of_nat ?m)"
    using w by (elim insertE emptyE) (simp_all add: pin_fill_def Let_def)
  moreover have "take ?m ?b = take n b @ pad80 n"
    using n assms(3) by (elim insertE emptyE) (simp_all add: pad80_def)
  moreover have "length ?b = 32" using assms(2,3) by simp
  ultimately show ?thesis by (intro exI [of _ ?b] exI [of _ ?m]) auto
qed

text \<open>
  C26: the PIN block. For every new PIN the public functions accept, the block is made without
  leaving its array, it has one or two cipher blocks, and taking the mask off again gives a zero
  byte, the length, the PIN and the padding 80 00 .. 00: a device with the same digest recovers it.
\<close>

theorem pin_block_recovers:
  assumes "new_len_ok n" "unat n \<le> length d" "16 \<le> length h"
  shows "\<exists>b m. pin_block h d n = Ok (b, of_nat m) \<and> length b = 32 \<and> (m = 16 \<or> m = 32) \<and>
    unmask h (take m b) = [0, ucast n] @ take (unat n) d @ pad80 (unat n + 2)"
proof -
  let ?n = "unat n"
  have n: "6 \<le> ?n" "?n \<le> 16" using assms(1) by (simp_all add: new_len_ok_def word_le_nat_alt)
  let ?b = "[0, ucast n] @ take ?n d @ replicate (30 - ?n) 0 :: bytes"
  have "n AND 0xFF = n"
  proof -
    have "unat (take_bit 8 n) = ?n" using n by (simp add: unsigned_take_bit_eq take_bit_nat_eq_self)
    then have "take_bit 8 n = n" by (rule unsigned_word_eqI)
    then show ?thesis by (simp add: take_bit_eq_mask mask_eq_exp_minus_1)
  qed
  then have head: "(replicate 32 0)[1 := ucast (n AND 0xFF)] = [0, ucast n] @ replicate 30 (0 :: u8)"
    by (simp add: numeral_eq_Suc)
  have w: "mem_write ([0, ucast n] @ replicate 30 0) 2 (take ?n d) = Ok ?b"
    using n assms(2) by (simp add: mem_write_def)
  have n2: "n + 2 = of_nat (?n + 2)" by simp
  have dr: "drop (?n + 2) ?b = replicate (32 - (?n + 2)) 0" "length ?b = 32" using n assms(2) by simp_all
  obtain b' m where b': "pin_fill ?b (of_nat (?n + 2)) = Ok (b', of_nat m)" "length b' = 32" "m = 16 \<or> m = 32"
      "take m b' = take (?n + 2) ?b @ pad80 (?n + 2)"
    using pin_fill_pad80 [OF _ _ dr(2,1)] n by auto
  have mm: "16 * (unat (of_nat m :: u32) div 16) = m" "m \<le> 32" using b'(3) by auto
  let ?x = "map (\<lambda>i. h ! (i mod 16) XOR b' ! i) [0..<m]"
  have "pin_mask h b' (of_nat m) = Ok (?x @ drop m b')"
    using mm b'(2) by (simp add: pin_mask_def Let_def)
  then have "pin_block h d n = Ok (?x @ drop m b', of_nat m)"
    using assms(2) w b'(1) unfolding pin_block_def head n2 by (simp add: mem_read_def)
  moreover have "unmask h ?x = take m b'"
    using mm b'(2) by (intro nth_equalityI) (simp_all add: unmask_def xor.assoc [symmetric])
  moreover have "take (?n + 2) ?b = [0, ucast n] @ take ?n d" using assms(2) by simp
  ultimately show ?thesis
    using b'(2,3,4) mm by (intro exI [of _ "?x @ drop m b'"] exI [of _ m] conjI) simp_all
qed

theorem pin_block_recovers_witness:
  "\<exists>b m. pin_block (replicate 32 0x5A) [1, 2, 3, 4, 5, 6] 6 = Ok (b, of_nat m) \<and>
     unmask (replicate 32 0x5A) (take m b) = [0, 6, 1, 2, 3, 4, 5, 6, 0x80, 0, 0, 0, 0, 0, 0, 0]"
proof -
  have ok: "new_len_ok 6" by (simp add: new_len_ok_def)
  have pad: "pad80 8 = [0x80, 0, 0, 0, 0, 0, 0, 0]" by code_simp
  note R = pin_block_recovers [OF ok, of "[1, 2, 3, 4, 5, 6]" "replicate 32 0x5A"]
  show ?thesis using R by (simp add: pad) blast
qed

section \<open>The transport key\<close>

definition transkey_cmd :: iso_command_apdu_t where
  "transkey_cmd = \<lparr>isoCase = ISO_CASE_3S, classbyte = 0x80, instruction = 0xD4, apdu_p1 = 0x01, apdu_p2 = 0x01,
     lc = 0, le = 0\<rparr>"

lemma transkey_cmd:
  "res_bind (tpdu_init_with_id apdu_zero CMD_WRITE_KEY) (\<lambda>c. f (tpdu_set_cla (tpdu_set_p1p2 c 0x01 0x01) CMD_CLA_CASE3))
     = f transkey_cmd"
proof -
  have "res_bind (tpdu_init_with_id apdu_zero CMD_WRITE_KEY)
      (\<lambda>c. Ok (tpdu_set_cla (tpdu_set_p1p2 c 0x01 0x01) CMD_CLA_CASE3)) = Ok transkey_cmd"
    by code_simp
  then show ?thesis by (cases "tpdu_init_with_id apdu_zero CMD_WRITE_KEY") simp_all
qed

text \<open>
  C22: changing the transport key. For a key of 16 bytes with the id 2, \<open>api_set_transkey\<close> sends
  the attributes and the key itself, not encrypted, with the header 80 D4 01 01; and whatever the
  device answers - success or a refusal - the host encrypts with the new key from then on, while
  a device that refused still has the old one.
\<close>

theorem set_transkey_sends:
  assumes "key_len k = 16" "key_id k = 2" "16 \<le> length (key_val k)" "length tk = 16"
  shows "\<exists>q. wf_queue q \<and> q_data q = [0x01, 0x02, 0x40] @ take 16 (key_val k) \<and>
    api_set_transkey tk (Some k) st =
      res_bind (run_silent transkey_cmd q st) (\<lambda>(ret, st1). Ok (ret, take 16 (key_val k), st1))"
proof -
  let ?v = "take 16 (key_val k)" and ?d = "[0x01, 0x02, 0x40] @ take 16 (key_val k)"
  have buf: "(replicate 19 0)[0 := 0x01, Suc 0 := 2, 2 := 0x40] = 0x01 # 0x02 # 0x40 # replicate 16 (0 :: u8)"
    by (simp add: numeral_eq_Suc)
  have w: "mem_write ([0x01, 0x02, 0x40] @ replicate 16 0) 3 ?v = Ok ?d" "mem_write tk 0 ?v = Ok ?v"
    "mem_read (key_val k) 0 16 = Ok ?v"
    using assms(3,4) by (simp_all add: mem_write_def mem_read_def)
  have l: "length ?d = 19" using assms(3) by simp
  obtain q where q: "util_queue_rear_push ?d (of_nat 19) new_queue = Ok q" "wf_queue q"
      "q_data q = q_data new_queue @ take 19 ?d"
    by (rule rear_push_tail [of new_queue 19 ?d]) (use l in auto)
  have "take 19 ?d = ?d" using l by simp
  then have d: "q_data q = ?d" using q(3) by simp
  have "apdu_write_key ?v (Some ?d) 19 0 0 0 st = run_silent transkey_cmd q st"
    using q(1) transkey_cmd [of "\<lambda>c. res_bind (util_queue_rear_push ?d 19 new_queue) (\<lambda>q. run_silent c q st)"]
    by (simp add: apdu_write_key_def)
  then have "api_set_transkey tk (Some k) st =
      res_bind (run_silent transkey_cmd q st) (\<lambda>(ret, st1). Ok (ret, ?v, st1))"
    using assms(1,2) w by (simp add: api_set_transkey_def buf)
  then show ?thesis using q(2) d by blast
qed

text \<open>A device that answers 6985, conditions of use not satisfied, to everything.\<close>

definition transport_key :: unikey_t where
  "transport_key = (blank_key ALG_SM4)\<lparr>key_id := 2, key_len := 16, key_val := replicate 912 0x77\<rparr>"

definition refusing_device :: "unit comm_state" where
  "refusing_device = echo_state (queue_of [0x69, 0x85])"

lemma transkey_refused:
  "case api_set_transkey trans_key_init (Some transport_key) refusing_device of
     Ok (ret, tk, st) \<Rightarrow> ret = 0x10006985 \<and> tk = replicate 16 0x77 | _ \<Rightarrow> False"
  by code_simp

theorem set_transkey_sends_witness:
  "\<exists>q. q_data q = [0x01, 0x02, 0x40] @ replicate 16 0x77 \<and>
     api_set_transkey trans_key_init (Some transport_key) refusing_device =
       res_bind (run_silent transkey_cmd q refusing_device) (\<lambda>(ret, st1). Ok (ret, replicate 16 0x77, st1))"
proof -
  have "key_len transport_key = 16" "key_id transport_key = 2" "16 \<le> length (key_val transport_key)"
    "length trans_key_init = 16" "take 16 (key_val transport_key) = replicate 16 0x77"
    by (simp_all add: transport_key_def trans_key_init_def)
  from set_transkey_sends [OF this(1-4), of refusing_device] this(5) show ?thesis by auto
qed

section \<open>Importing keys\<close>

lemma trans_encrypt_take:
  assumes "unat n \<le> length d"
  shows "apdu_trans_encrypt key d n off q = apdu_trans_encrypt key (take (unat n) d) n off q"
  unfolding apdu_trans_encrypt_def by (simp only: rear_push_take [OF assms, symmetric])

lemma length_trans_plain: "length (trans_plain d) \<le> length d + 17" "length (trans_plain d) mod 16 = 0"
  using length_pad80 [of "length d + 2"] by (simp_all add: trans_plain_def Let_def)

text \<open>The body of an import: the key, or its transport encryption behind eight bytes of attributes.\<close>

lemma import_body:
  assumes "wf_queue q" "length (q_data q) = 8" "front_room q = 20" "unat n \<le> length d" "unat n \<le> 912"
  obtains q' body where
    "(if ft \<noteq> 0 then apdu_trans_encrypt tk d n 8 q
      else res_bind (util_queue_rear_push d n q) (\<lambda>q. Ok (SE_SUCCESS, q))) = Ok (SE_SUCCESS, q')"
    "wf_queue q'" "q_data q' = q_data q @ body" "front_room q' = 20" "length body \<le> 928"
    "ft = 0 \<longrightarrow> body = take (unat n) d"
    "ft \<noteq> 0 \<longrightarrow> sm4_crypt_ecb (sm4_setkey_dec tk sm4_ctxt) SM4_DECRYPT (int (length body)) body
        = Ok (trans_plain (take (unat n) d))"
proof (cases "ft = 0")
  case True
  have "rear_room q = 995" using queue_rooms [OF assms(1)] assms(2,3) by simp
  then obtain q' where "util_queue_rear_push d n q = Ok q'" "wf_queue q'" "q_data q' = q_data q @ take (unat n) d"
      "front_room q' = front_room q"
    using rear_push_wf [OF assms(1,4)] assms(5) by auto
  then show thesis using that [of q' "take (unat n) d"] True assms(3,5) by simp
next
  case False
  let ?x = "take (unat n) d"
  have x: "of_nat (length ?x) = n" "length ?x \<le> 912" using assms(4,5) by simp_all
  have room: "length ?x + 18 \<le> rear_room q" using queue_rooms [OF assms(1)] assms(2,3) x(2) by simp
  obtain q' e where e: "apdu_trans_encrypt tk ?x (of_nat (length ?x)) (of_nat (length (q_data q))) q = Ok (SE_SUCCESS, q')"
      "wf_queue q'" "q_data q' = q_data q @ e" "length e = length (trans_plain ?x)" "length e mod 16 = 0"
      "sm4_crypt_ecb (sm4_setkey_dec tk sm4_ctxt) SM4_DECRYPT (int (length e)) e = Ok (trans_plain ?x)"
      "front_room q' = front_room q"
    by (rule trans_encrypt_queue [OF assms(1) room])
  have "length e \<le> 928"
  proof -
    have "length e \<le> 929" using e(4) length_trans_plain(1) [of ?x] x(2) by simp
    moreover have "length e \<noteq> 929" using e(5) by auto
    ultimately show ?thesis by simp
  qed
  moreover have "apdu_trans_encrypt tk d n 8 q = Ok (SE_SUCCESS, q')"
    using e(1) trans_encrypt_take [OF assms(4), of tk 8 q] x(1) assms(2) by simp
  ultimately show thesis using that [of q' e] False e assms(3) by simp
qed

definition import_cmd :: "nat \<Rightarrow> u8 \<Rightarrow> u8 \<Rightarrow> iso_command_apdu_t" where
  "import_cmd n p1 p2 =
     \<lparr>isoCase = if 0xFF < n then ISO_CASE_3E else ISO_CASE_3S, classbyte = 0x80, instruction = 0x3C,
      apdu_p1 = p1, apdu_p2 = p2, lc = 0, le = 0\<rparr>"

lemma set_p1p2: "tpdu_set_p1p2 c x y = c\<lparr>apdu_p1 := x, apdu_p2 := y\<rparr>"
  using tpdu_setters [of 0 c x y] by blast

lemma import_cmd:
  "res_bind (tpdu_init_with_id apdu_zero CMD_IMPORT_KEY) (\<lambda>c. f (tpdu_set_p1p2 (by_length n c) p1 p2)) = f (import_cmd n p1 p2)"
proof -
  have "tpdu_init_with_id apdu_zero CMD_IMPORT_KEY =
      Ok \<lparr>isoCase = VAR, classbyte = 0x80, instruction = 0x3C, apdu_p1 = VAR, apdu_p2 = VAR, lc = 0, le = 0\<rparr>"
    by code_simp
  then show ?thesis by (simp add: set_p1p2 by_length_def import_cmd_def)
qed

lemma length_import_head: "length (import_head k) = 8"
  by (simp add: import_head_def split: prod.split)

text \<open>
  C21: importing a key. For every key and protection that \<open>api_import_key\<close> accepts, one command
  80 3C goes out: the attributes followed by the value of the key in clear, or by whole cipher
  blocks that decrypt under the transport key to its length, its value and the padding; the
  payload fits the queue for every accepted length.
\<close>

theorem import_key_sends:
  assumes "is_key_alg (key_alg k)" "16 \<le> key_len k" "key_len k \<le> 912" "length (key_val k) = MAX_KEY_LEN"
    and "key_type k \<in> {PRI, PUB, PRI_PUB_PAIR, SYM}"
    and "import_protection_ok u fc ft = Ok True" "key_protection u (fc \<noteq> 0) ft = Ok (p1, p2)"
  shows "\<exists>q body. api_import_key tk u (Some k) fc ft st = run_silent (import_cmd (length (q_data q) + 8) p1 p2) q st \<and>
    wf_queue q \<and> q_data q = import_head k @ body \<and> length (q_data q) \<le> 936 \<and> 10 \<le> front_room q \<and> 4 \<le> rear_room q \<and>
    (ft = 0 \<longrightarrow> body = take (unat (key_len k)) (key_val k)) \<and>
    (ft \<noteq> 0 \<longrightarrow> sm4_crypt_ecb (sm4_setkey_dec tk sm4_ctxt) SM4_DECRYPT (int (length body)) body
        = Ok (trans_plain (take (unat (key_len k)) (key_val k))))"
proof -
  have n: "unat (key_len k) \<le> length (key_val k)" "unat (key_len k) \<le> 912"
    using assms(3,4) by (simp_all add: word_le_nat_alt MAX_KEY_LEN_def)
  obtain q1 where q1: "util_queue_rear_push (import_head k) (of_nat 8) new_queue = Ok q1" "wf_queue q1"
      "q_data q1 = q_data new_queue @ take 8 (import_head k)" "front_room q1 = front_room new_queue"
    by (rule rear_push_tail [of new_queue 8 "import_head k"]) (simp_all add: length_import_head)
  have d1: "q_data q1 = import_head k" "length (q_data q1) = 8" "front_room q1 = 20"
    using q1(3,4) by (simp_all add: length_import_head)
  obtain q body where q:
    "(if ft \<noteq> 0 then apdu_trans_encrypt tk (key_val k) (key_len k) 8 q1
      else res_bind (util_queue_rear_push (key_val k) (key_len k) q1) (\<lambda>q. Ok (SE_SUCCESS, q))) = Ok (SE_SUCCESS, q)"
    "wf_queue q" "q_data q = q_data q1 @ body" "front_room q = 20" "length body \<le> 928"
    "ft = 0 \<longrightarrow> body = take (unat (key_len k)) (key_val k)"
    "ft \<noteq> 0 \<longrightarrow> sm4_crypt_ecb (sm4_setkey_dec tk sm4_ctxt) SM4_DECRYPT (int (length body)) body
        = Ok (trans_plain (take (unat (key_len k)) (key_val k)))"
    by (rule import_body [OF q1(2) d1(2,3) n])
  have len: "unat (q_buf_len q) = length (q_data q)" using length_q_data [OF q(2)] by simp
  have "api_import_key tk u (Some k) fc ft st = apdu_import_key tk u k fc ft st"
    using assms(1-3,5,6) by (auto simp: api_import_key_def not_less)
  also have "\<dots> = run_silent (import_cmd (length (q_data q) + 8) p1 p2) q st"
    using q1(1) assms(7) unfolding apdu_import_key_def by (simp add: q(1) import_cmd [of "\<lambda>c. run_silent c q st"] len)
  finally show ?thesis
    using q d1 queue_rooms [OF q(2)] by (intro exI [of _ q] exI [of _ body] conjI) simp_all
qed

theorem import_key_sends_witness:
  "\<exists>q body. api_import_key trans_key_init None (Some transport_key) 1 1 refusing_device =
       run_silent (import_cmd (length (q_data q) + 8) 0x34 0x02) q refusing_device \<and>
     q_data q = import_head transport_key @ body \<and>
     sm4_crypt_ecb (sm4_setkey_dec trans_key_init sm4_ctxt) SM4_DECRYPT (int (length body)) body
       = Ok (trans_plain (replicate 16 0x77))"
proof -
  have k: "is_key_alg (key_alg transport_key)" "16 \<le> key_len transport_key" "key_len transport_key \<le> 912"
    "key_type transport_key \<in> {PRI, PUB, PRI_PUB_PAIR, SYM}" "take (unat (key_len transport_key)) (key_val transport_key) = replicate 16 0x77"
    "length (key_val transport_key) = MAX_KEY_LEN"
    by (simp_all add: transport_key_def blank_key_def is_key_alg_def is_cipher_alg_def MAX_KEY_LEN_def)
  have p: "import_protection_ok None 1 1 = Ok True" "key_protection None (1 \<noteq> (0 :: cbool)) 1 = Ok (0x34, 0x02)"
    by (simp_all add: import_protection_ok_def key_protection_def)
  from import_key_sends [OF k(1-3,6,4) p, where tk = trans_key_init and st = refusing_device] k(5)
  show ?thesis by auto
qed

section \<open>Key agreement\<close>

lemma shared_cmd:
  "case tpdu_init_with_id apdu_zero CMD_GEN_SHARED_KEY of Ok c \<Rightarrow> instruction c = 0x44 | _ \<Rightarrow> False"
  by code_simp

text \<open>
  The peer's data of a key agreement. With ECDH, data of at most 64 bytes is sent behind the two
  fixed bytes F0 60; the lengths 65 and 66, which the function accepts, are written past the end
  of its local array of 66 bytes.
\<close>

theorem shared_key_limit:
  assumes "key_alg k = ALG_ECDH_ECC256 \<or> key_alg k = ALG_ECDH_SM2" "unat n \<le> length d" "n \<le> 66"
  shows "(unat n \<le> 64 \<longrightarrow> (\<exists>q c. wf_queue q \<and> q_data q = [0xF0, 0x60] @ take (unat n) d \<and> instruction c = 0x44 \<and>
      apdu_p2 c = key_id k \<and>
      api_generate_shared_key (Some d) n k s fk fs st =
        res_bind (run_command c q new_queue 0 st) (\<lambda>(ret, qo, _, st1).
        if ret \<noteq> SE_SUCCESS then Ok (ret, k, s, st1) else
        res_bind (shared_reply qo fk fs k s) (\<lambda>(k1, s1). Ok (SE_SUCCESS, k1, s1, st1))))) \<and>
    (64 < unat n \<longrightarrow> api_generate_shared_key (Some d) n k s fk fs st = Undef)"
proof (intro conjI impI)
  have alg: "key_alg k \<noteq> ALG_SM2_SM2" using assms(1) by (auto simp: ALG_ECDH_ECC256_def ALG_ECDH_SM2_def ALG_SM2_SM2_def)
  have rd: "mem_read d 0 (unat n) = Ok (take (unat n) d)" using assms(2) by (simp add: mem_read_def)
  have api: "api_generate_shared_key (Some d) n k s fk fs st =
      res_bind (mem_write ([0xF0, 0x60] @ replicate 64 0) 2 (take (unat n) d)) (\<lambda>b.
      apdu_generate_shared_key b (n + 2) k s fk fs st)"
    using assms(1,3) alg rd by (auto simp: api_generate_shared_key_def Let_def shared_len_ok_def)
  {
    assume n: "unat n \<le> 64"
    let ?b = "[0xF0, 0x60] @ take (unat n) d @ replicate (64 - unat n) 0"
    have w: "mem_write ([0xF0, 0x60] @ replicate 64 0) 2 (take (unat n) d) = Ok ?b"
      using n assms(2) by (simp add: mem_write_def)
    have n2: "n + 2 = of_nat (unat n + 2)" by simp
    obtain q where q: "util_queue_rear_push ?b (of_nat (unat n + 2)) new_queue = Ok q" "wf_queue q"
        "q_data q = q_data new_queue @ take (unat n + 2) ?b"
      by (rule rear_push_tail [of new_queue "unat n + 2" ?b]) (use n assms(2) in auto)
    have qd: "q_data q = [0xF0, 0x60] @ take (unat n) d" using q(3) assms(2) by simp
    obtain c0 where c0: "tpdu_init_with_id apdu_zero CMD_GEN_SHARED_KEY = Ok c0" "instruction c0 = 0x44"
      using shared_cmd by (auto split: res.splits)
    let ?c = "tpdu_set_p1p2 c0 (shared_p1 (key_alg k) fk fs) (key_id k)"
    have "api_generate_shared_key (Some d) n k s fk fs st =
        res_bind (run_command ?c q new_queue 0 st) (\<lambda>(ret, qo, _, st1).
        if ret \<noteq> SE_SUCCESS then Ok (ret, k, s, st1) else
        res_bind (shared_reply qo fk fs k s) (\<lambda>(k1, s1). Ok (SE_SUCCESS, k1, s1, st1)))"
      unfolding api w n2 res_bind.simps apdu_generate_shared_key_def c0(1) Let_def q(1) using assms(1) by simp
    then show "\<exists>q c. wf_queue q \<and> q_data q = [0xF0, 0x60] @ take (unat n) d \<and> instruction c = 0x44 \<and>
        apdu_p2 c = key_id k \<and>
        api_generate_shared_key (Some d) n k s fk fs st =
          res_bind (run_command c q new_queue 0 st) (\<lambda>(ret, qo, _, st1).
          if ret \<noteq> SE_SUCCESS then Ok (ret, k, s, st1) else
          res_bind (shared_reply qo fk fs k s) (\<lambda>(k1, s1). Ok (SE_SUCCESS, k1, s1, st1)))"
      using q(2) qd c0(2) by (intro exI [of _ q] exI [of _ ?c] conjI) (simp_all add: set_p1p2)
  next
    assume n: "64 < unat n"
    then have "mem_write ([0xF0, 0x60] @ replicate 64 0) 2 (take (unat n) d) = Undef"
      using assms(2) by (simp add: mem_write_def)
    then show "api_generate_shared_key (Some d) n k s fk fs st = Undef" unfolding api by simp
  }
qed

text \<open>A point of 65 bytes in uncompressed form, 04 || x || y.\<close>

theorem shared_key_limit_witness:
  "api_generate_shared_key (Some (0x04 # replicate 64 7)) 65 (blank_key ALG_ECDH_ECC256) [] 1 0 refusing_device = Undef"
proof -
  have "key_alg (blank_key ALG_ECDH_ECC256) = ALG_ECDH_ECC256 \<or> key_alg (blank_key ALG_ECDH_ECC256) = ALG_ECDH_SM2"
    "unat (65 :: u32) \<le> length ((0x04 :: u8) # replicate 64 7)" "(65 :: u32) \<le> 66"
    by (simp_all add: blank_key_def)
  from shared_key_limit [OF this] show ?thesis by simp
qed

end
