(* ===== verification/Update_Props.thy ===== *)
theory Update_Props
  imports Api_Update Apdu_Props
begin

text \<open>
  The properties of the firmware download: which commands a well-formed image becomes, that the
  walk over the records of any image ends, and where it leaves the image or the queue.
\<close>

section \<open>Records\<close>

definition record_of :: "bytes \<Rightarrow> bytes" where
  "record_of d = [ucast (drop_bit 8 (of_nat (length d) :: u16)), ucast (of_nat (length d) :: u16)] @ d"

lemma length_record_of [simp]: "length (record_of d) = length d + 2"
  by (simp add: record_of_def)

lemma u16_bytes: "push_bit 8 (ucast (ucast (drop_bit 8 n) :: u8)) OR ucast (ucast n :: u8) = (n :: u16)"
proof (rule bit_word_eqI)
  fix k assume k: "k < LENGTH(16)"
  show "bit (push_bit 8 (ucast (ucast (drop_bit 8 n) :: u8)) OR ucast (ucast n :: u8) :: u16) k = bit n k"
    using k by (cases "k < 8") (auto simp: bit_simps)
qed

lemma record_len_at:
  assumes "length pre = unat off" "unat off + 1 < 2 ^ 32"
  shows "record_len (pre @ record_of d @ post) off = Ok (of_nat (length d))"
proof -
  have "unat (off + 1) = length pre + 1"
    using assms by (subst unat_add_lem [THEN iffD1]) simp_all
  then show ?thesis
    using assms(1) u16_bytes [of "of_nat (length d)"]
    by (simp add: record_len_def mem_byte_def record_of_def nth_append)
qed

lemma image_len_record: "image_len (record_of d @ post) = Ok (of_nat (length d))"
  using u16_bytes [of "of_nat (length d)"] by (simp add: image_len_def mem_byte_def record_of_def)

text \<open>The commands look at their own record only.\<close>

lemma mem_read_append: "off + n \<le> length d \<Longrightarrow> mem_read (d @ post) off n = mem_read d off n"
  by (simp add: mem_read_def)

lemma mem_byte_append: "i < length d \<Longrightarrow> mem_byte (d @ post) i = mem_byte d i"
  by (simp add: mem_byte_def nth_append)

lemma rear_push_append: "unat n \<le> length d \<Longrightarrow> util_queue_rear_push (d @ post) n q = util_queue_rear_push d n q"
  by (simp add: util_queue_rear_push_def mem_read_append)

lemma init_record:
  assumes "length d < 65536"
  shows "apdu_loader_init (Some (record_of d @ post)) st = apdu_loader_init (Some (record_of d)) st"
proof (cases "length d = 9")
  case True
  have "mem_read (record_of d @ post) 2 3 = mem_read (record_of d) 2 3"
    "mem_read (record_of d @ post) 7 4 = mem_read (record_of d) 7 4"
    "mem_byte (record_of d @ post) 5 = mem_byte (record_of d) 5"
    using True by (simp_all add: mem_read_append mem_byte_append)
  then show ?thesis
    using image_len_record [of d post] image_len_record [of d "[]"] by (simp add: apdu_loader_init_def cong: if_cong)
next
  case False
  then have "(of_nat (length d) :: u16) \<noteq> 9"
    using assms by (simp add: word_unat_eq_iff unat_of_nat_u16)
  then show ?thesis
    using image_len_record [of d post] image_len_record [of d "[]"] by (simp add: apdu_loader_init_def cong: if_cong)
qed

lemma check_record:
  assumes "length d = 37"
  shows "apdu_loader_checkprogram (Some (record_of d @ post)) st = apdu_loader_checkprogram (Some (record_of d)) st"
proof -
  have "mem_read (record_of d @ post) 2 5 = mem_read (record_of d) 2 5"
    using assms by (simp add: mem_read_append)
  moreover have "util_queue_rear_push (drop 7 (record_of d) @ post) 32 q = util_queue_rear_push (drop 7 (record_of d)) 32 q" for q
    using assms by (intro rear_push_append) simp
  ultimately show ?thesis
    using image_len_record [of d post] image_len_record [of d "[]"] assms
    by (simp add: apdu_loader_checkprogram_def cong: if_cong)
qed

lemma program_record:
  assumes "5 \<le> length d" "length d < 65536"
  shows "apdu_loader_program (Some (record_of d @ post)) st = apdu_loader_program (Some (record_of d)) st"
proof -
  let ?off = "if (of_nat (length d) :: u16) > 0x104 then 9 else 7 :: nat"
  let ?n = "ucast (of_nat (length d) :: u16) - of_nat ?off + 2 :: u32"
  have l: "unat (of_nat (length d) :: u16) = length d" using assms(2) by (simp add: unat_of_nat_u16)
  have u: "unat (ucast (of_nat (length d) :: u16) :: u32) = length d"
    unfolding unat_u16_u32 by (rule l)
  have off: "?off \<le> length d + 2" using assms(1) l by (simp add: word_less_nat_alt)
  have uw: "ucast (of_nat (length d) :: u16) = (of_nat (length d) :: u32)"
    using u assms(2) by (simp add: word_unat_eq_iff unat_of_nat_u32)
  have "?n = of_nat (length d + 2 - ?off)"
    unfolding uw of_nat_diff [OF off] by simp
  then have n: "unat ?n = length d + 2 - ?off" using assms(2) by (simp add: unat_of_nat_u32)
  have "util_queue_rear_push (drop ?off (record_of d @ post)) ?n q = util_queue_rear_push (drop ?off (record_of d)) ?n q" for q
    using off n rear_push_append [of ?n "drop ?off (record_of d)" "drop (?off - length (record_of d)) post" q] by simp
  moreover have "mem_read (record_of d @ post) 2 5 = mem_read (record_of d) 2 5"
    using assms(1) by (simp add: mem_read_append)
  ultimately show ?thesis
    using image_len_record [of d post] image_len_record [of d "[]"]
    by (simp add: apdu_loader_program_def Let_def cong: if_cong)
qed

section \<open>The commands of an image\<close>

declare loader_loop.simps [simp del]

text \<open>The abstract form of a download: commands one after the other, up to the first refusal.\<close>

fun run_cmds :: "('w comm_state \<Rightarrow> (se_error \<times> 'w comm_state) res) list \<Rightarrow> 'w comm_state \<Rightarrow>
    (se_error \<times> 'w comm_state) res" where
  "run_cmds [] st = Ok (SE_SUCCESS, st)"
| "run_cmds (f # fs) st = res_bind (f st) (\<lambda>(ret, st1). if ret \<noteq> SE_SUCCESS then Ok (ret, st1) else run_cmds fs st1)"

definition is_program :: "bytes \<Rightarrow> bool" where
  "is_program p \<longleftrightarrow> 5 \<le> length p \<and> length p < 65536 \<and> length p \<noteq> 37"

definition programs :: "bytes list \<Rightarrow> bytes" where
  "programs ps = concat (map record_of ps)"

lemma programs_simps [simp]: "programs [] = []" "programs (p # ps) = record_of p @ programs ps"
  by (simp_all add: programs_def)

lemma record_step:
  assumes "length pre = unat off" "length pre + length d + 2 \<le> unat (img_len :: u32)" "length d < 65536"
  shows "record_len (pre @ record_of d @ post) off = Ok (of_nat (length d))"
    "unat (off + ucast (of_nat (length d) :: u16) + 2) = length pre + length d + 2"
    "drop (unat off) (pre @ record_of d @ post) = record_of d @ post"
proof -
  have lt: "unat off + length d + 2 < 4294967296" using assms(1,2) u32_lt [of img_len] by simp
  then show "record_len (pre @ record_of d @ post) off = Ok (of_nat (length d))"
    using record_len_at [OF assms(1)] by simp
  have "ucast (of_nat (length d) :: u16) = (of_nat (length d) :: u32)"
    using assms(3) by (simp add: word_unat_eq_iff unat_u16_u32 unat_of_nat_u16 unat_of_nat_u32)
  moreover have "off = of_nat (length pre)" using assms(1) by simp
  ultimately have sum: "off + ucast (of_nat (length d) :: u16) + 2 = of_nat (length pre + length d + 2)" by simp
  show "unat (off + ucast (of_nat (length d) :: u16) + 2) = length pre + length d + 2"
    unfolding sum using lt assms(1) by (intro unat_of_nat_u32) simp
  show "drop (unat off) (pre @ record_of d @ post) = record_of d @ post"
    using assms(1) by simp
qed

lemma loader_loop_programs:
  fixes st :: "'w comm_state"
  assumes "length pre = unat off" "length (pre @ programs ps) \<le> unat img_len" "\<forall>p \<in> set ps. is_program p"
    and "img = pre @ programs ps @ rest"
  shows "loader_loop (length ps + fuel) img img_len off st =
    res_bind (run_cmds (map (\<lambda>p. apdu_loader_program (Some (record_of p))) ps) st) (\<lambda>(ret, st1).
    if ret \<noteq> SE_SUCCESS then Ok (Inl ret, st1)
    else loader_loop fuel img img_len (of_nat (length (pre @ programs ps))) st1)"
  using assms
proof (induction ps arbitrary: pre off st)
  case Nil
  then have "of_nat (length pre) = off" by simp
  then show ?case by simp
next
  case (Cons p ps)
  let ?dl = "off + ucast (of_nat (length p) :: u16) + 2"
  have p: "5 \<le> length p" "length p < 65536" "length p \<noteq> 37" using Cons.prems(3) by (simp_all add: is_program_def)
  have img: "img = pre @ record_of p @ programs ps @ rest" using Cons.prems(4) by simp
  have fits: "length pre + length p + 2 \<le> unat img_len" using Cons.prems(2) by simp
  note step = record_step(1,3) [OF Cons.prems(1) fits p(2), of "programs ps @ rest", folded img]
  note dest = record_step(2) [OF Cons.prems(1) fits p(2)]
  have n: "(of_nat (length p) :: u16) \<noteq> 0x0025"
    using p(2,3) by (simp add: word_unat_eq_iff unat_of_nat_u16)
  have dl: "\<not> ?dl > img_len" using dest fits by (simp add: word_less_nat_alt)
  have IH: "loader_loop (length ps + fuel) img img_len ?dl st1 =
      res_bind (run_cmds (map (\<lambda>p. apdu_loader_program (Some (record_of p))) ps) st1) (\<lambda>(ret, st2).
      if ret \<noteq> SE_SUCCESS then Ok (Inl ret, st2)
      else loader_loop fuel img img_len (of_nat (length ((pre @ record_of p) @ programs ps))) st2)" for st1 :: "'w comm_state"
    using Cons.prems(2-4) dest by (intro Cons.IH) simp_all
  have len: "length (pre @ programs (p # ps)) = length ((pre @ record_of p) @ programs ps)" by simp
  show ?case
    unfolding len list.size(4) add_Suc_right add_Suc add.commute [of 0] add_0_right
    by (auto simp: loader_loop.simps step n dl IH Let_def program_record [OF p(1,2)] res_bind_assoc not_less
        intro!: res_bind_cong split: if_splits)
qed

lemma run_cmds_append:
  "run_cmds (fs @ gs) st =
     res_bind (run_cmds fs st) (\<lambda>(ret, st1). if ret \<noteq> SE_SUCCESS then Ok (ret, st1) else run_cmds gs st1)"
proof (induction fs arbitrary: st)
  case (Cons f fs)
  then show ?case
    by (cases "f st") (auto simp: res_bind_assoc)
qed simp

lemma loader_loop_check:
  fixes st :: "'w comm_state"
  assumes "length pre = unat off" "length (pre @ record_of c @ record_of v) \<le> unat img_len"
    and "length c = 37" "4 \<le> length v" "length v < 65536"
    and "img = pre @ record_of c @ record_of v @ rest"
  shows "loader_loop (Suc fuel) img img_len off st =
    res_bind (apdu_loader_checkprogram (Some (record_of c)) st) (\<lambda>(ret, st1).
    Ok (if ret \<noteq> SE_SUCCESS then Inl ret else Inr (take 4 v), st1))"
proof -
  let ?dl = "off + ucast (of_nat (length c) :: u16) + 2"
  have c: "length pre + length c + 2 \<le> unat img_len" "length c < 65536" using assms(2,3) by simp_all
  note step = record_step(1,3) [OF assms(1) c, of "record_of v @ rest", folded assms(6)]
  note dest = record_step(2) [OF assms(1) c]
  have pre: "length (pre @ record_of c) = unat ?dl" using dest by simp
  have v: "length (pre @ record_of c) + length v + 2 \<le> unat img_len" using assms(2) by simp
  have img: "img = (pre @ record_of c) @ record_of v @ rest" using assms(6) by simp
  note step2 = record_step(1) [OF pre v assms(5), of rest, folded img]
  note dest2 = record_step(2) [OF pre v assms(5)]
  have n: "(of_nat (length c) :: u16) = 0x0025" using assms(3) by simp
  have le: "?dl \<le> img_len" "?dl + ucast (of_nat (length v) :: u16) + 2 \<le> img_len"
    using dest c dest2 v by (simp_all add: word_le_nat_alt)
  have "drop (unat ?dl) img = record_of v @ rest" unfolding img using pre by simp
  then have rd: "mem_read img (unat ?dl + 2) 4 = Ok (take 4 v)"
  proof -
    assume d: "drop (unat ?dl) img = record_of v @ rest"
    have "length (pre @ record_of c) + 6 \<le> length img" unfolding img using assms(4) by simp
    moreover have "drop (unat ?dl + 2) img = drop 2 (drop (unat ?dl) img)" by (simp add: add.commute)
    moreover have "drop 2 (record_of v @ rest) = v @ rest" by (simp add: record_of_def)
    ultimately show ?thesis using d pre assms(4) by (simp add: mem_read_def)
  qed
  show ?thesis
    by (simp only: loader_loop.simps step res_bind.simps Let_def not_less [symmetric] n)
      (use n le step2 rd in \<open>auto simp: check_record [OF assms(3)] intro!: res_bind_cong\<close>)
qed

text \<open>
  C10: the commands of an image. For an image that consists of the record of the loader command,
  any number of program records, the check record and the version record, the walk over the
  records sends exactly these commands in this order, each with its own record and nothing
  behind it, stops at the first refusal, and otherwise hands over the version.
\<close>

theorem loader_commands:
  fixes st :: "'w comm_state"
  assumes "img = record_of i @ programs ps @ record_of c @ record_of v @ tail"
    and "length i < 65536" "\<forall>p \<in> set ps. is_program p" "length c = 37" "4 \<le> length v" "length v < 65536"
    and "length (record_of i @ programs ps @ record_of c @ record_of v) \<le> unat img_len"
  shows "loader_records (length ps + Suc k) img img_len st =
    res_bind (run_cmds (apdu_loader_init (Some (record_of i)) #
        map (\<lambda>p. apdu_loader_program (Some (record_of p))) ps @
        [apdu_loader_checkprogram (Some (record_of c))]) st) (\<lambda>(ret, st1).
    Ok (if ret \<noteq> SE_SUCCESS then Inl ret else Inr (take 4 v), st1))"
proof -
  let ?dl = "ucast (of_nat (length i) :: u16) + 2 :: u32"
  have z: "length [] = unat (0 :: u32)" by simp
  have i: "length [] + length i + 2 \<le> unat img_len" using assms(7) by simp
  note step = record_step(1) [OF z i assms(2), of "programs ps @ record_of c @ record_of v @ tail", unfolded append_Nil, folded assms(1)]
  have dest: "length (record_of i) = unat ?dl" using record_step(2) [OF z i assms(2)] by simp
  have le: "?dl \<le> img_len" using dest assms(7) by (simp add: word_le_nat_alt)
  have img: "img = record_of i @ programs ps @ (record_of c @ record_of v @ tail)" using assms(1) by simp
  have fits: "length (record_of i @ programs ps) \<le> unat img_len" using assms(7) by simp
  let ?off = "of_nat (length (record_of i @ programs ps)) :: u32"
  have off: "length (record_of i @ programs ps) = unat ?off"
    using fits u32_lt [of img_len] by (subst unat_of_nat_u32) simp_all
  have img2: "img = (record_of i @ programs ps) @ record_of c @ record_of v @ tail" using assms(1) by simp
  have fits2: "length ((record_of i @ programs ps) @ record_of c @ record_of v) \<le> unat img_len"
    using assms(7) by simp
  have init: "apdu_loader_init (Some img) st = apdu_loader_init (Some (record_of i)) st"
    unfolding assms(1) by (rule init_record [OF assms(2)])
  let ?check = "apdu_loader_checkprogram (Some (record_of c)) :: 'w comm_state \<Rightarrow> _"
  let ?programs = "map (\<lambda>p. apdu_loader_program (Some (record_of p))) ps :: ('w comm_state \<Rightarrow> _) list"
  have loop: "loader_loop (length ps + Suc k) img img_len ?dl st1 =
      res_bind (run_cmds (?programs @ [?check]) st1) (\<lambda>(ret, st2).
      Ok (if ret \<noteq> SE_SUCCESS then Inl ret else Inr (take 4 v), st2))" for st1
    unfolding loader_loop_programs [OF dest fits assms(3) img] loader_loop_check [OF off fits2 assms(4-6) img2]
      run_cmds_append res_bind_assoc
    by (auto simp: res_bind_assoc intro!: res_bind_cong split: if_splits)
  show ?thesis
    using le unfolding loader_records_def step res_bind.simps Let_def init run_cmds.simps loop not_less [symmetric]
    by (auto simp: res_bind_assoc intro!: res_bind_cong)
qed

text \<open>A device that accepts every command, and a small image.\<close>

definition ok_device :: "unit comm_state" where
  "ok_device = echo_state (queue_of [0x90, 0x00])"

definition image_parts :: "bytes \<times> bytes \<times> bytes" where
  "image_parts =
     ([0xBF, 0x41, 0x00, 0x00, 0x04, 0xA, 0xB, 0xC, 0xD], [0xBF, 0x43, 0x00, 0x00, 0x03, 1, 2, 3],
      [0xBF, 0x42, 0x00, 0x00, 0x20] @ replicate 32 0x5A)"

definition small_image :: bytes where
  "small_image = (case image_parts of (i, p, c) \<Rightarrow>
     record_of i @ programs [p] @ record_of c @ record_of [1, 2, 3, 4] @ [1, 2, 3, 4])"

lemma small_image_run:
  "case image_parts of (i, p, c) \<Rightarrow>
     (case run_cmds (apdu_loader_init (Some (record_of i)) #
        map (\<lambda>p. apdu_loader_program (Some (record_of p))) [p] @
        [apdu_loader_checkprogram (Some (record_of c))]) ok_device of
        Ok (ret, st) \<Rightarrow> ret = SE_SUCCESS
      | _ \<Rightarrow> False)"
  by code_simp

theorem loader_commands_witness:
  "\<exists>st. loader_records 2 small_image 70 ok_device = Ok (Inr [1, 2, 3, 4], st)"
proof -
  obtain i p c where ipc: "image_parts = (i, p, c)" by (cases image_parts)
  have l: "length i = 9" "length p = 8" "length c = 37" using ipc by (auto simp: image_parts_def)
  have img: "small_image = record_of i @ programs [p] @ record_of c @ record_of [1, 2, 3, 4] @ [1, 2, 3, 4]"
    unfolding small_image_def ipc by simp
  obtain st where run: "run_cmds (apdu_loader_init (Some (record_of i)) #
        map (\<lambda>p. apdu_loader_program (Some (record_of p))) [p] @
        [apdu_loader_checkprogram (Some (record_of c))]) ok_device = Ok (SE_SUCCESS, st)"
    using small_image_run unfolding ipc prod.case by (auto split: res.splits prod.splits)
  have "loader_records (length [p] + Suc 0) small_image 70 ok_device = Ok (Inr (take 4 [1, 2, 3, 4]), st)"
    by (subst loader_commands [OF img]) (use l run in \<open>auto simp: is_program_def\<close>)
  then show ?thesis by (auto simp: numeral_2_eq_2)
qed

section \<open>The walk over any image\<close>

definition returns :: "'a res \<Rightarrow> bool" where
  "returns m \<longleftrightarrow> m \<noteq> Stuck"

named_theorems return_intros \<open>computations that are not stuck in a loop\<close>

lemma returns_bind [return_intros]:
  "returns m \<Longrightarrow> (\<And>a. m = Ok a \<Longrightarrow> returns (f a)) \<Longrightarrow> returns (res_bind m f)"
  by (cases m) (auto simp: returns_def)

lemma returns_basic [simp]: "returns (Ok a)" "returns Undef"
  by (simp_all add: returns_def)

lemma returns_memory [simp]:
  "returns (mem_byte m i)" "returns (mem_read m i n)" "returns (util_queue_rear_push d k q)"
  by (simp_all add: returns_def mem_byte_def mem_read_def mem_write_def util_queue_rear_push_def)

lemma returns_lens [simp]: "returns (image_len img)" "returns (record_len img off)"
  unfolding image_len_def record_len_def by (auto intro!: return_intros)

lemma returns_front_push [simp]: "returns (util_queue_front_push d k q)"
  by (simp add: returns_def mem_read_def mem_write_def util_queue_front_push_def Let_def)

lemma returns_pack [simp]: "returns (tpdu_pack c q ol)"
  unfolding tpdu_pack_def Let_def by (auto intro!: return_intros)

lemma returns_init [simp]:
  "returns (tpdu_init_with_id apdu_zero CMD_LOADER_INIT)" "returns (tpdu_init_with_id apdu_zero CMD_LOADER_PROGRAM)"
  "returns (tpdu_init_with_id apdu_zero CMD_LOADER_CHECKPROGRAM)"
  by code_simp+

text \<open>
  The drivers of a state and that their exchanges return. A command changes what is below the
  drivers but not the drivers.
\<close>

definition drivers_return :: "'w comm_state \<Rightarrow> bool" where
  "drivers_return st \<longleftrightarrow> (\<forall>d p qi n qo ol w. drv_transceive (drv_at st d) p qi n qo ol w \<noteq> Stuck)"

lemma transceive_returns:
  assumes "drivers_return st"
  shows "returns (transceive_queue qi n qo ol st)"
    "transceive_queue qi n qo ol st = Ok (ret, qi', qo', ol', st') \<Longrightarrow> drivers_return st'"
proof -
  have "returns (drv_transceive (drv_at st d) p qi n qo ol w)" for d p w
    using assms by (simp add: drivers_return_def returns_def)
  then show "returns (transceive_queue qi n qo ol st)"
    by (auto simp: transceive_queue_def intro!: return_intros split: sum.split prod.split)
  show "transceive_queue qi n qo ol st = Ok (ret, qi', qo', ol', st') \<Longrightarrow> drivers_return st'"
    using assms by (auto simp: transceive_queue_def drivers_return_def split: sum.splits prod.splits if_splits)
qed

lemma run_silent_returns:
  assumes "drivers_return st"
  shows "returns (run_silent c q st)" "run_silent c q st = Ok (ret, st') \<Longrightarrow> drivers_return st'"
  using assms transceive_returns
  by (auto simp: run_silent_def tpdu_execute_no_response_def tpdu_send_def Let_def
      intro!: return_intros split: prod.splits if_splits)

lemmas loader_cmd_defs = apdu_loader_init_def apdu_loader_program_def apdu_loader_checkprogram_def Let_def

lemma loader_cmds_return:
  assumes "drivers_return st"
  shows "returns (apdu_loader_init a st)" "returns (apdu_loader_program a st)" "returns (apdu_loader_checkprogram a st)"
  using run_silent_returns(1) [OF assms]
  by (auto simp: loader_cmd_defs intro!: return_intros split: option.split)

lemma loader_cmds_drivers:
  assumes "drivers_return st"
  shows "apdu_loader_init a st = Ok (ret, st') \<Longrightarrow> drivers_return st'"
    "apdu_loader_program a st = Ok (ret, st') \<Longrightarrow> drivers_return st'"
  using run_silent_returns(2) [OF assms] assms
  by (auto simp: loader_cmd_defs split: option.splits if_splits)

lemma loader_loop_returns:
  assumes "unat img_len < 2 ^ 32 - 65537" "drivers_return st"
    and "off \<le> img_len" "(unat img_len - unat off) div 2 < fuel"
  shows "returns (loader_loop fuel img img_len off st)"
  using assms(2-4)
proof (induction fuel arbitrary: off st)
  case (Suc fuel)
  have IH: "returns (loader_loop fuel img img_len (off + ucast n + 2) s)"
    if "\<not> img_len < off + ucast n + 2" "apdu_loader_program a st = Ok (ret, s)" for n :: u16 and s a ret
  proof (rule Suc.IH)
    show "drivers_return s" by (rule loader_cmds_drivers(2) [OF Suc.prems(1) that(2)])
    have "unat off \<le> unat img_len" using Suc.prems(2) by (simp add: word_le_nat_alt)
    then have "unat off + unat n + 2 < 2 ^ 32" using assms(1) u16_lt [of n] by simp
    moreover have sum: "off + ucast n + 2 = of_nat (unat off + unat n + 2)" by simp
    ultimately have u: "unat (off + ucast n + 2) = unat off + unat n + 2"
      unfolding sum by (intro unat_of_nat_u32) simp
    show le: "off + ucast n + 2 \<le> img_len" using that(1) by simp
    then have "unat off + unat n + 2 \<le> unat img_len" using u by (simp add: word_le_nat_alt)
    then show "(unat img_len - unat (off + ucast n + 2)) div 2 < fuel"
      using Suc.prems(3) unfolding u by linarith
  qed
  show ?case
    unfolding loader_loop.simps
    by (auto simp: Let_def loader_cmds_return [OF Suc.prems(1)] IH intro!: return_intros)
qed simp

text \<open>
  C18: the download ends. When the exchanges of the drivers return, the walk over the records
  returns for every image, well-formed or not, whose announced size is below 2^32 - 65537: each
  round moves on by at least the two bytes of a length, so half the size is fuel enough.
\<close>

theorem loader_terminates:
  fixes st :: "'w comm_state"
  assumes "\<forall>d p qi n qo ol w. drv_transceive (drv_at st d) p qi n qo ol w \<noteq> Stuck"
    and "unat img_len < 2 ^ 32 - 65537" "unat img_len div 2 < fuel"
  shows "loader_records fuel img img_len st \<noteq> Stuck"
proof -
  have link: "drivers_return st" using assms(1) by (simp add: drivers_return_def)
  have "returns (loader_loop fuel img img_len off s)" if "off \<le> img_len" "drivers_return s" for off and s :: "'w comm_state"
    using assms(3) div_le_mono [of "unat img_len - unat off" "unat img_len" 2]
    by (intro loader_loop_returns [OF assms(2) that(2,1)]) simp
  moreover have "drivers_return s" if "apdu_loader_init (Some img) st = Ok (SE_SUCCESS, s)" for s
    by (rule loader_cmds_drivers(1) [OF link that])
  ultimately have "returns (loader_records fuel img img_len st)"
    unfolding loader_records_def
    by (auto simp: Let_def not_less loader_cmds_return [OF link] intro!: return_intros)
  then show ?thesis by (simp add: returns_def)
qed

text \<open>The small image of 70 bytes on the accepting device.\<close>

theorem loader_terminates_witness: "loader_records 36 small_image 70 ok_device \<noteq> Stuck"
  by (rule loader_terminates) (simp_all add: ok_device_def echo_state_def echo_driver_def)

section \<open>Where the download leaves its buffers\<close>

lemma loader_program_cmd: "\<exists>c. tpdu_init_with_id apdu_zero CMD_LOADER_PROGRAM = Ok c"
  by (intro exI) code_simp

lemma program_overflow:
  assumes "1011 < length d" "length d < 65536" "\<not> of_nat (length d) > (0x2007 :: u16)"
  shows "apdu_loader_program (Some (record_of d)) st = Undef"
proof -
  let ?n = "ucast (of_nat (length d) :: u16) - of_nat 9 + 2 :: u32"
  have w: "(of_nat (length d) :: u16) > 0x104"
    using assms(1,2) by (simp add: word_less_nat_alt unat_of_nat_u16)
  have uw: "ucast (of_nat (length d) :: u16) = (of_nat (length d) :: u32)"
    using assms(2) by (simp add: word_unat_eq_iff unat_u16_u32 unat_of_nat_u16 unat_of_nat_u32)
  have le: "9 \<le> length d + 2" using assms(1) by simp
  have n: "?n = of_nat (length d + 2 - 9)" unfolding uw of_nat_diff [OF le] by simp
  have un: "unat ?n = length d - 7" unfolding n using assms(2) by (subst unat_of_nat_u32) simp_all
  have "mem_read (drop 9 (record_of d)) 0 (unat ?n) = Ok (drop 9 (record_of d))"
    unfolding un by (simp add: mem_read_def)
  then have "util_queue_rear_push (drop 9 (record_of d)) ?n new_queue = Undef"
    using assms(1) unfolding util_queue_rear_push_def
    by (simp add: mem_write_def new_queue_def util_queue_init_def DEQUE_MAX_SIZE_def)
  moreover obtain c where "tpdu_init_with_id apdu_zero CMD_LOADER_PROGRAM = Ok c"
    using loader_program_cmd by blast
  ultimately show ?thesis
    using image_len_record [of d "[]"] w assms(1,3) by (simp add: apdu_loader_program_def Let_def mem_read_def)
qed

lemma loader_loop_at_end:
  assumes "length img \<le> unat off"
  shows "loader_loop (Suc fuel) img img_len off st = Undef"
  using assms by (simp add: loader_loop.simps record_len_def mem_byte_def)

text \<open>
  C37: what the download trusts. A program record of more than 1011 bytes - the limit of the code is
  8199 - is written past the end of the queue, and an image that ends behind its program records
  is read past its end once these have been sent, because the length of the next record is read
  before it is compared with the size of the image.
\<close>

theorem loader_overruns:
  assumes "1011 < length d" "length d < 65536" "of_nat (length d) \<le> (0x2007 :: u16)"
    and "img = record_of i @ programs ps" "length i < 65536" "\<forall>p \<in> set ps. is_program p" "length img = unat img_len"
    and "run_cmds (apdu_loader_init (Some (record_of i)) # map (\<lambda>p. apdu_loader_program (Some (record_of p))) ps) st
      = Ok (SE_SUCCESS, st')"
  shows "apdu_loader_program (Some (record_of d)) st = Undef \<and>
    loader_records (length ps + Suc k) img img_len st = Undef"
proof
  show "apdu_loader_program (Some (record_of d)) st = Undef"
    using assms(1,2,3) by (intro program_overflow) (simp_all add: not_less)
  let ?dl = "ucast (of_nat (length i) :: u16) + 2 :: u32"
  have z: "length [] = unat (0 :: u32)" by simp
  have i: "length [] + length i + 2 \<le> unat img_len" using assms(4,7) by simp
  note step = record_step(1) [OF z i assms(5), of "programs ps", unfolded append_Nil, folded assms(4)]
  have dest: "length (record_of i) = unat ?dl" using record_step(2) [OF z i assms(5)] by simp
  have le: "?dl \<le> img_len" using dest assms(4,7) by (simp add: word_le_nat_alt)
  have init: "apdu_loader_init (Some img) st = apdu_loader_init (Some (record_of i)) st"
    unfolding assms(4) by (rule init_record [OF assms(5)])
  have img: "img = record_of i @ programs ps @ []" using assms(4) by simp
  have fits: "length (record_of i @ programs ps) \<le> unat img_len" using assms(4,7) by simp
  define e :: u32 where "e = of_nat (length (record_of i @ programs ps))"
  note loop = loader_loop_programs [OF dest fits assms(6) img, folded e_def]
  have "loader_loop (Suc k) img img_len e s = Undef" for s
    unfolding e_def using assms(4,7) by (intro loader_loop_at_end) simp
  then show "loader_records (length ps + Suc k) img img_len st = Undef"
    using assms(8) le
    by (auto simp: loader_records_def step init Let_def not_less loop simp del: add_Suc_right split: if_splits)
qed

lemma overrun_run:
  "case image_parts of (i, p, c) \<Rightarrow>
     (case run_cmds (apdu_loader_init (Some (record_of i)) #
        map (\<lambda>p. apdu_loader_program (Some (record_of p))) [p]) ok_device of
        Ok (ret, st) \<Rightarrow> ret = SE_SUCCESS
      | _ \<Rightarrow> False)"
  by code_simp

theorem loader_overruns_witness:
  "apdu_loader_program (Some (record_of (replicate 1012 0))) ok_device = Undef \<and>
   (case image_parts of (i, p, c) \<Rightarrow> loader_records 2 (record_of i @ record_of p) 21 ok_device = Undef)"
proof -
  obtain i p c where ipc: "image_parts = (i, p, c)" by (cases image_parts)
  have l: "length i = 9" "length p = 8" using ipc by (auto simp: image_parts_def)
  obtain st where run: "run_cmds (apdu_loader_init (Some (record_of i)) #
        map (\<lambda>p. apdu_loader_program (Some (record_of p))) [p]) ok_device = Ok (SE_SUCCESS, st)"
    using overrun_run unfolding ipc prod.case by (auto split: res.splits prod.splits)
  have "1011 < length (replicate 1012 (0 :: u8))" "length (replicate 1012 (0 :: u8)) < 65536"
    "of_nat (length (replicate 1012 (0 :: u8))) \<le> (0x2007 :: u16)" "length i < 65536" "\<forall>q \<in> set [p]. is_program q"
    "length (record_of i @ programs [p]) = unat (21 :: u32)"
    using l by (simp_all add: is_program_def)
  from loader_overruns [OF this(1-3) refl this(4-6) run, of 0] show ?thesis
    unfolding ipc by (simp add: numeral_2_eq_2)
qed

end
