(* ===== verification/Port_Linux.thy ===== *)
theory Port_Linux
  imports Comm "HOL-Library.Char_ord"
begin

text \<open>
  The part of the Linux port layer that both buses share: port/linux/port_util.c and
  port/linux/raspberrypi_cnf/port_config.c (GPIO over sysfs, power, lock), and the clock functions
  and the guarded transfer that port_spi.c and port_i2c.c have one copy of each.

  The kernel is not under src/: it is a record of functions over its own state \<open>'k\<close>, one for each
  system call the code makes. Nothing is assumed of it; what a property relies on stands in the
  property.
\<close>

section \<open>The kernel\<close>

type_synonym i32 = "32 word"

abbreviation negative :: "i32 \<Rightarrow> bool" where "negative n \<equiv> n <s 0"

datatype open_mode = O_RDONLY | O_WRONLY | O_RDWR

datatype ioctl_request =
  SPI_IOC_WR_MODE | SPI_IOC_RD_MODE | SPI_IOC_WR_BITS_PER_WORD | SPI_IOC_RD_BITS_PER_WORD |
  SPI_IOC_WR_MAX_SPEED_HZ | SPI_IOC_RD_MAX_SPEED_HZ | I2C_SLAVE | I2C_TIMEOUT | I2C_RETRIES

text \<open>
  The arguments of the two transfer requests: struct spi_ioc_transfer with the bytes behind
  \<open>tx_buf\<close> (\<open>None\<close> for NULL), and struct i2c_msg, whose \<open>len\<close> has 16 bits, with the bytes behind
  \<open>buf\<close> when it is written.
\<close>

record spi_ioc_transfer =
  tx_buf :: "bytes option"
  xfer_len :: u32
  delay_usecs :: u16
  speed_hz :: u32
  bits_per_word :: u8

record i2c_msg =
  msg_addr :: u16
  msg_read :: bool
  msg_len :: u16
  msg_buf :: bytes

record 'k linux =
  sys_gettimeofday :: "'k \<Rightarrow> (u64 \<times> u64) \<times> 'k"
  sys_usleep :: "u32 \<Rightarrow> 'k \<Rightarrow> 'k"
  sys_open :: "string \<Rightarrow> open_mode \<Rightarrow> 'k \<Rightarrow> i32 \<times> 'k"
  sys_read :: "i32 \<Rightarrow> nat \<Rightarrow> 'k \<Rightarrow> i32 \<times> bytes \<times> 'k"
  sys_write :: "i32 \<Rightarrow> bytes \<Rightarrow> 'k \<Rightarrow> i32 \<times> 'k"
  sys_close :: "i32 \<Rightarrow> 'k \<Rightarrow> 'k"
  sys_ioctl :: "i32 \<Rightarrow> ioctl_request \<Rightarrow> i32 \<Rightarrow> 'k \<Rightarrow> i32 \<times> 'k"
  sys_spi_message :: "i32 \<Rightarrow> spi_ioc_transfer \<Rightarrow> 'k \<Rightarrow> i32 \<times> bytes \<times> 'k"
  sys_i2c_rdwr :: "i32 \<Rightarrow> i2c_msg \<Rightarrow> 'k \<Rightarrow> i32 \<times> bytes \<times> 'k"

text \<open>Requests one after the other, up to the first that fails.\<close>

fun ioctl_all :: "'k linux \<Rightarrow> i32 \<Rightarrow> (ioctl_request \<times> i32) list \<Rightarrow> 'k \<Rightarrow> bool \<times> 'k" where
  "ioctl_all K fd [] k = (True, k)"
| "ioctl_all K fd ((r, v) # rs) k =
     (let (n, k1) = sys_ioctl K fd r v k in if negative n then (False, k1) else ioctl_all K fd rs k1)"

section \<open>Decimal numbers\<close>

text \<open>
  \<open>snprintf(buf, n, "%d", v)\<close> stores at most \<open>n-1\<close> characters and a NUL and returns the length of
  the whole text. \<open>dec_char\<close> is one digit.
\<close>

definition dec_char :: "nat \<Rightarrow> u8" where
  "dec_char d = 0x30 + of_nat d"

fun dec_nat :: "nat \<Rightarrow> bytes" where
  "dec_nat n = (if n < 10 then [dec_char n] else dec_nat (n div 10) @ [dec_char (n mod 10)])"

declare dec_nat.simps [simp del]

definition dec_int :: "i32 \<Rightarrow> bytes" where
  "dec_int v = (if negative v then 0x2D # dec_nat (nat (- sint v)) else dec_nat (nat (sint v)))"

definition snprintf_buf :: "nat \<Rightarrow> bytes \<Rightarrow> bytes" where
  "snprintf_buf n s = take (n - 1) s @ [0]"

definition ascii :: "bytes \<Rightarrow> string" where
  "ascii s = List.map (char_of \<circ> unat) s"

definition gpio_path :: "i32 \<Rightarrow> string \<Rightarrow> string" where
  "gpio_path pin file = take 47 (''/sys/class/gpio/gpio'' @ ascii (dec_int pin) @ file)"

text \<open>\<open>atoi\<close>, after the white space: a sign and digits. Reading on past the bytes is undefined.\<close>

fun atoi_digits :: "i32 \<Rightarrow> bytes \<Rightarrow> i32 res" where
  "atoi_digits acc [] = Undef"
| "atoi_digits acc (c # s) =
     (if 0x30 \<le> c \<and> c \<le> 0x39 then atoi_digits (10 * acc + ucast (c - 0x30)) s else Ok acc)"

definition atoi :: "bytes \<Rightarrow> i32 res" where
  "atoi s =
     (case dropWhile (\<lambda>c. c = 0x20 \<or> 9 \<le> c \<and> c \<le> 13) s of
        [] \<Rightarrow> Undef
      | c # t \<Rightarrow>
          if c = 0x2D then res_bind (atoi_digits 0 t) (\<lambda>n. Ok (- n))
          else if c = 0x2B then atoi_digits 0 t
          else atoi_digits 0 (c # t))"

section \<open>GPIO pins (raspberrypi_cnf/port_config.c)\<close>

definition BUFFER_MAX :: nat where "BUFFER_MAX = 3"
definition IN :: i32 where "IN = 0"
definition OUT :: i32 where "OUT = 1"
definition LOW :: i32 where "LOW = 0"
definition HIGH :: i32 where "HIGH = 1"
definition PORT_POWER_CTRL_IO :: i32 where "PORT_POWER_CTRL_IO = 20"

text \<open>
  Exporting and hiding write the number of the pin, with the length \<open>snprintf\<close> returns, from a
  buffer of three bytes.
\<close>

definition port_gpio_export :: "'k linux \<Rightarrow> i32 \<Rightarrow> 'k \<Rightarrow> (i32 \<times> 'k) res" where
  "port_gpio_export K pin k =
     (let (fd, k1) = sys_open K ''/sys/class/gpio/export'' O_WRONLY k
      in if negative fd then Ok (-1, k1) else
         res_bind (mem_read (snprintf_buf BUFFER_MAX (dec_int pin)) 0 (length (dec_int pin))) (\<lambda>d.
         let (_, k2) = sys_write K fd d k1 in Ok (0, sys_close K fd k2)))"

definition port_gpio_unexport :: "'k linux \<Rightarrow> i32 \<Rightarrow> 'k \<Rightarrow> (i32 \<times> 'k) res" where
  "port_gpio_unexport K pin k =
     (let (fd, k1) = sys_open K ''/sys/class/gpio/unexport'' O_WRONLY k
      in if negative fd then Ok (-1, k1) else
         res_bind (mem_read (snprintf_buf BUFFER_MAX (dec_int pin)) 0 (length (dec_int pin))) (\<lambda>d.
         let (_, k2) = sys_write K fd d k1 in Ok (0, sys_close K fd k2)))"

text \<open>The descriptor stays open when the write fails.\<close>

definition port_gpio_direction :: "'k linux \<Rightarrow> i32 \<Rightarrow> i32 \<Rightarrow> 'k \<Rightarrow> i32 \<times> 'k" where
  "port_gpio_direction K pin dir k =
     (let (fd, k1) = sys_open K (gpio_path pin ''/direction'') O_WRONLY k
      in if negative fd then (-1, k1) else
         let (n, k2) = sys_write K fd (if dir = IN then [0x69, 0x6E] else [0x6F, 0x75, 0x74]) k1
         in if negative n then (-1, k2) else (0, sys_close K fd k2))"

definition port_gpio_write :: "'k linux \<Rightarrow> i32 \<Rightarrow> i32 \<Rightarrow> 'k \<Rightarrow> i32 \<times> 'k" where
  "port_gpio_write K pin value k =
     (let (fd, k1) = sys_open K (gpio_path pin ''/value'') O_WRONLY k
      in if negative fd then (-1, k1) else
         let (n, k2) = sys_write K fd [if value = LOW then 0x30 else 0x31] k1
         in if negative n then (-1, k2) else (0, sys_close K fd k2))"

definition port_gpio_read :: "'k linux \<Rightarrow> i32 \<Rightarrow> 'k \<Rightarrow> (i32 \<times> 'k) res" where
  "port_gpio_read K pin k =
     (let (fd, k1) = sys_open K (gpio_path pin ''/value'') O_RDONLY k
      in if negative fd then Ok (-1, k1) else
         let (n, d, k2) = sys_read K fd 3 k1
         in if negative n then Ok (-1, k2)
            else res_bind (atoi (take 3 d)) (\<lambda>v. Ok (v, sys_close K fd k2)))"

definition port_power_on :: "'k linux \<Rightarrow> 'k \<Rightarrow> 'k" where
  "port_power_on K k = snd (port_gpio_write K PORT_POWER_CTRL_IO LOW k)"

definition port_power_off :: "'k linux \<Rightarrow> 'k \<Rightarrow> 'k" where
  "port_power_off K k = snd (port_gpio_write K PORT_POWER_CTRL_IO HIGH k)"

definition port_gpio_init :: "'k linux \<Rightarrow> 'k \<Rightarrow> 'k res" where
  "port_gpio_init K k =
     res_bind (port_gpio_export K PORT_POWER_CTRL_IO k) (\<lambda>(_, k1).
     let (_, k2) = port_gpio_direction K PORT_POWER_CTRL_IO OUT (sys_usleep K (30 * 1000) k1)
     in Ok (snd (port_gpio_write K PORT_POWER_CTRL_IO LOW k2)))"

definition port_mcu_init :: "'k linux \<Rightarrow> 'k \<Rightarrow> 'k res" where
  "port_mcu_init K k = port_gpio_init K k"

definition port_mcu_deinit :: "'k \<Rightarrow> 'k" where
  "port_mcu_deinit k = k"

section \<open>The lock (port_util.c)\<close>

definition LOCK_BUSY :: i32 where "LOCK_BUSY = 0"
definition LOCK_UNBUSY :: i32 where "LOCK_UNBUSY = 1"

definition port_lock :: "i32 \<Rightarrow> i32 \<times> i32" where
  "port_lock lck =
     (if lck = 0 then (if lck + 1 = 1 then (LOCK_UNBUSY, lck + 1) else (LOCK_BUSY, lck + 1))
      else (LOCK_BUSY, lck))"

definition port_unlock :: "i32 \<Rightarrow> i32" where
  "port_unlock lck = 0"

section \<open>The clock\<close>

text \<open>\<open>(uint32_t)((end.tv_sec-start.tv_sec)*1000000+(end.tv_usec-start.tv_usec))\<close>.\<close>

definition elapsed_us :: "u64 \<times> u64 \<Rightarrow> u64 \<times> u64 \<Rightarrow> u32" where
  "elapsed_us start end = ucast ((fst end - fst start) * 1000000 + (snd end - snd start))"

text \<open>The loop of the delay functions; \<open>fuel\<close> bounds the readings of the clock.\<close>

fun delay_loop :: "nat \<Rightarrow> 'k linux \<Rightarrow> u64 \<times> u64 \<Rightarrow> u32 \<Rightarrow> 'k \<Rightarrow> 'k res" where
  "delay_loop 0 K start us k = Stuck"
| "delay_loop (Suc fuel) K start us k =
     (let (now, k1) = sys_gettimeofday K k
      in if us \<le> elapsed_us start now then Ok k1 else delay_loop fuel K start us k1)"

definition periph_delay :: "nat \<Rightarrow> 'k linux \<Rightarrow> u32 \<Rightarrow> 'k \<Rightarrow> (se_error \<times> 'k) res" where
  "periph_delay fuel K us k =
     (let (start, k1) = sys_gettimeofday K k
      in res_bind (delay_loop fuel K start us k1) (\<lambda>k2. Ok (SE_SUCCESS, k2)))"

definition periph_timer_start :: "'k linux \<Rightarrow> util_timer_t \<Rightarrow> 'k \<Rightarrow> util_timer_t \<times> 'k" where
  "periph_timer_start K t k =
     (let ((s, u), k1) = sys_gettimeofday K k in (t\<lparr>tv_sec := s, tv_usec := u\<rparr>, k1))"

definition periph_timer_differ :: "'k linux \<Rightarrow> util_timer_t \<Rightarrow> 'k \<Rightarrow> se_error \<times> 'k" where
  "periph_timer_differ K t k =
     (let (now, k1) = sys_gettimeofday K k;
          time_use_ms = elapsed_us (tv_sec t, tv_usec t) now div 1000
      in (if interval t \<le> time_use_ms then SE_ERR_TIMEOUT else SE_SUCCESS, k1))"

section \<open>What the ports of both buses keep\<close>

text \<open>
  The flags of the devices, the lock, the kernel, and \<open>hung\<close>: a call of the port did not come to
  an end with a result, so that nothing the model says of later calls takes place.
\<close>

record 'k port_state =
  device_init :: "u8 list"
  io_lock :: i32
  hung :: bool
  kernel :: 'k

text \<open>
  The transfer of both buses, from the flag on: refused before the initialisation, one holder of
  the lock at a time, every failure reported as a communication error.
\<close>

definition guarded_io ::
  "u8 \<Rightarrow> (('k, 'x) port_state_scheme \<Rightarrow> (i32 \<times> 'a \<times> ('k, 'x) port_state_scheme) res) \<Rightarrow> 'a \<Rightarrow>
     ('k, 'x) port_state_scheme \<Rightarrow> (se_error \<times> 'a \<times> ('k, 'x) port_state_scheme) res" where
  "guarded_io slave transfer a s =
     (if length (device_init s) \<le> unat slave then Undef
      else if device_init s ! unat slave = 0 then Ok (SE_ERR_COMM, a, s)
      else let (lck, n) = port_lock (io_lock s)
           in if lck = LOCK_UNBUSY then
                res_bind (transfer (s\<lparr>io_lock := n\<rparr>)) (\<lambda>(ret, a1, s1).
                Ok (if ret \<noteq> 0 then SE_ERR_COMM else SE_SUCCESS, a1,
                    s1\<lparr>io_lock := port_unlock (io_lock s1)\<rparr>))
              else Ok (SE_ERR_BUSY, a, s\<lparr>io_lock := n\<rparr>))"

text \<open>A call of the port on behalf of a protocol driver.\<close>

definition port_call ::
  "'a \<Rightarrow> ('k, 'x) port_state_scheme \<Rightarrow> ('a \<times> ('k, 'x) port_state_scheme) res \<Rightarrow>
     'a \<times> ('k, 'x) port_state_scheme" where
  "port_call a s r = (case r of Ok x \<Rightarrow> x | _ \<Rightarrow> (a, s\<lparr>hung := True\<rparr>))"

section \<open>Arrays indexed by a C \<open>int\<close>\<close>

definition arr_get :: "'a list \<Rightarrow> i32 \<Rightarrow> 'a res" where
  "arr_get xs i = (if unat i < length xs then Ok (xs ! unat i) else Undef)"

definition arr_set :: "'a list \<Rightarrow> i32 \<Rightarrow> 'a \<Rightarrow> 'a list res" where
  "arr_set xs i v = (if unat i < length xs then Ok (xs[unat i := v]) else Undef)"

end
