(* ===== verification/Port_Spi.thy ===== *)
theory Port_Spi
  imports Port_Linux Proto_Spi
begin

text \<open>
  The SPI device of the Linux port layer (port/linux/port_spi.c): its parameters, GPIO lines,
  transfers over /dev/spidev0.0, and the table of functions the protocol driver is given.

  \<open>periph\<close> is a pointer to the peripheral, of which the functions use the parameters behind
  \<open>extra\<close>. They read \<open>periph->extra\<close> before they compare \<open>periph\<close> with NULL, so a NULL pointer
  (\<open>None\<close>) is undefined. The one handle of the file, \<open>spi_comm_handle_se0\<close>, is part of the state.
\<close>

section \<open>Constants and state\<close>

definition SPI_PERIPHERAL_SE0 :: u8 where "SPI_PERIPHERAL_SE0 = 0"
definition SPI_CHANNEL_SPI0 :: i32 where "SPI_CHANNEL_SPI0 = 0"
definition SPI_SPEED :: i32 where "SPI_SPEED = 15000000"
definition SPI_BPW :: u8 where "SPI_BPW = 8"
definition PORT_SPI_SE_RST_LOW_DELAY :: u32 where "PORT_SPI_SE_RST_LOW_DELAY = 1000"
definition PORT_SPI_SE_RST_HIGH_DELAY :: u32 where "PORT_SPI_SE_RST_HIGH_DELAY = 10000"
definition PORT_SPI_COMM_MODE0 :: i32 where "PORT_SPI_COMM_MODE0 = 0"
definition PORT_SPI_SE0_RST_IO :: i32 where "PORT_SPI_SE0_RST_IO = 436"
definition PORT_SPI_SE0_CS_IO :: i32 where "PORT_SPI_SE0_CS_IO = 437"
definition PORT_SPI_CTRL_RST :: u32 where "PORT_SPI_CTRL_RST = 0x10"
definition PORT_SPI_CS_CTRL_MODE_SOFT :: u8 where "PORT_SPI_CS_CTRL_MODE_SOFT = 1"
definition PORT_SPI_CS_CTRL_MODE_HARD :: u8 where "PORT_SPI_CS_CTRL_MODE_HARD = 2"

record SPI_SetDef =
  bSpiBPW :: u8
  sSpiDelay :: u16
  aiSpiSpeeds :: "i32 list"
  aiSpiFds :: "i32 list"

record spi_comm_param_t =
  spi_channel :: i32
  spi_mode :: i32
  spi_speed :: i32
  spi_bpw :: u8
  spi_slave_id :: u8
  spi_cs_mode :: u8

definition spi_comm_parm_se0 :: spi_comm_param_t where
  "spi_comm_parm_se0 = \<lparr>spi_channel = SPI_CHANNEL_SPI0, spi_mode = PORT_SPI_COMM_MODE0,
     spi_speed = SPI_SPEED, spi_bpw = SPI_BPW, spi_slave_id = SPI_PERIPHERAL_SE0,
     spi_cs_mode = PORT_SPI_CS_CTRL_MODE_HARD\<rparr>"

record 'k spi_port = "'k port_state" +
  spi_handle :: SPI_SetDef

definition spi_port_start :: "'k \<Rightarrow> 'k spi_port" where
  "spi_port_start k = \<lparr>device_init = replicate 4 0, io_lock = 0, hung = False, kernel = k,
     spi_handle = \<lparr>bSpiBPW = 0, sSpiDelay = 0, aiSpiSpeeds = [0, 0], aiSpiFds = [0, 0]\<rparr>\<rparr>"

section \<open>Private functions\<close>

definition port_spi_gpio_init :: "'k linux \<Rightarrow> spi_comm_param_t \<Rightarrow> 'k \<Rightarrow> 'k res" where
  "port_spi_gpio_init K c k =
     res_bind (port_gpio_export K PORT_SPI_SE0_RST_IO k) (\<lambda>(_, k1).
     res_bind (if spi_cs_mode c = PORT_SPI_CS_CTRL_MODE_SOFT
               then res_bind (port_gpio_export K PORT_SPI_SE0_CS_IO k1) (\<lambda>(_, k2). Ok k2) else Ok k1) (\<lambda>k2.
     let k3 = snd (port_gpio_direction K PORT_SPI_SE0_RST_IO OUT (sys_usleep K (30 * 1000) k2))
     in Ok (if spi_cs_mode c = PORT_SPI_CS_CTRL_MODE_SOFT
            then snd (port_gpio_write K PORT_SPI_SE0_CS_IO HIGH
                   (snd (port_gpio_direction K PORT_SPI_SE0_CS_IO OUT k3)))
            else k3)))"

text \<open>Both channels are the same device file. The descriptor stays open when a request fails.\<close>

definition port_spi_set ::
  "'k linux \<Rightarrow> i32 \<Rightarrow> i32 \<Rightarrow> i32 \<Rightarrow> u8 \<Rightarrow> 'k spi_port \<Rightarrow> (i32 \<times> 'k spi_port) res" where
  "port_spi_set K channel mode speed bpw s =
     (let (fd, k1) = sys_open K ''/dev/spidev0.0'' O_RDWR (kernel s)
      in if negative fd then Ok (-1, s\<lparr>kernel := k1\<rparr>) else
         res_bind (arr_set (aiSpiSpeeds (spi_handle s)) channel speed) (\<lambda>speeds.
         res_bind (arr_set (aiSpiFds (spi_handle s)) channel fd) (\<lambda>fds.
         let (ok, k2) = ioctl_all K fd
               [(SPI_IOC_WR_MODE, mode), (SPI_IOC_RD_MODE, mode),
                (SPI_IOC_WR_BITS_PER_WORD, ucast bpw), (SPI_IOC_RD_BITS_PER_WORD, ucast bpw),
                (SPI_IOC_WR_MAX_SPEED_HZ, speed), (SPI_IOC_RD_MAX_SPEED_HZ, speed)] k1
         in Ok (if ok then fd else -1,
                s\<lparr>kernel := k2, spi_handle := (spi_handle s)\<lparr>aiSpiSpeeds := speeds, aiSpiFds := fds\<rparr>\<rparr>))))"

definition port_spi_message ::
  "'k linux \<Rightarrow> i32 \<Rightarrow> bytes option \<Rightarrow> u32 \<Rightarrow> 'k spi_port \<Rightarrow> (i32 \<times> bytes \<times> 'k spi_port) res" where
  "port_spi_message K channel tx len s =
     res_bind (arr_get (aiSpiFds (spi_handle s)) channel) (\<lambda>fd.
     res_bind (arr_get (aiSpiSpeeds (spi_handle s)) channel) (\<lambda>speed.
     let spi = \<lparr>tx_buf = tx, xfer_len = len, delay_usecs = sSpiDelay (spi_handle s), speed_hz = speed,
                bits_per_word = bSpiBPW (spi_handle s)\<rparr>;
         (ret, d, k1) = sys_spi_message K fd spi (kernel s)
     in Ok (if negative ret then ret else 0, d, s\<lparr>kernel := k1\<rparr>)))"

definition port_spi_tx ::
  "'k linux \<Rightarrow> i32 \<Rightarrow> bytes \<Rightarrow> u32 \<Rightarrow> 'k spi_port \<Rightarrow> (i32 \<times> unit \<times> 'k spi_port) res" where
  "port_spi_tx K channel tx_data len s =
     res_bind (mem_read tx_data 0 (unat len)) (\<lambda>d.
     res_bind (port_spi_message K channel (Some d) len s) (\<lambda>(ret, _, s1). Ok (ret, (), s1)))"

definition port_spi_rx ::
  "'k linux \<Rightarrow> i32 \<Rightarrow> u32 \<Rightarrow> 'k spi_port \<Rightarrow> (i32 \<times> bytes \<times> 'k spi_port) res" where
  "port_spi_rx K channel len s = port_spi_message K channel None len s"

definition port_spi_init ::
  "'k linux \<Rightarrow> i32 \<Rightarrow> i32 \<Rightarrow> i32 \<Rightarrow> u8 \<Rightarrow> 'k spi_port \<Rightarrow> (se_error \<times> 'k spi_port) res" where
  "port_spi_init K channel mode speed bpw s =
     res_bind (port_spi_set K channel mode speed bpw s) (\<lambda>(ret, s1).
     Ok (if negative ret then SE_ERR_PARAM_INVALID else SE_SUCCESS, s1))"

definition port_spi_deinit ::
  "'k linux \<Rightarrow> i32 \<Rightarrow> 'k spi_port \<Rightarrow> (se_error \<times> 'k spi_port) res" where
  "port_spi_deinit K channel s =
     res_bind (arr_get (aiSpiFds (spi_handle s)) channel) (\<lambda>fd.
     Ok (SE_SUCCESS, s\<lparr>kernel := sys_close K fd (kernel s)\<rparr>))"

section \<open>The functions of the peripheral\<close>

definition port_spi_periph_delay :: "nat \<Rightarrow> 'k linux \<Rightarrow> u32 \<Rightarrow> 'k spi_port \<Rightarrow> (se_error \<times> 'k spi_port) res" where
  "port_spi_periph_delay fuel K us s =
     res_bind (periph_delay fuel K us (kernel s)) (\<lambda>(ret, k1). Ok (ret, s\<lparr>kernel := k1\<rparr>))"

definition port_spi_periph_timer_start ::
  "'k linux \<Rightarrow> util_timer_t \<Rightarrow> 'k spi_port \<Rightarrow> util_timer_t \<times> 'k spi_port" where
  "port_spi_periph_timer_start K t s =
     (let (t1, k1) = periph_timer_start K t (kernel s) in (t1, s\<lparr>kernel := k1\<rparr>))"

definition port_spi_periph_timer_differ ::
  "'k linux \<Rightarrow> util_timer_t \<Rightarrow> 'k spi_port \<Rightarrow> se_error \<times> 'k spi_port" where
  "port_spi_periph_timer_differ K t s =
     (let (ret, k1) = periph_timer_differ K t (kernel s) in (ret, s\<lparr>kernel := k1\<rparr>))"

definition port_spi_periph_init ::
  "'k linux \<Rightarrow> spi_comm_param_t option \<Rightarrow> 'k spi_port \<Rightarrow> (se_error \<times> 'k spi_port) res" where
  "port_spi_periph_init K periph s =
     (case periph of
        None \<Rightarrow> Undef
      | Some c \<Rightarrow>
          res_bind (port_spi_gpio_init K c (kernel s)) (\<lambda>k1.
          res_bind (guard (unat (spi_slave_id c) < length (device_init s))) (\<lambda>_.
          res_bind (if device_init s ! unat (spi_slave_id c) = 0
                    then res_bind (port_spi_init K (spi_channel c) (spi_mode c) (spi_speed c) (spi_bpw c)
                                     (s\<lparr>kernel := k1\<rparr>)) (\<lambda>(ret, s1).
                         Ok (ret, if ret = SE_SUCCESS
                                  then s1\<lparr>device_init := (device_init s1)[unat (spi_slave_id c) := 1]\<rparr> else s1))
                    else Ok (SE_SUCCESS, s\<lparr>kernel := k1\<rparr>)) (\<lambda>(ret, s2).
          if ret \<noteq> SE_SUCCESS then Ok (ret, s2)
          else if spi_slave_id c = SPI_PERIPHERAL_SE0
          then Ok (ret, s2\<lparr>kernel := snd (port_gpio_write K PORT_SPI_SE0_RST_IO HIGH (kernel s2))\<rparr>)
          else Ok (ret, s2)))))"

definition port_spi_periph_deinit ::
  "'k linux \<Rightarrow> spi_comm_param_t option \<Rightarrow> 'k spi_port \<Rightarrow> (se_error \<times> 'k spi_port) res" where
  "port_spi_periph_deinit K periph s =
     (case periph of
        None \<Rightarrow> Undef
      | Some c \<Rightarrow>
          res_bind (guard (unat (spi_slave_id c) < length (device_init s))) (\<lambda>_.
          res_bind (if spi_slave_id c = SPI_PERIPHERAL_SE0
                    then res_bind (if device_init s ! unat SPI_PERIPHERAL_SE0 = 1
                                   then port_spi_deinit K (spi_channel c) s else Ok (SE_SUCCESS, s)) (\<lambda>(ret, s1).
                         Ok (ret, s1\<lparr>kernel := snd (port_gpio_write K PORT_SPI_SE0_RST_IO LOW (kernel s1))\<rparr>))
                    else Ok (SE_SUCCESS, s)) (\<lambda>(ret, s2).
          Ok (ret, s2\<lparr>device_init := (device_init s2)[unat (spi_slave_id c) := 0]\<rparr>))))"

definition port_spi_periph_chip_select ::
  "'k linux \<Rightarrow> spi_comm_param_t option \<Rightarrow> bool \<Rightarrow> 'k spi_port \<Rightarrow> (se_error \<times> 'k spi_port) res" where
  "port_spi_periph_chip_select K periph enable s =
     (case periph of
        None \<Rightarrow> Undef
      | Some c \<Rightarrow>
          res_bind (guard (unat (spi_slave_id c) < length (device_init s))) (\<lambda>_.
          if device_init s ! unat (spi_slave_id c) = 0 then Ok (SE_ERR_COMM, s)
          else if spi_cs_mode c = PORT_SPI_CS_CTRL_MODE_SOFT \<and> spi_slave_id c = SPI_PERIPHERAL_SE0
          then Ok (SE_SUCCESS, s\<lparr>kernel :=
                 snd (port_gpio_write K PORT_SPI_SE0_CS_IO (if enable then HIGH else LOW) (kernel s))\<rparr>)
          else Ok (SE_SUCCESS, s)))"

definition port_spi_periph_transmit ::
  "'k linux \<Rightarrow> spi_comm_param_t option \<Rightarrow> bytes option \<Rightarrow> u32 \<Rightarrow> 'k spi_port \<Rightarrow> (se_error \<times> 'k spi_port) res" where
  "port_spi_periph_transmit K periph inbuf inbuf_len s =
     (case periph of
        None \<Rightarrow> Undef
      | Some c \<Rightarrow>
          (case inbuf of
             None \<Rightarrow> Ok (SE_ERR_PARAM_INVALID, s)
           | Some d \<Rightarrow>
               if inbuf_len = 0 then Ok (SE_ERR_PARAM_INVALID, s) else
               res_bind (guarded_io (spi_slave_id c) (port_spi_tx K (spi_channel c) d inbuf_len) () s)
                 (\<lambda>(ret, _, s1). Ok (ret, s1))))"

text \<open>The bytes the transfer stored come back with the result; \<open>*outbuf_len\<close> is only read.\<close>

definition port_spi_periph_receive ::
  "'k linux \<Rightarrow> spi_comm_param_t option \<Rightarrow> bool \<Rightarrow> u32 option \<Rightarrow> 'k spi_port \<Rightarrow>
     (se_error \<times> bytes \<times> 'k spi_port) res" where
  "port_spi_periph_receive K periph outbuf_null outbuf_len s =
     (case periph of
        None \<Rightarrow> Undef
      | Some c \<Rightarrow>
          (case outbuf_len of
             None \<Rightarrow> Ok (SE_ERR_PARAM_INVALID, [], s)
           | Some n \<Rightarrow>
               if outbuf_null then Ok (SE_ERR_PARAM_INVALID, [], s)
               else guarded_io (spi_slave_id c) (port_spi_rx K (spi_channel c) n) [] s))"

definition port_spi_periph_control ::
  "nat \<Rightarrow> 'k linux \<Rightarrow> spi_comm_param_t option \<Rightarrow> u32 \<Rightarrow> 'k spi_port \<Rightarrow> (se_error \<times> 'k spi_port) res" where
  "port_spi_periph_control fuel K periph ctrlcode s =
     (case periph of
        None \<Rightarrow> Undef
      | Some c \<Rightarrow>
          if ctrlcode = 0 then Ok (SE_ERR_PARAM_INVALID, s)
          else if ctrlcode = PORT_SPI_CTRL_RST \<and> spi_slave_id c = SPI_PERIPHERAL_SE0 then
            let s1 = s\<lparr>kernel := snd (port_gpio_write K PORT_SPI_SE0_RST_IO LOW (kernel s))\<rparr>
            in res_bind (port_spi_periph_delay fuel K PORT_SPI_SE_RST_LOW_DELAY s1) (\<lambda>(_, s2).
               let s3 = s2\<lparr>kernel := snd (port_gpio_write K PORT_SPI_SE0_RST_IO HIGH (kernel s2))\<rparr>
               in res_bind (port_spi_periph_delay fuel K PORT_SPI_SE_RST_HIGH_DELAY s3) (\<lambda>(_, s4).
                  Ok (SE_SUCCESS, s4)))
          else Ok (SE_SUCCESS, s))"

text \<open>
  \<open>g_peripheral_device_PERIPHERAL_SPI0\<close>, the table the protocol driver calls. Its functions return
  a value, so a call that does not is the flag \<open>hung\<close> here.
\<close>

definition linux_spi :: "nat \<Rightarrow> 'k linux \<Rightarrow> 'k spi_port hal_spi" where
  "linux_spi fuel K =
     (let c = Some spi_comm_parm_se0
      in \<lparr>hal_periph = \<lparr>per_type = PERIPHERAL_SPI, per_id = SPI_PERIPHERAL_SE0\<rparr>,
          hal_init = (\<lambda>s. port_call SE_ERR_COMM s (port_spi_periph_init K c s)),
          hal_deinit = (\<lambda>s. port_call SE_ERR_COMM s (port_spi_periph_deinit K c s)),
          hal_delay = (\<lambda>us s. snd (port_call SE_ERR_COMM s (port_spi_periph_delay fuel K us s))),
          hal_timer_start = port_spi_periph_timer_start K,
          hal_timer_differ = port_spi_periph_timer_differ K,
          hal_chip_select = (\<lambda>b s. snd (port_call SE_ERR_COMM s (port_spi_periph_chip_select K c b s))),
          hal_transmit = (\<lambda>d s. port_call SE_ERR_COMM s
            (port_spi_periph_transmit K c (Some d) (of_nat (length d)) s)),
          hal_receive = (\<lambda>b s. let ((ret, d), s1) = port_call (SE_ERR_COMM, []) s
              (res_bind (port_spi_periph_receive K c False (Some (of_nat (length b))) s)
                (\<lambda>(ret, d, s1). Ok ((ret, d), s1)))
            in (ret, d, s1)),
          hal_control = (\<lambda>code d n s. let (ret, s1) = port_call SE_ERR_COMM s
              (port_spi_periph_control fuel K c code s)
            in (ret, d, n, s1))\<rparr>)"

end
