(* ===== verification/Port_I2c.thy ===== *)
theory Port_I2c
  imports Port_Linux Proto_I2c
begin

text \<open>
  The I2C device of the Linux port layer (port/linux/port_i2c.c), in the same way as the SPI
  device: parameters, GPIO line, transfers over /dev/i2c-1, and the table of functions for the
  protocol driver.
\<close>

section \<open>Constants and state\<close>

definition I2C_PERIPHERAL_SE0 :: u8 where "I2C_PERIPHERAL_SE0 = 0"
definition I2C_CHANNEL_I2C0 :: i32 where "I2C_CHANNEL_I2C0 = 0"
definition I2C_SLAVE_ADRR :: i32 where "I2C_SLAVE_ADRR = 0x2A"
definition I2C_SPEED_DEFAULT :: i32 where "I2C_SPEED_DEFAULT = 100000"
definition I2C_TIMEOUT_DEFAULT :: i32 where "I2C_TIMEOUT_DEFAULT = 700"
definition I2C_RETRY_DEFAULT :: i32 where "I2C_RETRY_DEFAULT = 3"
definition PORT_I2C_SE_RST_LOW_DELAY :: u32 where "PORT_I2C_SE_RST_LOW_DELAY = 1000"
definition PORT_I2C_SE_RST_HIGH_DELAY :: u32 where "PORT_I2C_SE_RST_HIGH_DELAY = 10000"
definition PORT_I2C_SE0_RST_IO :: i32 where "PORT_I2C_SE0_RST_IO = 18"
definition PORT_I2C_CTRL_RST :: u32 where "PORT_I2C_CTRL_RST = 0x10"

record I2C_SetDef =
  aiI2cFds :: "i32 list"
  aiI2cSlave :: "i32 list"

record i2c_comm_param_t =
  i2c_channel :: i32
  i2c_slave :: i32
  i2c_speed :: i32
  i2c_timeout :: i32
  i2c_retry :: i32
  i2c_slave_id :: u8

definition i2c_comm_parm_se0 :: i2c_comm_param_t where
  "i2c_comm_parm_se0 = \<lparr>i2c_channel = I2C_CHANNEL_I2C0, i2c_slave = I2C_SLAVE_ADRR,
     i2c_speed = I2C_SPEED_DEFAULT, i2c_timeout = I2C_TIMEOUT_DEFAULT, i2c_retry = I2C_RETRY_DEFAULT,
     i2c_slave_id = I2C_PERIPHERAL_SE0\<rparr>"

record 'k i2c_port = "'k port_state" +
  i2c_handle :: I2C_SetDef

definition i2c_port_start :: "'k \<Rightarrow> 'k i2c_port" where
  "i2c_port_start k = \<lparr>device_init = replicate 4 0, io_lock = 0, hung = False, kernel = k,
     i2c_handle = \<lparr>aiI2cFds = [0, 0], aiI2cSlave = [0, 0]\<rparr>\<rparr>"

section \<open>Private functions\<close>

definition port_i2c_gpio_init :: "'k linux \<Rightarrow> 'k \<Rightarrow> 'k res" where
  "port_i2c_gpio_init K k =
     res_bind (port_gpio_export K PORT_I2C_SE0_RST_IO k) (\<lambda>(_, k1).
     Ok (snd (port_gpio_direction K PORT_I2C_SE0_RST_IO OUT (sys_usleep K (30 * 1000) k1))))"

text \<open>The results of the last two requests are ignored; channel 1 is the file of the bus 0.\<close>

definition port_i2c_set ::
  "'k linux \<Rightarrow> i32 \<Rightarrow> i32 \<Rightarrow> i32 \<Rightarrow> i32 \<Rightarrow> i32 \<Rightarrow> 'k i2c_port \<Rightarrow> (i32 \<times> 'k i2c_port) res" where
  "port_i2c_set K channel slave speed timeout retry s =
     (let (fd, k1) = sys_open K (if channel = 1 then ''/dev/i2c-0'' else ''/dev/i2c-1'') O_RDWR (kernel s)
      in if negative fd then Ok (-1, s\<lparr>kernel := k1\<rparr>) else
         res_bind (arr_set (aiI2cFds (i2c_handle s)) channel fd) (\<lambda>fds.
         let (r, k2) = sys_ioctl K fd I2C_SLAVE slave k1;
             h = (i2c_handle s)\<lparr>aiI2cFds := fds\<rparr>
         in if negative r then Ok (-1, s\<lparr>kernel := k2, i2c_handle := h\<rparr>) else
            res_bind (arr_set (aiI2cSlave h) channel slave) (\<lambda>slaves.
            let (_, k3) = sys_ioctl K fd I2C_TIMEOUT timeout k2;
                (_, k4) = sys_ioctl K fd I2C_RETRIES retry k3
            in Ok (fd, s\<lparr>kernel := k4, i2c_handle := h\<lparr>aiI2cSlave := slaves\<rparr>\<rparr>))))"

definition port_i2c_rdwr ::
  "'k linux \<Rightarrow> i32 \<Rightarrow> bool \<Rightarrow> bytes \<Rightarrow> u32 \<Rightarrow> 'k i2c_port \<Rightarrow> (i32 \<times> bytes \<times> 'k i2c_port) res" where
  "port_i2c_rdwr K channel rd d len s =
     res_bind (arr_get (aiI2cFds (i2c_handle s)) channel) (\<lambda>fd.
     res_bind (arr_get (aiI2cSlave (i2c_handle s)) channel) (\<lambda>slave.
     let msg = \<lparr>msg_addr = ucast slave, msg_read = rd, msg_len = ucast len, msg_buf = d\<rparr>;
         (ret, d1, k1) = sys_i2c_rdwr K fd msg (kernel s)
     in Ok (if negative ret then -1 else 0, d1, s\<lparr>kernel := k1\<rparr>)))"

definition port_i2c_tx ::
  "'k linux \<Rightarrow> i32 \<Rightarrow> bytes \<Rightarrow> u32 \<Rightarrow> 'k i2c_port \<Rightarrow> (i32 \<times> unit \<times> 'k i2c_port) res" where
  "port_i2c_tx K channel tx_data len s =
     res_bind (mem_read tx_data 0 (unat (ucast len :: u16))) (\<lambda>d.
     res_bind (port_i2c_rdwr K channel False d len s) (\<lambda>(ret, _, s1). Ok (ret, (), s1)))"

definition port_i2c_rx ::
  "'k linux \<Rightarrow> i32 \<Rightarrow> u32 \<Rightarrow> 'k i2c_port \<Rightarrow> (i32 \<times> bytes \<times> 'k i2c_port) res" where
  "port_i2c_rx K channel len s = port_i2c_rdwr K channel True [] len s"

definition port_i2c_init ::
  "'k linux \<Rightarrow> i32 \<Rightarrow> i32 \<Rightarrow> i32 \<Rightarrow> i32 \<Rightarrow> i32 \<Rightarrow> 'k i2c_port \<Rightarrow> (se_error \<times> 'k i2c_port) res" where
  "port_i2c_init K channel slave speed timeout retry s =
     res_bind (port_i2c_set K channel slave speed timeout retry s) (\<lambda>(ret, s1).
     Ok (if negative ret then SE_ERR_PARAM_INVALID else SE_SUCCESS, s1))"

definition port_i2c_deinit ::
  "'k linux \<Rightarrow> i32 \<Rightarrow> 'k i2c_port \<Rightarrow> (se_error \<times> 'k i2c_port) res" where
  "port_i2c_deinit K channel s =
     res_bind (arr_get (aiI2cFds (i2c_handle s)) channel) (\<lambda>fd.
     Ok (SE_SUCCESS, s\<lparr>kernel := sys_close K fd (kernel s)\<rparr>))"

section \<open>The functions of the peripheral\<close>

definition port_i2c_periph_delay :: "nat \<Rightarrow> 'k linux \<Rightarrow> u32 \<Rightarrow> 'k i2c_port \<Rightarrow> (se_error \<times> 'k i2c_port) res" where
  "port_i2c_periph_delay fuel K us s =
     res_bind (periph_delay fuel K us (kernel s)) (\<lambda>(ret, k1). Ok (ret, s\<lparr>kernel := k1\<rparr>))"

definition port_i2c_periph_timer_start ::
  "'k linux \<Rightarrow> util_timer_t \<Rightarrow> 'k i2c_port \<Rightarrow> util_timer_t \<times> 'k i2c_port" where
  "port_i2c_periph_timer_start K t s =
     (let (t1, k1) = periph_timer_start K t (kernel s) in (t1, s\<lparr>kernel := k1\<rparr>))"

definition port_i2c_periph_timer_differ ::
  "'k linux \<Rightarrow> util_timer_t \<Rightarrow> 'k i2c_port \<Rightarrow> se_error \<times> 'k i2c_port" where
  "port_i2c_periph_timer_differ K t s =
     (let (ret, k1) = periph_timer_differ K t (kernel s) in (ret, s\<lparr>kernel := k1\<rparr>))"

definition port_i2c_periph_init ::
  "'k linux \<Rightarrow> i2c_comm_param_t option \<Rightarrow> 'k i2c_port \<Rightarrow> (se_error \<times> 'k i2c_port) res" where
  "port_i2c_periph_init K periph s =
     (case periph of
        None \<Rightarrow> Undef
      | Some c \<Rightarrow>
          res_bind (port_i2c_gpio_init K (kernel s)) (\<lambda>k1.
          res_bind (guard (unat (i2c_slave_id c) < length (device_init s))) (\<lambda>_.
          res_bind (if device_init s ! unat (i2c_slave_id c) = 0
                    then res_bind (port_i2c_init K (i2c_channel c) (i2c_slave c) (i2c_speed c)
                                     (i2c_timeout c) (i2c_retry c) (s\<lparr>kernel := k1\<rparr>)) (\<lambda>(ret, s1).
                         Ok (ret, if ret = SE_SUCCESS
                                  then s1\<lparr>device_init := (device_init s1)[unat (i2c_slave_id c) := 1]\<rparr> else s1))
                    else Ok (SE_SUCCESS, s\<lparr>kernel := k1\<rparr>)) (\<lambda>(ret, s2).
          if ret \<noteq> SE_SUCCESS then Ok (ret, s2)
          else if i2c_slave_id c = I2C_PERIPHERAL_SE0
          then Ok (ret, s2\<lparr>kernel := snd (port_gpio_write K PORT_I2C_SE0_RST_IO HIGH (kernel s2))\<rparr>)
          else Ok (ret, s2)))))"

definition port_i2c_periph_deinit ::
  "'k linux \<Rightarrow> i2c_comm_param_t option \<Rightarrow> 'k i2c_port \<Rightarrow> (se_error \<times> 'k i2c_port) res" where
  "port_i2c_periph_deinit K periph s =
     (case periph of
        None \<Rightarrow> Undef
      | Some c \<Rightarrow>
          res_bind (guard (unat (i2c_slave_id c) < length (device_init s))) (\<lambda>_.
          res_bind (if i2c_slave_id c = I2C_PERIPHERAL_SE0
                    then res_bind (if device_init s ! unat I2C_PERIPHERAL_SE0 = 1
                                   then port_i2c_deinit K (i2c_channel c) s else Ok (SE_SUCCESS, s)) (\<lambda>(ret, s1).
                         Ok (ret, s1\<lparr>kernel := snd (port_gpio_write K PORT_I2C_SE0_RST_IO LOW (kernel s1))\<rparr>))
                    else Ok (SE_SUCCESS, s)) (\<lambda>(ret, s2).
          Ok (ret, s2\<lparr>device_init := (device_init s2)[unat (i2c_slave_id c) := 0]\<rparr>))))"

definition port_i2c_periph_transmit ::
  "'k linux \<Rightarrow> i2c_comm_param_t option \<Rightarrow> bytes option \<Rightarrow> u32 \<Rightarrow> 'k i2c_port \<Rightarrow> (se_error \<times> 'k i2c_port) res" where
  "port_i2c_periph_transmit K periph inbuf inbuf_len s =
     (case periph of
        None \<Rightarrow> Undef
      | Some c \<Rightarrow>
          (case inbuf of
             None \<Rightarrow> Ok (SE_ERR_PARAM_INVALID, s)
           | Some d \<Rightarrow>
               if inbuf_len = 0 then Ok (SE_ERR_PARAM_INVALID, s) else
               res_bind (guarded_io (i2c_slave_id c) (port_i2c_tx K (i2c_channel c) d inbuf_len) () s)
                 (\<lambda>(ret, _, s1). Ok (ret, s1))))"

definition port_i2c_periph_receive ::
  "'k linux \<Rightarrow> i2c_comm_param_t option \<Rightarrow> bool \<Rightarrow> u32 option \<Rightarrow> 'k i2c_port \<Rightarrow>
     (se_error \<times> bytes \<times> 'k i2c_port) res" where
  "port_i2c_periph_receive K periph outbuf_null outbuf_len s =
     (case periph of
        None \<Rightarrow> Undef
      | Some c \<Rightarrow>
          (case outbuf_len of
             None \<Rightarrow> Ok (SE_ERR_PARAM_INVALID, [], s)
           | Some n \<Rightarrow>
               if outbuf_null then Ok (SE_ERR_PARAM_INVALID, [], s)
               else guarded_io (i2c_slave_id c) (port_i2c_rx K (i2c_channel c) n) [] s))"

definition port_i2c_periph_control ::
  "nat \<Rightarrow> 'k linux \<Rightarrow> i2c_comm_param_t option \<Rightarrow> u32 \<Rightarrow> 'k i2c_port \<Rightarrow> (se_error \<times> 'k i2c_port) res" where
  "port_i2c_periph_control fuel K periph ctrlcode s =
     (case periph of
        None \<Rightarrow> Undef
      | Some c \<Rightarrow>
          if ctrlcode = 0 then Ok (SE_ERR_PARAM_INVALID, s)
          else if ctrlcode = PORT_I2C_CTRL_RST \<and> i2c_slave_id c = I2C_PERIPHERAL_SE0 then
            let s1 = s\<lparr>kernel := snd (port_gpio_write K PORT_I2C_SE0_RST_IO LOW (kernel s))\<rparr>
            in res_bind (port_i2c_periph_delay fuel K PORT_I2C_SE_RST_LOW_DELAY s1) (\<lambda>(_, s2).
               let s3 = s2\<lparr>kernel := snd (port_gpio_write K PORT_I2C_SE0_RST_IO HIGH (kernel s2))\<rparr>
               in res_bind (port_i2c_periph_delay fuel K PORT_I2C_SE_RST_HIGH_DELAY s3) (\<lambda>(_, s4).
                  Ok (SE_SUCCESS, s4)))
          else Ok (SE_SUCCESS, s))"

definition linux_i2c :: "nat \<Rightarrow> 'k linux \<Rightarrow> 'k i2c_port hal_i2c" where
  "linux_i2c fuel K =
     (let c = Some i2c_comm_parm_se0
      in \<lparr>i2c_periph = \<lparr>per_type = PERIPHERAL_I2C, per_id = I2C_PERIPHERAL_SE0\<rparr>,
          i2c_init = (\<lambda>s. port_call SE_ERR_COMM s (port_i2c_periph_init K c s)),
          i2c_deinit = (\<lambda>s. port_call SE_ERR_COMM s (port_i2c_periph_deinit K c s)),
          i2c_delay = (\<lambda>us s. snd (port_call SE_ERR_COMM s (port_i2c_periph_delay fuel K us s))),
          i2c_timer_start = port_i2c_periph_timer_start K,
          i2c_timer_differ = port_i2c_periph_timer_differ K,
          i2c_transmit = (\<lambda>d s. port_call SE_ERR_COMM s
            (port_i2c_periph_transmit K c (Some d) (of_nat (length d)) s)),
          i2c_receive = (\<lambda>n s. let ((ret, d), s1) = port_call (SE_ERR_COMM, []) s
              (res_bind (port_i2c_periph_receive K c False (Some n) s)
                (\<lambda>(ret, d, s1). Ok ((ret, d), s1)))
            in (ret, d, n, s1)),
          i2c_control = (\<lambda>code d n s. let (ret, s1) = port_call SE_ERR_COMM s
              (port_i2c_periph_control fuel K c code s)
            in (ret, d, s1))\<rparr>)"

end
