(* ===== verification/Port_Facts.thy ===== *)
theory Port_Facts
  imports Port_Spi Port_I2c
begin

text \<open>
  Lemmas on the Linux port layer: readings of the clock as numbers of microseconds, decimal pin
  numbers, the transfer behind the lock as a locale over what it needs of a bus, with the four
  transfers of the two buses as its interpretations.
\<close>

section \<open>The clock\<close>

text \<open>
  What is assumed of \<open>gettimeofday\<close> where time matters: the state of the kernel has a time \<open>now\<close>
  in microseconds, a reading tells it split into seconds and microseconds, and two readings are
  at least 1 and at most \<open>D\<close> microseconds apart.
\<close>

definition timeval :: "nat \<Rightarrow> u64 \<times> u64" where
  "timeval t = (of_nat (t div 1000000), of_nat (t mod 1000000))"

definition clock_runs :: "'k linux \<Rightarrow> ('k \<Rightarrow> nat) \<Rightarrow> nat \<Rightarrow> bool" where
  "clock_runs K now D \<longleftrightarrow>
     (\<forall>k. fst (sys_gettimeofday K k) = timeval (now k) \<and>
          now k < now (snd (sys_gettimeofday K k)) \<and> now (snd (sys_gettimeofday K k)) \<le> now k + D)"

lemma clock_reading:
  assumes "clock_runs K now D"
  obtains k' where "sys_gettimeofday K k = (timeval (now k), k')" "now k < now k'" "now k' \<le> now k + D"
  using assms unfolding clock_runs_def by (metis prod.collapse)

lemma ucast_of_nat_u64: "(ucast (of_nat n :: u64) :: u32) = of_nat n"
  by (rule bit_word_eqI) (auto simp: bit_simps)

lemma elapsed_timeval:
  assumes "a \<le> b"
  shows "elapsed_us (timeval a) (timeval b) = of_nat (b - a)"
proof -
  have split: "(of_nat (n div 1000000) * 1000000 + of_nat (n mod 1000000) :: u64) = of_nat n" for n
    by (metis div_mult_mod_eq of_nat_add of_nat_mult of_nat_numeral)
  have "(of_nat (b div 1000000) - of_nat (a div 1000000)) * 1000000 +
      (of_nat (b mod 1000000) - of_nat (a mod 1000000)) = (of_nat b - of_nat a :: u64)"
    unfolding split [of a, symmetric] split [of b, symmetric] by (simp add: algebra_simps)
  also have "\<dots> = of_nat (b - a)" using assms by (simp add: of_nat_diff)
  finally show ?thesis by (simp add: elapsed_us_def timeval_def ucast_of_nat_u64)
qed

lemma delay_loop_returns:
  assumes clk: "clock_runs K now D" and "unat us + D < 2 ^ 32"
    and "t0 < now k" "now k < t0 + unat us + D \<or> now k = t0 + D" "t0 + unat us < now k + fuel" "0 < fuel"
  shows "\<exists>k'. delay_loop fuel K (timeval t0) us k = Ok k' \<and> t0 + unat us < now k' \<and> now k' \<le> t0 + unat us + 2 * D"
  using assms(3-)
proof (induction fuel arbitrary: k)
  case (Suc fuel)
  obtain k1 where k1: "sys_gettimeofday K k = (timeval (now k), k1)" "now k < now k1" "now k1 \<le> now k + D"
    using clk by (rule clock_reading)
  have small: "now k - t0 < 2 ^ 32" using Suc.prems(1,2) assms(2) by auto
  have e: "us \<le> elapsed_us (timeval t0) (timeval (now k)) \<longleftrightarrow> unat us \<le> now k - t0"
    using small Suc.prems(1)
    by (simp add: elapsed_timeval word_le_nat_alt unat_of_nat_u32 del: of_nat_diff)
  show ?case
  proof (cases "unat us \<le> now k - t0")
    case True
    then show ?thesis using k1 e Suc.prems(1,2) by auto
  next
    case False
    have "\<exists>k'. delay_loop fuel K (timeval t0) us k1 = Ok k' \<and> t0 + unat us < now k' \<and> now k' \<le> t0 + unat us + 2 * D"
      using k1 False Suc.prems(1,3) by (intro Suc.IH) auto
    then show ?thesis using k1 e False by simp
  qed
qed simp

section \<open>Pin numbers\<close>

lemma div_ten: "n div 10 < 10 \<longleftrightarrow> n < 100" "n div 10 div 10 < 10 \<longleftrightarrow> n < 1000" for n :: nat
  by linarith+

lemma dec_nat_short:
  "n < 10 \<Longrightarrow> dec_nat n = [dec_char n]"
  "10 \<le> n \<Longrightarrow> n < 100 \<Longrightarrow> dec_nat n = [dec_char (n div 10), dec_char (n mod 10)]"
  "100 \<le> n \<Longrightarrow> n < 1000 \<Longrightarrow>
     dec_nat n = [dec_char (n div 10 div 10), dec_char (n div 10 mod 10), dec_char (n mod 10)]"
  by (simp_all add: dec_nat.simps div_ten)

lemma dec_nat_length: "length (dec_nat n) = (if n < 10 then 1 else Suc (length (dec_nat (n div 10))))"
  by (subst dec_nat.simps) simp

lemma dec_nat_long: "1000 \<le> n \<Longrightarrow> 3 < length (dec_nat n)"
  by (subst dec_nat_length, subst dec_nat_length, subst dec_nat_length, subst dec_nat_length)
    (simp add: div_ten)

text \<open>What reading the buffer of three bytes with the length of the text gives.\<close>

lemma export_bytes:
  assumes "0 \<le> sint pin"
  shows "mem_read (snprintf_buf BUFFER_MAX (dec_int pin)) 0 (length (dec_int pin)) =
    (if sint pin < 100 then Ok (dec_int pin)
     else if sint pin < 1000 then Ok (take 2 (dec_int pin) @ [0]) else Undef)"
proof -
  define n where "n = nat (sint pin)"
  have d: "dec_int pin = dec_nat n" and n: "sint pin = int n"
    using assms by (simp_all add: dec_int_def word_sless_alt n_def)
  consider "n < 10" | "10 \<le> n" "n < 100" | "100 \<le> n" "n < 1000" | "1000 \<le> n" by linarith
  then show ?thesis
  proof cases
    case 4
    then show ?thesis
      using dec_nat_long [OF 4] by (simp add: d n snprintf_buf_def BUFFER_MAX_def mem_read_def)
  qed (simp_all add: d n snprintf_buf_def BUFFER_MAX_def mem_read_def dec_nat_short)
qed

section \<open>The transfer behind the lock\<close>

text \<open>
  What \<open>guarded_io\<close> needs of the transfer of a bus: in the states \<open>ok\<close>, which neither the lock nor
  the kernel changes, it returns, and changes the kernel only.
\<close>

locale bus_transfer =
  fixes transfer :: "('k, 'x) port_state_scheme \<Rightarrow> (i32 \<times> 'a \<times> ('k, 'x) port_state_scheme) res"
    and ok :: "('k, 'x) port_state_scheme \<Rightarrow> bool"
  assumes returns: "ok s \<Longrightarrow> \<exists>ret a k. transfer s = Ok (ret, a, s\<lparr>kernel := k\<rparr>)"
    and ok_lock: "ok (s\<lparr>io_lock := n\<rparr>) = ok s"
begin

lemma guarded_free:
  assumes "ok s" "io_lock s = 0" "unat slave < length (device_init s)"
  obtains e a1 k where "guarded_io slave transfer a s = Ok (e, a1, s\<lparr>kernel := k\<rparr>)"
    "e = SE_SUCCESS \<or> e = SE_ERR_COMM"
proof (cases "device_init s ! unat slave = 0")
  case True
  have "guarded_io slave transfer a s = Ok (SE_ERR_COMM, a, s\<lparr>kernel := kernel s\<rparr>)"
    using True assms(3) by (simp add: guarded_io_def)
  then show thesis using that by blast
next
  case False
  obtain ret a1 k where t: "transfer (s\<lparr>io_lock := 1\<rparr>) = Ok (ret, a1, s\<lparr>io_lock := 1, kernel := k\<rparr>)"
    using returns [of "s\<lparr>io_lock := 1\<rparr>"] assms(1) ok_lock by auto
  have s: "s\<lparr>io_lock := 1, kernel := k, io_lock := 0\<rparr> = s\<lparr>kernel := k\<rparr>"
    using assms(2) by (cases s) simp
  have "guarded_io slave transfer a s
      = Ok (if ret \<noteq> 0 then SE_ERR_COMM else SE_SUCCESS, a1, s\<lparr>kernel := k\<rparr>)"
    using False assms(2,3) t s
    by (simp add: guarded_io_def port_lock_def LOCK_UNBUSY_def port_unlock_def)
  then show thesis using that by simp
qed

lemma guarded_done:
  assumes "transfer (s\<lparr>io_lock := 1\<rparr>) = Ok (0, a1, s\<lparr>io_lock := 1, kernel := k\<rparr>)"
    and "io_lock s = 0" "unat slave < length (device_init s)" "device_init s ! unat slave \<noteq> 0"
  shows "guarded_io slave transfer a s = Ok (SE_SUCCESS, a1, s\<lparr>kernel := k\<rparr>)"
proof -
  have "s\<lparr>io_lock := 1, kernel := k, io_lock := 0\<rparr> = s\<lparr>kernel := k\<rparr>"
    using assms(2) by (cases s) simp
  then show ?thesis
    using assms by (simp add: guarded_io_def port_lock_def LOCK_UNBUSY_def port_unlock_def)
qed

end

definition spi_ready :: "'k spi_port \<Rightarrow> bool" where
  "spi_ready s \<longleftrightarrow> length (aiSpiFds (spi_handle s)) = 2 \<and> length (aiSpiSpeeds (spi_handle s)) = 2"

definition i2c_ready :: "'k i2c_port \<Rightarrow> bool" where
  "i2c_ready s \<longleftrightarrow> length (aiI2cFds (i2c_handle s)) = 2 \<and> length (aiI2cSlave (i2c_handle s)) = 2"

interpretation spi_tx: bus_transfer "port_spi_tx K ch d n"
  "\<lambda>s. spi_ready s \<and> unat ch < 2 \<and> unat n \<le> length d" for K ch d n
  by unfold_locales (auto simp: port_spi_tx_def port_spi_message_def spi_ready_def arr_get_def
      mem_read_def Let_def split: prod.splits)

interpretation spi_rx: bus_transfer "port_spi_rx K ch n" "\<lambda>s. spi_ready s \<and> unat ch < 2" for K ch n
  by unfold_locales (auto simp: port_spi_rx_def port_spi_message_def spi_ready_def arr_get_def
      Let_def split: prod.splits)

interpretation i2c_tx: bus_transfer "port_i2c_tx K ch d n"
  "\<lambda>s. i2c_ready s \<and> unat ch < 2 \<and> unat (ucast n :: u16) \<le> length d" for K ch d n
  by unfold_locales (auto simp: port_i2c_tx_def port_i2c_rdwr_def i2c_ready_def arr_get_def
      mem_read_def Let_def split: prod.splits)

interpretation i2c_rx: bus_transfer "port_i2c_rx K ch n" "\<lambda>s. i2c_ready s \<and> unat ch < 2" for K ch n
  by unfold_locales (auto simp: port_i2c_rx_def port_i2c_rdwr_def i2c_ready_def arr_get_def
      Let_def split: prod.splits)

end
