(* ===== verification/Port_Props.thy ===== *)
theory Port_Props
  imports Port_Facts
begin

text \<open>
  Properties of the Linux port layer: the lock and the tables in every reachable state, the pin
  numbers that reach sysfs, and what delays and timers make of the clock.
\<close>

section \<open>Reachable states\<close>

text \<open>
  One call of the table of a device, and the states any sequence of calls leads to from the start
  of the program. The kernel answers as it likes.
\<close>

inductive spi_port_step :: "nat \<Rightarrow> 'k linux \<Rightarrow> 'k spi_port \<Rightarrow> 'k spi_port \<Rightarrow> bool" for fuel K where
  "hal_init (linux_spi fuel K) s = (ret, s') \<Longrightarrow> spi_port_step fuel K s s'"
| "hal_deinit (linux_spi fuel K) s = (ret, s') \<Longrightarrow> spi_port_step fuel K s s'"
| "hal_delay (linux_spi fuel K) us s = s' \<Longrightarrow> spi_port_step fuel K s s'"
| "hal_timer_start (linux_spi fuel K) t s = (t', s') \<Longrightarrow> spi_port_step fuel K s s'"
| "hal_timer_differ (linux_spi fuel K) t s = (ret, s') \<Longrightarrow> spi_port_step fuel K s s'"
| "hal_chip_select (linux_spi fuel K) b s = s' \<Longrightarrow> spi_port_step fuel K s s'"
| "hal_transmit (linux_spi fuel K) d s = (ret, s') \<Longrightarrow> spi_port_step fuel K s s'"
| "hal_receive (linux_spi fuel K) d s = (ret, d', s') \<Longrightarrow> spi_port_step fuel K s s'"
| "hal_control (linux_spi fuel K) code x n s = (ret, x', n', s') \<Longrightarrow> spi_port_step fuel K s s'"

inductive spi_port_reach :: "nat \<Rightarrow> 'k linux \<Rightarrow> 'k spi_port \<Rightarrow> bool" for fuel K where
  spi_port_start: "spi_port_reach fuel K (spi_port_start k)"
| spi_port_next: "\<lbrakk>spi_port_reach fuel K s; spi_port_step fuel K s s'\<rbrakk> \<Longrightarrow> spi_port_reach fuel K s'"

inductive i2c_port_step :: "nat \<Rightarrow> 'k linux \<Rightarrow> 'k i2c_port \<Rightarrow> 'k i2c_port \<Rightarrow> bool" for fuel K where
  "i2c_init (linux_i2c fuel K) s = (ret, s') \<Longrightarrow> i2c_port_step fuel K s s'"
| "i2c_deinit (linux_i2c fuel K) s = (ret, s') \<Longrightarrow> i2c_port_step fuel K s s'"
| "i2c_delay (linux_i2c fuel K) us s = s' \<Longrightarrow> i2c_port_step fuel K s s'"
| "i2c_timer_start (linux_i2c fuel K) t s = (t', s') \<Longrightarrow> i2c_port_step fuel K s s'"
| "i2c_timer_differ (linux_i2c fuel K) t s = (ret, s') \<Longrightarrow> i2c_port_step fuel K s s'"
| "i2c_transmit (linux_i2c fuel K) d s = (ret, s') \<Longrightarrow> i2c_port_step fuel K s s'"
| "i2c_receive (linux_i2c fuel K) m s = (ret, d', n', s') \<Longrightarrow> i2c_port_step fuel K s s'"
| "i2c_control (linux_i2c fuel K) code x n s = (ret, x', s') \<Longrightarrow> i2c_port_step fuel K s s'"

inductive i2c_port_reach :: "nat \<Rightarrow> 'k linux \<Rightarrow> 'k i2c_port \<Rightarrow> bool" for fuel K where
  i2c_port_start: "i2c_port_reach fuel K (i2c_port_start k)"
| i2c_port_next: "\<lbrakk>i2c_port_reach fuel K s; i2c_port_step fuel K s s'\<rbrakk> \<Longrightarrow> i2c_port_reach fuel K s'"

text \<open>The invariant: the lock is free and the tables have their sizes.\<close>

definition spi_port_ok :: "'k spi_port \<Rightarrow> bool" where
  "spi_port_ok s \<longleftrightarrow> io_lock s = 0 \<and> length (device_init s) = 4 \<and> spi_ready s"

definition i2c_port_ok :: "'k i2c_port \<Rightarrow> bool" where
  "i2c_port_ok s \<longleftrightarrow> io_lock s = 0 \<and> length (device_init s) = 4 \<and> i2c_ready s"

named_theorems port_ok_simps \<open>updates that keep the invariants of the ports\<close>

lemma spi_port_ok_update [port_ok_simps]:
  "spi_port_ok (s\<lparr>kernel := k\<rparr>) = spi_port_ok s" "spi_port_ok (s\<lparr>hung := b\<rparr>) = spi_port_ok s"
  "spi_port_ok s \<Longrightarrow> spi_port_ok (s\<lparr>device_init := (device_init s)[i := v]\<rparr>)"
  by (auto simp: spi_port_ok_def spi_ready_def)

lemma i2c_port_ok_update [port_ok_simps]:
  "i2c_port_ok (s\<lparr>kernel := k\<rparr>) = i2c_port_ok s" "i2c_port_ok (s\<lparr>hung := b\<rparr>) = i2c_port_ok s"
  "i2c_port_ok s \<Longrightarrow> i2c_port_ok (s\<lparr>device_init := (device_init s)[i := v]\<rparr>)"
  by (auto simp: i2c_port_ok_def i2c_ready_def)

lemma port_ok_sizes:
  "spi_port_ok s \<Longrightarrow> length (device_init s) = 4 \<and> length (aiSpiFds (spi_handle s)) = 2 \<and>
     length (aiSpiSpeeds (spi_handle s)) = 2"
  "i2c_port_ok s' \<Longrightarrow> length (device_init s') = 4 \<and> length (aiI2cFds (i2c_handle s')) = 2 \<and>
     length (aiI2cSlave (i2c_handle s')) = 2"
  by (auto simp: spi_port_ok_def spi_ready_def i2c_port_ok_def i2c_ready_def)

text \<open>The outcome of a call that returns, keeps the invariant \<open>P\<close> and does not hang.\<close>

definition call_ok :: "(('k, 'x) port_state_scheme \<Rightarrow> bool) \<Rightarrow> ('k, 'x) port_state_scheme \<Rightarrow>
    ('a \<times> ('k, 'x) port_state_scheme) res \<Rightarrow> bool" where
  "call_ok P s r \<longleftrightarrow> (\<exists>a s'. r = Ok (a, s') \<and> P s' \<and> hung s' = hung s)"

lemma call_okE:
  assumes "call_ok P s r" "port_call a s r = (b, s')"
  shows "P s'" "hung s' = hung s"
  using assms by (auto simp: call_ok_def port_call_def)

lemma export_returns:
  "0 \<le> sint pin \<Longrightarrow> sint pin < 1000 \<Longrightarrow> \<exists>r k'. port_gpio_export K pin k = Ok (r, k')"
  by (simp add: port_gpio_export_def export_bytes Let_def split: prod.splits)

lemma gpio_init_returns:
  "\<exists>k'. port_spi_gpio_init K spi_comm_parm_se0 k = Ok k'" "\<exists>k'. port_i2c_gpio_init K k = Ok k'"
proof -
  obtain r k' where "port_gpio_export K PORT_SPI_SE0_RST_IO k = Ok (r, k')"
    using export_returns [of PORT_SPI_SE0_RST_IO K k] by (auto simp: PORT_SPI_SE0_RST_IO_def)
  then show "\<exists>k'. port_spi_gpio_init K spi_comm_parm_se0 k = Ok k'"
    by (simp add: port_spi_gpio_init_def spi_comm_parm_se0_def PORT_SPI_CS_CTRL_MODE_SOFT_def
        PORT_SPI_CS_CTRL_MODE_HARD_def)
  obtain r k' where "port_gpio_export K PORT_I2C_SE0_RST_IO k = Ok (r, k')"
    using export_returns [of PORT_I2C_SE0_RST_IO K k] by (auto simp: PORT_I2C_SE0_RST_IO_def)
  then show "\<exists>k'. port_i2c_gpio_init K k = Ok k'" by (simp add: port_i2c_gpio_init_def)
qed

lemmas se0_defs = spi_comm_parm_se0_def SPI_PERIPHERAL_SE0_def SPI_CHANNEL_SPI0_def
  i2c_comm_parm_se0_def I2C_PERIPHERAL_SE0_def I2C_CHANNEL_I2C0_def

lemma spi_init_call:
  assumes "spi_port_ok s"
  shows "call_ok spi_port_ok s (port_spi_periph_init K (Some spi_comm_parm_se0) s)"
proof -
  obtain k' where k: "port_spi_gpio_init K spi_comm_parm_se0 (kernel s) = Ok k'"
    using gpio_init_returns(1) by (rule exE)
  have set: "\<exists>ret s2. port_spi_set K 0 m v b (s\<lparr>kernel := k'\<rparr>) = Ok (ret, s2) \<and> spi_port_ok s2 \<and> hung s2 = hung s"
    for m v b
    using assms
    by (auto simp: port_spi_set_def arr_set_def Let_def spi_port_ok_def spi_ready_def split: prod.splits)
  obtain ret s2 where set: "port_spi_set K 0 (spi_mode spi_comm_parm_se0) (spi_speed spi_comm_parm_se0)
      (spi_bpw spi_comm_parm_se0) (s\<lparr>kernel := k'\<rparr>) = Ok (ret, s2)" "spi_port_ok s2" "hung s2 = hung s"
    using set by blast
  have se0: "spi_channel spi_comm_parm_se0 = 0" "spi_slave_id spi_comm_parm_se0 = 0" by (simp_all add: se0_defs)
  show ?thesis
    using assms set k port_ok_sizes(1) [OF assms]
    by (auto simp: call_ok_def port_spi_periph_init_def se0 SPI_PERIPHERAL_SE0_def port_spi_init_def port_ok_simps)
qed

lemma i2c_init_call:
  assumes "i2c_port_ok s"
  shows "call_ok i2c_port_ok s (port_i2c_periph_init K (Some i2c_comm_parm_se0) s)"
proof -
  obtain k' where k: "port_i2c_gpio_init K (kernel s) = Ok k'"
    using gpio_init_returns(2) by (rule exE)
  have set: "\<exists>ret s2. port_i2c_set K 0 a b c d (s\<lparr>kernel := k'\<rparr>) = Ok (ret, s2) \<and> i2c_port_ok s2 \<and> hung s2 = hung s"
    for a b c d
    using assms
    by (auto simp: port_i2c_set_def arr_set_def Let_def i2c_port_ok_def i2c_ready_def split: prod.splits)
  obtain ret s2 where set: "port_i2c_set K 0 (i2c_slave i2c_comm_parm_se0) (i2c_speed i2c_comm_parm_se0)
      (i2c_timeout i2c_comm_parm_se0) (i2c_retry i2c_comm_parm_se0) (s\<lparr>kernel := k'\<rparr>) = Ok (ret, s2)"
    "i2c_port_ok s2" "hung s2 = hung s"
    using set by blast
  have se0: "i2c_channel i2c_comm_parm_se0 = 0" "i2c_slave_id i2c_comm_parm_se0 = 0" by (simp_all add: se0_defs)
  show ?thesis
    using assms set k port_ok_sizes(2) [OF assms]
    by (auto simp: call_ok_def port_i2c_periph_init_def se0 I2C_PERIPHERAL_SE0_def port_i2c_init_def port_ok_simps)
qed


lemma spi_deinit_call:
  assumes "spi_port_ok s"
  shows "call_ok spi_port_ok s (port_spi_periph_deinit K (Some spi_comm_parm_se0) s)"
proof -
  have z: "spi_slave_id spi_comm_parm_se0 = 0" "spi_channel spi_comm_parm_se0 = 0" by (simp_all add: se0_defs)
  show ?thesis
  proof (cases "device_init s ! 0 = 1")
    case True
    then show ?thesis
      using assms port_ok_sizes(1) [OF assms]
      by (simp add: call_ok_def port_spi_periph_deinit_def port_spi_deinit_def z SPI_PERIPHERAL_SE0_def
          arr_get_def spi_port_ok_def spi_ready_def)
  next
    case False
    then show ?thesis
      using assms port_ok_sizes(1) [OF assms]
      by (simp add: call_ok_def port_spi_periph_deinit_def z SPI_PERIPHERAL_SE0_def spi_port_ok_def spi_ready_def)
  qed
qed

lemma i2c_deinit_call:
  assumes "i2c_port_ok s"
  shows "call_ok i2c_port_ok s (port_i2c_periph_deinit K (Some i2c_comm_parm_se0) s)"
proof -
  have z: "i2c_slave_id i2c_comm_parm_se0 = 0" "i2c_channel i2c_comm_parm_se0 = 0" by (simp_all add: se0_defs)
  show ?thesis
  proof (cases "device_init s ! 0 = 1")
    case True
    then show ?thesis
      using assms port_ok_sizes(2) [OF assms]
      by (simp add: call_ok_def port_i2c_periph_deinit_def port_i2c_deinit_def z I2C_PERIPHERAL_SE0_def
          arr_get_def i2c_port_ok_def i2c_ready_def)
  next
    case False
    then show ?thesis
      using assms port_ok_sizes(2) [OF assms]
      by (simp add: call_ok_def port_i2c_periph_deinit_def z I2C_PERIPHERAL_SE0_def i2c_port_ok_def i2c_ready_def)
  qed
qed

lemma chip_select_call:
  "spi_port_ok s \<Longrightarrow> call_ok spi_port_ok s (port_spi_periph_chip_select K (Some spi_comm_parm_se0) b s)"
  using port_ok_sizes(1) [of s]
  by (auto simp: call_ok_def port_spi_periph_chip_select_def se0_defs PORT_SPI_CS_CTRL_MODE_SOFT_def
      PORT_SPI_CS_CTRL_MODE_HARD_def)

text \<open>A transfer: one of three answers, and never that the port is busy.\<close>

definition io_result :: "se_error \<Rightarrow> bool" where
  "io_result e \<longleftrightarrow> e = SE_SUCCESS \<or> e = SE_ERR_COMM \<or> e = SE_ERR_PARAM_INVALID"

lemma io_result_intros: "io_result SE_ERR_PARAM_INVALID" by (simp add: io_result_def)

lemma io_result_io: "e = SE_SUCCESS \<or> e = SE_ERR_COMM \<Longrightarrow> io_result e" by (auto simp: io_result_def)

lemma spi_transfer_calls:
  assumes "spi_port_ok s"
  shows "\<exists>e k. port_spi_periph_transmit K (Some spi_comm_parm_se0) (Some d) (of_nat (length d)) s
      = Ok (e, s\<lparr>kernel := k\<rparr>) \<and> io_result e"
    and "\<exists>e d' k. port_spi_periph_receive K (Some spi_comm_parm_se0) False (Some n) s
      = Ok (e, d', s\<lparr>kernel := k\<rparr>) \<and> io_result e"
proof -
  have s: "io_lock s = 0" "unat (spi_slave_id spi_comm_parm_se0) < length (device_init s)" "spi_ready s"
    "unat (spi_channel spi_comm_parm_se0) < 2"
    using assms by (auto simp: spi_port_ok_def se0_defs)
  have "unat (of_nat (length d) :: u32) \<le> length d" by (simp add: unat_of_nat take_bit_eq_mod)
  then obtain e a k where t: "guarded_io (spi_slave_id spi_comm_parm_se0)
      (port_spi_tx K (spi_channel spi_comm_parm_se0) d (of_nat (length d))) () s = Ok (e, a, s\<lparr>kernel := k\<rparr>)"
    "e = SE_SUCCESS \<or> e = SE_ERR_COMM"
    using s by (elim spi_tx.guarded_free [rotated 1]) auto
  show "\<exists>e k. port_spi_periph_transmit K (Some spi_comm_parm_se0) (Some d) (of_nat (length d)) s
      = Ok (e, s\<lparr>kernel := k\<rparr>) \<and> io_result e"
  proof (cases "of_nat (length d) = (0 :: u32)")
    case True
    then have "port_spi_periph_transmit K (Some spi_comm_parm_se0) (Some d) (of_nat (length d)) s
        = Ok (SE_ERR_PARAM_INVALID, s\<lparr>kernel := kernel s\<rparr>)"
      by (simp add: port_spi_periph_transmit_def)
    then show ?thesis by (blast intro: io_result_intros)
  next
    case False
    have "port_spi_periph_transmit K (Some spi_comm_parm_se0) (Some d) (of_nat (length d)) s = Ok (e, s\<lparr>kernel := k\<rparr>)"
      using False t(1) by (simp add: port_spi_periph_transmit_def)
    then show ?thesis using io_result_io [OF t(2)] by blast
  qed
  obtain e a k where r: "guarded_io (spi_slave_id spi_comm_parm_se0)
      (port_spi_rx K (spi_channel spi_comm_parm_se0) n) [] s = Ok (e, a, s\<lparr>kernel := k\<rparr>)"
    "e = SE_SUCCESS \<or> e = SE_ERR_COMM"
    using s by (elim spi_rx.guarded_free [rotated 1]) auto
  have "port_spi_periph_receive K (Some spi_comm_parm_se0) False (Some n) s = Ok (e, a, s\<lparr>kernel := k\<rparr>)"
    using r(1) by (simp add: port_spi_periph_receive_def)
  then show "\<exists>e d' k. port_spi_periph_receive K (Some spi_comm_parm_se0) False (Some n) s
      = Ok (e, d', s\<lparr>kernel := k\<rparr>) \<and> io_result e"
    using io_result_io [OF r(2)] by blast
qed

lemma i2c_transfer_calls:
  assumes "i2c_port_ok s"
  shows "\<exists>e k. port_i2c_periph_transmit K (Some i2c_comm_parm_se0) (Some d) (of_nat (length d)) s
      = Ok (e, s\<lparr>kernel := k\<rparr>) \<and> io_result e"
    and "\<exists>e d' k. port_i2c_periph_receive K (Some i2c_comm_parm_se0) False (Some n) s
      = Ok (e, d', s\<lparr>kernel := k\<rparr>) \<and> io_result e"
proof -
  have s: "io_lock s = 0" "unat (i2c_slave_id i2c_comm_parm_se0) < length (device_init s)" "i2c_ready s"
    "unat (i2c_channel i2c_comm_parm_se0) < 2"
    using assms by (auto simp: i2c_port_ok_def se0_defs)
  have "unat (ucast (of_nat (length d) :: u32) :: u16) \<le> length d"
    by (simp add: unsigned_ucast_eq unat_of_nat take_bit_eq_mod mod_mod_cancel)
  then obtain e a k where t: "guarded_io (i2c_slave_id i2c_comm_parm_se0)
      (port_i2c_tx K (i2c_channel i2c_comm_parm_se0) d (of_nat (length d))) () s = Ok (e, a, s\<lparr>kernel := k\<rparr>)"
    "e = SE_SUCCESS \<or> e = SE_ERR_COMM"
    using s by (elim i2c_tx.guarded_free [rotated 1]) auto
  show "\<exists>e k. port_i2c_periph_transmit K (Some i2c_comm_parm_se0) (Some d) (of_nat (length d)) s
      = Ok (e, s\<lparr>kernel := k\<rparr>) \<and> io_result e"
  proof (cases "of_nat (length d) = (0 :: u32)")
    case True
    then have "port_i2c_periph_transmit K (Some i2c_comm_parm_se0) (Some d) (of_nat (length d)) s
        = Ok (SE_ERR_PARAM_INVALID, s\<lparr>kernel := kernel s\<rparr>)"
      by (simp add: port_i2c_periph_transmit_def)
    then show ?thesis by (blast intro: io_result_intros)
  next
    case False
    have "port_i2c_periph_transmit K (Some i2c_comm_parm_se0) (Some d) (of_nat (length d)) s = Ok (e, s\<lparr>kernel := k\<rparr>)"
      using False t(1) by (simp add: port_i2c_periph_transmit_def)
    then show ?thesis using io_result_io [OF t(2)] by blast
  qed
  obtain e a k where r: "guarded_io (i2c_slave_id i2c_comm_parm_se0)
      (port_i2c_rx K (i2c_channel i2c_comm_parm_se0) n) [] s = Ok (e, a, s\<lparr>kernel := k\<rparr>)"
    "e = SE_SUCCESS \<or> e = SE_ERR_COMM"
    using s by (elim i2c_rx.guarded_free [rotated 1]) auto
  have "port_i2c_periph_receive K (Some i2c_comm_parm_se0) False (Some n) s = Ok (e, a, s\<lparr>kernel := k\<rparr>)"
    using r(1) by (simp add: port_i2c_periph_receive_def)
  then show "\<exists>e d' k. port_i2c_periph_receive K (Some i2c_comm_parm_se0) False (Some n) s
      = Ok (e, d', s\<lparr>kernel := k\<rparr>) \<and> io_result e"
    using io_result_io [OF r(2)] by blast
qed

text \<open>Delays and resets touch the kernel only, but may hang.\<close>

lemma delay_not_undef: "delay_loop fuel K start us k \<noteq> Undef"
  by (induction fuel arbitrary: k) (simp_all split: prod.split)

lemma periph_delay_cases: "periph_delay fuel K us k = Stuck \<or> (\<exists>k'. periph_delay fuel K us k = Ok (SE_SUCCESS, k'))"
proof -
  obtain start k1 where g: "sys_gettimeofday K k = (start, k1)" by fastforce
  show ?thesis
    using delay_not_undef [of fuel K start us k1] by (cases "delay_loop fuel K start us k1") (simp_all add: periph_delay_def g)
qed

lemma spi_control_cases:
  "port_spi_periph_control fuel K (Some c) code s = Stuck \<or>
   (\<exists>e k. port_spi_periph_control fuel K (Some c) code s = Ok (e, s\<lparr>kernel := k\<rparr>))"
proof (cases "code \<noteq> 0 \<and> code = PORT_SPI_CTRL_RST \<and> spi_slave_id c = SPI_PERIPHERAL_SE0")
  case True
  let ?k1 = "snd (port_gpio_write K PORT_SPI_SE0_RST_IO LOW (kernel s))"
  consider "periph_delay fuel K PORT_SPI_SE_RST_LOW_DELAY ?k1 = Stuck"
    | k2 where "periph_delay fuel K PORT_SPI_SE_RST_LOW_DELAY ?k1 = Ok (SE_SUCCESS, k2)"
    using periph_delay_cases by metis
  then show ?thesis
  proof cases
    case 1
    then show ?thesis using True by (auto simp: port_spi_periph_control_def port_spi_periph_delay_def)
  next
    case 2
    let ?k3 = "snd (port_gpio_write K PORT_SPI_SE0_RST_IO HIGH k2)"
    show ?thesis
      using periph_delay_cases [of fuel K PORT_SPI_SE_RST_HIGH_DELAY ?k3] True 2
      by (auto simp: port_spi_periph_control_def port_spi_periph_delay_def)
  qed
next
  case False
  have "s = s\<lparr>kernel := kernel s\<rparr>" by simp
  moreover have "\<exists>e. port_spi_periph_control fuel K (Some c) code s = Ok (e, s)"
    using False by (auto simp: port_spi_periph_control_def)
  ultimately show ?thesis by metis
qed

lemma i2c_control_cases:
  "port_i2c_periph_control fuel K (Some c) code s = Stuck \<or>
   (\<exists>e k. port_i2c_periph_control fuel K (Some c) code s = Ok (e, s\<lparr>kernel := k\<rparr>))"
proof (cases "code \<noteq> 0 \<and> code = PORT_I2C_CTRL_RST \<and> i2c_slave_id c = I2C_PERIPHERAL_SE0")
  case True
  let ?k1 = "snd (port_gpio_write K PORT_I2C_SE0_RST_IO LOW (kernel s))"
  consider "periph_delay fuel K PORT_I2C_SE_RST_LOW_DELAY ?k1 = Stuck"
    | k2 where "periph_delay fuel K PORT_I2C_SE_RST_LOW_DELAY ?k1 = Ok (SE_SUCCESS, k2)"
    using periph_delay_cases by metis
  then show ?thesis
  proof cases
    case 1
    then show ?thesis using True by (auto simp: port_i2c_periph_control_def port_i2c_periph_delay_def)
  next
    case 2
    let ?k3 = "snd (port_gpio_write K PORT_I2C_SE0_RST_IO HIGH k2)"
    show ?thesis
      using periph_delay_cases [of fuel K PORT_I2C_SE_RST_HIGH_DELAY ?k3] True 2
      by (auto simp: port_i2c_periph_control_def port_i2c_periph_delay_def)
  qed
next
  case False
  have "s = s\<lparr>kernel := kernel s\<rparr>" by simp
  moreover have "\<exists>e. port_i2c_periph_control fuel K (Some c) code s = Ok (e, s)"
    using False by (auto simp: port_i2c_periph_control_def)
  ultimately show ?thesis by metis
qed

lemma linux_spi_table:
  "hal_init (linux_spi fuel K) s = port_call SE_ERR_COMM s (port_spi_periph_init K (Some spi_comm_parm_se0) s)"
  "hal_deinit (linux_spi fuel K) s = port_call SE_ERR_COMM s (port_spi_periph_deinit K (Some spi_comm_parm_se0) s)"
  "hal_delay (linux_spi fuel K) us s = snd (port_call SE_ERR_COMM s (port_spi_periph_delay fuel K us s))"
  "hal_timer_start (linux_spi fuel K) = port_spi_periph_timer_start K"
  "hal_timer_differ (linux_spi fuel K) = port_spi_periph_timer_differ K"
  "hal_chip_select (linux_spi fuel K) b s =
     snd (port_call SE_ERR_COMM s (port_spi_periph_chip_select K (Some spi_comm_parm_se0) b s))"
  "hal_transmit (linux_spi fuel K) d s =
     port_call SE_ERR_COMM s (port_spi_periph_transmit K (Some spi_comm_parm_se0) (Some d) (of_nat (length d)) s)"
  "hal_receive (linux_spi fuel K) d s =
     (let ((ret, d'), s1) = port_call (SE_ERR_COMM, []) s
        (res_bind (port_spi_periph_receive K (Some spi_comm_parm_se0) False (Some (of_nat (length d))) s)
          (\<lambda>(ret, d, s1). Ok ((ret, d), s1)))
      in (ret, d', s1))"
  "hal_control (linux_spi fuel K) code x n s =
     (let (ret, s1) = port_call SE_ERR_COMM s (port_spi_periph_control fuel K (Some spi_comm_parm_se0) code s)
      in (ret, x, n, s1))"
  by (simp_all add: linux_spi_def Let_def)

lemma linux_i2c_table:
  "i2c_init (linux_i2c fuel K) s = port_call SE_ERR_COMM s (port_i2c_periph_init K (Some i2c_comm_parm_se0) s)"
  "i2c_deinit (linux_i2c fuel K) s = port_call SE_ERR_COMM s (port_i2c_periph_deinit K (Some i2c_comm_parm_se0) s)"
  "i2c_delay (linux_i2c fuel K) us s = snd (port_call SE_ERR_COMM s (port_i2c_periph_delay fuel K us s))"
  "i2c_timer_start (linux_i2c fuel K) = port_i2c_periph_timer_start K"
  "i2c_timer_differ (linux_i2c fuel K) = port_i2c_periph_timer_differ K"
  "i2c_transmit (linux_i2c fuel K) d s =
     port_call SE_ERR_COMM s (port_i2c_periph_transmit K (Some i2c_comm_parm_se0) (Some d) (of_nat (length d)) s)"
  "i2c_receive (linux_i2c fuel K) m s =
     (let ((ret, d'), s1) = port_call (SE_ERR_COMM, []) s
        (res_bind (port_i2c_periph_receive K (Some i2c_comm_parm_se0) False (Some m) s)
          (\<lambda>(ret, d, s1). Ok ((ret, d), s1)))
      in (ret, d', m, s1))"
  "i2c_control (linux_i2c fuel K) code x n s =
     (let (ret, s1) = port_call SE_ERR_COMM s (port_i2c_periph_control fuel K (Some i2c_comm_parm_se0) code s)
      in (ret, x, s1))"
  by (simp_all add: linux_i2c_def Let_def)

lemma spi_table_quiet:
  assumes "spi_port_ok s"
  shows "hal_init (linux_spi fuel K) s = (ret, s') \<Longrightarrow> spi_port_ok s' \<and> hung s' = hung s"
    and "hal_deinit (linux_spi fuel K) s = (ret, s') \<Longrightarrow> spi_port_ok s' \<and> hung s' = hung s"
    and "hal_chip_select (linux_spi fuel K) b s = s' \<Longrightarrow> spi_port_ok s' \<and> hung s' = hung s"
    and "hal_transmit (linux_spi fuel K) d s = (ret, s') \<Longrightarrow> spi_port_ok s' \<and> hung s' = hung s \<and> io_result ret"
    and "hal_receive (linux_spi fuel K) d s = (ret, d', s') \<Longrightarrow> spi_port_ok s' \<and> hung s' = hung s \<and> io_result ret"
proof -
  show "hal_init (linux_spi fuel K) s = (ret, s') \<Longrightarrow> spi_port_ok s' \<and> hung s' = hung s"
    using call_okE [OF spi_init_call [OF assms]] by (auto simp: linux_spi_table)
  show "hal_deinit (linux_spi fuel K) s = (ret, s') \<Longrightarrow> spi_port_ok s' \<and> hung s' = hung s"
    using call_okE [OF spi_deinit_call [OF assms]] by (auto simp: linux_spi_table)
  show "hal_chip_select (linux_spi fuel K) b s = s' \<Longrightarrow> spi_port_ok s' \<and> hung s' = hung s"
    using call_okE [OF chip_select_call [OF assms], OF prod.collapse [symmetric]] by (auto simp: linux_spi_table)
  show "hal_transmit (linux_spi fuel K) d s = (ret, s') \<Longrightarrow> spi_port_ok s' \<and> hung s' = hung s \<and> io_result ret"
    using spi_transfer_calls(1) [OF assms, of K d] assms
    by (auto simp: linux_spi_table port_call_def port_ok_simps)
  show "hal_receive (linux_spi fuel K) d s = (ret, d', s') \<Longrightarrow> spi_port_ok s' \<and> hung s' = hung s \<and> io_result ret"
    using spi_transfer_calls(2) [OF assms, of K "of_nat (length d)"] assms
    by (auto simp: linux_spi_table port_call_def port_ok_simps)
qed

lemma i2c_table_quiet:
  assumes "i2c_port_ok s"
  shows "i2c_init (linux_i2c fuel K) s = (ret, s') \<Longrightarrow> i2c_port_ok s' \<and> hung s' = hung s"
    and "i2c_deinit (linux_i2c fuel K) s = (ret, s') \<Longrightarrow> i2c_port_ok s' \<and> hung s' = hung s"
    and "i2c_transmit (linux_i2c fuel K) d s = (ret, s') \<Longrightarrow> i2c_port_ok s' \<and> hung s' = hung s \<and> io_result ret"
    and "i2c_receive (linux_i2c fuel K) m s = (ret, d', n', s') \<Longrightarrow> i2c_port_ok s' \<and> hung s' = hung s \<and> io_result ret"
proof -
  show "i2c_init (linux_i2c fuel K) s = (ret, s') \<Longrightarrow> i2c_port_ok s' \<and> hung s' = hung s"
    using call_okE [OF i2c_init_call [OF assms]] by (auto simp: linux_i2c_table)
  show "i2c_deinit (linux_i2c fuel K) s = (ret, s') \<Longrightarrow> i2c_port_ok s' \<and> hung s' = hung s"
    using call_okE [OF i2c_deinit_call [OF assms]] by (auto simp: linux_i2c_table)
  show "i2c_transmit (linux_i2c fuel K) d s = (ret, s') \<Longrightarrow> i2c_port_ok s' \<and> hung s' = hung s \<and> io_result ret"
    using i2c_transfer_calls(1) [OF assms, of K d] assms
    by (auto simp: linux_i2c_table port_call_def port_ok_simps)
  show "i2c_receive (linux_i2c fuel K) m s = (ret, d', n', s') \<Longrightarrow> i2c_port_ok s' \<and> hung s' = hung s \<and> io_result ret"
    using i2c_transfer_calls(2) [OF assms, of K m] assms
    by (auto simp: linux_i2c_table port_call_def port_ok_simps)
qed

lemma spi_step_ok: "spi_port_step fuel K s s' \<Longrightarrow> spi_port_ok s \<Longrightarrow> spi_port_ok s'"
proof (induction rule: spi_port_step.induct)
  case (3 us s s')
  then show ?case
    using periph_delay_cases [of fuel K us "kernel s"]
    by (auto simp: linux_spi_table port_call_def port_spi_periph_delay_def port_ok_simps)
next
  case (9 code x n s ret x' n' s')
  then show ?case
    using spi_control_cases [of fuel K spi_comm_parm_se0 code s]
    by (auto simp: linux_spi_table port_call_def port_ok_simps)
next
  case (1 s ret s')
  then show ?case using spi_table_quiet(1) by blast
next
  case (2 s ret s')
  then show ?case using spi_table_quiet(2) by blast
next
  case (4 t s t' s')
  then show ?case
    by (auto simp: linux_spi_table port_spi_periph_timer_start_def port_spi_periph_timer_differ_def port_ok_simps
        split: prod.splits)
next
  case (5 t s ret s')
  then show ?case
    by (auto simp: linux_spi_table port_spi_periph_timer_start_def port_spi_periph_timer_differ_def port_ok_simps
        split: prod.splits)
next
  case (6 b s s')
  then show ?case using spi_table_quiet(3) by blast
next
  case (7 d s ret s')
  then show ?case using spi_table_quiet(4) by blast
next
  case (8 d s ret d' s')
  then show ?case using spi_table_quiet(5) by blast
qed

lemma i2c_step_ok: "i2c_port_step fuel K s s' \<Longrightarrow> i2c_port_ok s \<Longrightarrow> i2c_port_ok s'"
proof (induction rule: i2c_port_step.induct)
  case (3 us s s')
  then show ?case
    using periph_delay_cases [of fuel K us "kernel s"]
    by (auto simp: linux_i2c_table port_call_def port_i2c_periph_delay_def port_ok_simps)
next
  case (8 code x n s ret x' s')
  then show ?case
    using i2c_control_cases [of fuel K i2c_comm_parm_se0 code s]
    by (auto simp: linux_i2c_table port_call_def port_ok_simps)
next
  case (1 s ret s')
  then show ?case using i2c_table_quiet(1) by blast
next
  case (2 s ret s')
  then show ?case using i2c_table_quiet(2) by blast
next
  case (4 t s t' s')
  then show ?case
    by (auto simp: linux_i2c_table port_i2c_periph_timer_start_def port_i2c_periph_timer_differ_def port_ok_simps
        split: prod.splits)
next
  case (5 t s ret s')
  then show ?case
    by (auto simp: linux_i2c_table port_i2c_periph_timer_start_def port_i2c_periph_timer_differ_def port_ok_simps
        split: prod.splits)
next
  case (6 d s ret s')
  then show ?case using i2c_table_quiet(3) by blast
next
  case (7 m s ret d' n' s')
  then show ?case using i2c_table_quiet(4) by blast
qed

lemma spi_port_reach_ok: "spi_port_reach fuel K s \<Longrightarrow> spi_port_ok s"
  by (induction rule: spi_port_reach.induct)
    (simp add: spi_port_ok_def spi_ready_def spi_port_start_def, rule spi_step_ok)

lemma i2c_port_reach_ok: "i2c_port_reach fuel K s \<Longrightarrow> i2c_port_ok s"
  by (induction rule: i2c_port_reach.induct)
    (simp add: i2c_port_ok_def i2c_ready_def i2c_port_start_def, rule i2c_step_ok)

section \<open>A kernel for examples\<close>

text \<open>
  A clock that moves by 100 microseconds with each reading, one descriptor for every file, and a
  record of what is written and sent.
\<close>

record sample_state =
  k_time :: nat
  k_writes :: "(string \<times> bytes) list"
  k_file :: string
  k_msgs :: "(i32 \<times> spi_ioc_transfer) list"

definition sample_kernel :: "sample_state linux" where
  "sample_kernel =
     \<lparr>sys_gettimeofday = (\<lambda>k. (timeval (k_time k), k\<lparr>k_time := k_time k + 100\<rparr>)),
      sys_usleep = (\<lambda>us k. k),
      sys_open = (\<lambda>f m k. (3, k\<lparr>k_file := f\<rparr>)),
      sys_read = (\<lambda>fd n k. (0, [], k)),
      sys_write = (\<lambda>fd d k. (of_nat (length d), k\<lparr>k_writes := k_writes k @ [(k_file k, d)]\<rparr>)),
      sys_close = (\<lambda>fd k. k),
      sys_ioctl = (\<lambda>fd r v k. (0, k)),
      sys_spi_message = (\<lambda>fd x k. (0, [], k\<lparr>k_msgs := k_msgs k @ [(fd, x)]\<rparr>)),
      sys_i2c_rdwr = (\<lambda>fd x k. (0, [], k))\<rparr>"

definition sample_start :: sample_state where
  "sample_start = \<lparr>k_time = 5, k_writes = [], k_file = [], k_msgs = []\<rparr>"

lemma sample_clock: "clock_runs sample_kernel k_time 100"
  by (simp add: clock_runs_def sample_kernel_def)

section \<open>The lock\<close>

text \<open>
  C17: the lock of the port is free whenever a protocol driver calls it. In every state that any
  sequence of calls leads to, whatever the kernel answers, the lock of both ports is 0; so no
  transfer is ever refused as busy, and no transfer, initialisation, termination or chip select
  reads outside the tables or fails to return (\<open>hung\<close> stays as it is).
\<close>

theorem port_lock_free:
  assumes "spi_port_reach fuel K s" "i2c_port_reach fuel K s'"
  shows "io_lock s = 0 \<and> io_lock s' = 0 \<and>
    io_result (fst (hal_transmit (linux_spi fuel K) d s)) \<and> hung (snd (hal_transmit (linux_spi fuel K) d s)) = hung s \<and>
    io_result (fst (hal_receive (linux_spi fuel K) d s)) \<and> hung (snd (snd (hal_receive (linux_spi fuel K) d s))) = hung s \<and>
    hung (snd (hal_init (linux_spi fuel K) s)) = hung s \<and> hung (snd (hal_deinit (linux_spi fuel K) s)) = hung s \<and>
    hung (hal_chip_select (linux_spi fuel K) b s) = hung s \<and>
    io_result (fst (i2c_transmit (linux_i2c fuel K) d s')) \<and> hung (snd (i2c_transmit (linux_i2c fuel K) d s')) = hung s' \<and>
    io_result (fst (i2c_receive (linux_i2c fuel K) n s')) \<and>
    hung (snd (snd (snd (i2c_receive (linux_i2c fuel K) n s')))) = hung s' \<and>
    hung (snd (i2c_init (linux_i2c fuel K) s')) = hung s' \<and> hung (snd (i2c_deinit (linux_i2c fuel K) s')) = hung s'"
proof -
  note S = spi_port_reach_ok [OF assms(1)] and I = i2c_port_reach_ok [OF assms(2)]
  obtain r1 t1 where 1: "hal_transmit (linux_spi fuel K) d s = (r1, t1)" by fastforce
  obtain r2 x2 t2 where 2: "hal_receive (linux_spi fuel K) d s = (r2, x2, t2)" by (rule prod_cases3)
  obtain r3 t3 where 3: "hal_init (linux_spi fuel K) s = (r3, t3)" by fastforce
  obtain r4 t4 where 4: "hal_deinit (linux_spi fuel K) s = (r4, t4)" by fastforce
  obtain r5 t5 where 5: "i2c_transmit (linux_i2c fuel K) d s' = (r5, t5)" by fastforce
  obtain r6 x6 n6 t6 where 6: "i2c_receive (linux_i2c fuel K) n s' = (r6, x6, n6, t6)" by (rule prod_cases4)
  obtain r7 t7 where 7: "i2c_init (linux_i2c fuel K) s' = (r7, t7)" by fastforce
  obtain r8 t8 where 8: "i2c_deinit (linux_i2c fuel K) s' = (r8, t8)" by fastforce
  show ?thesis
    using S I spi_table_quiet(4) [OF S 1] spi_table_quiet(5) [OF S 2] spi_table_quiet(1) [OF S 3]
      spi_table_quiet(2) [OF S 4] spi_table_quiet(3) [OF S refl, of fuel K b] i2c_table_quiet(3) [OF I 5]
      i2c_table_quiet(4) [OF I 6] i2c_table_quiet(1) [OF I 7] i2c_table_quiet(2) [OF I 8]
    by (simp only: 1 2 3 4 5 6 7 8 fst_conv snd_conv spi_port_ok_def i2c_port_ok_def simp_thms)
qed

theorem port_lock_free_witness:
  "io_result (fst (hal_transmit (linux_spi 9 sample_kernel) [1, 2, 3] (spi_port_start sample_start))) \<and>
   hung (hal_chip_select (linux_spi 9 sample_kernel) True (spi_port_start sample_start)) = False \<and>
   io_result (fst (i2c_receive (linux_i2c 9 sample_kernel) 5 (i2c_port_start sample_start)))"
proof -
  have h: "hung (spi_port_start sample_start) = False" by (simp add: spi_port_start_def)
  have r: "spi_port_reach 9 sample_kernel (spi_port_start sample_start)"
    "i2c_port_reach 9 sample_kernel (i2c_port_start sample_start)"
    by (rule spi_port_start, rule i2c_port_start)
  show ?thesis
    using port_lock_free [OF r, where d = "[1, 2, 3]" and b = True and n = 5] h by (simp only: simp_thms)
qed

section \<open>Pins\<close>

text \<open>
  C31: the number of a pin is written to sysfs as its decimal digits when it has at most two of
  them. The buffer has three bytes: of three digits only two arrive, with a NUL behind them, so
  the reset pin 436 of the SPI device is exported as pin 43; with four digits the code reads
  past its buffer. The pins 18 and 20 of the I2C reset and of the power are right.
\<close>

theorem gpio_export_digits:
  assumes "0 \<le> sint pin" "sys_open K ''/sys/class/gpio/export'' O_WRONLY k = (fd, k1)" "\<not> negative fd"
  shows "port_gpio_export K pin k =
      (if sint pin < 100 then Ok (0, sys_close K fd (snd (sys_write K fd (dec_int pin) k1)))
       else if sint pin < 1000 then Ok (0, sys_close K fd (snd (sys_write K fd (take 2 (dec_int pin) @ [0]) k1)))
       else Undef) \<and>
    port_gpio_export K PORT_SPI_SE0_RST_IO k = Ok (0, sys_close K fd (snd (sys_write K fd [0x34, 0x33, 0] k1))) \<and>
    port_gpio_export K PORT_I2C_SE0_RST_IO k = Ok (0, sys_close K fd (snd (sys_write K fd [0x31, 0x38] k1)))"
proof -
  have e: "port_gpio_export K p k =
      (if sint p < 100 then Ok (0, sys_close K fd (snd (sys_write K fd (dec_int p) k1)))
       else if sint p < 1000 then Ok (0, sys_close K fd (snd (sys_write K fd (take 2 (dec_int p) @ [0]) k1)))
       else Undef)" if "0 \<le> sint p" for p
    using export_bytes [OF that] assms(2,3) by (simp add: port_gpio_export_def Let_def split_beta)
  have "take 2 (dec_int PORT_SPI_SE0_RST_IO) @ [0] = [0x34, 0x33, 0]" "dec_int PORT_I2C_SE0_RST_IO = [0x31, 0x38]"
    by code_simp+
  then show ?thesis
    using e [OF assms(1)] e [of PORT_SPI_SE0_RST_IO] e [of PORT_I2C_SE0_RST_IO]
    by (simp add: PORT_SPI_SE0_RST_IO_def PORT_I2C_SE0_RST_IO_def)
qed

text \<open>Pins 7 and 436 with the sample kernel.\<close>

theorem gpio_export_digits_witness:
  "port_gpio_export sample_kernel 7 sample_start =
     Ok (0, sample_start\<lparr>k_writes := [(''/sys/class/gpio/export'', [0x37])], k_file := ''/sys/class/gpio/export''\<rparr>) \<and>
   port_gpio_export sample_kernel 436 sample_start =
     Ok (0, sample_start\<lparr>k_writes := [(''/sys/class/gpio/export'', [0x34, 0x33, 0])], k_file := ''/sys/class/gpio/export''\<rparr>)"
proof -
  have o: "sys_open sample_kernel ''/sys/class/gpio/export'' O_WRONLY sample_start
      = (3, sample_start\<lparr>k_file := ''/sys/class/gpio/export''\<rparr>)"
    by (simp add: sample_kernel_def)
  have d: "dec_int 7 = [0x37]" "\<not> negative 3" by code_simp+
  show ?thesis
    using gpio_export_digits [OF _ o d(2), of 7]
    by (simp add: PORT_SPI_SE0_RST_IO_def d sample_kernel_def sample_start_def)
qed

section \<open>Delays and timers\<close>

lemma periph_delay_returns:
  assumes "clock_runs K now D" "unat us + D < 2 ^ 32" "unat us < fuel"
  shows "\<exists>k'. periph_delay fuel K us k = Ok (SE_SUCCESS, k') \<and> now k + unat us < now k' \<and>
    now k' \<le> now k + unat us + 2 * D"
proof -
  obtain k1 where k1: "sys_gettimeofday K k = (timeval (now k), k1)" "now k < now k1" "now k1 \<le> now k + D"
    using assms(1) by (rule clock_reading)
  have "\<exists>k'. delay_loop fuel K (timeval (now k)) us k1 = Ok k' \<and> now k + unat us < now k' \<and>
      now k' \<le> now k + unat us + 2 * D"
    using k1 assms by (intro delay_loop_returns) auto
  then show ?thesis using k1(1) by (auto simp: periph_delay_def)
qed

text \<open>
  C19: a delay ends, and not early. With a clock whose readings are at most \<open>D\<close> microseconds
  apart, a delay of \<open>us\<close> microseconds returns on both ports after more than \<open>us\<close> and at most
  \<open>us + 2 * D\<close> microseconds, having changed nothing but the kernel.
\<close>

theorem delay_returns:
  assumes "clock_runs K now D" "unat us + D < 2 ^ 32" "unat us < fuel"
  shows "\<exists>k k'. hal_delay (linux_spi fuel K) us s = s\<lparr>kernel := k\<rparr> \<and>
      i2c_delay (linux_i2c fuel K) us s' = s'\<lparr>kernel := k'\<rparr> \<and>
      now (kernel s) + unat us < now k \<and> now k \<le> now (kernel s) + unat us + 2 * D \<and>
      now (kernel s') + unat us < now k' \<and> now k' \<le> now (kernel s') + unat us + 2 * D"
proof -
  note d = periph_delay_returns [OF assms]
  obtain k k' where "periph_delay fuel K us (kernel s) = Ok (SE_SUCCESS, k)" "now (kernel s) + unat us < now k"
    "now k \<le> now (kernel s) + unat us + 2 * D" "periph_delay fuel K us (kernel s') = Ok (SE_SUCCESS, k')"
    "now (kernel s') + unat us < now k'" "now k' \<le> now (kernel s') + unat us + 2 * D"
    using d [of "kernel s"] d [of "kernel s'"] by blast
  then show ?thesis
    by (intro exI [of _ k] exI [of _ k'])
      (simp add: linux_spi_table linux_i2c_table port_call_def port_spi_periph_delay_def port_i2c_periph_delay_def)
qed

theorem delay_returns_witness:
  "\<exists>k k'. hal_delay (linux_spi 1001 sample_kernel) 1000 (spi_port_start sample_start)
       = (spi_port_start sample_start)\<lparr>kernel := k\<rparr> \<and>
     i2c_delay (linux_i2c 1001 sample_kernel) 1000 (i2c_port_start sample_start)
       = (i2c_port_start sample_start)\<lparr>kernel := k'\<rparr> \<and> 1005 < k_time k \<and> k_time k \<le> 1205 \<and>
     1005 < k_time k' \<and> k_time k' \<le> 1205"
  using delay_returns [OF sample_clock, of 1000 1001 "spi_port_start sample_start" "i2c_port_start sample_start"]
  by (simp add: spi_port_start_def i2c_port_start_def sample_start_def)

text \<open>
  C32: when a timer runs out. A timer started at time \<open>a\<close> and asked at a later time \<open>b\<close> answers
  with a timeout exactly when its interval, in milliseconds, is at most the whole milliseconds of
  \<open>(b - a) mod 2^32\<close> microseconds: the difference is cut to 32 bits before it is divided. So the
  answer is right for the first 71 minutes, and a timer of more than 4294967 ms never runs out.
\<close>

theorem timer_outcome:
  assumes "clock_runs K now D" "now (kernel s) \<le> now (kernel s')"
    and "hal_timer_start (linux_spi fuel K) t s = (t', s1)"
  shows "interval t' = interval t \<and>
    fst (hal_timer_differ (linux_spi fuel K) t' s') =
      (if unat (interval t) \<le> ((now (kernel s') - now (kernel s)) mod 2 ^ 32) div 1000
       then SE_ERR_TIMEOUT else SE_SUCCESS) \<and>
    (4294967 < unat (interval t) \<longrightarrow> fst (hal_timer_differ (linux_spi fuel K) t' s') = SE_SUCCESS) \<and>
    (now (kernel s') - now (kernel s) < 2 ^ 32 \<longrightarrow>
      (fst (hal_timer_differ (linux_spi fuel K) t' s') = SE_ERR_TIMEOUT \<longleftrightarrow>
         unat (interval t) \<le> (now (kernel s') - now (kernel s)) div 1000))"
proof -
  obtain k1 where k1: "sys_gettimeofday K (kernel s) = (timeval (now (kernel s)), k1)"
    using assms(1) by (rule clock_reading)
  obtain k2 where k2: "sys_gettimeofday K (kernel s') = (timeval (now (kernel s')), k2)"
    using assms(1) by (rule clock_reading)
  have t: "interval t' = interval t" "(tv_sec t', tv_usec t') = timeval (now (kernel s))"
    using assms(3) k1
    by (auto simp: linux_spi_table port_spi_periph_timer_start_def periph_timer_start_def timeval_def)
  let ?d = "now (kernel s') - now (kernel s)"
  have "interval t \<le> of_nat ?d div 1000 \<longleftrightarrow> unat (interval t) \<le> (?d mod 2 ^ 32) div 1000"
    by (simp add: word_le_nat_alt unat_div unat_of_nat take_bit_eq_mod del: of_nat_diff)
  then have f: "fst (hal_timer_differ (linux_spi fuel K) t' s') =
      (if unat (interval t) \<le> (?d mod 2 ^ 32) div 1000 then SE_ERR_TIMEOUT else SE_SUCCESS)"
    using k2 t elapsed_timeval [OF assms(2)]
    by (simp add: linux_spi_table port_spi_periph_timer_differ_def periph_timer_differ_def)
  have "(?d mod 2 ^ 32) div 1000 \<le> 4294967"
    using mod_less_divisor [of "2 ^ 32" ?d] by (simp add: div_le_mono less_mult_imp_div_less)
  then show ?thesis using t(1) f by auto
qed

theorem timer_outcome_witness:
  "fst (hal_timer_differ (linux_spi 9 sample_kernel)
       (timer_zero\<lparr>interval := 200, tv_sec := 0, tv_usec := 5\<rparr>) (spi_port_start (sample_start\<lparr>k_time := 200005\<rparr>)))
     = SE_ERR_TIMEOUT \<and>
   fst (hal_timer_differ (linux_spi 9 sample_kernel)
       (timer_zero\<lparr>interval := 200, tv_sec := 0, tv_usec := 5\<rparr>) (spi_port_start (sample_start\<lparr>k_time := 200004\<rparr>)))
     = SE_SUCCESS"
proof -
  have t: "hal_timer_start (linux_spi 9 sample_kernel) (timer_zero\<lparr>interval := 200\<rparr>) (spi_port_start sample_start)
      = (timer_zero\<lparr>interval := 200, tv_sec := 0, tv_usec := 5\<rparr>, (spi_port_start sample_start)\<lparr>kernel := sample_start\<lparr>k_time := 105\<rparr>\<rparr>)"
    by (simp add: linux_spi_table port_spi_periph_timer_start_def periph_timer_start_def sample_kernel_def
        timeval_def spi_port_start_def sample_start_def)
  have k: "kernel (spi_port_start k) = k" for k by (simp add: spi_port_start_def)
  show ?thesis
    using timer_outcome [OF sample_clock _ t, of "spi_port_start (sample_start\<lparr>k_time := 200005\<rparr>)"]
      timer_outcome [OF sample_clock _ t, of "spi_port_start (sample_start\<lparr>k_time := 200004\<rparr>)"]
    by (simp add: k sample_start_def)
qed

end
