(* ===== verification/Port_Wire.thy ===== *)
theory Port_Wire
  imports Spi_Facts Port_Props
begin

text \<open>
  From the SPI driver to the kernel: what sending a frame does to a port, and what that is on the
  Linux port, call by call of the kernel.
\<close>

section \<open>On any port\<close>

text \<open>What \<open>proto_spi_send_frame\<close> does to the port to deliver the bytes \<open>f\<close>: a wake-up word, then \<open>f\<close>.\<close>

definition spi_put :: "'p hal_spi \<Rightarrow> bytes \<Rightarrow> 'p \<Rightarrow> se_error \<times> 'p" where
  "spi_put h f p = (let (ret, p) = hal_transmit h f (hal_chip_select h True p) in (ret, hal_chip_select h False p))"

definition spi_wire :: "'p hal_spi \<Rightarrow> bytes \<Rightarrow> 'p \<Rightarrow> se_error \<times> 'p" where
  "spi_wire h f p =
     (let (ret, p) = spi_put h [0, 0, 0, 0] p
      in if ret \<noteq> SE_SUCCESS then (ret, p) else
         let (ret, p) = spi_put h f (hal_delay h SPI_SEND_CS_WAKEUP_TIME p)
         in if ret \<noteq> SE_SUCCESS then (ret, p) else (ret, hal_delay h SPI_SEND_DATA_OVER_WAIT_TIME p))"

lemma transmit_put:
  "mem_read inbuf 0 (unat n) = Ok f \<Longrightarrow> n \<noteq> 0 \<Longrightarrow>
   proto_spi_transmit (Some h) inbuf n p = Ok (spi_put h f p)"
  by (simp add: proto_spi_transmit_def spi_put_def Let_def split: prod.splits)

lemma send_frame_wire:
  assumes "mem_read inbuf 0 (unat n) = Ok f" "FRAME_HEAD_LEN \<le> n"
  shows "proto_spi_send_frame (Some h) inbuf n p = Ok (spi_wire h f p)"
proof -
  have n: "n \<noteq> 0" "\<not> n < FRAME_HEAD_LEN" using assms(2) by (auto simp: FRAME_HEAD_LEN_def not_less)
  have z: "mem_read (replicate 4 0) 0 (unat (4 :: u32)) = Ok [0, 0, 0, 0]" by code_simp
  obtain ret p1 where p1: "spi_put h [0, 0, 0, 0] p = (ret, p1)" by fastforce
  obtain ret' p2 where p2: "spi_put h f (hal_delay h SPI_SEND_CS_WAKEUP_TIME p1) = (ret', p2)" by fastforce
  show ?thesis
    using transmit_put [OF z, of h p] transmit_put [OF assms(1) n(1), of h "hal_delay h SPI_SEND_CS_WAKEUP_TIME p1"] n p1 p2
    by (simp add: proto_spi_send_frame_def spi_wire_def)
qed

section \<open>On the Linux port\<close>

text \<open>
  A kernel that carries out every SPI message: it accepts it and puts it behind the messages \<open>log\<close>
  it has carried out before; reading the clock sends nothing.
\<close>

definition kernel_sends :: "'k linux \<Rightarrow> ('k \<Rightarrow> (i32 \<times> spi_ioc_transfer) list) \<Rightarrow> bool" where
  "kernel_sends K log \<longleftrightarrow>
     (\<forall>fd x k. \<not> negative (fst (sys_spi_message K fd x k)) \<and>
        log (snd (snd (sys_spi_message K fd x k))) = log k @ [(fd, x)]) \<and>
     (\<forall>k. log (snd (sys_gettimeofday K k)) = log k)"

text \<open>The message that carries the bytes \<open>f\<close>: to the descriptor of channel 0, at its speed.\<close>

definition spi_message_of :: "'k spi_port \<Rightarrow> bytes \<Rightarrow> i32 \<times> spi_ioc_transfer" where
  "spi_message_of s f =
     (aiSpiFds (spi_handle s) ! 0,
      \<lparr>tx_buf = Some f, xfer_len = of_nat (length f), delay_usecs = sSpiDelay (spi_handle s),
       speed_hz = aiSpiSpeeds (spi_handle s) ! 0, bits_per_word = bSpiBPW (spi_handle s)\<rparr>)"

lemma linux_put:
  assumes "spi_port_ok s" "device_init s ! 0 \<noteq> 0" "kernel_sends K log" "0 < length f" "length f < 2 ^ 32"
  obtains k where "spi_put (linux_spi fuel K) f s = (SE_SUCCESS, s\<lparr>kernel := k\<rparr>)"
    "log k = log (kernel s) @ [spi_message_of s f]"
proof -
  have z: "spi_slave_id spi_comm_parm_se0 = 0" "spi_channel spi_comm_parm_se0 = 0" by (simp_all add: se0_defs)
  have sz: "length (device_init s) = 4" "length (aiSpiFds (spi_handle s)) = 2"
    "length (aiSpiSpeeds (spi_handle s)) = 2" "io_lock s = 0"
    using assms(1) port_ok_sizes(1) [OF assms(1)] by (auto simp: spi_port_ok_def)
  have cs: "hal_chip_select (linux_spi fuel K) b t = t" if "length (device_init t) = 4" "device_init t ! 0 \<noteq> 0" for b t
    using that by (simp add: linux_spi_table port_call_def port_spi_periph_chip_select_def z)
      (simp add: se0_defs PORT_SPI_CS_CTRL_MODE_SOFT_def PORT_SPI_CS_CTRL_MODE_HARD_def)
  have n: "unat (of_nat (length f) :: u32) = length f" "of_nat (length f) \<noteq> (0 :: u32)"
    using assms(4,5) by (simp_all add: unat_of_nat_u32 word_unat_eq_iff)
  obtain r d k where m: "sys_spi_message K (fst (spi_message_of s f)) (snd (spi_message_of s f)) (kernel s) = (r, d, k)"
    by (rule prod_cases3)
  then have k: "\<not> negative r" "log k = log (kernel s) @ [spi_message_of s f]"
    using assms(3) unfolding kernel_sends_def by (metis fst_conv, metis prod.collapse snd_conv)
  have "port_spi_tx K 0 f (of_nat (length f)) (s\<lparr>io_lock := 1\<rparr>) = Ok (0, (), s\<lparr>io_lock := 1, kernel := k\<rparr>)"
    using m k(1) sz by (simp add: port_spi_tx_def port_spi_message_def arr_get_def mem_read_def n spi_message_of_def)
  then have "guarded_io 0 (port_spi_tx K 0 f (of_nat (length f))) () s = Ok (SE_SUCCESS, (), s\<lparr>kernel := k\<rparr>)"
    using sz assms(2) by (intro spi_tx.guarded_done) simp_all
  then have "hal_transmit (linux_spi fuel K) f s = (SE_SUCCESS, s\<lparr>kernel := k\<rparr>)"
    using n by (simp add: linux_spi_table port_call_def port_spi_periph_transmit_def z)
  then have "spi_put (linux_spi fuel K) f s = (SE_SUCCESS, s\<lparr>kernel := k\<rparr>)"
    using cs sz assms(2) by (simp add: spi_put_def)
  then show thesis using k(2) that by blast
qed

lemma delay_loop_log:
  assumes "kernel_sends K log"
  shows "delay_loop fuel K start us k = Ok k' \<Longrightarrow> log k' = log k"
proof (induction fuel arbitrary: k)
  case (Suc fuel)
  have "log (snd (sys_gettimeofday K k)) = log k" using assms by (simp add: kernel_sends_def)
  then show ?case
    using Suc.prems Suc.IH [of "snd (sys_gettimeofday K k)"] by (auto simp: Let_def split_beta split: if_splits)
qed simp

lemma linux_delay:
  assumes "kernel_sends K log" "clock_runs K now D" "unat us + D < 2 ^ 32" "unat us < fuel"
  obtains k where "hal_delay (linux_spi fuel K) us s = s\<lparr>kernel := k\<rparr>" "log k = log (kernel s)"
proof -
  obtain k where k: "periph_delay fuel K us (kernel s) = Ok (SE_SUCCESS, k)"
    using periph_delay_returns [OF assms(2-4)] by blast
  have "log (snd (sys_gettimeofday K (kernel s))) = log (kernel s)" using assms(1) by (simp add: kernel_sends_def)
  then have "log k = log (kernel s)"
    using k delay_loop_log [OF assms(1)] by (auto simp: periph_delay_def split_beta)
  then show thesis
    using that k by (simp add: linux_spi_table port_call_def port_spi_periph_delay_def)
qed

text \<open>A frame is two messages, the wake-up word and the frame.\<close>

lemma linux_wire:
  assumes s: "spi_port_ok s" "device_init s ! 0 \<noteq> 0" and K: "kernel_sends K log" "clock_runs K now D"
    and "D < 2 ^ 31" "210 < fuel" "0 < length f" "length f < 2 ^ 32"
  obtains k where "spi_wire (linux_spi fuel K) f s = (SE_SUCCESS, s\<lparr>kernel := k\<rparr>)"
    "log k = log (kernel s) @ [spi_message_of s [0, 0, 0, 0], spi_message_of s f]"
proof -
  have same: "spi_message_of (s\<lparr>kernel := k\<rparr>) f = spi_message_of s f" for k by (simp add: spi_message_of_def)
  have ok: "spi_port_ok (s\<lparr>kernel := k\<rparr>)" "device_init (s\<lparr>kernel := k\<rparr>) ! 0 \<noteq> 0" for k
    using s by (simp_all add: port_ok_simps)
  obtain k1 where 1: "spi_put (linux_spi fuel K) [0, 0, 0, 0] s = (SE_SUCCESS, s\<lparr>kernel := k1\<rparr>)"
    "log k1 = log (kernel s) @ [spi_message_of s [0, 0, 0, 0]]"
    using linux_put [OF s K(1), of "[0, 0, 0, 0]"] by auto
  obtain k2 where 2: "hal_delay (linux_spi fuel K) SPI_SEND_CS_WAKEUP_TIME (s\<lparr>kernel := k1\<rparr>) = s\<lparr>kernel := k2\<rparr>"
    "log k2 = log k1"
    using linux_delay [OF K, of SPI_SEND_CS_WAKEUP_TIME fuel "s\<lparr>kernel := k1\<rparr>"] assms(5,6)
    by (auto simp: SPI_SEND_CS_WAKEUP_TIME_def)
  obtain k3 where 3: "spi_put (linux_spi fuel K) f (s\<lparr>kernel := k2\<rparr>) = (SE_SUCCESS, s\<lparr>kernel := k3\<rparr>)"
    "log k3 = log k2 @ [spi_message_of s f]"
    using linux_put [OF ok K(1) assms(7,8), of fuel k2] by (auto simp: same)
  obtain k4 where 4: "hal_delay (linux_spi fuel K) SPI_SEND_DATA_OVER_WAIT_TIME (s\<lparr>kernel := k3\<rparr>) = s\<lparr>kernel := k4\<rparr>"
    "log k4 = log k3"
    using linux_delay [OF K, of SPI_SEND_DATA_OVER_WAIT_TIME fuel "s\<lparr>kernel := k3\<rparr>"] assms(5,6)
    by (auto simp: SPI_SEND_DATA_OVER_WAIT_TIME_def)
  have "spi_wire (linux_spi fuel K) f s = (SE_SUCCESS, s\<lparr>kernel := k4\<rparr>)"
    by (simp add: spi_wire_def 1(1) 2(1) 3(1) 4(1))
  then show thesis using that 1(2) 2(2) 3(2) 4(2) by simp
qed

end
